(* ===== verification/Prelude.thy ===== *)
theory Prelude
  imports Main "HOL-Library.Multiset" "HOL-Library.Sublist"
begin

text \<open>
  The shared base of the development: the collections of facts the component proofs use
  (\<open>guar_rules\<close>, \<open>table_simps\<close>, \<open>js_simps\<close>), and the generic list operations in which
  the SQL statements of the server are written (row updates, lookups by a key, an arbitrary
  scan order).
\<close>

named_theorems guar_rules \<open>introduction rules for step guarantees of programs\<close>
named_theorems run_simps \<open>sequential runs of programs\<close>
named_theorems table_simps \<open>facts about row updates and lookups\<close>
named_theorems js_simps \<open>unfolding of JavaScript coercions\<close>

type_synonym uuid = string \<comment> \<open>the canonical text of a UUID\<close>
type_synonym timestamp = int \<comment> \<open>a \<open>TIMESTAMPTZ\<close>, in microseconds\<close>

section \<open>An unspecified but fixed row order\<close>

text \<open>
  SQL fixes the order of a result only up to its \<open>ORDER BY\<close>. The order in which the rows
  are read is therefore a list of indices chosen outside the model; whatever list is given,
  \<open>arrange\<close> turns it into a permutation of the rows, and every permutation arises.
\<close>

definition arrange :: "nat list \<Rightarrow> 'a list \<Rightarrow> 'a list" where
  "arrange ks xs =
     (let js = remdups (filter (\<lambda>i. i < length xs) ks)
      in map (\<lambda>i. xs ! i) (js @ filter (\<lambda>i. i \<notin> set js) [0..<length xs]))"

lemma mset_nth_upt: "mset (map (\<lambda>i. xs ! i) [0..<length xs]) = mset xs"
  by (simp add: map_nth)

lemma mset_arrange [simp]: "mset (arrange ks xs) = mset xs"
proof -
  define js where "js = remdups (filter (\<lambda>i. i < length xs) ks)"
  have "mset (js @ filter (\<lambda>i. i \<notin> set js) [0..<length xs]) = mset [0..<length xs]"
    by (subst set_eq_iff_mset_eq_distinct [symmetric]) (auto simp: js_def)
  then have "image_mset (\<lambda>i. xs ! i) (mset (js @ filter (\<lambda>i. i \<notin> set js) [0..<length xs]))
    = image_mset (\<lambda>i. xs ! i) (mset [0..<length xs])"
    by (rule arg_cong)
  then show ?thesis
    unfolding arrange_def Let_def js_def [symmetric]
    by (simp only: mset_map [symmetric] mset_nth_upt)
qed

lemma set_arrange [simp]: "set (arrange ks xs) = set xs"
  by (metis mset_arrange set_mset_mset)

lemma length_arrange [simp]: "length (arrange ks xs) = length xs"
  by (metis mset_arrange size_mset)

lemma arrange_Nil [simp]: "arrange ks [] = []"
  by (simp add: arrange_def)

lemma distinct_map_arrange [simp]: "distinct (map f (arrange ks xs)) = distinct (map f xs)"
  by (metis mset_arrange mset_eq_imp_distinct_iff mset_map)

text \<open>With no indices given, the rows come in their stored order.\<close>

lemma arrange_id [simp]: "arrange [] xs = xs"
  by (simp add: arrange_def map_nth)

section \<open>Rows: conditional update and lookup\<close>

definition update_where :: "('r \<Rightarrow> bool) \<Rightarrow> ('r \<Rightarrow> 'r) \<Rightarrow> 'r list \<Rightarrow> 'r list" where
  "update_where P f rs = map (\<lambda>r. if P r then f r else r) rs"

lemma update_where_simps [simp, table_simps]:
  "update_where P f [] = []"
  "update_where P f (r # rs) = (if P r then f r else r) # update_where P f rs"
  "update_where P f (rs @ ss) = update_where P f rs @ update_where P f ss"
  by (simp_all add: update_where_def)

lemma length_update_where [simp, table_simps]: "length (update_where P f rs) = length rs"
  by (simp add: update_where_def)

lemma set_update_where [table_simps]:
  "set (update_where P f rs) = (\<lambda>r. if P r then f r else r) ` set rs"
  by (simp add: update_where_def)

lemma update_where_False [simp]: "(\<And>r. r \<in> set rs \<Longrightarrow> \<not> P r) \<Longrightarrow> update_where P f rs = rs"
  by (simp add: update_where_def map_idI)

lemma map_update_where:
  "(\<And>r. r \<in> set rs \<Longrightarrow> P r \<Longrightarrow> g (f r) = g r) \<Longrightarrow> map g (update_where P f rs) = map g rs"
  by (simp add: update_where_def)

definition find_row :: "('r \<Rightarrow> 'k) \<Rightarrow> 'k \<Rightarrow> 'r list \<Rightarrow> 'r option" where
  "find_row key k rs = List.find (\<lambda>r. key r = k) rs"

lemma find_row_simps [simp]:
  "find_row key k [] = None"
  "find_row key k (r # rs) = (if key r = k then Some r else find_row key k rs)"
  by (simp_all add: find_row_def)

lemma find_row_None_iff [simp]: "find_row key k rs = None \<longleftrightarrow> k \<notin> key ` set rs"
  by (auto simp: find_row_def find_None_iff)

lemma find_row_SomeD: "find_row key k rs = Some r \<Longrightarrow> r \<in> set rs \<and> key r = k"
  by (auto simp: find_row_def find_Some_iff)

lemma find_row_Some_iff:
  "distinct (map key rs) \<Longrightarrow> find_row key k rs = Some r \<longleftrightarrow> r \<in> set rs \<and> key r = k"
  by (induction rs) force+

lemma find_row_append:
  "find_row key k (rs @ ss) = (case find_row key k rs of None \<Rightarrow> find_row key k ss | Some r \<Rightarrow> Some r)"
  by (induction rs) auto

lemma find_unique:
  assumes "x \<in> set xs" and "P x" and "\<And>y. y \<in> set xs \<Longrightarrow> P y \<Longrightarrow> y = x"
  shows "List.find P xs = Some x"
proof (cases "List.find P xs")
  case None
  with assms(1,2) show ?thesis by (simp add: find_None_iff)
next
  case (Some y)
  then have "y \<in> set xs" "P y" by (auto simp: find_Some_iff)
  with assms(3) [of y] Some show ?thesis by simp
qed

text \<open>
  A \<open>SET\<close> list that leaves the key column alone. Its laws hold for every \<open>UPDATE\<close> of the
  server; each of them is an interpretation.
\<close>

locale keyed_update =
  fixes key :: "'r \<Rightarrow> 'k" and upd :: "'r \<Rightarrow> 'r"
  assumes key_upd: "key (upd r) = key r"
begin

lemma keys_update: "map key (update_where P upd rs) = map key rs"
  by (rule map_update_where) (simp add: key_upd)

lemma key_set_update: "key ` set (update_where P upd rs) = key ` set rs"
  by (metis keys_update list.set_map)

lemma find_update:
  "find_row key k (update_where P upd rs)
     = map_option (\<lambda>r. if P r then upd r else r) (find_row key k rs)"
  by (induction rs) (auto simp: key_upd)

lemma find_update_key:
  "find_row key k (update_where (\<lambda>r. key r = k') upd rs)
     = (if k = k' then map_option upd (find_row key k rs) else find_row key k rs)"
  by (induction rs) (auto simp: key_upd)

end

section \<open>Sorting by a key\<close>

lemma sorted_take_le:
  assumes "sorted (map f xs)" and "x \<in> set (take n xs)" and "y \<in> set (drop n xs)"
  shows "f x \<le> f y"
proof -
  have "sorted (map f (take n xs) @ map f (drop n xs))"
    using assms(1) by (simp only: map_append [symmetric] append_take_drop_id)
  with assms(2,3) show ?thesis by (auto simp: sorted_append)
qed

lemma count_filter_update:
  "length (filter Q (update_where P f rs))
     = length (filter (\<lambda>r. if P r then Q (f r) else Q r) rs)"
  by (induction rs) auto

end
