(* ===== verification/Prog.thy ===== *)
theory Prog
  imports Prelude
begin

text \<open>
  Asynchronous server code as programs of atomic steps. Every \<open>await sql`...`\<close> of the server
  is one statement that the database runs on its own (the driver opens no transaction around
  several), so between two of them any other request or worker tick may run. A program is
  finished (\<open>Ret\<close>), has thrown (\<open>Throw\<close>), or does one atomic step and goes on (\<open>Atom\<close>).
  \<open>runP\<close> runs a program alone; \<open>pool_step\<close> interleaves any number of programs, lets new ones
  arrive, and lets a serverless instance be killed between any two steps.
\<close>

section \<open>Programs\<close>

datatype ('w, 'e, 'a) prog =
    Ret 'a
  | Throw 'e
  | Atom "'w \<Rightarrow> ('w, 'e, 'a) prog \<times> 'w"

primrec bindP :: "('w, 'e, 'a) prog \<Rightarrow> ('a \<Rightarrow> ('w, 'e, 'b) prog) \<Rightarrow> ('w, 'e, 'b) prog" where
  "bindP (Ret x) k = k x"
| "bindP (Throw e) k = Throw e"
| "bindP (Atom f) k = Atom (\<lambda>w. map_prod (\<lambda>p. bindP p k) id (f w))"

text \<open>\<open>try { p } catch (e) { h e }\<close>\<close>

primrec catchP :: "('w, 'e, 'a) prog \<Rightarrow> ('e \<Rightarrow> ('w, 'e, 'a) prog) \<Rightarrow> ('w, 'e, 'a) prog" where
  "catchP (Ret x) h = Ret x"
| "catchP (Throw e) h = h e"
| "catchP (Atom f) h = Atom (\<lambda>w. map_prod (\<lambda>p. catchP p h) id (f w))"

definition atom :: "('w \<Rightarrow> ('e + 'a) \<times> 'w) \<Rightarrow> ('w, 'e, 'a) prog" where
  "atom f = Atom (\<lambda>w. case f w of (Inl e, w') \<Rightarrow> (Throw e, w') | (Inr x, w') \<Rightarrow> (Ret x, w'))"

text \<open>A value or an exception computed without touching the database.\<close>

definition pureP :: "'e + 'a \<Rightarrow> ('w, 'e, 'a) prog" where
  "pureP r = (case r of Inl e \<Rightarrow> Throw e | Inr x \<Rightarrow> Ret x)"

text \<open>\<open>for (const x of xs) s = body(x, s)\<close>\<close>

primrec forP :: "('x \<Rightarrow> 's \<Rightarrow> ('w, 'e, 's) prog) \<Rightarrow> 'x list \<Rightarrow> 's \<Rightarrow> ('w, 'e, 's) prog" where
  "forP body [] s = Ret s"
| "forP body (x # xs) s = bindP (body x s) (forP body xs)"

section \<open>Running a program alone\<close>

primrec runP :: "('w, 'e, 'a) prog \<Rightarrow> 'w \<Rightarrow> ('e + 'a) \<times> 'w" where
  "runP (Ret x) = (\<lambda>w. (Inr x, w))"
| "runP (Throw e) = (\<lambda>w. (Inl e, w))"
| "runP (Atom f) = (\<lambda>w. case map_prod runP id (f w) of (r, w') \<Rightarrow> r w')"

lemma Atom_IH:
  assumes "\<And>x y. x \<in> range f \<Longrightarrow> y \<in> Basic_BNFs.fsts x \<Longrightarrow> P y"
  shows "P (fst (f w))"
  using assms [of "f w" "fst (f w)"] by (simp add: prod_set_defs)

lemma runP_Atom: "runP (Atom f) w = runP (fst (f w)) (snd (f w))"
  by (simp add: map_prod_def split_beta)

lemma run_bind [run_simps]:
  "runP (bindP p k) w =
     (case runP p w of (Inl e, w') \<Rightarrow> (Inl e, w') | (Inr x, w') \<Rightarrow> runP (k x) w')"
proof (induction p arbitrary: w)
  case (Atom f)
  have "runP (bindP (fst (f w)) k) (snd (f w)) =
     (case runP (fst (f w)) (snd (f w)) of (Inl e, w') \<Rightarrow> (Inl e, w') | (Inr x, w') \<Rightarrow> runP (k x) w')"
    by (rule Atom_IH [of f "\<lambda>p. \<forall>w. runP (bindP p k) w =
      (case runP p w of (Inl e, w') \<Rightarrow> (Inl e, w') | (Inr x, w') \<Rightarrow> runP (k x) w')", rule_format])
      (use Atom in blast)
  then show ?case by (simp add: runP_Atom del: runP.simps(3))
qed auto

lemma run_catch [run_simps]:
  "runP (catchP p h) w =
     (case runP p w of (Inl e, w') \<Rightarrow> runP (h e) w' | (Inr x, w') \<Rightarrow> (Inr x, w'))"
proof (induction p arbitrary: w)
  case (Atom f)
  have "runP (catchP (fst (f w)) h) (snd (f w)) =
     (case runP (fst (f w)) (snd (f w)) of (Inl e, w') \<Rightarrow> runP (h e) w' | (Inr x, w') \<Rightarrow> (Inr x, w'))"
    by (rule Atom_IH [of f "\<lambda>p. \<forall>w. runP (catchP p h) w =
      (case runP p w of (Inl e, w') \<Rightarrow> runP (h e) w' | (Inr x, w') \<Rightarrow> (Inr x, w'))", rule_format])
      (use Atom in blast)
  then show ?case by (simp add: runP_Atom del: runP.simps(3))
qed auto

lemma run_atom [run_simps, simp]: "runP (atom f) w = f w"
  by (cases "f w"; cases "fst (f w)") (auto simp: atom_def)

lemma run_pure [run_simps, simp]: "runP (pureP r) w = (r, w)"
  by (cases r) (auto simp: pureP_def)

lemmas [run_simps] = runP.simps(1,2)

lemma run_for_append:
  "runP (forP body (xs @ ys) s) w = (case runP (forP body xs s) w of (Inr s', w') \<Rightarrow> runP (forP body ys s') w' | (Inl e, w') \<Rightarrow> (Inl e, w'))"
  by (induction xs arbitrary: s w) (simp_all add: run_bind run_pure split: prod.splits sum.splits)

section \<open>What every step of a program guarantees\<close>

inductive guar :: "('w \<Rightarrow> 'w \<Rightarrow> bool) \<Rightarrow> ('w, 'e, 'a) prog \<Rightarrow> bool" for R where
  guar_Ret: "guar R (Ret x)"
| guar_Throw: "guar R (Throw e)"
| guar_Atom: "(\<And>w. R w (snd (f w))) \<Longrightarrow> (\<And>w. guar R (fst (f w))) \<Longrightarrow> guar R (Atom f)"

inductive_cases guar_AtomE: "guar R (Atom f)"

lemmas [guar_rules] = guar_Ret guar_Throw

lemma guar_bind [guar_rules]:
  "guar R p \<Longrightarrow> (\<And>x. guar R (k x)) \<Longrightarrow> guar R (bindP p k)"
  by (induction rule: guar.induct) (auto intro!: guar.intros)

lemma guar_catch [guar_rules]:
  "guar R p \<Longrightarrow> (\<And>e. guar R (h e)) \<Longrightarrow> guar R (catchP p h)"
  by (induction rule: guar.induct) (auto intro!: guar.intros)

lemma guar_atom: "(\<And>w. R w (snd (f w))) \<Longrightarrow> guar R (atom f)"
  unfolding atom_def
proof (rule guar_Atom)
  fix w
  assume R: "\<And>w. R w (snd (f w))"
  show "R w (snd (case f w of (Inl e, w') \<Rightarrow> (Throw e, w') | (Inr x, w') \<Rightarrow> (Ret x, w')))"
    using R [of w] by (auto split: prod.splits sum.splits)
  show "guar R (fst (case f w of (Inl e, w') \<Rightarrow> (Throw e, w') | (Inr x, w') \<Rightarrow> (Ret x, w')))"
    by (auto split: prod.splits sum.splits intro: guar.intros)
qed

lemma guar_pure [guar_rules]: "guar R (pureP r)"
  by (cases r) (auto simp: pureP_def intro: guar.intros)

lemma guar_for [guar_rules]:
  "(\<And>x s. guar R (body x s)) \<Longrightarrow> guar R (forP body xs s)"
  by (induction xs arbitrary: s) (auto intro: guar_rules)

lemma guar_option:
  "guar R p \<Longrightarrow> (\<And>x. guar R (f x)) \<Longrightarrow> guar R (case v of None \<Rightarrow> p | Some x \<Rightarrow> f x)"
  by (cases v) auto

lemma guar_if: "guar R p \<Longrightarrow> guar R q \<Longrightarrow> guar R (if b then p else q)"
  by simp

lemma guar_mono: "guar R p \<Longrightarrow> (\<And>w w'. R w w' \<Longrightarrow> Q w w') \<Longrightarrow> guar Q p"
  by (induction rule: guar.induct) (auto intro: guar.intros)

lemma guar_conj: "guar R p \<Longrightarrow> guar Q p \<Longrightarrow> guar (\<lambda>w w'. R w w' \<and> Q w w') p"
proof (induction rule: guar.induct)
  case (guar_Atom f)
  then show ?case by (auto intro!: guar.guar_Atom elim: guar_AtomE)
qed (auto intro: guar.intros)

text \<open>A reflexive and transitive guarantee holds of the whole sequential run.\<close>

lemma guar_run:
  assumes "guar R p" and refl: "\<And>w. R w w" and trans: "\<And>u v w. R u v \<Longrightarrow> R v w \<Longrightarrow> R u w"
  shows "R w (snd (runP p w))"
  using assms(1)
proof (induction arbitrary: w rule: guar.induct)
  case (guar_Atom f)
  have "R (snd (f w)) (snd (runP (fst (f w)) (snd (f w))))" by (rule guar_Atom.IH)
  with guar_Atom.hyps(1) [of w] have "R w (snd (runP (fst (f w)) (snd (f w))))" by (rule trans)
  then show ?case by (simp add: runP_Atom del: runP.simps(3))
qed (simp_all add: refl)

section \<open>Interleaving\<close>

text \<open>
  \<open>S\<close> is the set of programs that may arrive (requests, ticks). A step advances one program
  by one atomic step, lets a program of \<open>S\<close> arrive, or kills a program where it stands.
\<close>

inductive pool_step ::
  "('w, 'e, 'a) prog set \<Rightarrow> ('w, 'e, 'a) prog list \<times> 'w \<Rightarrow> ('w, 'e, 'a) prog list \<times> 'w \<Rightarrow> bool"
  for S where
  advance: "i < length ps \<Longrightarrow> ps ! i = Atom f \<Longrightarrow>
     pool_step S (ps, w) (ps[i := fst (f w)], snd (f w))"
| arrive: "p \<in> S \<Longrightarrow> pool_step S (ps, w) (ps @ [p], w)"
| kill: "i < length ps \<Longrightarrow> pool_step S (ps, w) (take i ps @ drop (Suc i) ps, w)"

abbreviation pool_reach where
  "pool_reach S \<equiv> (pool_step S)\<^sup>*\<^sup>*"

text \<open>
  The interface between the components' statements and the interleaved system: every program
  that may arrive guarantees \<open>R\<close> at each step, and \<open>R\<close> keeps \<open>I\<close>.
\<close>

locale interleaved =
  fixes S :: "('w, 'e, 'a) prog set" and R :: "'w \<Rightarrow> 'w \<Rightarrow> bool" and I :: "'w \<Rightarrow> bool"
  assumes arriving: "p \<in> S \<Longrightarrow> guar R p"
    and keeps: "R w w' \<Longrightarrow> I w \<Longrightarrow> I w'"
begin

lemma step_keeps:
  assumes "pool_step S x y" and "\<forall>p \<in> set (fst x). guar R p" and "I (snd x)"
  shows "(\<forall>p \<in> set (fst y). guar R p) \<and> I (snd y)"
  using assms
proof (induction rule: pool_step.induct)
  case (advance i ps f w)
  then have g: "guar R (Atom f)" using nth_mem by force
  then have "R w (snd (f w))" and "guar R (fst (f w))" by (auto elim: guar_AtomE)
  with advance show ?case by (auto dest: keeps set_update_subset_insert [THEN subsetD])
next
  case (arrive p ps w)
  then show ?case by (auto intro: arriving)
next
  case (kill i ps w)
  then show ?case by (auto dest: in_set_takeD in_set_dropD)
qed

text \<open>What a step of the system does to the shared state.\<close>

lemma step_rel:
  assumes "pool_step S x y" and "\<forall>p \<in> set (fst x). guar R p"
  shows "snd y = snd x \<or> R (snd x) (snd y)"
  using assms
proof (induction rule: pool_step.induct)
  case (advance i ps f w)
  then have "guar R (Atom f)" using nth_mem by force
  then show ?case by (auto elim: guar_AtomE)
qed simp_all

lemma reach_keeps:
  assumes "pool_reach S x y" and "\<forall>p \<in> set (fst x). guar R p" and "I (snd x)"
  shows "(\<forall>p \<in> set (fst y). guar R p) \<and> I (snd y)"
  using assms
proof (induction rule: rtranclp_induct)
  case (step y z)
  then show ?case using step_keeps by blast
qed blast

text \<open>From an empty pool, the invariant holds in every reachable state.\<close>

lemma reach_inv: "pool_reach S ([], w) (ps, w') \<Longrightarrow> I w \<Longrightarrow> I w'"
  using reach_keeps [of "([], w)" "(ps, w')"] by simp

end

text \<open>A given schedule, played: at each entry the program at that position takes a step.\<close>

fun play :: "nat list \<Rightarrow> ('w, 'e, 'a) prog list \<times> 'w \<Rightarrow> ('w, 'e, 'a) prog list \<times> 'w" where
  "play [] x = x"
| "play (i # sched) (ps, w) =
     (if i < length ps then
        (case ps ! i of Atom f \<Rightarrow> (case f w of (p, w') \<Rightarrow> play sched (ps[i := p], w'))
         | _ \<Rightarrow> play sched (ps, w))
      else play sched (ps, w))"

lemma play_reach: "pool_reach S x (play sched x)"
proof (induction sched x rule: play.induct)
  case (2 i sched ps w)
  show ?case
  proof (cases "i < length ps")
    case lt: True
    show ?thesis
    proof (cases "ps ! i")
      case (Atom f)
      have step: "pool_step S (ps, w) (ps[i := fst (f w)], snd (f w))"
        using pool_step.advance [OF lt Atom] .
      have "pool_reach S (ps[i := fst (f w)], snd (f w)) (play sched (ps[i := fst (f w)], snd (f w)))"
        using "2.IH"(3) [OF lt Atom, of "fst (f w)" "snd (f w)"] by simp
      with step show ?thesis
        using lt Atom by (simp add: split_beta converse_rtranclp_into_rtranclp)
    qed (use 2 lt in auto)
  qed (use 2 in auto)
qed simp

text \<open>The states that a schedule goes through.\<close>

fun trace :: "nat list \<Rightarrow> ('w, 'e, 'a) prog list \<times> 'w \<Rightarrow> (('w, 'e, 'a) prog list \<times> 'w) list" where
  "trace [] x = [x]"
| "trace (i # sched) (ps, w) =
     (if i < length ps then
        (case ps ! i of Atom f \<Rightarrow> (case f w of (p, w') \<Rightarrow> (ps, w) # trace sched (ps[i := p], w'))
         | _ \<Rightarrow> trace sched (ps, w))
      else trace sched (ps, w))"

lemma trace_hd: "\<exists>xs. trace sched x = x # xs"
  by (induction sched x rule: trace.induct) (auto split: prog.splits prod.splits)

lemma trace_steps: "successively (pool_step S) (trace sched x)"
proof (induction sched x rule: trace.induct)
  case (2 i sched ps w)
  show ?case
  proof (cases "i < length ps")
    case lt: True
    show ?thesis
    proof (cases "ps ! i")
      case (Atom f)
      have step: "pool_step S (ps, w) (ps[i := fst (f w)], snd (f w))"
        using pool_step.advance [OF lt Atom] .
      obtain xs where xs: "trace sched (ps[i := fst (f w)], snd (f w)) = (ps[i := fst (f w)], snd (f w)) # xs"
        using trace_hd by blast
      have "successively (pool_step S) (trace sched (ps[i := fst (f w)], snd (f w)))"
        using "2.IH"(3) [OF lt Atom, of "fst (f w)" "snd (f w)"] by simp
      with step xs show ?thesis using lt Atom by (simp add: split_beta)
    qed (use 2 lt in auto)
  qed (use 2 in auto)
qed simp

lemma arrive_reach: "set ps \<subseteq> S \<Longrightarrow> pool_reach S ([], w) (ps, w)"
proof (induction ps rule: rev_induct)
  case (snoc p ps)
  then show ?case by (auto intro: rtranclp.rtrancl_into_rtrancl pool_step.arrive)
qed simp

text \<open>A schedule of programs that may arrive gives a reachable state.\<close>

lemma schedule_reach:
  assumes "set ps \<subseteq> S"
  shows "pool_reach S ([], w) (fst (play sched (ps, w)), snd (play sched (ps, w)))"
  using rtranclp_trans [OF arrive_reach [OF assms] play_reach] by simp

lemma schedule_witness:
  "set ps \<subseteq> S \<Longrightarrow> Q (snd (play sched (ps, w))) \<Longrightarrow> \<exists>ps' w'. pool_reach S ([], w) (ps', w') \<and> Q w'"
  using schedule_reach [of ps S w sched] by (intro exI conjI)

end
