(* ===== verification/Js.thy ===== *)
theory Js
  imports Complex_Main Prelude "HOL-Library.Log_Nat"
begin

text \<open>
  The part of JavaScript the sources rely on. A string is the UTF-8 text of the JavaScript
  string, as a list of bytes; a number is NaN, an infinity, or the exact rational value of a
  double (\<open>fl\<close> rounds to the nearest double; the sign of zero is not kept, nothing in the
  sources observes it). Objects are association lists with distinct keys. Coercions that can
  throw return a sum with the exception on the left.
\<close>

section \<open>Exceptions\<close>

datatype pgerr =
    Unique_violation string
  | Foreign_key_violation string
  | Not_null_violation string
  | Invalid_text string
  | Numeric_out_of_range
  | Interval_out_of_range
  | Undefined_table string

datatype exn =
    No_database_url
  | Type_error
  | Syntax_error
  | Range_error
  | Pg_error pgerr
  | Net_error string

section \<open>Numbers\<close>

definition pow2 :: "int \<Rightarrow> rat" where
  "pow2 k = (if 0 \<le> k then 2 ^ nat k else 1 / 2 ^ nat (- k))"

definition pow10 :: "int \<Rightarrow> rat" where
  "pow10 k = (if 0 \<le> k then 10 ^ nat k else 1 / 10 ^ nat (- k))"

text \<open>\<open>ilog2 q\<close> is the exponent of the leading binary digit of a positive rational.\<close>

definition ilog2 :: "rat \<Rightarrow> int" where
  "ilog2 q = (case quotient_of q of (n, d) \<Rightarrow>
     (let k = bitlen n - bitlen d in if pow2 k \<le> q then k else k - 1))"

text \<open>Round to the nearest integer, ties to even.\<close>

definition rne :: "rat \<Rightarrow> int" where
  "rne q = (let f = \<lfloor>q\<rfloor>; r = q - of_int f in
     if r < 1 / 2 then f else if 1 / 2 < r then f + 1 else if even f then f else f + 1)"

text \<open>Round to the nearest double (53 bits of precision, least exponent \<open>-1074\<close>).\<close>

definition fl :: "rat \<Rightarrow> rat" where
  "fl q = (if q = 0 then 0 else
     (let u = pow2 (max (ilog2 \<bar>q\<bar> - 52) (- 1074)) in of_int (rne (q / u)) * u))"

datatype jsnum = NaN | PInf | NInf | Fin rat

definition to_num :: "rat \<Rightarrow> jsnum" where
  "to_num q = (let r = fl q in
     if 2 ^ 1024 \<le> r then PInf else if r \<le> - (2 ^ 1024) then NInf else Fin r)"

lemma rne_int [simp]: "rne (of_int n) = n"
  by (simp add: rne_def)

text \<open>Decimal digits, and the shortest decimal that reads back as the same double.\<close>

fun dec_digits :: "nat \<Rightarrow> string" where
  "dec_digits n = (if n < 10 then [char_of (48 + n)] else dec_digits (n div 10) @ [char_of (48 + n mod 10)])"

declare dec_digits.simps [simp del]

definition int_to_string :: "int \<Rightarrow> string" where
  "int_to_string i = (if i < 0 then CHR ''-'' # dec_digits (nat (- i)) else dec_digits (nat i))"

definition ilog10 :: "rat \<Rightarrow> int" where
  "ilog10 q = (if 1 \<le> q then int (length (dec_digits (nat \<lfloor>q\<rfloor>))) - 1
     else - int (length (dec_digits (nat (\<lceil>1 / q\<rceil> - 1)))))"

definition shortest :: "rat \<Rightarrow> nat \<times> int" where
  "shortest q = (let n = ilog10 q + 1;
       cand = (\<lambda>k. rne (q / pow10 (n - int k)));
       ok = (\<lambda>k. fl (of_int (cand k) * pow10 (n - int k)) = q)
     in case List.find ok [1..<18] of
          Some k \<Rightarrow> (let s = nat (cand k) in
            if s = 10 ^ k then (1, n + 1) else (s, n))
        | None \<Rightarrow> (nat (cand 17), n))"

definition pos_to_string :: "rat \<Rightarrow> string" where
  "pos_to_string q = (case shortest q of (s, n) \<Rightarrow>
     (let ds = dec_digits s; k = int (length ds) in
      if k \<le> n \<and> n \<le> 21 then ds @ replicate (nat (n - k)) CHR ''0''
      else if 0 < n \<and> n \<le> 21 then take (nat n) ds @ CHR ''.'' # drop (nat n) ds
      else if - 6 < n \<and> n \<le> 0 then ''0.'' @ replicate (nat (- n)) CHR ''0'' @ ds
      else (let e = n - 1; es = (if e < 0 then ''e-'' @ dec_digits (nat (- e)) else ''e+'' @ dec_digits (nat e))
            in if k = 1 then ds @ es else hd ds # CHR ''.'' # tl ds @ es)))"

text \<open>\<open>Number.prototype.toString()\<close>\<close>

fun num_to_string :: "jsnum \<Rightarrow> string" where
  "num_to_string NaN = ''NaN''"
| "num_to_string PInf = ''Infinity''"
| "num_to_string NInf = ''-Infinity''"
| "num_to_string (Fin q) =
     (if q = 0 then ''0'' else if q < 0 then CHR ''-'' # pos_to_string (- q) else pos_to_string q)"

section \<open>Strings\<close>

fun starts_with :: "string \<Rightarrow> string \<Rightarrow> bool" where
  "starts_with s [] = True"
| "starts_with [] (c # p) = False"
| "starts_with (d # s) (c # p) = (c = d \<and> starts_with s p)"

lemma starts_with_iff: "starts_with s p \<longleftrightarrow> (\<exists>r. s = p @ r)"
  by (induction s p rule: starts_with.induct) auto

text \<open>\<open>s.includes(p)\<close>\<close>

fun str_includes :: "string \<Rightarrow> string \<Rightarrow> bool" where
  "str_includes [] p = (p = [])"
| "str_includes (c # s) p = (starts_with (c # s) p \<or> str_includes s p)"

lemma str_includes_iff: "str_includes s p \<longleftrightarrow> (\<exists>a b. s = a @ p @ b)"
proof (induction s)
  case (Cons c s)
  show ?case
  proof
    assume "str_includes (c # s) p"
    then show "\<exists>a b. c # s = a @ p @ b"
      using Cons.IH by (auto simp: starts_with_iff intro: exI [of _ "[]"]) (metis Cons_eq_appendI)
  next
    assume "\<exists>a b. c # s = a @ p @ b"
    then obtain a b where ab: "c # s = a @ p @ b" by blast
    show "str_includes (c # s) p"
    proof (cases a)
      case Nil
      with ab have "starts_with (c # s) p" unfolding starts_with_iff by auto
      then show ?thesis by simp
    next
      case (Cons x a')
      with ab have "s = a' @ p @ b" by simp
      with Cons.IH show ?thesis by auto
    qed
  qed
qed auto

text \<open>White space of the language: the UTF-8 texts of the code points \<open>trim\<close> removes.\<close>

definition js_space :: "string list" where
  "js_space = map (\<lambda>n. [char_of (n::nat)]) [9, 10, 11, 12, 13, 32]
     @ [map char_of [0xC2, 0xA0::nat], map char_of [0xE1, 0x9A, 0x80::nat],
        map char_of [0xE2, 0x80, 0xA8::nat], map char_of [0xE2, 0x80, 0xA9::nat],
        map char_of [0xE2, 0x80, 0xAF::nat], map char_of [0xE2, 0x81, 0x9F::nat],
        map char_of [0xE3, 0x80, 0x80::nat], map char_of [0xEF, 0xBB, 0xBF::nat]]
     @ map (\<lambda>n. map char_of [0xE2, 0x80, 0x80 + n]) [0..<11]"

definition space_prefix :: "string list \<Rightarrow> string \<Rightarrow> nat option" where
  "space_prefix ws s = map_option length (List.find (\<lambda>p. starts_with s p \<and> p \<noteq> []) ws)"

function trim_start :: "string list \<Rightarrow> string \<Rightarrow> string" where
  "trim_start ws s = (case space_prefix ws s of None \<Rightarrow> s | Some n \<Rightarrow> trim_start ws (drop n s))"
  by pat_completeness auto
termination
proof (relation "measure (\<lambda>(ws, s). length s)")
  fix ws s n
  assume "space_prefix ws s = Some n"
  then obtain p where "starts_with s p" "p \<noteq> []" "n = length p"
    by (auto simp: space_prefix_def find_Some_iff)
  then show "((ws, drop n s), ws, s) \<in> measure (\<lambda>(ws, s). length s)"
    by (auto simp: starts_with_iff)
qed simp

declare trim_start.simps [simp del]

definition trim :: "string \<Rightarrow> string" where
  "trim s = rev (trim_start (map rev js_space) (rev (trim_start js_space s)))"

text \<open>
  \<open>toLowerCase\<close> on ASCII letters and on the two characters outside ASCII whose lower case is
  an ASCII letter (the Kelvin sign, and the capital I with a dot, which becomes \<open>i\<close> and a
  combining dot). The callers compare the result with ASCII text only.
\<close>

definition lower_char :: "char \<Rightarrow> char" where
  "lower_char c = (let n = of_char c :: nat in if 65 \<le> n \<and> n \<le> 90 then char_of (n + 32) else c)"

fun to_lower :: "string \<Rightarrow> string" where
  "to_lower [] = []"
| "to_lower (c # s) =
     (if starts_with (c # s) (map char_of [0xE2, 0x84, 0xAA::nat]) then CHR ''k'' # to_lower (drop 2 s)
      else if starts_with (c # s) (map char_of [0xC4, 0xB0::nat])
        then CHR ''i'' # map char_of [0xCC, 0x87::nat] @ to_lower (drop 1 s)
      else lower_char c # to_lower s)"

section \<open>Values and coercions\<close>

datatype jsval =
    JUndef
  | JNull
  | JBool bool
  | JNum jsnum
  | JStr string
  | JArr "jsval list"
  | JObj "(string \<times> jsval) list"

abbreviation JInt :: "int \<Rightarrow> jsval" where
  "JInt n \<equiv> JNum (Fin (of_int n))"

fun truthy :: "jsval \<Rightarrow> bool" where
  "truthy JUndef = False"
| "truthy JNull = False"
| "truthy (JBool b) = b"
| "truthy (JNum NaN) = False"
| "truthy (JNum (Fin q)) = (q \<noteq> 0)"
| "truthy (JNum _) = True"
| "truthy (JStr s) = (s \<noteq> [])"
| "truthy (JArr _) = True"
| "truthy (JObj _) = True"

definition nullish :: "jsval \<Rightarrow> bool" where
  "nullish v \<longleftrightarrow> v = JUndef \<or> v = JNull"

text \<open>\<open>a || b\<close> and \<open>a ?? b\<close>\<close>

definition js_or :: "jsval \<Rightarrow> jsval \<Rightarrow> jsval" where
  "js_or a b = (if truthy a then a else b)"

definition js_coalesce :: "jsval \<Rightarrow> jsval \<Rightarrow> jsval" where
  "js_coalesce a b = (if nullish a then b else a)"

text \<open>
  Property read. None of the names the sources read is a property of the prototypes of
  strings, numbers, booleans, arrays or objects.
\<close>

fun get_prop :: "jsval \<Rightarrow> string \<Rightarrow> exn + jsval" where
  "get_prop JUndef k = Inl Type_error"
| "get_prop JNull k = Inl Type_error"
| "get_prop (JObj kvs) k = Inr (case map_of kvs k of None \<Rightarrow> JUndef | Some v \<Rightarrow> v)"
| "get_prop _ k = Inr JUndef"

text \<open>
  \<open>String(v)\<close>. An object whose own \<open>toString\<close> is not callable (nothing parsed from JSON is)
  has no primitive value, and the conversion throws.
\<close>

fun js_String :: "jsval \<Rightarrow> exn + string" where
  "js_String JUndef = Inr ''undefined''"
| "js_String JNull = Inr ''null''"
| "js_String (JBool b) = Inr (if b then ''true'' else ''false'')"
| "js_String (JNum n) = Inr (num_to_string n)"
| "js_String (JStr s) = Inr s"
| "js_String (JArr []) = Inr []"
| "js_String (JArr [v]) = (if nullish v then Inr [] else js_String v)"
| "js_String (JArr (v # vs)) =
     (case (if nullish v then Inr [] else js_String v) of Inl e \<Rightarrow> Inl e
      | Inr s \<Rightarrow> (case js_String (JArr vs) of Inl e \<Rightarrow> Inl e | Inr t \<Rightarrow> Inr (s @ '','' @ t)))"
| "js_String (JObj kvs) =
     (if ''toString'' \<in> fst ` set kvs then Inl Type_error else Inr ''[object Object]'')"

text \<open>The numeric value of a string (\<open>StringToNumber\<close>).\<close>

definition is_digit :: "char \<Rightarrow> bool" where
  "is_digit c \<longleftrightarrow> (let n = of_char c :: nat in 48 \<le> n \<and> n \<le> 57)"

definition digit_val :: "char \<Rightarrow> nat option" where
  "digit_val c = (let n = of_char c :: nat in
     if 48 \<le> n \<and> n \<le> 57 then Some (n - 48)
     else if 97 \<le> n \<and> n \<le> 122 then Some (n - 87)
     else if 65 \<le> n \<and> n \<le> 90 then Some (n - 55) else None)"

fun radix_val :: "nat \<Rightarrow> nat \<Rightarrow> string \<Rightarrow> nat option" where
  "radix_val b acc [] = Some acc"
| "radix_val b acc (c # s) =
     (case digit_val c of Some d \<Rightarrow> if d < b then radix_val b (b * acc + d) s else None | None \<Rightarrow> None)"

definition dec_val :: "string \<Rightarrow> nat" where
  "dec_val s = foldl (\<lambda>n c. 10 * n + (of_char c - 48)) 0 s"

text \<open>Digits, an optional fraction and an optional exponent; the rest of the text.\<close>

definition exponent :: "string \<Rightarrow> (int \<times> string) option" where
  "exponent s = (case s of [] \<Rightarrow> Some (0, [])
     | c # r \<Rightarrow> if c = CHR ''e'' \<or> c = CHR ''E'' then
         (let (neg, r') = (case r of [] \<Rightarrow> (False, r)
            | d # r1 \<Rightarrow> if d = CHR ''-'' then (True, r1) else if d = CHR ''+'' then (False, r1) else (False, r));
              ds = takeWhile is_digit r'
          in if ds = [] then None
             else Some (if neg then - int (dec_val ds) else int (dec_val ds), dropWhile is_digit r'))
       else Some (0, s))"

definition decimal :: "string \<Rightarrow> string \<Rightarrow> int \<Rightarrow> rat" where
  "decimal ip fp e = of_nat (dec_val (ip @ fp)) * pow10 (e - int (length fp))"

definition str_decimal :: "string \<Rightarrow> rat option" where
  "str_decimal s = (let ip = takeWhile is_digit s; r = dropWhile is_digit s;
       (fp, r') = (case r of c # r1 \<Rightarrow> if c = CHR ''.'' then (takeWhile is_digit r1, dropWhile is_digit r1) else ([], r)
                   | [] \<Rightarrow> ([], []))
     in if ip = [] \<and> fp = [] then None
        else (case exponent r' of Some (e, []) \<Rightarrow> Some (decimal ip fp e) | _ \<Rightarrow> None))"

definition str_to_num :: "string \<Rightarrow> jsnum" where
  "str_to_num s0 = (let s = trim s0;
       radix = (\<lambda>b r. if r = [] then NaN else case radix_val b 0 r of None \<Rightarrow> NaN | Some n \<Rightarrow> to_num (of_nat n));
       unsigned = (\<lambda>t. if t = ''Infinity'' then PInf
         else case str_decimal t of None \<Rightarrow> NaN | Some q \<Rightarrow> to_num q);
       neg = (\<lambda>n. case n of Fin q \<Rightarrow> Fin (- q) | PInf \<Rightarrow> NInf | NInf \<Rightarrow> PInf | NaN \<Rightarrow> NaN)
     in if s = [] then Fin 0
        else if starts_with s ''0x'' \<or> starts_with s ''0X'' then radix 16 (drop 2 s)
        else if starts_with s ''0o'' \<or> starts_with s ''0O'' then radix 8 (drop 2 s)
        else if starts_with s ''0b'' \<or> starts_with s ''0B'' then radix 2 (drop 2 s)
        else if starts_with s ''-'' then neg (unsigned (drop 1 s))
        else if starts_with s ''+'' then unsigned (drop 1 s)
        else unsigned s)"

text \<open>\<open>Number(v)\<close>\<close>

fun js_Number :: "jsval \<Rightarrow> exn + jsnum" where
  "js_Number JUndef = Inr NaN"
| "js_Number JNull = Inr (Fin 0)"
| "js_Number (JBool b) = Inr (Fin (if b then 1 else 0))"
| "js_Number (JNum n) = Inr n"
| "js_Number (JStr s) = Inr (str_to_num s)"
| "js_Number (JArr vs) = (case js_String (JArr vs) of Inl e \<Rightarrow> Inl e | Inr s \<Rightarrow> Inr (str_to_num s))"
| "js_Number (JObj kvs) = (if ''toString'' \<in> fst ` set kvs then Inl Type_error else Inr NaN)"

text \<open>\<open>n || d\<close> on numbers, \<open>Math.min\<close>, and the comparison \<open>0 < n\<close>.\<close>

definition num_or :: "jsnum \<Rightarrow> rat \<Rightarrow> jsnum" where
  "num_or n d = (if truthy (JNum n) then n else Fin d)"

fun num_min :: "jsnum \<Rightarrow> rat \<Rightarrow> jsnum" where
  "num_min NaN m = NaN"
| "num_min PInf m = Fin m"
| "num_min NInf m = NInf"
| "num_min (Fin q) m = Fin (min q m)"

fun num_pos :: "jsnum \<Rightarrow> bool" where
  "num_pos NaN = False"
| "num_pos PInf = True"
| "num_pos NInf = False"
| "num_pos (Fin q) = (0 < q)"

lemmas [js_simps] = js_or_def js_coalesce_def nullish_def num_or_def

end
