(* ===== verification/Json.thy ===== *)
theory Json
  imports Js
begin

text \<open>
  \<open>JSON.parse\<close> and \<open>JSON.stringify\<close>. The text is cut into tokens, and a pushdown automaton
  over the tokens builds the value, so that no recursion bound is needed: the lexer shortens
  the text at every token and the parser reads one token per step.
\<close>

section \<open>Tokens\<close>

datatype token =
    TOpenArr | TCloseArr | TOpenObj | TCloseObj | TComma | TColon
  | TNull | TTrue | TFalse | TNum jsnum | TStr string

definition hex4 :: "string \<Rightarrow> nat option" where
  "hex4 s = (if length s = 4 then radix_val 16 0 s else None)"

text \<open>The UTF-8 text of a code point.\<close>

definition utf8 :: "nat \<Rightarrow> string" where
  "utf8 n = map char_of
     (if n < 0x80 then [n]
      else if n < 0x800 then [0xC0 + n div 64, 0x80 + n mod 64]
      else if n < 0x10000 then [0xE0 + n div 4096, 0x80 + n div 64 mod 64, 0x80 + n mod 64]
      else [0xF0 + n div 262144, 0x80 + n div 4096 mod 64, 0x80 + n div 64 mod 64, 0x80 + n mod 64])"

text \<open>A \<open>\u\<close> escape; a high surrogate followed by an escaped low one is one code point.\<close>

definition unicode_escape :: "string \<Rightarrow> (string \<times> nat) option" where
  "unicode_escape s = (case hex4 (take 4 s) of None \<Rightarrow> None
     | Some u \<Rightarrow>
        if 0xD800 \<le> u \<and> u \<le> 0xDBFF \<and> starts_with (drop 4 s) [CHR 0x5C, CHR ''u''] then
          (case hex4 (take 4 (drop 6 s)) of
             Some v \<Rightarrow> if 0xDC00 \<le> v \<and> v \<le> 0xDFFF
               then Some (utf8 (0x10000 + (u - 0xD800) * 1024 + (v - 0xDC00)), 10)
               else Some (utf8 u, 4)
           | None \<Rightarrow> Some (utf8 u, 4))
        else Some (utf8 u, 4))"

definition simple_escape :: "char \<Rightarrow> char option" where
  "simple_escape c = map_of
     [(CHR 0x22, CHR 0x22), (CHR 0x5C, CHR 0x5C), (CHR ''/'', CHR ''/''), (CHR ''b'', CHR 0x08),
      (CHR ''f'', CHR 0x0C), (CHR ''n'', CHR 0x0A), (CHR ''r'', CHR 0x0D), (CHR ''t'', CHR 0x09)] c"

definition is_control :: "char \<Rightarrow> bool" where
  "is_control c \<longleftrightarrow> (of_char c :: nat) < 32"

text \<open>The rest of a string literal after its opening quote: its value and what follows.\<close>

function lex_string :: "string \<Rightarrow> (string \<times> string) option" where
  "lex_string [] = None"
| "lex_string (c # s) =
     (if c = CHR 0x22 then Some ([], s)
      else if is_control c then None
      else if c = CHR 0x5C then
        (case s of [] \<Rightarrow> None
         | d # r \<Rightarrow>
            if d = CHR ''u'' then
              (case unicode_escape r of None \<Rightarrow> None
               | Some (t, n) \<Rightarrow> map_option (apfst (\<lambda>x. t @ x)) (lex_string (drop n r)))
            else (case simple_escape d of None \<Rightarrow> None
                  | Some x \<Rightarrow> map_option (apfst (\<lambda>y. x # y)) (lex_string r)))
      else map_option (apfst (\<lambda>y. c # y)) (lex_string s))"
  by pat_completeness auto
termination by (relation "measure length") auto

text \<open>A number: no leading zero, no leading plus, digits around the point.\<close>

definition lex_number :: "string \<Rightarrow> (jsnum \<times> string) option" where
  "lex_number s0 = (let neg = starts_with s0 ''-''; s = (if neg then drop 1 s0 else s0);
       ip = takeWhile is_digit s; r = dropWhile is_digit s
     in if ip = [] \<or> (hd ip = CHR ''0'' \<and> length ip \<noteq> 1) then None
        else (let frac = starts_with r ''.'';
                  fp = (if frac then takeWhile is_digit (drop 1 r) else []);
                  r' = (if frac then dropWhile is_digit (drop 1 r) else r)
              in if frac \<and> fp = [] then None
                 else (case exponent r' of None \<Rightarrow> None
                       | Some (e, r'') \<Rightarrow> (let q = decimal ip fp e
                            in Some (to_num (if neg then - q else q), r'')))))"

definition json_space :: "char \<Rightarrow> bool" where
  "json_space c \<longleftrightarrow> c \<in> {CHR 0x20, CHR 0x09, CHR 0x0A, CHR 0x0D}"

definition lex_one :: "string \<Rightarrow> (token \<times> string) option" where
  "lex_one s = (case s of [] \<Rightarrow> None
     | c # r \<Rightarrow>
        if c = CHR ''['' then Some (TOpenArr, r)
        else if c = CHR '']'' then Some (TCloseArr, r)
        else if c = CHR ''{'' then Some (TOpenObj, r)
        else if c = CHR ''}'' then Some (TCloseObj, r)
        else if c = CHR '','' then Some (TComma, r)
        else if c = CHR '':'' then Some (TColon, r)
        else if c = CHR 0x22 then map_option (apfst TStr) (lex_string r)
        else if starts_with s ''null'' then Some (TNull, drop 4 s)
        else if starts_with s ''true'' then Some (TTrue, drop 4 s)
        else if starts_with s ''false'' then Some (TFalse, drop 5 s)
        else map_option (apfst TNum) (lex_number s))"

lemma lex_string_shorter: "lex_string s = Some (t, r) \<Longrightarrow> length r < length s"
proof (induction s arbitrary: t r rule: lex_string.induct)
  case (2 c s)
  then show ?case
    by (fastforce split: if_splits list.splits option.splits prod.splits)
qed simp

lemma exponent_shorter: "exponent s = Some (e, r) \<Longrightarrow> length r \<le> length s"
proof -
  have le: "length (dropWhile is_digit x) \<le> length x" for x by (rule length_dropWhile_le)
  assume "exponent s = Some (e, r)"
  then show ?thesis
    by (auto simp: exponent_def Let_def split: list.splits if_splits
             intro: le_SucI le_trans [OF le])
qed

lemma lex_number_shorter: "lex_number s = Some (n, r) \<Longrightarrow> length r < length s"
proof -
  assume h: "lex_number s = Some (n, r)"
  define s' where "s' = (if starts_with s ''-'' then drop 1 s else s)"
  define q where "q = dropWhile is_digit s'"
  define q' where "q' = (if starts_with q ''.'' then dropWhile is_digit (drop 1 q) else q)"
  from h have ne: "takeWhile is_digit s' \<noteq> []" and ex: "\<exists>e. exponent q' = Some (e, r)"
    by (auto simp: lex_number_def Let_def s'_def q_def q'_def split: if_splits option.splits prod.splits)
  from ex have "length r \<le> length q'" by (auto dest: exponent_shorter)
  also have "\<dots> \<le> length q"
    using length_dropWhile_le [of is_digit "drop 1 q"] by (auto simp: q'_def)
  also have "\<dots> < length s'"
    using ne by (cases s') (auto simp: q_def less_Suc_eq_le length_dropWhile_le split: if_splits)
  also have "\<dots> \<le> length s" by (simp add: s'_def)
  finally show ?thesis .
qed

lemma lex_one_shorter: "lex_one s = Some (t, r) \<Longrightarrow> length r < length s"
proof (cases s)
  case (Cons c cs)
  assume h: "lex_one s = Some (t, r)"
  have "(\<exists>t'. lex_string cs = Some (t', r)) \<or> (\<exists>n. lex_number s = Some (n, r))
      \<or> r = cs \<or> r = drop 4 s \<or> r = drop 5 s"
    using h unfolding lex_one_def Cons list.case
    by (simp only: split: if_split_asm) auto
  then show ?thesis
    using Cons by (auto dest!: lex_string_shorter lex_number_shorter)
qed (simp add: lex_one_def)

function lex :: "string \<Rightarrow> token list option" where
  "lex s = (let s' = dropWhile json_space s in
     if s' = [] then Some []
     else (case lex_one s' of None \<Rightarrow> None
           | Some (t, r) \<Rightarrow> map_option (Cons t) (lex r)))"
  by pat_completeness auto
termination
proof (relation "measure length")
  fix s s' a t r
  assume "s' = dropWhile json_space s" and "lex_one s' = Some a" and "(t, r) = a"
  then show "(r, s) \<in> measure length"
    using lex_one_shorter [of s' t r] length_dropWhile_le [of json_space s] by auto
qed simp

declare lex.simps [simp del]

section \<open>The parser\<close>

text \<open>
  An open container on the stack: the elements read so far (in reverse), or the members read
  so far and the key whose value is being read. A repeated key keeps its last value.
\<close>

datatype frame = FArr "jsval list" | FObj "(string \<times> jsval) list" string

datatype expects =
    Value                                   \<comment> \<open>a value must come\<close>
  | Value_or_close                          \<comment> \<open>after \<open>[\<close>\<close>
  | Key_or_close                            \<comment> \<open>after \<open>{\<close>\<close>
  | Key "(string \<times> jsval) list"            \<comment> \<open>after a comma in an object\<close>
  | Colon "(string \<times> jsval) list" string   \<comment> \<open>after a key\<close>
  | After jsval                             \<comment> \<open>a value has been read\<close>

definition set_key :: "string \<Rightarrow> jsval \<Rightarrow> (string \<times> jsval) list \<Rightarrow> (string \<times> jsval) list" where
  "set_key k v kvs = (if k \<in> fst ` set kvs then map (\<lambda>(k', v'). if k' = k then (k, v) else (k', v')) kvs
     else kvs @ [(k, v)])"

definition value_token :: "token \<Rightarrow> frame list \<Rightarrow> (expects \<times> frame list) option" where
  "value_token t st = (case t of
       TOpenArr \<Rightarrow> Some (Value_or_close, FArr [] # st)
     | TOpenObj \<Rightarrow> Some (Key_or_close, st)
     | TNull \<Rightarrow> Some (After JNull, st)
     | TTrue \<Rightarrow> Some (After (JBool True), st)
     | TFalse \<Rightarrow> Some (After (JBool False), st)
     | TNum n \<Rightarrow> Some (After (JNum n), st)
     | TStr s \<Rightarrow> Some (After (JStr s), st)
     | _ \<Rightarrow> None)"

definition parse_step :: "token \<Rightarrow> expects \<Rightarrow> frame list \<Rightarrow> (expects \<times> frame list) option" where
  "parse_step t ex st = (case ex of
       Value \<Rightarrow> value_token t st
     | Value_or_close \<Rightarrow>
         (case (t, st) of (TCloseArr, FArr [] # st') \<Rightarrow> Some (After (JArr []), st') | _ \<Rightarrow> value_token t st)
     | Key_or_close \<Rightarrow>
         (case t of TCloseObj \<Rightarrow> Some (After (JObj []), st) | TStr k \<Rightarrow> Some (Colon [] k, st) | _ \<Rightarrow> None)
     | Key kvs \<Rightarrow> (case t of TStr k \<Rightarrow> Some (Colon kvs k, st) | _ \<Rightarrow> None)
     | Colon kvs k \<Rightarrow> (case t of TColon \<Rightarrow> Some (Value, FObj kvs k # st) | _ \<Rightarrow> None)
     | After v \<Rightarrow>
         (case (t, st) of
            (TComma, FArr vs # st') \<Rightarrow> Some (Value, FArr (v # vs) # st')
          | (TCloseArr, FArr vs # st') \<Rightarrow> Some (After (JArr (rev (v # vs))), st')
          | (TComma, FObj kvs k # st') \<Rightarrow> Some (Key (set_key k v kvs), st')
          | (TCloseObj, FObj kvs k # st') \<Rightarrow> Some (After (JObj (set_key k v kvs)), st')
          | _ \<Rightarrow> None))"

fun parse_tokens :: "expects \<Rightarrow> frame list \<Rightarrow> token list \<Rightarrow> jsval option" where
  "parse_tokens ex st [] = (case (ex, st) of (After v, []) \<Rightarrow> Some v | _ \<Rightarrow> None)"
| "parse_tokens ex st (t # ts) =
     (case parse_step t ex st of None \<Rightarrow> None | Some (ex', st') \<Rightarrow> parse_tokens ex' st' ts)"

text \<open>\<open>JSON.parse(s)\<close>: the value, or the thrown \<open>SyntaxError\<close>.\<close>

definition json_parse :: "string \<Rightarrow> exn + jsval" where
  "json_parse s = (case lex s of None \<Rightarrow> Inl Syntax_error
     | Some ts \<Rightarrow> (case parse_tokens Value [] ts of None \<Rightarrow> Inl Syntax_error | Some v \<Rightarrow> Inr v))"

section \<open>\<open>JSON.stringify\<close>\<close>

definition hex_digit :: "nat \<Rightarrow> char" where
  "hex_digit n = char_of (if n < 10 then 48 + n else 87 + n)"

definition quote_char :: "char \<Rightarrow> string" where
  "quote_char c =
     (if c = CHR 0x22 then [CHR 0x5C, CHR 0x22]
      else if c = CHR 0x5C then [CHR 0x5C, CHR 0x5C]
      else if c = CHR 0x08 then [CHR 0x5C, CHR ''b'']
      else if c = CHR 0x0C then [CHR 0x5C, CHR ''f'']
      else if c = CHR 0x0A then [CHR 0x5C, CHR ''n'']
      else if c = CHR 0x0D then [CHR 0x5C, CHR ''r'']
      else if c = CHR 0x09 then [CHR 0x5C, CHR ''t'']
      else if is_control c then
        [CHR 0x5C, CHR ''u'', CHR ''0'', CHR ''0'', hex_digit (of_char c div 16), hex_digit (of_char c mod 16)]
      else [c])"

definition json_quote :: "string \<Rightarrow> string" where
  "json_quote s = CHR 0x22 # concat (map quote_char s) @ [CHR 0x22]"

definition sep_by :: "string \<Rightarrow> string list \<Rightarrow> string" where
  "sep_by d ss = (case ss of [] \<Rightarrow> [] | s # r \<Rightarrow> s @ concat (map (\<lambda>t. d @ t) r))"

text \<open>
  The text of a value; \<open>undefined\<close> has none, is left out of an object and becomes \<open>null\<close> in an
  array.
\<close>

fun stringify :: "jsval \<Rightarrow> string" where
  "stringify JUndef = ''null''"
| "stringify JNull = ''null''"
| "stringify (JBool b) = (if b then ''true'' else ''false'')"
| "stringify (JNum (Fin q)) = num_to_string (Fin q)"
| "stringify (JNum n) = ''null''"
| "stringify (JStr s) = json_quote s"
| "stringify (JArr vs) = ''['' @ sep_by '','' (map stringify vs) @ '']''"
| "stringify (JObj kvs) = ''{''
     @ sep_by '','' (map (\<lambda>(k, v). json_quote k @ '':'' @ stringify v)
                        (filter (\<lambda>(k, v). v \<noteq> JUndef) kvs)) @ ''}''"

definition json_stringify :: "jsval \<Rightarrow> string option" where
  "json_stringify v = (if v = JUndef then None else Some (stringify v))"

end
