(* ===== verification/Store.thy ===== *)
theory Store
  imports Prog Json
begin

text \<open>
  The database behind the server: one record per table of \<open>setup.ts\<close>, the state of the whole
  server (\<open>world\<close>), what is outside the sources (\<open>env\<close>), the wrapper that runs one SQL
  statement, the inserts with the constraints the schema declares, and the integrity
  invariant \<open>db_wf\<close>.
\<close>

section \<open>Tables\<close>

datatype job_status = Queued | Scheduled | Claimed | Running | Completed | Failed | Dead_letter

datatype worker_status = Active | Draining | Offline

record org_row =
  o_id :: uuid
  o_name :: string
  o_slug :: string
  o_created_at :: timestamp
  o_updated_at :: timestamp

record user_row =
  u_id :: uuid
  u_org_id :: uuid
  u_email :: string
  u_name :: string
  u_role :: string
  u_password_hash :: string
  u_created_at :: timestamp
  u_updated_at :: timestamp

record project_row =
  p_id :: uuid
  p_org_id :: uuid
  p_name :: string
  p_slug :: string
  p_description :: "string option"
  p_created_at :: timestamp
  p_updated_at :: timestamp

record queue_row =
  q_id :: uuid
  q_project_id :: uuid
  q_name :: string
  q_slug :: string
  q_retry_policy_id :: "uuid option"
  q_priority_default :: int
  q_concurrency_limit :: "int option"
  q_paused :: bool
  q_created_at :: timestamp
  q_updated_at :: timestamp

record worker_row =
  wk_id :: uuid
  wk_name :: string
  wk_status :: worker_status
  wk_meta :: "jsval option"
  wk_created_at :: timestamp
  wk_updated_at :: timestamp

record heartbeat_row =
  hb_id :: uuid
  hb_worker_id :: uuid
  hb_last_seen_at :: timestamp
  hb_metadata :: "jsval option"
  hb_created_at :: timestamp
  hb_updated_at :: timestamp

record job_row =
  j_id :: uuid
  j_queue_id :: uuid
  j_status :: job_status
  j_priority :: int
  j_payload :: jsval
  j_idempotency_key :: "string option"
  j_next_run_at :: "timestamp option"
  j_attempts :: int
  j_max_attempts :: int
  j_retry_policy_id :: "uuid option"
  j_worker_id :: "uuid option"
  j_claimed_at :: "timestamp option"
  j_lease_expires_at :: "timestamp option"
  j_completed_at :: "timestamp option"
  j_failed_at :: "timestamp option"
  j_error_message :: "string option"
  j_cron_expr :: "string option"
  j_batch_id :: "uuid option"
  j_created_at :: timestamp
  j_updated_at :: timestamp

record execution_row =
  je_id :: uuid
  je_job_id :: uuid
  je_worker_id :: "uuid option"
  je_attempt :: int
  je_status :: string
  je_started_at :: timestamp
  je_finished_at :: "timestamp option"
  je_error :: "string option"
  je_duration_ms :: "int option"
  je_created_at :: timestamp
  je_updated_at :: timestamp

record log_row =
  jl_id :: uuid
  jl_job_id :: uuid
  jl_level :: string
  jl_message :: string
  jl_metadata :: "jsval option"
  jl_created_at :: timestamp

record dlq_row =
  d_id :: uuid
  d_job_id :: uuid
  d_original_queue_id :: uuid
  d_payload :: jsval
  d_failed_at :: timestamp
  d_reason :: "string option"
  d_attempts_made :: int
  d_created_at :: timestamp

section \<open>The state of the server\<close>

text \<open>
  \<open>w_relations\<close> names the tables and indexes created so far. \<open>w_ops\<close> counts the atomic
  operations done; \<open>w_now\<close> is the database's clock. The last three fields are the module
  variables of \<open>worker-scheduler.ts\<close>: whether a scheduled tick is in flight, when one was last
  started (in milliseconds), and how many background ticks have been started and not yet run.
\<close>

record world =
  w_relations :: "string list"
  w_organizations :: "org_row list"
  w_users :: "user_row list"
  w_projects :: "project_row list"
  w_queues :: "queue_row list"
  w_workers :: "worker_row list"
  w_heartbeats :: "heartbeat_row list"
  w_jobs :: "job_row list"
  w_executions :: "execution_row list"
  w_logs :: "log_row list"
  w_dlq :: "dlq_row list"
  w_ops :: nat
  w_now :: timestamp
  w_in_flight :: bool
  w_last_run_at :: int
  w_background :: nat

text \<open>
  What the sources do not determine. The first fields are indexed by the number of the
  operation: the id \<open>gen_random_uuid()\<close> draws, the time an operation takes (in absolute value), the order in which
  rows are read and returned, the rows other transactions hold locked, the reading of
  \<open>Date.now()\<close>, and whether the connection fails. Then the conversions of the driver and of
  Postgres (a parameter to text, integer, UUID and JSONB, a number of seconds to an interval, the
  average of a column), the texts of exceptions, the JWT library (the text it signs a payload to with a
  secret and an algorithm, and what it makes of a token at an operation), and the process environment.
\<close>

datatype fault =
    Refused string \<comment> \<open>the statement fails and has no effect\<close>
  | Lost string    \<comment> \<open>the statement takes effect and its answer is lost\<close>

record env =
  e_uuid :: "nat \<Rightarrow> uuid"
  e_lag :: "nat \<Rightarrow> int"
  e_scan :: "nat \<Rightarrow> nat \<Rightarrow> nat list"
  e_locked :: "nat \<Rightarrow> uuid \<Rightarrow> bool"
  e_date :: "nat \<Rightarrow> int"
  e_fault :: "nat \<Rightarrow> fault option"
  e_text :: "jsval \<Rightarrow> pgerr + string option"
  e_int4 :: "jsval \<Rightarrow> pgerr + int option"
  e_uuid_in :: "jsval \<Rightarrow> pgerr + uuid option"
  e_jsonb :: "string \<Rightarrow> pgerr + jsval"
  e_seconds :: "jsnum \<Rightarrow> pgerr + int"
  e_message :: "exn \<Rightarrow> string"
  e_avg :: "int list \<Rightarrow> rat"
  e_jwt_sign :: "string \<Rightarrow> string \<Rightarrow> jsval \<Rightarrow> string"
  e_jwt_verify :: "string \<Rightarrow> nat \<Rightarrow> string \<Rightarrow> jsval option"
  e_environ :: "string \<Rightarrow> string option"

type_synonym 'a io = "(world, exn, 'a) prog"

text \<open>\<open>process.env.NAME\<close> as a condition: unset and empty are both falsy.\<close>

definition environ :: "env \<Rightarrow> string \<Rightarrow> string option" where
  "environ E n = (case e_environ E n of Some v \<Rightarrow> if v = [] then None else Some v | None \<Rightarrow> None)"

section \<open>Running one statement\<close>

definition advance_clock :: "env \<Rightarrow> nat \<Rightarrow> world \<Rightarrow> world" where
  "advance_clock E extra w =
     w\<lparr>w_ops := Suc (w_ops w), w_now := w_now w + int extra + \<bar>e_lag E (w_ops w)\<bar>\<rparr>"

text \<open>
  One \<open>await sql`...`\<close>: the statement runs against the tables it names (a missing table is an
  error of the statement) and either side of the connection may fail.
\<close>

definition exec_stmt :: "env \<Rightarrow> string list \<Rightarrow> (world \<Rightarrow> (exn + 'a) \<times> world) \<Rightarrow> world \<Rightarrow> (exn + 'a) \<times> world" where
  "exec_stmt E tabs f w =
     (let w1 = advance_clock E 0 w;
          r = (case List.find (\<lambda>t. t \<notin> set (w_relations w)) tabs of
                 Some t \<Rightarrow> (Inl (Pg_error (Undefined_table t)), w1)
               | None \<Rightarrow> f w1)
      in case e_fault E (w_ops w) of
           None \<Rightarrow> r
         | Some (Refused x) \<Rightarrow> (Inl (Net_error x), w1)
         | Some (Lost x) \<Rightarrow> (Inl (Net_error x), snd r))"

definition stmt :: "env \<Rightarrow> string list \<Rightarrow> (world \<Rightarrow> (exn + 'a) \<times> world) \<Rightarrow> 'a io" where
  "stmt E tabs f = atom (exec_stmt E tabs f)"

text \<open>\<open>Date.now()\<close>, and \<open>await new Promise((r) => setTimeout(r, ms))\<close>.\<close>

definition date_now :: "env \<Rightarrow> int io" where
  "date_now E = atom (\<lambda>w. (Inr (e_date E (w_ops w)), advance_clock E 0 w))"

definition sleepP :: "env \<Rightarrow> nat \<Rightarrow> unit io" where
  "sleepP E ms = atom (\<lambda>w. (Inr (), advance_clock E (1000 * ms) w))"

text \<open>Results of statements.\<close>

abbreviation ok :: "'a \<Rightarrow> world \<Rightarrow> (exn + 'a) \<times> world" where
  "ok x w \<equiv> (Inr x, w)"

abbreviation pg_fail :: "pgerr \<Rightarrow> world \<Rightarrow> (exn + 'a) \<times> world" where
  "pg_fail e w \<equiv> (Inl (Pg_error e), w)"

text \<open>A parameter of a statement: its conversion fails before the statement has any effect.\<close>

definition with_param :: "pgerr + 'a \<Rightarrow> ('a \<Rightarrow> world \<Rightarrow> (exn + 'b) \<times> world) \<Rightarrow> world \<Rightarrow> (exn + 'b) \<times> world" where
  "with_param c k w = (case c of Inl e \<Rightarrow> pg_fail e w | Inr x \<Rightarrow> k x w)"

text \<open>A parameter for a column that is declared \<open>NOT NULL\<close>.\<close>

definition with_required :: "string \<Rightarrow> pgerr + 'a option \<Rightarrow> ('a \<Rightarrow> world \<Rightarrow> (exn + 'b) \<times> world) \<Rightarrow> world \<Rightarrow> (exn + 'b) \<times> world" where
  "with_required col c k w = with_param c (\<lambda>x. case x of None \<Rightarrow> pg_fail (Not_null_violation col) | Some y \<Rightarrow> k y) w"

definition int4_ok :: "int \<Rightarrow> bool" where
  "int4_ok n \<longleftrightarrow> - (2 ^ 31) \<le> n \<and> n < 2 ^ 31"

definition int4 :: "int \<Rightarrow> pgerr + int" where
  "int4 n = (if int4_ok n then Inr n else Inl Numeric_out_of_range)"

definition gen_uuid :: "env \<Rightarrow> world \<Rightarrow> uuid" where
  "gen_uuid E w = e_uuid E (w_ops w)"

definition scan :: "env \<Rightarrow> world \<Rightarrow> nat \<Rightarrow> 'r list \<Rightarrow> 'r list" where
  "scan E w slot rs = arrange (e_scan E (w_ops w) slot) rs"

lemma scan_simps [simp]:
  "set (scan E w k rs) = set rs" "mset (scan E w k rs) = mset rs"
  "length (scan E w k rs) = length rs" "scan E w k [] = []"
  "distinct (map f (scan E w k rs)) = distinct (map f rs)"
  by (simp_all add: scan_def)

section \<open>Inserts with the constraints of the schema\<close>

definition insert_org :: "org_row \<Rightarrow> world \<Rightarrow> (exn + org_row) \<times> world" where
  "insert_org r w =
     (if o_id r \<in> o_id ` set (w_organizations w) then pg_fail (Unique_violation ''organizations_pkey'') w
      else if o_slug r \<in> o_slug ` set (w_organizations w) then pg_fail (Unique_violation ''organizations_slug_key'') w
      else ok r (w\<lparr>w_organizations := w_organizations w @ [r]\<rparr>))"

definition insert_user :: "user_row \<Rightarrow> world \<Rightarrow> (exn + user_row) \<times> world" where
  "insert_user r w =
     (if u_id r \<in> u_id ` set (w_users w) then pg_fail (Unique_violation ''users_pkey'') w
      else if (u_org_id r, u_email r) \<in> (\<lambda>u. (u_org_id u, u_email u)) ` set (w_users w)
        then pg_fail (Unique_violation ''users_org_id_email_key'') w
      else if u_org_id r \<notin> o_id ` set (w_organizations w)
        then pg_fail (Foreign_key_violation ''users_org_id_fkey'') w
      else ok r (w\<lparr>w_users := w_users w @ [r]\<rparr>))"

definition insert_project :: "project_row \<Rightarrow> world \<Rightarrow> (exn + project_row) \<times> world" where
  "insert_project r w =
     (if p_id r \<in> p_id ` set (w_projects w) then pg_fail (Unique_violation ''projects_pkey'') w
      else if (p_org_id r, p_slug r) \<in> (\<lambda>p. (p_org_id p, p_slug p)) ` set (w_projects w)
        then pg_fail (Unique_violation ''projects_org_id_slug_key'') w
      else if p_org_id r \<notin> o_id ` set (w_organizations w)
        then pg_fail (Foreign_key_violation ''projects_org_id_fkey'') w
      else ok r (w\<lparr>w_projects := w_projects w @ [r]\<rparr>))"

definition insert_queue :: "queue_row \<Rightarrow> world \<Rightarrow> (exn + queue_row) \<times> world" where
  "insert_queue r w =
     (if q_id r \<in> q_id ` set (w_queues w) then pg_fail (Unique_violation ''queues_pkey'') w
      else if (q_project_id r, q_slug r) \<in> (\<lambda>q. (q_project_id q, q_slug q)) ` set (w_queues w)
        then pg_fail (Unique_violation ''queues_project_id_slug_key'') w
      else if q_project_id r \<notin> p_id ` set (w_projects w)
        then pg_fail (Foreign_key_violation ''queues_project_id_fkey'') w
      else ok r (w\<lparr>w_queues := w_queues w @ [r]\<rparr>))"

definition insert_worker :: "worker_row \<Rightarrow> world \<Rightarrow> (exn + worker_row) \<times> world" where
  "insert_worker r w =
     (if wk_id r \<in> wk_id ` set (w_workers w) then pg_fail (Unique_violation ''workers_pkey'') w
      else ok r (w\<lparr>w_workers := w_workers w @ [r]\<rparr>))"

definition insert_heartbeat :: "heartbeat_row \<Rightarrow> world \<Rightarrow> (exn + heartbeat_row) \<times> world" where
  "insert_heartbeat r w =
     (if hb_id r \<in> hb_id ` set (w_heartbeats w) then pg_fail (Unique_violation ''worker_heartbeats_pkey'') w
      else if hb_worker_id r \<in> hb_worker_id ` set (w_heartbeats w)
        then pg_fail (Unique_violation ''worker_heartbeats_worker_id_key'') w
      else if hb_worker_id r \<notin> wk_id ` set (w_workers w)
        then pg_fail (Foreign_key_violation ''worker_heartbeats_worker_id_fkey'') w
      else ok r (w\<lparr>w_heartbeats := w_heartbeats w @ [r]\<rparr>))"

definition idem_index :: string where
  "idem_index = ''idx_jobs_idempotency''"

definition same_idem :: "job_row \<Rightarrow> job_row \<Rightarrow> bool" where
  "same_idem j k \<longleftrightarrow> j_queue_id j = j_queue_id k \<and> j_idempotency_key j \<noteq> None
     \<and> j_idempotency_key j = j_idempotency_key k"

definition insert_job :: "job_row \<Rightarrow> world \<Rightarrow> (exn + job_row) \<times> world" where
  "insert_job r w =
     (if j_id r \<in> j_id ` set (w_jobs w) then pg_fail (Unique_violation ''jobs_pkey'') w
      else if idem_index \<in> set (w_relations w) \<and> (\<exists>j \<in> set (w_jobs w). same_idem r j)
        then pg_fail (Unique_violation idem_index) w
      else if j_queue_id r \<notin> q_id ` set (w_queues w)
        then pg_fail (Foreign_key_violation ''jobs_queue_id_fkey'') w
      else ok r (w\<lparr>w_jobs := w_jobs w @ [r]\<rparr>))"

definition insert_execution :: "execution_row \<Rightarrow> world \<Rightarrow> (exn + execution_row) \<times> world" where
  "insert_execution r w =
     (if je_id r \<in> je_id ` set (w_executions w) then pg_fail (Unique_violation ''job_executions_pkey'') w
      else if je_job_id r \<notin> j_id ` set (w_jobs w)
        then pg_fail (Foreign_key_violation ''job_executions_job_id_fkey'') w
      else if \<not> set_option (je_worker_id r) \<subseteq> wk_id ` set (w_workers w)
        then pg_fail (Foreign_key_violation ''job_executions_worker_id_fkey'') w
      else ok r (w\<lparr>w_executions := w_executions w @ [r]\<rparr>))"

definition insert_log :: "log_row \<Rightarrow> world \<Rightarrow> (exn + log_row) \<times> world" where
  "insert_log r w =
     (if jl_id r \<in> jl_id ` set (w_logs w) then pg_fail (Unique_violation ''job_logs_pkey'') w
      else if jl_job_id r \<notin> j_id ` set (w_jobs w)
        then pg_fail (Foreign_key_violation ''job_logs_job_id_fkey'') w
      else ok r (w\<lparr>w_logs := w_logs w @ [r]\<rparr>))"

text \<open>\<open>INSERT INTO dead_letter_queue ... ON CONFLICT (job_id) DO NOTHING\<close>\<close>

definition insert_dlq :: "dlq_row \<Rightarrow> world \<Rightarrow> (exn + unit) \<times> world" where
  "insert_dlq r w =
     (if d_job_id r \<in> d_job_id ` set (w_dlq w) then ok () w
      else if d_id r \<in> d_id ` set (w_dlq w) then pg_fail (Unique_violation ''dead_letter_queue_pkey'') w
      else if d_job_id r \<notin> j_id ` set (w_jobs w)
        then pg_fail (Foreign_key_violation ''dead_letter_queue_job_id_fkey'') w
      else if d_original_queue_id r \<notin> q_id ` set (w_queues w)
        then pg_fail (Foreign_key_violation ''dead_letter_queue_original_queue_id_fkey'') w
      else ok () (w\<lparr>w_dlq := w_dlq w @ [r]\<rparr>))"

end
