(* ===== verification/Integrity.thy ===== *)
theory Integrity
  imports Store
begin

text \<open>
  The integrity invariant of the database, and the guarantee \<open>sound_step\<close> that every statement
  of the server gives: it keeps the invariant, never removes a row other than a dead-letter
  entry, and never turns the clock back. The locale \<open>job_update\<close> is the interface of the
  statements that update jobs.
\<close>

section \<open>The invariant\<close>

text \<open>What the code keeps true of one job between any two statements.\<close>

definition job_ok :: "job_row \<Rightarrow> bool" where
  "job_ok j \<longleftrightarrow>
     (j_status j = Queued \<longrightarrow> j_worker_id j = None \<and> j_claimed_at j = None \<and> j_lease_expires_at j = None) \<and>
     (j_status j = Claimed \<longrightarrow> j_worker_id j \<noteq> None \<and> j_claimed_at j \<noteq> None \<and> j_lease_expires_at j \<noteq> None) \<and>
     (j_status j = Completed \<longrightarrow> j_worker_id j = None \<and> j_lease_expires_at j = None
        \<and> j_completed_at j \<noteq> None \<and> j_error_message j = None) \<and>
     (j_status j = Dead_letter \<longrightarrow> j_worker_id j = None \<and> j_lease_expires_at j = None \<and> j_failed_at j \<noteq> None) \<and>
     int4_ok (j_priority j) \<and> int4_ok (j_attempts j) \<and> int4_ok (j_max_attempts j)"

definition idem_pair :: "job_row \<Rightarrow> uuid \<times> string option" where
  "idem_pair j = (j_queue_id j, j_idempotency_key j)"

definition idem_unique :: "job_row list \<Rightarrow> bool" where
  "idem_unique js \<longleftrightarrow> distinct (map idem_pair (filter (\<lambda>j. j_idempotency_key j \<noteq> None) js))"

definition wf_tenants :: "world \<Rightarrow> bool" where
  "wf_tenants w \<longleftrightarrow>
     distinct (map o_id (w_organizations w)) \<and> distinct (map o_slug (w_organizations w)) \<and>
     distinct (map u_id (w_users w)) \<and> distinct (map (\<lambda>u. (u_org_id u, u_email u)) (w_users w)) \<and>
     u_org_id ` set (w_users w) \<subseteq> o_id ` set (w_organizations w) \<and>
     distinct (map p_id (w_projects w)) \<and> distinct (map (\<lambda>p. (p_org_id p, p_slug p)) (w_projects w)) \<and>
     p_org_id ` set (w_projects w) \<subseteq> o_id ` set (w_organizations w)"

definition wf_queues :: "world \<Rightarrow> bool" where
  "wf_queues w \<longleftrightarrow>
     distinct (map q_id (w_queues w)) \<and> distinct (map (\<lambda>q. (q_project_id q, q_slug q)) (w_queues w)) \<and>
     q_project_id ` set (w_queues w) \<subseteq> p_id ` set (w_projects w) \<and>
     (\<forall>q \<in> set (w_queues w). int4_ok (q_priority_default q) \<and> (\<forall>n. q_concurrency_limit q = Some n \<longrightarrow> int4_ok n))"

definition wf_workers :: "world \<Rightarrow> bool" where
  "wf_workers w \<longleftrightarrow>
     distinct (map wk_id (w_workers w)) \<and>
     distinct (map hb_id (w_heartbeats w)) \<and> distinct (map hb_worker_id (w_heartbeats w)) \<and>
     hb_worker_id ` set (w_heartbeats w) \<subseteq> wk_id ` set (w_workers w)"

definition wf_jobs :: "world \<Rightarrow> bool" where
  "wf_jobs w \<longleftrightarrow>
     distinct (map j_id (w_jobs w)) \<and>
     (\<forall>j \<in> set (w_jobs w). j_queue_id j \<in> q_id ` set (w_queues w)
        \<and> set_option (j_worker_id j) \<subseteq> wk_id ` set (w_workers w) \<and> job_ok j) \<and>
     (idem_index \<in> set (w_relations w) \<longrightarrow> idem_unique (w_jobs w))"

definition wf_history :: "world \<Rightarrow> bool" where
  "wf_history w \<longleftrightarrow>
     distinct (map je_id (w_executions w)) \<and> je_job_id ` set (w_executions w) \<subseteq> j_id ` set (w_jobs w) \<and>
     (\<forall>x \<in> set (w_executions w). set_option (je_worker_id x) \<subseteq> wk_id ` set (w_workers w)) \<and>
     distinct (map jl_id (w_logs w)) \<and> jl_job_id ` set (w_logs w) \<subseteq> j_id ` set (w_jobs w) \<and>
     distinct (map d_id (w_dlq w)) \<and> distinct (map d_job_id (w_dlq w)) \<and>
     d_job_id ` set (w_dlq w) \<subseteq> j_id ` set (w_jobs w) \<and>
     d_original_queue_id ` set (w_dlq w) \<subseteq> q_id ` set (w_queues w)"

definition db_wf :: "world \<Rightarrow> bool" where
  "db_wf w \<longleftrightarrow> wf_tenants w \<and> wf_queues w \<and> wf_workers w \<and> wf_jobs w \<and> wf_history w"

lemmas wf_defs = db_wf_def wf_tenants_def wf_queues_def wf_workers_def wf_jobs_def wf_history_def

section \<open>The guarantee of a statement\<close>

definition ids_grow :: "world \<Rightarrow> world \<Rightarrow> bool" where
  "ids_grow w w' \<longleftrightarrow>
     set (w_relations w) \<subseteq> set (w_relations w') \<and>
     o_id ` set (w_organizations w) \<subseteq> o_id ` set (w_organizations w') \<and>
     p_id ` set (w_projects w) \<subseteq> p_id ` set (w_projects w') \<and>
     q_id ` set (w_queues w) \<subseteq> q_id ` set (w_queues w') \<and>
     wk_id ` set (w_workers w) \<subseteq> wk_id ` set (w_workers w') \<and>
     j_id ` set (w_jobs w) \<subseteq> j_id ` set (w_jobs w') \<and>
     je_id ` set (w_executions w) \<subseteq> je_id ` set (w_executions w') \<and>
     w_now w \<le> w_now w'"

definition sound_step :: "world \<Rightarrow> world \<Rightarrow> bool" where
  "sound_step w w' \<longleftrightarrow> (db_wf w \<longrightarrow> db_wf w') \<and> ids_grow w w'"

named_theorems sound_stmts \<open>statements that give the guarantee\<close>

lemma ids_grow_refl [simp, intro]: "ids_grow w w"
  by (simp add: ids_grow_def)

lemma ids_grow_trans: "ids_grow u v \<Longrightarrow> ids_grow v w \<Longrightarrow> ids_grow u w"
  unfolding ids_grow_def by (intro conjI; (elim conjE)?; (rule subset_trans | rule order_trans); assumption)

lemma sound_refl [simp, intro, sound_stmts]: "sound_step w w"
  by (simp add: sound_step_def)

lemma sound_trans: "sound_step u v \<Longrightarrow> sound_step v w \<Longrightarrow> sound_step u w"
  by (auto simp: sound_step_def intro: ids_grow_trans)

text \<open>The counters, the clock and the scheduler's variables are not part of the invariant.\<close>

lemma db_wf_frame [simp]:
  "db_wf (w\<lparr>w_ops := n\<rparr>) = db_wf w" "db_wf (w\<lparr>w_now := t\<rparr>) = db_wf w"
  "db_wf (w\<lparr>w_in_flight := b\<rparr>) = db_wf w" "db_wf (w\<lparr>w_last_run_at := t\<rparr>) = db_wf w"
  "db_wf (w\<lparr>w_background := n\<rparr>) = db_wf w"
  by (simp_all add: wf_defs)

lemma sound_advance: "sound_step w (advance_clock E n w)"
  by (simp add: sound_step_def advance_clock_def ids_grow_def)

lemma sound_exec: "(\<And>w. sound_step w (snd (f w))) \<Longrightarrow> sound_step w (snd (exec_stmt E tabs f w))"
  unfolding exec_stmt_def Let_def
  by (auto split: option.splits fault.splits intro: sound_advance sound_trans [OF sound_advance])

lemma guar_stmt [guar_rules]:
  "(\<And>w. sound_step w (snd (f w))) \<Longrightarrow> guar sound_step (stmt E tabs f)"
  unfolding stmt_def by (intro guar_atom sound_exec)

lemma guar_date_now [guar_rules]: "guar sound_step (date_now E)"
  unfolding date_now_def by (rule guar_atom) (simp add: sound_advance)

lemma guar_sleep [guar_rules]: "guar sound_step (sleepP E ms)"
  unfolding sleepP_def by (rule guar_atom) (simp add: sound_advance)

lemma sound_with_param [sound_stmts]:
  "(\<And>x. c = Inr x \<Longrightarrow> sound_step w (snd (k x w))) \<Longrightarrow> sound_step w (snd (with_param c k w))"
  by (simp add: with_param_def split: sum.splits)

lemma sound_with_required [sound_stmts]:
  "(\<And>x. c = Inr (Some x) \<Longrightarrow> sound_step w (snd (k x w))) \<Longrightarrow> sound_step w (snd (with_required col c k w))"
  by (simp add: with_required_def with_param_def split: sum.splits option.splits)

lemma int4_Inr [simp]: "int4 n = Inr m \<longleftrightarrow> int4_ok n \<and> m = n"
  by (auto simp: int4_def)

section \<open>Inserts keep it\<close>

lemma sound_insert_org [sound_stmts]: "sound_step w (snd (insert_org r w))"
  by (auto simp: insert_org_def sound_step_def ids_grow_def wf_defs)

lemma sound_insert_user [sound_stmts]: "sound_step w (snd (insert_user r w))"
  by (auto simp: insert_user_def sound_step_def ids_grow_def wf_defs)

lemma sound_insert_project [sound_stmts]: "sound_step w (snd (insert_project r w))"
  by (auto simp: insert_project_def sound_step_def ids_grow_def wf_defs)

lemma sound_insert_queue [sound_stmts]:
  "int4_ok (q_priority_default r) \<Longrightarrow> (\<And>n. q_concurrency_limit r = Some n \<Longrightarrow> int4_ok n)
   \<Longrightarrow> sound_step w (snd (insert_queue r w))"
  by (auto simp: insert_queue_def sound_step_def ids_grow_def wf_defs)

lemma sound_insert_worker [sound_stmts]: "sound_step w (snd (insert_worker r w))"
  by (auto simp: insert_worker_def sound_step_def ids_grow_def wf_defs)

lemma sound_insert_heartbeat [sound_stmts]: "sound_step w (snd (insert_heartbeat r w))"
  by (auto simp: insert_heartbeat_def sound_step_def ids_grow_def wf_defs)

lemma idem_unique_snoc:
  "idem_unique (js @ [r]) \<longleftrightarrow> idem_unique js \<and> \<not> (\<exists>j \<in> set js. same_idem r j)"
  by (auto simp: idem_unique_def idem_pair_def same_idem_def)

lemma sound_insert_job [sound_stmts]:
  assumes "job_ok r" and "j_worker_id r = None"
  shows "sound_step w (snd (insert_job r w))"
  using assms by (auto simp: insert_job_def sound_step_def ids_grow_def wf_defs idem_unique_snoc)

lemma sound_insert_execution [sound_stmts]: "sound_step w (snd (insert_execution r w))"
  by (auto simp: insert_execution_def sound_step_def ids_grow_def wf_defs)

lemma sound_insert_log [sound_stmts]: "sound_step w (snd (insert_log r w))"
  by (auto simp: insert_log_def sound_step_def ids_grow_def wf_defs)

lemma sound_insert_dlq [sound_stmts]: "sound_step w (snd (insert_dlq r w))"
  by (auto simp: insert_dlq_def sound_step_def ids_grow_def wf_defs)

section \<open>Updates keep it\<close>

text \<open>
  A \<open>SET\<close> list on \<open>jobs\<close>: it leaves the id, the queue and the idempotency key alone, gives a
  row that is well-formed, and names no worker that does not exist.
\<close>

locale job_update = keyed_update j_id upd
  for upd :: "job_row \<Rightarrow> job_row" +
  fixes workers :: "uuid set"
  assumes queue_upd: "j_queue_id (upd j) = j_queue_id j"
    and idem_upd: "j_idempotency_key (upd j) = j_idempotency_key j"
    and ok_upd: "job_ok j \<Longrightarrow> job_ok (upd j)"
    and worker_upd: "set_option (j_worker_id (upd j)) \<subseteq> set_option (j_worker_id j) \<union> workers"
begin

lemma idem_unique_update: "idem_unique (update_where P upd js) = idem_unique js"
proof -
  have "map idem_pair (filter (\<lambda>j. j_idempotency_key j \<noteq> None) (update_where P upd js))
    = map idem_pair (filter (\<lambda>j. j_idempotency_key j \<noteq> None) js)"
    by (induction js) (auto simp: idem_pair_def queue_upd idem_upd)
  then show ?thesis by (simp add: idem_unique_def)
qed

lemma sound_update:
  assumes "workers \<subseteq> wk_id ` set (w_workers w)"
  shows "sound_step w (w\<lparr>w_jobs := update_where P upd (w_jobs w)\<rparr>)"
proof -
  have ids: "j_id ` set (update_where P upd (w_jobs w)) = j_id ` set (w_jobs w)"
    by (rule key_set_update)
  have "db_wf (w\<lparr>w_jobs := update_where P upd (w_jobs w)\<rparr>)" if wf: "db_wf w"
  proof -
    have "\<forall>j \<in> set (update_where P upd (w_jobs w)). j_queue_id j \<in> q_id ` set (w_queues w)
        \<and> set_option (j_worker_id j) \<subseteq> wk_id ` set (w_workers w) \<and> job_ok j"
    proof
      fix j assume "j \<in> set (update_where P upd (w_jobs w))"
      then obtain i where i: "i \<in> set (w_jobs w)" and j: "j = (if P i then upd i else i)"
        by (auto simp: set_update_where)
      from wf i have "j_queue_id i \<in> q_id ` set (w_queues w)"
        and "set_option (j_worker_id i) \<subseteq> wk_id ` set (w_workers w)" and "job_ok i"
        by (auto simp: db_wf_def wf_jobs_def)
      with j assms worker_upd [of i] show "j_queue_id j \<in> q_id ` set (w_queues w)
        \<and> set_option (j_worker_id j) \<subseteq> wk_id ` set (w_workers w) \<and> job_ok j"
        by (auto simp: queue_upd intro: ok_upd)
    qed
    with wf show ?thesis
      by (simp add: db_wf_def wf_jobs_def keys_update idem_unique_update wf_tenants_def
          wf_queues_def wf_workers_def wf_history_def ids)
  qed
  then show ?thesis by (simp add: sound_step_def ids_grow_def ids)
qed

end

end
