(* ===== verification/Worker.thy ===== *)
theory Worker
  imports Integrity "HOL-Library.Product_Lexorder"
begin

text \<open>
  \<open>server/db.ts\<close> and \<open>server/worker.ts\<close>: the worker that reclaims expired leases, registers
  itself, claims the runnable jobs of every queue that is not paused, and executes them one
  after the other. Each SQL statement is a function on the world (\<open>sql_...\<close>, with its \<open>SET\<close>
  list as a function on rows); the handlers compose them as programs.
\<close>

section \<open>The connection\<close>

definition getUrl :: "env \<Rightarrow> exn + string" where
  "getUrl E = (case environ E ''DATABASE_URL'' of Some u \<Rightarrow> Inr u
     | None \<Rightarrow> (case environ E ''POSTGRES_URL'' of Some u \<Rightarrow> Inr u | None \<Rightarrow> Inl No_database_url))"

definition getSql :: "env \<Rightarrow> unit io" where
  "getSql E = pureP (case getUrl E of Inl e \<Rightarrow> Inl e | Inr u \<Rightarrow> Inr ())"

definition getPool :: "env \<Rightarrow> unit io" where
  "getPool E = pureP (case getUrl E of Inl e \<Rightarrow> Inl e | Inr u \<Rightarrow> Inr ())"

text \<open>\<open>e instanceof Error ? e.message : ...\<close>: everything thrown here is an \<open>Error\<close>.\<close>

definition exn_message :: "env \<Rightarrow> exn \<Rightarrow> string" where
  "exn_message E e = (if e = No_database_url
     then ''DATABASE_URL is not configured. Add Vercel Postgres (Neon) to the project.''
     else e_message E e)"

section \<open>Registration\<close>

definition WORKER_NAME :: string where
  "WORKER_NAME = ''vercel-worker-1''"

definition LEASE_SECONDS :: int where
  "LEASE_SECONDS = 30"

definition seconds :: "int \<Rightarrow> int" where
  "seconds n = n * 1000000"

definition sql_find_worker :: "env \<Rightarrow> world \<Rightarrow> (exn + uuid option) \<times> world" where
  "sql_find_worker E w =
     ok (case filter (\<lambda>r. wk_name r = WORKER_NAME) (scan E w 0 (w_workers w)) of
           [] \<Rightarrow> None | r # _ \<Rightarrow> Some (wk_id r)) w"

definition new_heartbeat :: "env \<Rightarrow> uuid \<Rightarrow> world \<Rightarrow> heartbeat_row" where
  "new_heartbeat E wid w = \<lparr>hb_id = gen_uuid E w, hb_worker_id = wid, hb_last_seen_at = w_now w,
     hb_metadata = None, hb_created_at = w_now w, hb_updated_at = w_now w\<rparr>"

definition heartbeat_set :: "timestamp \<Rightarrow> heartbeat_row \<Rightarrow> heartbeat_row" where
  "heartbeat_set now h = h\<lparr>hb_last_seen_at := now, hb_updated_at := now\<rparr>"

text \<open>\<open>INSERT INTO worker_heartbeats ... ON CONFLICT (worker_id) DO UPDATE\<close>\<close>

definition sql_upsert_heartbeat :: "env \<Rightarrow> uuid \<Rightarrow> world \<Rightarrow> (exn + unit) \<times> world" where
  "sql_upsert_heartbeat E wid w =
     (if wid \<in> hb_worker_id ` set (w_heartbeats w)
      then ok () (w\<lparr>w_heartbeats := update_where (\<lambda>h. hb_worker_id h = wid)
             (heartbeat_set (w_now w)) (w_heartbeats w)\<rparr>)
      else apfst (map_sum id (\<lambda>_. ())) (insert_heartbeat (new_heartbeat E wid w) w))"

definition touch_set :: "timestamp \<Rightarrow> worker_row \<Rightarrow> worker_row" where
  "touch_set now r = r\<lparr>wk_status := Active, wk_updated_at := now\<rparr>"

definition sql_touch_worker :: "uuid \<Rightarrow> world \<Rightarrow> (exn + unit) \<times> world" where
  "sql_touch_worker wid w =
     ok () (w\<lparr>w_workers := update_where (\<lambda>r. wk_id r = wid)
            (touch_set (w_now w)) (w_workers w)\<rparr>)"

definition sql_insert_worker :: "env \<Rightarrow> world \<Rightarrow> (exn + uuid) \<times> world" where
  "sql_insert_worker E w = apfst (map_sum id wk_id)
     (insert_worker \<lparr>wk_id = gen_uuid E w, wk_name = WORKER_NAME, wk_status = Active, wk_meta = None,
        wk_created_at = w_now w, wk_updated_at = w_now w\<rparr> w)"

definition sql_insert_heartbeat :: "env \<Rightarrow> uuid \<Rightarrow> world \<Rightarrow> (exn + unit) \<times> world" where
  "sql_insert_heartbeat E wid w =
     apfst (map_sum id (\<lambda>_. ())) (insert_heartbeat (new_heartbeat E wid w) w)"

definition ensureWorker :: "env \<Rightarrow> uuid io" where
  "ensureWorker E =
     bindP (stmt E [''workers''] (sql_find_worker E)) (\<lambda>existing.
     case existing of
       Some wid \<Rightarrow>
         bindP (stmt E [''worker_heartbeats''] (sql_upsert_heartbeat E wid)) (\<lambda>_.
         bindP (stmt E [''workers''] (sql_touch_worker wid)) (\<lambda>_.
         Ret wid))
     | None \<Rightarrow>
         bindP (stmt E [''workers''] (sql_insert_worker E)) (\<lambda>wid.
         bindP (stmt E [''worker_heartbeats''] (sql_insert_heartbeat E wid)) (\<lambda>_.
         Ret wid)))"

section \<open>The reaper\<close>

definition lease_expired :: "timestamp \<Rightarrow> job_row \<Rightarrow> bool" where
  "lease_expired now j \<longleftrightarrow> (case j_lease_expires_at j of None \<Rightarrow> False | Some l \<Rightarrow> l < now)"

definition in_flight :: "job_row \<Rightarrow> bool" where
  "in_flight j \<longleftrightarrow> j_status j \<in> {Claimed, Running}"

definition reap_set :: "timestamp \<Rightarrow> job_row \<Rightarrow> job_row" where
  "reap_set now j = j\<lparr>j_status := Queued, j_worker_id := None, j_claimed_at := None,
     j_lease_expires_at := None, j_updated_at := now\<rparr>"

definition sql_reap :: "world \<Rightarrow> (exn + unit) \<times> world" where
  "sql_reap w = ok () (w\<lparr>w_jobs := update_where (\<lambda>j. in_flight j \<and> lease_expired (w_now w) j)
     (reap_set (w_now w)) (w_jobs w)\<rparr>)"

definition reaper :: "env \<Rightarrow> unit io" where
  "reaper E = stmt E [''jobs''] sql_reap"

section \<open>Claiming\<close>

definition runnable :: "uuid \<Rightarrow> timestamp \<Rightarrow> job_row \<Rightarrow> bool" where
  "runnable qid now j \<longleftrightarrow> j_queue_id j = qid \<and> j_status j = Queued
     \<and> (case j_next_run_at j of None \<Rightarrow> True | Some t \<Rightarrow> t \<le> now)"

text \<open>\<open>ORDER BY priority DESC, next_run_at ASC NULLS FIRST\<close>\<close>

definition claim_key :: "job_row \<Rightarrow> int \<times> bool \<times> int" where
  "claim_key j = (- j_priority j, case j_next_run_at j of None \<Rightarrow> (False, 0) | Some t \<Rightarrow> (True, t))"

definition claim_candidates :: "env \<Rightarrow> uuid \<Rightarrow> world \<Rightarrow> job_row list" where
  "claim_candidates E qid w =
     filter (\<lambda>j. \<not> e_locked E (w_ops w) (j_id j))
       (sort_key claim_key (filter (runnable qid (w_now w)) (scan E w 0 (w_jobs w))))"

definition claim_set :: "uuid \<Rightarrow> timestamp \<Rightarrow> job_row \<Rightarrow> job_row" where
  "claim_set wid now j = j\<lparr>j_status := Claimed, j_worker_id := Some wid, j_claimed_at := Some now,
     j_lease_expires_at := Some (now + seconds LEASE_SECONDS), j_updated_at := now\<rparr>"

definition claim_ids :: "env \<Rightarrow> uuid \<Rightarrow> int \<Rightarrow> world \<Rightarrow> uuid list" where
  "claim_ids E qid budget w = map j_id (take (nat budget) (claim_candidates E qid w))"

definition sql_claim :: "env \<Rightarrow> uuid \<Rightarrow> uuid \<Rightarrow> int \<Rightarrow> world \<Rightarrow> (exn + job_row list) \<times> world" where
  "sql_claim E wid qid budget w =
     (let ids = claim_ids E qid budget w;
          jobs = update_where (\<lambda>j. j_id j \<in> set ids) (claim_set wid (w_now w)) (w_jobs w)
      in if ids \<noteq> [] \<and> wid \<notin> wk_id ` set (w_workers w)
         then pg_fail (Foreign_key_violation ''jobs_worker_id_fkey'') w
         else ok (scan E w 1 (filter (\<lambda>j. j_id j \<in> set ids) jobs)) (w\<lparr>w_jobs := jobs\<rparr>))"

text \<open>
  \<open>GREATEST(COALESCE(concurrency_limit, 5) - (SELECT COUNT(*) ...), 0)\<close>, and
  \<open>Number(budgetRows[0]?.budget ?? 0)\<close> when the queue is gone.
\<close>

definition in_flight_count :: "uuid \<Rightarrow> job_row list \<Rightarrow> int" where
  "in_flight_count qid js = int (length (filter (\<lambda>j. j_queue_id j = qid \<and> in_flight j) js))"

definition queue_limit :: "queue_row \<Rightarrow> int" where
  "queue_limit q = (case q_concurrency_limit q of None \<Rightarrow> 5 | Some n \<Rightarrow> n)"

definition sql_budget :: "uuid \<Rightarrow> world \<Rightarrow> (exn + int) \<times> world" where
  "sql_budget qid w =
     (case find_row q_id qid (w_queues w) of
        None \<Rightarrow> ok 0 w
      | Some q \<Rightarrow> with_param (int4 (queue_limit q - in_flight_count qid (w_jobs w)))
                   (\<lambda>d. ok (max d 0)) w)"

definition sql_active_queues :: "env \<Rightarrow> world \<Rightarrow> (exn + uuid list) \<times> world" where
  "sql_active_queues E w = ok (map q_id (filter (\<lambda>q. \<not> q_paused q) (scan E w 0 (w_queues w)))) w"

section \<open>Executing a job\<close>

text \<open>\<open>typeof payload === "string" ? JSON.parse(payload) : payload\<close>\<close>

definition payload_value :: "jsval \<Rightarrow> exn + jsval" where
  "payload_value v = (case v of JStr s \<Rightarrow> json_parse s | _ \<Rightarrow> Inr v)"

text \<open>The delay of a \<open>sleep\<close> job, as \<open>setTimeout\<close> takes it: a delay below 1 counts as 1.\<close>

definition timer_ms :: "jsnum \<Rightarrow> nat" where
  "timer_ms n = (case n of Fin q \<Rightarrow> if 1 \<le> q then nat \<lfloor>q\<rfloor> else 1 | _ \<Rightarrow> 1)"

definition sleep_delay :: "jsval \<Rightarrow> exn + nat" where
  "sleep_delay payload =
     (case get_prop payload ''duration_ms'' of Inl e \<Rightarrow> Inl e
      | Inr d \<Rightarrow> (case js_Number d of Inl e \<Rightarrow> Inl e
          | Inr n \<Rightarrow> Inr (timer_ms (num_min (num_or n 100) 5000))))"

definition fail_message :: "jsval \<Rightarrow> exn + string" where
  "fail_message payload =
     (case get_prop payload ''message'' of Inl e \<Rightarrow> Inl e
      | Inr m \<Rightarrow> js_String (js_or m (JStr ''simulated failure'')))"

text \<open>The \<open>try\<close> block: \<open>(success, errMsg)\<close>.\<close>

definition run_payload :: "env \<Rightarrow> jsval \<Rightarrow> (bool \<times> string) io" where
  "run_payload E payload = catchP
     (bindP (pureP (get_prop payload ''type'')) (\<lambda>ty.
      if ty = JStr ''sleep'' then
        bindP (pureP (sleep_delay payload)) (\<lambda>ms.
        bindP (sleepP E ms) (\<lambda>_. Ret (True, [])))
      else if ty = JStr ''always_fail'' then
        bindP (pureP (fail_message payload)) (\<lambda>msg. Ret (False, msg))
      else Ret (True, [])))
     (\<lambda>e. Ret (False, exn_message E e))"

definition start_set :: "int \<Rightarrow> timestamp \<Rightarrow> job_row \<Rightarrow> job_row" where
  "start_set attempt now j = j\<lparr>j_status := Running, j_attempts := attempt, j_updated_at := now\<rparr>"

definition sql_start :: "uuid \<Rightarrow> int \<Rightarrow> world \<Rightarrow> (exn + unit) \<times> world" where
  "sql_start jid attempt = with_param (int4 attempt) (\<lambda>a w.
     ok () (w\<lparr>w_jobs := update_where (\<lambda>j. j_id j = jid) (start_set a (w_now w)) (w_jobs w)\<rparr>))"

definition sql_insert_execution :: "env \<Rightarrow> uuid \<Rightarrow> uuid \<Rightarrow> int \<Rightarrow> world \<Rightarrow> (exn + uuid) \<times> world" where
  "sql_insert_execution E jid wid attempt = with_param (int4 attempt) (\<lambda>a w.
     apfst (map_sum id je_id) (insert_execution
       \<lparr>je_id = gen_uuid E w, je_job_id = jid, je_worker_id = Some wid, je_attempt = a,
        je_status = ''running'', je_started_at = w_now w, je_finished_at = None, je_error = None,
        je_duration_ms = None, je_created_at = w_now w, je_updated_at = w_now w\<rparr> w))"

definition sql_insert_log :: "env \<Rightarrow> uuid \<Rightarrow> string \<Rightarrow> pgerr + string option \<Rightarrow> world \<Rightarrow> (exn + unit) \<times> world" where
  "sql_insert_log E jid level msg = with_required ''message'' msg (\<lambda>m w.
     apfst (map_sum id (\<lambda>_. ())) (insert_log
       \<lparr>jl_id = gen_uuid E w, jl_job_id = jid, jl_level = level, jl_message = m,
        jl_metadata = None, jl_created_at = w_now w\<rparr> w))"

definition complete_set :: "timestamp \<Rightarrow> job_row \<Rightarrow> job_row" where
  "complete_set now j = j\<lparr>j_status := Completed, j_completed_at := Some now, j_worker_id := None,
     j_lease_expires_at := None, j_error_message := None, j_updated_at := now\<rparr>"

definition sql_complete :: "uuid \<Rightarrow> world \<Rightarrow> (exn + unit) \<times> world" where
  "sql_complete jid w = ok () (w\<lparr>w_jobs :=
     update_where (\<lambda>j. j_id j = jid) (complete_set (w_now w)) (w_jobs w)\<rparr>)"

definition sql_complete_execution :: "uuid \<Rightarrow> int \<Rightarrow> world \<Rightarrow> (exn + unit) \<times> world" where
  "sql_complete_execution xid duration = with_param (int4 duration) (\<lambda>d w.
     ok () (w\<lparr>w_executions := update_where (\<lambda>x. je_id x = xid)
       (\<lambda>x. x\<lparr>je_status := ''completed'', je_finished_at := Some (w_now w), je_duration_ms := Some d\<rparr>)
       (w_executions w)\<rparr>))"

definition sql_fail_execution :: "env \<Rightarrow> uuid \<Rightarrow> int \<Rightarrow> string \<Rightarrow> world \<Rightarrow> (exn + unit) \<times> world" where
  "sql_fail_execution E xid duration msg = with_param (int4 duration) (\<lambda>d.
     with_param (e_text E (JStr msg)) (\<lambda>er w. ok () (w\<lparr>w_executions := update_where (\<lambda>x. je_id x = xid)
       (\<lambda>x. x\<lparr>je_status := ''failed'', je_finished_at := Some (w_now w), je_duration_ms := Some d,
               je_error := er\<rparr>) (w_executions w)\<rparr>)))"

definition dead_set :: "string option \<Rightarrow> timestamp \<Rightarrow> job_row \<Rightarrow> job_row" where
  "dead_set msg now j = j\<lparr>j_status := Dead_letter, j_failed_at := Some now, j_error_message := msg,
     j_worker_id := None, j_lease_expires_at := None, j_updated_at := now\<rparr>"

definition sql_dead_letter :: "env \<Rightarrow> uuid \<Rightarrow> string \<Rightarrow> world \<Rightarrow> (exn + unit) \<times> world" where
  "sql_dead_letter E jid msg = with_param (e_text E (JStr msg)) (\<lambda>m w. ok () (w\<lparr>w_jobs :=
     update_where (\<lambda>j. j_id j = jid) (dead_set m (w_now w)) (w_jobs w)\<rparr>))"

definition sql_insert_dlq ::
  "env \<Rightarrow> uuid \<Rightarrow> uuid \<Rightarrow> jsval \<Rightarrow> string \<Rightarrow> int \<Rightarrow> world \<Rightarrow> (exn + unit) \<times> world" where
  "sql_insert_dlq E jid qid payload msg attempt =
     (case json_stringify payload of
        None \<Rightarrow> pg_fail (Not_null_violation ''payload'')
      | Some text \<Rightarrow> with_param (e_jsonb E text) (\<lambda>pl. with_param (e_text E (JStr msg)) (\<lambda>m.
          with_param (int4 attempt) (\<lambda>a w. insert_dlq
            \<lparr>d_id = gen_uuid E w, d_job_id = jid, d_original_queue_id = qid, d_payload = pl,
             d_failed_at = w_now w, d_reason = m, d_attempts_made = a, d_created_at = w_now w\<rparr> w))))"

definition RETRY_SECONDS :: int where
  "RETRY_SECONDS = 5"

definition requeue_set :: "string option \<Rightarrow> timestamp \<Rightarrow> job_row \<Rightarrow> job_row" where
  "requeue_set msg now j = j\<lparr>j_status := Queued, j_failed_at := Some now, j_error_message := msg,
     j_worker_id := None, j_claimed_at := None, j_lease_expires_at := None,
     j_next_run_at := Some (now + seconds RETRY_SECONDS), j_updated_at := now\<rparr>"

definition sql_requeue :: "env \<Rightarrow> uuid \<Rightarrow> string \<Rightarrow> world \<Rightarrow> (exn + unit) \<times> world" where
  "sql_requeue E jid msg = with_param (e_text E (JStr msg)) (\<lambda>m w. ok () (w\<lparr>w_jobs :=
     update_where (\<lambda>j. j_id j = jid) (requeue_set m (w_now w)) (w_jobs w)\<rparr>))"

text \<open>The two branches that record the outcome.\<close>

definition record_success :: "env \<Rightarrow> uuid \<Rightarrow> uuid \<Rightarrow> int \<Rightarrow> unit io" where
  "record_success E jobId execId duration =
     bindP (stmt E [''jobs''] (sql_complete jobId)) (\<lambda>_.
     bindP (stmt E [''job_executions''] (sql_complete_execution execId duration)) (\<lambda>_.
     stmt E [''job_logs''] (sql_insert_log E jobId ''info'' (Inr (Some ''Job completed'')))))"

definition record_failure :: "env \<Rightarrow> job_row \<Rightarrow> jsval \<Rightarrow> uuid \<Rightarrow> int \<Rightarrow> int \<Rightarrow> string \<Rightarrow> unit io" where
  "record_failure E job payload execId attempt duration errMsg =
     bindP (if j_max_attempts job \<le> attempt then
              bindP (stmt E [''jobs''] (sql_dead_letter E (j_id job) errMsg)) (\<lambda>_.
              stmt E [''dead_letter_queue'']
                (sql_insert_dlq E (j_id job) (j_queue_id job) payload errMsg attempt))
            else stmt E [''jobs''] (sql_requeue E (j_id job) errMsg)) (\<lambda>_.
     bindP (stmt E [''job_executions''] (sql_fail_execution E execId duration errMsg)) (\<lambda>_.
     stmt E [''job_logs''] (sql_insert_log E (j_id job) ''error'' (e_text E (JStr errMsg)))))"

definition executeJob :: "env \<Rightarrow> job_row \<Rightarrow> uuid \<Rightarrow> unit io" where
  "executeJob E job workerId =
     (let jobId = j_id job; attempt = j_attempts job + 1 in
     bindP (pureP (payload_value (j_payload job))) (\<lambda>payload.
     bindP (stmt E [''jobs''] (sql_start jobId attempt)) (\<lambda>_.
     bindP (stmt E [''job_executions''] (sql_insert_execution E jobId workerId attempt)) (\<lambda>execId.
     bindP (stmt E [''job_logs''] (sql_insert_log E jobId ''info'' (Inr (Some ''Job started'')))) (\<lambda>_.
     bindP (date_now E) (\<lambda>start.
     bindP (run_payload E payload) (\<lambda>(success, errMsg).
     bindP (date_now E) (\<lambda>finish.
     if success then record_success E jobId execId (finish - start)
     else record_failure E job payload execId attempt (finish - start) errMsg))))))))"

section \<open>The tick\<close>

record tick_result =
  t_processed :: nat
  t_worker :: string

definition tick_queue :: "env \<Rightarrow> uuid \<Rightarrow> uuid \<Rightarrow> nat \<Rightarrow> nat io" where
  "tick_queue E workerId queueId processed =
     bindP (stmt E [''queues'', ''jobs''] (sql_budget queueId)) (\<lambda>budget.
     if budget \<le> 0 then Ret processed
     else bindP (stmt E [''jobs''] (sql_claim E workerId queueId budget)) (\<lambda>claimed.
          forP (\<lambda>job n. bindP (executeJob E job workerId) (\<lambda>_. Ret (Suc n))) claimed processed))"

definition runWorkerTick :: "env \<Rightarrow> tick_result io" where
  "runWorkerTick E =
     bindP (getSql E) (\<lambda>_.
     bindP (reaper E) (\<lambda>_.
     bindP (ensureWorker E) (\<lambda>workerId.
     bindP (stmt E [''queues''] (sql_active_queues E)) (\<lambda>queues.
     bindP (forP (tick_queue E workerId) queues 0) (\<lambda>processed.
     Ret \<lparr>t_processed = processed, t_worker = WORKER_NAME\<rparr>)))))"

end
