(* ===== verification/Worker_Facts.thy ===== *)
theory Worker_Facts
  imports Worker
begin

text \<open>
  What the statements and programs of the worker do: every statement gives the guarantee
  \<open>sound_step\<close> (through the interpretations of \<open>job_update\<close>), what the reaper and the claim
  change and leave alone, and the outcome of an execution on every branch.
\<close>

section \<open>The updates of jobs as interpretations\<close>

interpretation reap: job_update "reap_set now" "{}" for now
  by unfold_locales (auto simp: reap_set_def job_ok_def)

interpretation claim: job_update "claim_set wid now" "{wid}" for wid now
  by unfold_locales (auto simp: claim_set_def job_ok_def)

interpretation complete: job_update "complete_set now" "{}" for now
  by unfold_locales (auto simp: complete_set_def job_ok_def)

interpretation dead: job_update "dead_set msg now" "{}" for msg now
  by unfold_locales (auto simp: dead_set_def job_ok_def)

interpretation requeue: job_update "requeue_set msg now" "{}" for msg now
  by unfold_locales (auto simp: requeue_set_def job_ok_def)

interpretation start_key: keyed_update j_id "start_set a now" for a now
  by unfold_locales (simp add: start_set_def)

interpretation beat: keyed_update hb_id "heartbeat_set now" for now
  by unfold_locales (simp add: heartbeat_set_def)

interpretation beat_worker: keyed_update hb_worker_id "heartbeat_set now" for now
  by unfold_locales (simp add: heartbeat_set_def)

interpretation touch: keyed_update wk_id "touch_set now" for now
  by unfold_locales (simp add: touch_set_def)

text \<open>The start of an attempt is such an update for an attempt number that fits the column.\<close>

lemma job_update_start: "int4_ok a \<Longrightarrow> job_update (start_set a now) {}"
  by unfold_locales (auto simp: start_set_def job_ok_def)

section \<open>Every statement of the worker gives the guarantee\<close>

lemma sound_apfst [sound_stmts]: "sound_step w (snd p) \<Longrightarrow> sound_step w (snd (apfst g p))"
  by simp

lemma sound_find_worker [sound_stmts]: "sound_step w (snd (sql_find_worker E w))"
  by (simp add: sql_find_worker_def)

lemma sound_upsert_heartbeat [sound_stmts]: "sound_step w (snd (sql_upsert_heartbeat E wid w))"
proof (cases "wid \<in> hb_worker_id ` set (w_heartbeats w)")
  case True
  then show ?thesis
    by (simp add: sql_upsert_heartbeat_def sound_step_def ids_grow_def wf_defs
        beat.keys_update beat_worker.keys_update beat_worker.key_set_update)
next
  case False
  then show ?thesis by (simp add: sql_upsert_heartbeat_def sound_insert_heartbeat)
qed

lemma sound_touch_worker [sound_stmts]: "sound_step w (snd (sql_touch_worker wid w))"
  by (simp add: sql_touch_worker_def sound_step_def ids_grow_def wf_defs
      touch.keys_update touch.key_set_update)

lemma sound_insert_worker_stmt [sound_stmts]: "sound_step w (snd (sql_insert_worker E w))"
  by (simp add: sql_insert_worker_def sound_insert_worker)

lemma sound_insert_heartbeat_stmt [sound_stmts]: "sound_step w (snd (sql_insert_heartbeat E wid w))"
  by (simp add: sql_insert_heartbeat_def sound_insert_heartbeat)

lemma sound_reap [sound_stmts]: "sound_step w (snd (sql_reap w))"
  by (simp add: sql_reap_def reap.sound_update)

lemma sound_claim [sound_stmts]: "sound_step w (snd (sql_claim E wid qid b w))"
proof (cases "claim_ids E qid b w = [] \<or> wid \<in> wk_id ` set (w_workers w)")
  case True
  then show ?thesis
  proof
    assume "claim_ids E qid b w = []"
    then show ?thesis by (simp add: sql_claim_def)
  next
    assume "wid \<in> wk_id ` set (w_workers w)"
    then show ?thesis by (simp add: sql_claim_def Let_def claim.sound_update)
  qed
next
  case False
  then show ?thesis by (simp add: sql_claim_def)
qed

lemma sound_budget [sound_stmts]: "sound_step w (snd (sql_budget qid w))"
  by (auto simp: sql_budget_def intro: sound_stmts split: option.splits)

lemma sound_active_queues [sound_stmts]: "sound_step w (snd (sql_active_queues E w))"
  by (simp add: sql_active_queues_def)

lemma sound_start [sound_stmts]: "sound_step w (snd (sql_start jid a w))"
  unfolding sql_start_def
  by (rule sound_with_param) (simp add: job_update.sound_update [OF job_update_start])

lemma sound_insert_execution_stmt [sound_stmts]: "sound_step w (snd (sql_insert_execution E jid wid a w))"
  by (auto simp: sql_insert_execution_def intro: sound_stmts)

lemma sound_insert_log_stmt [sound_stmts]: "sound_step w (snd (sql_insert_log E jid l m w))"
  unfolding sql_insert_log_def by (intro sound_stmts)

lemma sound_complete [sound_stmts]: "sound_step w (snd (sql_complete jid w))"
  by (simp add: sql_complete_def complete.sound_update)

lemma sound_update_executions:
  assumes "\<And>x. je_id (f x) = je_id x" "\<And>x. je_job_id (f x) = je_job_id x"
    "\<And>x. je_worker_id (f x) = je_worker_id x"
  shows "sound_step w (w\<lparr>w_executions := update_where P f (w_executions w)\<rparr>)"
proof -
  have "map je_id (update_where P f xs) = map je_id xs" for xs
    by (simp add: map_update_where assms)
  moreover from this have "je_id ` set (update_where P f xs) = je_id ` set xs" for xs
    by (metis list.set_map)
  moreover have "je_job_id ` set (update_where P f xs) = je_job_id ` set xs" for xs
    by (metis map_update_where [of xs P je_job_id f] assms(2) list.set_map)
  ultimately show ?thesis
    by (auto simp: sound_step_def ids_grow_def wf_defs set_update_where assms)
qed

lemma sound_complete_execution [sound_stmts]: "sound_step w (snd (sql_complete_execution x d w))"
  unfolding sql_complete_execution_def by (intro sound_stmts) (simp add: sound_update_executions)

lemma sound_fail_execution [sound_stmts]: "sound_step w (snd (sql_fail_execution E x d m w))"
  unfolding sql_fail_execution_def by (intro sound_stmts) (simp add: sound_update_executions)

lemma sound_dead_letter [sound_stmts]: "sound_step w (snd (sql_dead_letter E jid m w))"
  unfolding sql_dead_letter_def by (intro sound_stmts) (simp add: dead.sound_update)

lemma sound_insert_dlq_stmt [sound_stmts]: "sound_step w (snd (sql_insert_dlq E jid qid p m a w))"
  unfolding sql_insert_dlq_def by (cases "json_stringify p") (auto intro: sound_stmts)

lemma sound_requeue [sound_stmts]: "sound_step w (snd (sql_requeue E jid m w))"
  unfolding sql_requeue_def by (intro sound_stmts) (simp add: requeue.sound_update)

section \<open>So does every program of the worker\<close>

lemma guar_getSql [guar_rules]: "guar R (getSql E)"
  by (simp add: getSql_def guar_pure)

lemma guar_getPool [guar_rules]: "guar R (getPool E)"
  by (simp add: getPool_def guar_pure)

lemma guar_reaper [guar_rules]: "guar sound_step (reaper E)"
  unfolding reaper_def by (intro guar_rules sound_stmts)

lemma guar_ensureWorker [guar_rules]: "guar sound_step (ensureWorker E)"
  unfolding ensureWorker_def
  by (rule guar_bind) (auto intro!: guar_rules intro: sound_stmts split: option.splits)

lemma guar_run_payload [guar_rules]: "guar sound_step (run_payload E payload)"
  unfolding run_payload_def by (auto intro!: guar_rules)

lemma guar_record_success [guar_rules]: "guar sound_step (record_success E jid xid d)"
  unfolding record_success_def by (intro guar_rules sound_stmts)

lemma guar_record_failure [guar_rules]: "guar sound_step (record_failure E job p xid a d m)"
  unfolding record_failure_def by (auto intro!: guar_rules sound_stmts)

lemma guar_executeJob [guar_rules]: "guar sound_step (executeJob E job wid)"
  unfolding executeJob_def Let_def
  by (intro guar_rules sound_stmts) (auto intro!: guar_rules)

lemma guar_tick_queue [guar_rules]: "guar sound_step (tick_queue E wid qid n)"
  unfolding tick_queue_def
  by (intro guar_rules sound_stmts) (auto intro!: guar_rules intro: sound_stmts)

lemma guar_runWorkerTick [guar_rules]: "guar sound_step (runWorkerTick E)"
  unfolding runWorkerTick_def by (intro guar_rules sound_stmts)

end
