(* ===== verification/Worker_Exec.thy ===== *)
theory Worker_Exec
  imports Worker_Facts
begin

text \<open>
  Sequential runs of the worker's programs when the database answers (\<open>ready\<close>): what one
  execution of a job leaves behind on every branch.
\<close>

section \<open>A database that answers\<close>

definition schema_tables :: "string list" where
  "schema_tables = [''organizations'', ''users'', ''projects'', ''queues'', ''workers'',
     ''worker_heartbeats'', ''jobs'', ''job_executions'', ''job_logs'', ''dead_letter_queue'']"

definition all_ids :: "world \<Rightarrow> uuid set" where
  "all_ids w = o_id ` set (w_organizations w) \<union> u_id ` set (w_users w) \<union> p_id ` set (w_projects w)
     \<union> q_id ` set (w_queues w) \<union> wk_id ` set (w_workers w) \<union> hb_id ` set (w_heartbeats w)
     \<union> j_id ` set (w_jobs w) \<union> je_id ` set (w_executions w) \<union> jl_id ` set (w_logs w)
     \<union> d_id ` set (w_dlq w)"

text \<open>
  No connection fails, the tables exist, \<open>gen_random_uuid()\<close> draws ids that are new, a text
  parameter without a NUL byte arrives as it is, and \<open>Date.now()\<close> differences fit an integer
  column.
\<close>

definition ready :: "env \<Rightarrow> world \<Rightarrow> bool" where
  "ready E w \<longleftrightarrow> (\<forall>k. e_fault E k = None) \<and> set schema_tables \<subseteq> set (w_relations w) \<and>
     inj (e_uuid E) \<and> (\<forall>k > w_ops w. e_uuid E k \<notin> all_ids w) \<and>
     (\<forall>s. CHR 0x00 \<notin> set s \<longrightarrow> e_text E (JStr s) = Inr (Some s)) \<and>
     (\<forall>i k. int4_ok (e_date E i - e_date E k))"

text \<open>A statement of the execution changes jobs, executions, logs or dead letters only.\<close>

definition progress :: "env \<Rightarrow> world \<Rightarrow> world \<Rightarrow> bool" where
  "progress E w w' \<longleftrightarrow> ready E w' \<and> w_ops w \<le> w_ops w' \<and> w_now w \<le> w_now w' \<and>
     w_relations w' = w_relations w \<and> w_organizations w' = w_organizations w \<and>
     w_users w' = w_users w \<and> w_projects w' = w_projects w \<and> w_queues w' = w_queues w \<and>
     w_workers w' = w_workers w \<and> w_heartbeats w' = w_heartbeats w \<and>
     w_in_flight w' = w_in_flight w \<and> w_last_run_at w' = w_last_run_at w \<and> w_background w' = w_background w \<and>
     j_id ` set (w_jobs w') = j_id ` set (w_jobs w)"

lemma progress_refl: "ready E w \<Longrightarrow> progress E w w"
  by (simp add: progress_def)

lemma progress_trans: "progress E u v \<Longrightarrow> progress E v w \<Longrightarrow> progress E u w"
  by (auto simp: progress_def)

lemma progressD:
  assumes "progress E w w'"
  shows "ready E w'" "w_now w \<le> w_now w'" "w_queues w' = w_queues w" "w_workers w' = w_workers w"
    "j_id ` set (w_jobs w') = j_id ` set (w_jobs w)"
  using assms by (auto simp: progress_def)

lemma run_stmt:
  assumes "ready E w" and "set tabs \<subseteq> set schema_tables"
  shows "runP (stmt E tabs f) w = f (advance_clock E 0 w)"
proof -
  have "List.find (\<lambda>t. t \<notin> set (w_relations w)) tabs = None"
    using assms by (auto simp: find_None_iff ready_def)
  with assms(1) show ?thesis by (simp add: stmt_def exec_stmt_def ready_def)
qed

lemma advance_simps [simp]:
  "w_relations (advance_clock E n w) = w_relations w" "w_organizations (advance_clock E n w) = w_organizations w"
  "w_users (advance_clock E n w) = w_users w" "w_projects (advance_clock E n w) = w_projects w"
  "w_queues (advance_clock E n w) = w_queues w" "w_workers (advance_clock E n w) = w_workers w"
  "w_heartbeats (advance_clock E n w) = w_heartbeats w" "w_jobs (advance_clock E n w) = w_jobs w"
  "w_executions (advance_clock E n w) = w_executions w" "w_logs (advance_clock E n w) = w_logs w"
  "w_dlq (advance_clock E n w) = w_dlq w" "w_ops (advance_clock E n w) = Suc (w_ops w)"
  "w_in_flight (advance_clock E n w) = w_in_flight w" "w_last_run_at (advance_clock E n w) = w_last_run_at w"
  "w_background (advance_clock E n w) = w_background w"
  by (simp_all add: advance_clock_def)

lemma advance_now: "w_now w \<le> w_now (advance_clock E n w)"
  by (simp add: advance_clock_def)

lemma advance_jobs: "w_now w \<le> w_now ((advance_clock E n w)\<lparr>w_jobs := js\<rparr>)"
  by (simp add: advance_clock_def)

lemma ready_new: "ready E w \<Longrightarrow> e_uuid E (Suc (w_ops w)) \<notin> all_ids w"
  by (auto simp: ready_def)

lemma readyI:
  assumes "ready E w" and "w_relations w' = w_relations w" and "w_ops w' = Suc (w_ops w)"
    and "all_ids w' \<subseteq> all_ids w \<union> {e_uuid E (Suc (w_ops w))}"
  shows "ready E w'"
proof -
  have "e_uuid E k \<notin> all_ids w'" if "k > w_ops w'" for k
  proof
    assume "e_uuid E k \<in> all_ids w'"
    with assms(4) have "e_uuid E k \<in> all_ids w \<or> e_uuid E k = e_uuid E (Suc (w_ops w))" by blast
    with assms(1,3) that show False by (auto simp: ready_def inj_eq)
  qed
  with assms show ?thesis by (simp add: ready_def)
qed

lemmas all_idsI = all_ids_def [THEN equalityD1]

section \<open>The statements of an execution\<close>

text \<open>An update of one job by id.\<close>

lemma run_job_update:
  assumes "ready E w" and "\<And>j. j_id (upd (w_now (advance_clock E 0 w)) j) = j_id j"
    and "f (advance_clock E 0 w) = ok () ((advance_clock E 0 w)\<lparr>w_jobs :=
      update_where (\<lambda>j. j_id j = jid) (upd (w_now (advance_clock E 0 w))) (w_jobs w)\<rparr>)"
  obtains w' where "runP (stmt E [''jobs''] f) w = (Inr (), w')" and "progress E w w'"
    and "w_jobs w' = update_where (\<lambda>j. j_id j = jid) (upd (w_now w')) (w_jobs w)"
    and "w_executions w' = w_executions w" and "w_dlq w' = w_dlq w" and "w_logs w' = w_logs w"
proof -
  let ?w = "(advance_clock E 0 w)\<lparr>w_jobs :=
      update_where (\<lambda>j. j_id j = jid) (upd (w_now (advance_clock E 0 w))) (w_jobs w)\<rparr>"
  have ids: "j_id ` set (update_where P (upd (w_now (advance_clock E 0 w))) js) = j_id ` set js" for P js
    by (rule keyed_update.key_set_update) (unfold_locales, rule assms(2))
  have "ready E ?w"
    by (rule readyI [OF assms(1)]) (auto simp: all_ids_def ids)
  then have "progress E w ?w"
    by (simp add: progress_def ids advance_now)
  moreover have "runP (stmt E [''jobs''] f) w = (Inr (), ?w)"
    using assms(3) by (simp add: run_stmt [OF assms(1)] schema_tables_def)
  ultimately show ?thesis by (intro that [of ?w]) auto
qed

lemma run_insert_execution:
  assumes "ready E w" and "jid \<in> j_id ` set (w_jobs w)" and "wid \<in> wk_id ` set (w_workers w)" and "int4_ok a"
  obtains w' x where "runP (stmt E [''job_executions''] (sql_insert_execution E jid wid a)) w = (Inr (je_id x), w')"
    and "progress E w w'" and "w_jobs w' = w_jobs w" and "w_dlq w' = w_dlq w"
    and "w_executions w' = w_executions w @ [x]" and "je_id x \<notin> je_id ` set (w_executions w)"
    and "je_job_id x = jid" and "je_attempt x = a" and "je_worker_id x = Some wid" and "w_logs w' = w_logs w"
proof -
  let ?v = "advance_clock E 0 w"
  let ?x = "\<lparr>je_id = gen_uuid E ?v, je_job_id = jid, je_worker_id = Some wid, je_attempt = a,
        je_status = ''running'', je_started_at = w_now ?v, je_finished_at = None, je_error = None,
        je_duration_ms = None, je_created_at = w_now ?v, je_updated_at = w_now ?v\<rparr>"
  let ?w = "?v\<lparr>w_executions := w_executions w @ [?x]\<rparr>"
  have new: "gen_uuid E ?v \<notin> je_id ` set (w_executions w)"
    using ready_new [OF assms(1)] by (auto simp: gen_uuid_def all_ids_def)
  have "ready E ?w"
    by (rule readyI [OF assms(1)]) (auto simp: all_ids_def gen_uuid_def)
  then have "progress E w ?w" by (simp add: progress_def advance_now)
  moreover have "runP (stmt E [''job_executions''] (sql_insert_execution E jid wid a)) w = (Inr (je_id ?x), ?w)"
    using assms(2-4) new
    by (simp add: run_stmt [OF assms(1)] schema_tables_def sql_insert_execution_def with_param_def
        int4_def insert_execution_def)
  ultimately show ?thesis using new by (intro that [of ?x ?w]) auto
qed

text \<open>A line of a job's log, up to its id and time.\<close>

definition logged_line :: "uuid \<Rightarrow> string \<Rightarrow> string \<Rightarrow> log_row \<Rightarrow> bool" where
  "logged_line jid level msg l \<longleftrightarrow> jl_job_id l = jid \<and> jl_level l = level \<and> jl_message l = msg \<and> jl_metadata l = None"

lemma run_insert_log:
  assumes "ready E w" and "jid \<in> j_id ` set (w_jobs w)"
  obtains w' y where "runP (stmt E [''job_logs''] (sql_insert_log E jid l (Inr (Some m)))) w = (Inr (), w')"
    and "progress E w w'" and "w_jobs w' = w_jobs w" and "w_dlq w' = w_dlq w"
    and "w_executions w' = w_executions w" and "w_logs w' = w_logs w @ [y]" and "logged_line jid l m y"
proof -
  let ?v = "advance_clock E 0 w"
  let ?x = "\<lparr>jl_id = gen_uuid E ?v, jl_job_id = jid, jl_level = l, jl_message = m,
        jl_metadata = None, jl_created_at = w_now ?v\<rparr>"
  let ?w = "?v\<lparr>w_logs := w_logs w @ [?x]\<rparr>"
  have new: "gen_uuid E ?v \<notin> jl_id ` set (w_logs w)"
    using ready_new [OF assms(1)] by (auto simp: gen_uuid_def all_ids_def)
  have "ready E ?w"
    by (rule readyI [OF assms(1)]) (auto simp: all_ids_def gen_uuid_def)
  then have "progress E w ?w" by (simp add: progress_def advance_now)
  moreover have "runP (stmt E [''job_logs''] (sql_insert_log E jid l (Inr (Some m)))) w = (Inr (), ?w)"
    using assms(2) new
    by (simp add: run_stmt [OF assms(1)] schema_tables_def sql_insert_log_def with_required_def
        with_param_def insert_log_def)
  ultimately show ?thesis by (intro that [of ?w ?x]) (auto simp: logged_line_def)
qed

text \<open>
  The dead letters after a job was buried: an entry the job already had stays as it is, and otherwise
  one entry is added, with the payload as the database stores its text.
\<close>

definition buried :: "env \<Rightarrow> uuid \<Rightarrow> uuid \<Rightarrow> jsval \<Rightarrow> string \<Rightarrow> int \<Rightarrow> dlq_row list \<Rightarrow> dlq_row list \<Rightarrow> bool" where
  "buried E jid qid payload msg attempt ds ds' \<longleftrightarrow>
     (if jid \<in> d_job_id ` set ds then ds' = ds
      else \<exists>d t. ds' = ds @ [d] \<and> d_job_id d = jid \<and> d_original_queue_id d = qid \<and>
        json_stringify payload = Some t \<and> e_jsonb E t = Inr (d_payload d) \<and>
        d_reason d = Some msg \<and> d_attempts_made d = attempt)"

lemma buried_ids: "buried E jid qid p m a ds ds' \<Longrightarrow> d_job_id ` set ds' = insert jid (d_job_id ` set ds)"
  by (auto simp: buried_def split: if_splits)

lemma run_insert_dlq:
  assumes "ready E w" and "jid \<in> j_id ` set (w_jobs w)" and "qid \<in> q_id ` set (w_queues w)"
    and "json_stringify p = Some t" and "e_jsonb E t = Inr v" and "CHR 0x00 \<notin> set m" and "int4_ok a"
  obtains w' where "runP (stmt E [''dead_letter_queue''] (sql_insert_dlq E jid qid p m a)) w = (Inr (), w')"
    and "progress E w w'" and "w_jobs w' = w_jobs w" and "w_executions w' = w_executions w"
    and "buried E jid qid p m a (w_dlq w) (w_dlq w')" and "w_logs w' = w_logs w"
proof (cases "jid \<in> d_job_id ` set (w_dlq w)")
  case True
  let ?v = "advance_clock E 0 w"
  have tx: "e_text E (JStr m) = Inr (Some m)" using assms(1,6) by (simp add: ready_def)
  have "ready E ?v" by (rule readyI [OF assms(1)]) (auto simp: all_ids_def)
  then have "progress E w ?v" by (simp add: progress_def advance_now)
  moreover have "runP (stmt E [''dead_letter_queue''] (sql_insert_dlq E jid qid p m a)) w = (Inr (), ?v)"
    using True assms(4,5,7) tx
    by (simp add: run_stmt [OF assms(1)] schema_tables_def sql_insert_dlq_def with_param_def int4_def insert_dlq_def)
  ultimately show ?thesis using True by (intro that [of ?v]) (auto simp: buried_def)
next
  case False
  let ?v = "advance_clock E 0 w"
  let ?x = "\<lparr>d_id = gen_uuid E ?v, d_job_id = jid, d_original_queue_id = qid, d_payload = v,
     d_failed_at = w_now ?v, d_reason = Some m, d_attempts_made = a, d_created_at = w_now ?v\<rparr>"
  let ?w = "?v\<lparr>w_dlq := w_dlq w @ [?x]\<rparr>"
  have tx: "e_text E (JStr m) = Inr (Some m)" using assms(1,6) by (simp add: ready_def)
  have new: "gen_uuid E ?v \<notin> d_id ` set (w_dlq w)"
    using ready_new [OF assms(1)] by (auto simp: gen_uuid_def all_ids_def)
  have "ready E ?w" by (rule readyI [OF assms(1)]) (auto simp: all_ids_def gen_uuid_def)
  then have "progress E w ?w" by (simp add: progress_def advance_now)
  moreover have "runP (stmt E [''dead_letter_queue''] (sql_insert_dlq E jid qid p m a)) w = (Inr (), ?w)"
    using False assms(2-5,7) tx new
    by (simp add: run_stmt [OF assms(1)] schema_tables_def sql_insert_dlq_def with_param_def int4_def insert_dlq_def)
  ultimately show ?thesis using False assms(4,5) by (intro that [of ?w]) (simp_all add: buried_def)
qed

lemma run_execution_update:
  assumes "ready E w" and "\<And>x. je_id (upd (w_now (advance_clock E 0 w)) x) = je_id x"
    and "f (advance_clock E 0 w) = ok () ((advance_clock E 0 w)\<lparr>w_executions :=
      update_where (\<lambda>x. je_id x = xid) (upd (w_now (advance_clock E 0 w))) (w_executions w)\<rparr>)"
  obtains w' where "runP (stmt E [''job_executions''] f) w = (Inr (), w')" and "progress E w w'"
    and "w_jobs w' = w_jobs w" and "w_dlq w' = w_dlq w"
    and "w_executions w' = update_where (\<lambda>x. je_id x = xid) (upd (w_now w')) (w_executions w)"
    and "w_logs w' = w_logs w"
proof -
  let ?w = "(advance_clock E 0 w)\<lparr>w_executions :=
      update_where (\<lambda>x. je_id x = xid) (upd (w_now (advance_clock E 0 w))) (w_executions w)\<rparr>"
  have ids: "je_id ` set (update_where P (upd (w_now (advance_clock E 0 w))) xs) = je_id ` set xs" for P xs
    by (rule keyed_update.key_set_update) (unfold_locales, rule assms(2))
  have "ready E ?w"
    by (rule readyI [OF assms(1)]) (auto simp: all_ids_def ids)
  then have "progress E w ?w" by (simp add: progress_def advance_now)
  moreover have "runP (stmt E [''job_executions''] f) w = (Inr (), ?w)"
    using assms(3) by (simp add: run_stmt [OF assms(1)] schema_tables_def)
  ultimately show ?thesis by (intro that [of ?w]) auto
qed

section \<open>The payload\<close>

text \<open>The outcome of the \<open>try\<close> block as a function of the payload, and the time it takes.\<close>

definition payload_outcome :: "env \<Rightarrow> jsval \<Rightarrow> bool \<times> string" where
  "payload_outcome E p =
     (case get_prop p ''type'' of Inl e \<Rightarrow> (False, exn_message E e)
      | Inr ty \<Rightarrow>
         if ty = JStr ''sleep'' then
           (case sleep_delay p of Inl e \<Rightarrow> (False, exn_message E e) | Inr ms \<Rightarrow> (True, []))
         else if ty = JStr ''always_fail'' then
           (case fail_message p of Inl e \<Rightarrow> (False, exn_message E e) | Inr m \<Rightarrow> (False, m))
         else (True, []))"

definition payload_world :: "env \<Rightarrow> jsval \<Rightarrow> world \<Rightarrow> world" where
  "payload_world E p w =
     (case get_prop p ''type'' of Inl e \<Rightarrow> w
      | Inr ty \<Rightarrow>
         if ty = JStr ''sleep'' then
           (case sleep_delay p of Inl e \<Rightarrow> w | Inr ms \<Rightarrow> advance_clock E (1000 * ms) w)
         else w)"

lemma run_payload_outcome:
  "runP (run_payload E p) w = (Inr (payload_outcome E p), payload_world E p w)"
  by (simp add: run_payload_def payload_outcome_def payload_world_def sleepP_def run_simps
      split: sum.splits)

lemma ready_advance: "ready E w \<Longrightarrow> ready E (advance_clock E n w)"
  by (rule readyI) (auto simp: all_ids_def)

lemma progress_advance: "ready E w \<Longrightarrow> progress E w (advance_clock E n w)"
  by (simp add: progress_def ready_advance advance_now)

lemma progress_payload_world: "ready E w \<Longrightarrow> progress E w (payload_world E p w)"
  by (simp add: payload_world_def progress_refl progress_advance split: sum.splits)

lemma payload_world_tables [simp]:
  "w_jobs (payload_world E p w) = w_jobs w" "w_executions (payload_world E p w) = w_executions w"
  "w_dlq (payload_world E p w) = w_dlq w" "w_logs (payload_world E p w) = w_logs w"
  by (simp_all add: payload_world_def split: sum.splits)

section \<open>The outcome of an execution\<close>

text \<open>
  The abstract transition of a job at the end of an attempt, spelled out: whatever the outcome, the
  job is let go of; a success completes it; a failure is kept with its message, and either buries the
  job or has it wait five seconds for the next attempt.
\<close>

definition finish_set :: "int \<Rightarrow> int \<Rightarrow> bool \<Rightarrow> string \<Rightarrow> timestamp \<Rightarrow> job_row \<Rightarrow> job_row" where
  "finish_set attempt max_attempts success msg now j =
     (let free = j\<lparr>j_attempts := attempt, j_worker_id := None, j_lease_expires_at := None, j_updated_at := now\<rparr>;
          failed = free\<lparr>j_failed_at := Some now, j_error_message := Some msg\<rparr>
      in if success then free\<lparr>j_status := Completed, j_completed_at := Some now, j_error_message := None\<rparr>
         else if max_attempts \<le> attempt then failed\<lparr>j_status := Dead_letter\<rparr>
         else failed\<lparr>j_status := Queued, j_claimed_at := None, j_next_run_at := Some (now + 5 * 1000000)\<rparr>)"

text \<open>The updates of the code, as this transition of the started job.\<close>

definition close_set :: "int \<Rightarrow> int \<Rightarrow> bool \<Rightarrow> string \<Rightarrow> timestamp \<Rightarrow> job_row \<Rightarrow> job_row" where
  "close_set attempt max_attempts success msg now j =
     (if success then complete_set now j
      else if max_attempts \<le> attempt then dead_set (Some msg) now j
      else requeue_set (Some msg) now j)"

lemma close_started: "close_set a m s e t (start_set a t1 j) = finish_set a m s e t j"
  by (cases j) (simp add: close_set_def start_set_def finish_set_def complete_set_def dead_set_def requeue_set_def seconds_def
      RETRY_SECONDS_def)

text \<open>What an execution leaves of the row that records it.\<close>

definition closed_execution :: "uuid \<Rightarrow> uuid \<Rightarrow> int \<Rightarrow> bool \<Rightarrow> string \<Rightarrow> execution_row \<Rightarrow> bool" where
  "closed_execution jid wid attempt success msg x \<longleftrightarrow>
     je_job_id x = jid \<and> je_worker_id x = Some wid \<and> je_attempt x = attempt \<and>
     je_finished_at x \<noteq> None \<and> je_duration_ms x \<noteq> None \<and>
     je_status x = (if success then ''completed'' else ''failed'') \<and>
     (\<not> success \<longrightarrow> je_error x = Some msg)"

lemma update_where_absent:
  "k \<notin> key ` set rs \<Longrightarrow> update_where (\<lambda>r. key r = k) f rs = rs"
  by (rule update_where_False) auto

lemma run_record_success:
  assumes "ready E w" and "jid \<in> j_id ` set (w_jobs w)" and "int4_ok d"
    and x: "w_executions w = xs @ [x]" "je_id x \<notin> je_id ` set xs"
    "je_job_id x = jid" "je_worker_id x = Some wid" "je_attempt x = a"
  obtains w' t x' y where "runP (record_success E jid (je_id x) d) w = (Inr (), w')" and "progress E w w'"
    and "w_now w \<le> t" and "t \<le> w_now w'"
    and "w_jobs w' = update_where (\<lambda>j. j_id j = jid) (complete_set t) (w_jobs w)"
    and "w_dlq w' = w_dlq w" and "w_executions w' = xs @ [x']" and "closed_execution jid wid a True [] x'"
    and "w_logs w' = w_logs w @ [y]" and "logged_line jid ''info'' ''Job completed'' y"
proof -
  obtain w1 where 1: "runP (stmt E [''jobs''] (sql_complete jid)) w = (Inr (), w1)" "progress E w w1"
    "w_jobs w1 = update_where (\<lambda>j. j_id j = jid) (complete_set (w_now w1)) (w_jobs w)"
    "w_executions w1 = w_executions w" "w_dlq w1 = w_dlq w" "w_logs w1 = w_logs w"
    by (rule run_job_update [OF assms(1), of complete_set "sql_complete jid" jid])
       (simp_all add: complete_set_def sql_complete_def)
  let ?upd = "\<lambda>now x. x\<lparr>je_status := ''completed'', je_finished_at := Some now, je_duration_ms := Some d\<rparr>"
  obtain w2 where 2: "runP (stmt E [''job_executions''] (sql_complete_execution (je_id x) d)) w1 = (Inr (), w2)"
    "progress E w1 w2" "w_jobs w2 = w_jobs w1" "w_dlq w2 = w_dlq w1"
    "w_executions w2 = update_where (\<lambda>y. je_id y = je_id x) (?upd (w_now w2)) (w_executions w1)" "w_logs w2 = w_logs w1"
    by (rule run_execution_update [OF progressD(1) [OF 1(2)], of ?upd "sql_complete_execution (je_id x) d" "je_id x"])
       (simp_all add: sql_complete_execution_def with_param_def int4_def assms(3))
  have "jid \<in> j_id ` set (w_jobs w2)"
    using assms(2) progressD(5) [OF 1(2)] progressD(5) [OF 2(2)] by simp
  then obtain w3 y where 3: "runP (stmt E [''job_logs''] (sql_insert_log E jid ''info'' (Inr (Some ''Job completed'')))) w2 = (Inr (), w3)"
    "progress E w2 w3" "w_jobs w3 = w_jobs w2" "w_dlq w3 = w_dlq w2" "w_executions w3 = w_executions w2"
    "w_logs w3 = w_logs w2 @ [y]" "logged_line jid ''info'' ''Job completed'' y"
    by (rule run_insert_log [OF progressD(1) [OF 2(2)]])
  have run: "runP (record_success E jid (je_id x) d) w = (Inr (), w3)"
    by (simp add: record_success_def run_simps 1(1) 2(1) 3(1))
  have ex: "w_executions w3 = xs @ [?upd (w_now w2) x]"
    using x(1,2) by (simp add: 3(5) 2(5) 1(4) update_where_absent)
  show ?thesis
  proof (rule that [OF run])
    show "progress E w w3" using 1(2) 2(2) 3(2) progress_trans by blast
    show "w_now w \<le> w_now w1" and "w_now w1 \<le> w_now w3"
      using progressD(2) [OF 1(2)] progressD(2) [OF 2(2)] progressD(2) [OF 3(2)] by auto
    show "closed_execution jid wid a True [] (?upd (w_now w2) x)"
      using x by (simp add: closed_execution_def)
  qed (use 1 2 3 ex in auto)
qed

text \<open>The failing branch: either the job is dead-lettered and entered in the dead-letter queue,
  or it goes back to the queue.\<close>

lemma run_bury_or_requeue:
  assumes "ready E w" and "j_id job \<in> j_id ` set (w_jobs w)" and "j_queue_id job \<in> q_id ` set (w_queues w)"
    and "json_stringify p = Some s" and "e_jsonb E s = Inr v" and "CHR 0x00 \<notin> set m" and "int4_ok a"
  obtains w' t where "runP (if j_max_attempts job \<le> a then
              bindP (stmt E [''jobs''] (sql_dead_letter E (j_id job) m)) (\<lambda>_.
              stmt E [''dead_letter_queue''] (sql_insert_dlq E (j_id job) (j_queue_id job) p m a))
            else stmt E [''jobs''] (sql_requeue E (j_id job) m)) w = (Inr (), w')"
    and "progress E w w'" and "w_now w \<le> t" and "t \<le> w_now w'"
    and "w_jobs w' = update_where (\<lambda>j. j_id j = j_id job)
           (close_set a (j_max_attempts job) False m t) (w_jobs w)"
    and "w_executions w' = w_executions w" and "w_logs w' = w_logs w"
    and "if j_max_attempts job \<le> a then buried E (j_id job) (j_queue_id job) p m a (w_dlq w) (w_dlq w')
         else w_dlq w' = w_dlq w"
proof -
  have tx: "e_text E (JStr m) = Inr (Some m)" using assms(1,6) by (simp add: ready_def)
  show ?thesis
  proof (cases "j_max_attempts job \<le> a")
    case True
    obtain w1 where 1: "runP (stmt E [''jobs''] (sql_dead_letter E (j_id job) m)) w = (Inr (), w1)"
      "progress E w w1" "w_jobs w1 = update_where (\<lambda>j. j_id j = j_id job) (dead_set (Some m) (w_now w1)) (w_jobs w)"
      "w_executions w1 = w_executions w" "w_dlq w1 = w_dlq w" "w_logs w1 = w_logs w"
      by (rule run_job_update [OF assms(1), of "dead_set (Some m)" "sql_dead_letter E (j_id job) m" "j_id job"])
         (simp_all add: dead_set_def sql_dead_letter_def with_param_def tx)
    from assms(2,3) have jq: "j_id job \<in> j_id ` set (w_jobs w1)" "j_queue_id job \<in> q_id ` set (w_queues w1)"
      by (simp_all add: progressD(3,5) [OF 1(2)])
    obtain w2 where 2: "runP (stmt E [''dead_letter_queue'']
        (sql_insert_dlq E (j_id job) (j_queue_id job) p m a)) w1 = (Inr (), w2)"
      "progress E w1 w2" "w_jobs w2 = w_jobs w1" "w_executions w2 = w_executions w1"
      "buried E (j_id job) (j_queue_id job) p m a (w_dlq w1) (w_dlq w2)" "w_logs w2 = w_logs w1"
      by (rule run_insert_dlq [OF progressD(1) [OF 1(2)] jq assms(4-7)])
    have "close_set a (j_max_attempts job) False m (w_now w1) = dead_set (Some m) (w_now w1)"
      using True by (auto simp: close_set_def)
    with True 1 2 progressD(2) [OF 1(2)] progressD(2) [OF 2(2)] show ?thesis
      by (intro that [of w2 "w_now w1"]) (auto simp: run_simps intro: progress_trans)
  next
    case False
    obtain w1 where 1: "runP (stmt E [''jobs''] (sql_requeue E (j_id job) m)) w = (Inr (), w1)"
      "progress E w w1" "w_jobs w1 = update_where (\<lambda>j. j_id j = j_id job) (requeue_set (Some m) (w_now w1)) (w_jobs w)"
      "w_executions w1 = w_executions w" "w_dlq w1 = w_dlq w" "w_logs w1 = w_logs w"
      by (rule run_job_update [OF assms(1), of "requeue_set (Some m)" "sql_requeue E (j_id job) m" "j_id job"])
         (simp_all add: requeue_set_def sql_requeue_def with_param_def tx)
    have "close_set a (j_max_attempts job) False m (w_now w1) = requeue_set (Some m) (w_now w1)"
      using False by (auto simp: close_set_def)
    with False 1 progressD(2) [OF 1(2)] show ?thesis
      by (intro that [of w1 "w_now w1"]) auto
  qed
qed

lemma run_record_failure:
  assumes "ready E w" and "j_id job \<in> j_id ` set (w_jobs w)" and "j_queue_id job \<in> q_id ` set (w_queues w)"
    and "json_stringify p = Some s" and "e_jsonb E s = Inr v" and "CHR 0x00 \<notin> set m" and "int4_ok a"
    and "int4_ok d"
    and x: "w_executions w = xs @ [x]" "je_id x \<notin> je_id ` set xs"
    "je_job_id x = j_id job" "je_worker_id x = Some wid" "je_attempt x = a"
  obtains w' t x' y where "runP (record_failure E job p (je_id x) a d m) w = (Inr (), w')"
    and "progress E w w'" and "w_now w \<le> t" and "t \<le> w_now w'"
    and "w_jobs w' = update_where (\<lambda>j. j_id j = j_id job)
           (close_set a (j_max_attempts job) False m t) (w_jobs w)"
    and "if j_max_attempts job \<le> a then buried E (j_id job) (j_queue_id job) p m a (w_dlq w) (w_dlq w')
         else w_dlq w' = w_dlq w"
    and "w_executions w' = xs @ [x']" and "closed_execution (j_id job) wid a False m x'"
    and "w_logs w' = w_logs w @ [y]" and "logged_line (j_id job) ''error'' m y"
proof -
  have tx: "e_text E (JStr m) = Inr (Some m)" using assms(1,6) by (simp add: ready_def)
  obtain w1 t where 1: "runP (if j_max_attempts job \<le> a then
              bindP (stmt E [''jobs''] (sql_dead_letter E (j_id job) m)) (\<lambda>_.
              stmt E [''dead_letter_queue''] (sql_insert_dlq E (j_id job) (j_queue_id job) p m a))
            else stmt E [''jobs''] (sql_requeue E (j_id job) m)) w = (Inr (), w1)"
    "progress E w w1" "w_now w \<le> t" "t \<le> w_now w1"
    "w_jobs w1 = update_where (\<lambda>j. j_id j = j_id job) (close_set a (j_max_attempts job) False m t) (w_jobs w)"
    "w_executions w1 = w_executions w" "w_logs w1 = w_logs w"
    "if j_max_attempts job \<le> a then buried E (j_id job) (j_queue_id job) p m a (w_dlq w) (w_dlq w1)
     else w_dlq w1 = w_dlq w"
    by (rule run_bury_or_requeue [OF assms(1-7)])
  let ?upd = "\<lambda>now x. x\<lparr>je_status := ''failed'', je_finished_at := Some now, je_duration_ms := Some d,
    je_error := Some m\<rparr>"
  obtain w2 where 2: "runP (stmt E [''job_executions''] (sql_fail_execution E (je_id x) d m)) w1 = (Inr (), w2)"
    "progress E w1 w2" "w_jobs w2 = w_jobs w1" "w_dlq w2 = w_dlq w1"
    "w_executions w2 = update_where (\<lambda>y. je_id y = je_id x) (?upd (w_now w2)) (w_executions w1)" "w_logs w2 = w_logs w1"
    by (rule run_execution_update [OF progressD(1) [OF 1(2)], of ?upd "sql_fail_execution E (je_id x) d m" "je_id x"])
       (simp_all add: sql_fail_execution_def with_param_def int4_def assms(8) tx)
  have "j_id job \<in> j_id ` set (w_jobs w2)"
    using assms(2) by (simp add: progressD(5) [OF 2(2)] progressD(5) [OF 1(2)])
  then obtain w3 y where 3: "runP (stmt E [''job_logs''] (sql_insert_log E (j_id job) ''error'' (Inr (Some m)))) w2 = (Inr (), w3)"
    "progress E w2 w3" "w_jobs w3 = w_jobs w2" "w_dlq w3 = w_dlq w2" "w_executions w3 = w_executions w2"
    "w_logs w3 = w_logs w2 @ [y]" "logged_line (j_id job) ''error'' m y"
    by (rule run_insert_log [OF progressD(1) [OF 2(2)]])
  have run: "runP (record_failure E job p (je_id x) a d m) w = (Inr (), w3)"
    unfolding record_failure_def run_bind 1(1) by (simp add: run_simps 2(1) 3(1) tx)
  have ex: "w_executions w3 = xs @ [?upd (w_now w2) x]"
    using x(1,2) by (simp add: 3(5) 2(5) 1(6) update_where_absent)
  show ?thesis
  proof (rule that [OF run])
    show "progress E w w3" using 1(2) 2(2) 3(2) progress_trans by blast
    show "t \<le> w_now w3"
      using 1(4) progressD(2) [OF 2(2)] progressD(2) [OF 3(2)] by linarith
    show "closed_execution (j_id job) wid a False m (?upd (w_now w2) x)"
      using x by (simp add: closed_execution_def)
  qed (use 1 2 3 ex in auto)
qed

lemma run_start:
  assumes "ready E w" and "int4_ok a"
  obtains w' where "runP (stmt E [''jobs''] (sql_start jid a)) w = (Inr (), w')" and "progress E w w'"
    and "w_jobs w' = update_where (\<lambda>j. j_id j = jid) (start_set a (w_now w')) (w_jobs w)"
    and "w_executions w' = w_executions w" and "w_dlq w' = w_dlq w" and "w_logs w' = w_logs w"
  by (rule run_job_update [OF assms(1), of "start_set a" "sql_start jid a" jid])
     (simp_all add: sql_start_def with_param_def int4_def assms(2) start_set_def)

text \<open>The first half of an execution: the job is marked running, and the attempt is recorded.\<close>

lemma run_opening:
  assumes "ready E w" and "jid \<in> j_id ` set (w_jobs w)" and "wid \<in> wk_id ` set (w_workers w)" and "int4_ok a"
  obtains w1 w2 w3 x y where "runP (stmt E [''jobs''] (sql_start jid a)) w = (Inr (), w1)"
    and "runP (stmt E [''job_executions''] (sql_insert_execution E jid wid a)) w1 = (Inr (je_id x), w2)"
    and "runP (stmt E [''job_logs''] (sql_insert_log E jid ''info'' (Inr (Some ''Job started'')))) w2 = (Inr (), w3)"
    and "progress E w w3" and "w_now w \<le> w_now w1" and "w_now w1 \<le> w_now w3"
    and "w_jobs w3 = update_where (\<lambda>j. j_id j = jid) (start_set a (w_now w1)) (w_jobs w)"
    and "w_dlq w3 = w_dlq w" and "w_executions w3 = w_executions w @ [x]"
    and "je_id x \<notin> je_id ` set (w_executions w)"
    and "je_job_id x = jid" and "je_worker_id x = Some wid" and "je_attempt x = a"
    and "w_logs w3 = w_logs w @ [y]" and "logged_line jid ''info'' ''Job started'' y"
proof -
  obtain w1 where 1: "runP (stmt E [''jobs''] (sql_start jid a)) w = (Inr (), w1)" "progress E w w1"
    "w_jobs w1 = update_where (\<lambda>j. j_id j = jid) (start_set a (w_now w1)) (w_jobs w)"
    "w_executions w1 = w_executions w" "w_dlq w1 = w_dlq w" "w_logs w1 = w_logs w"
    by (rule run_start [OF assms(1,4)])
  have in1: "jid \<in> j_id ` set (w_jobs w1)" "wid \<in> wk_id ` set (w_workers w1)"
    using assms(2,3) by (simp_all add: progressD(4,5) [OF 1(2)])
  obtain w2 x where 2: "runP (stmt E [''job_executions''] (sql_insert_execution E jid wid a)) w1 = (Inr (je_id x), w2)"
    "progress E w1 w2" "w_jobs w2 = w_jobs w1" "w_dlq w2 = w_dlq w1"
    "w_executions w2 = w_executions w1 @ [x]" "je_id x \<notin> je_id ` set (w_executions w1)"
    "je_job_id x = jid" "je_attempt x = a" "je_worker_id x = Some wid" "w_logs w2 = w_logs w1"
    by (rule run_insert_execution [OF progressD(1) [OF 1(2)] in1 assms(4)])
  have "jid \<in> j_id ` set (w_jobs w2)" using in1 by (simp add: 2(3))
  then obtain w3 y where 3: "runP (stmt E [''job_logs''] (sql_insert_log E jid ''info'' (Inr (Some ''Job started'')))) w2 = (Inr (), w3)"
    "progress E w2 w3" "w_jobs w3 = w_jobs w2" "w_dlq w3 = w_dlq w2" "w_executions w3 = w_executions w2"
    "w_logs w3 = w_logs w2 @ [y]" "logged_line jid ''info'' ''Job started'' y"
    by (rule run_insert_log [OF progressD(1) [OF 2(2)]])
  have p: "progress E w w3" using progress_trans [OF 1(2) progress_trans [OF 2(2) 3(2)]] .
  have t: "w_now w1 \<le> w_now w3" using progressD(2) [OF 2(2)] progressD(2) [OF 3(2)] by linarith
  show ?thesis
    by (rule that [OF 1(1) 2(1) 3(1) p progressD(2) [OF 1(2)] t _ _ _ _ _ _ _ _ 3(7)])
      (simp_all add: 3(3-6) 2(3-10) 1(3-6) 2(6) [unfolded 1(4)])
qed

text \<open>
  The whole execution of a job whose payload parses, when the database answers: the job is left in the
  state \<open>finish_set\<close> gives and every other job is untouched; exactly one execution row is added, and
  it is closed; two lines are logged, the start and the outcome; and a job whose attempts are used up
  is in the dead-letter queue, with the payload, the reason and the number of attempts, while in every
  other case the dead letters stay as they are. \<open>progress\<close> says that nothing outside these four
  tables changes but the clock.
\<close>

definition executed :: "env \<Rightarrow> job_row \<Rightarrow> uuid \<Rightarrow> jsval \<Rightarrow> world \<Rightarrow> world \<Rightarrow> bool" where
  "executed E job wid payload w w' \<longleftrightarrow>
     (let a = j_attempts job + 1; success = fst (payload_outcome E payload); m = snd (payload_outcome E payload)
      in progress E w w' \<and>
         (\<exists>t. w_now w \<le> t \<and> t \<le> w_now w' \<and>
           w_jobs w' = update_where (\<lambda>j. j_id j = j_id job) (finish_set a (j_max_attempts job) success m t) (w_jobs w)) \<and>
         (\<exists>x. w_executions w' = w_executions w @ [x] \<and>
           closed_execution (j_id job) wid a success m x) \<and>
         (\<exists>l1 l2. w_logs w' = w_logs w @ [l1, l2] \<and> logged_line (j_id job) ''info'' ''Job started'' l1 \<and>
           (if success then logged_line (j_id job) ''info'' ''Job completed'' l2 else logged_line (j_id job) ''error'' m l2)) \<and>
         (if \<not> success \<and> j_max_attempts job \<le> a
          then buried E (j_id job) (j_queue_id job) payload m a (w_dlq w) (w_dlq w')
          else w_dlq w' = w_dlq w))"

lemma update_where_twice:
  assumes "\<And>r. key (f r) = key r"
  shows "update_where (\<lambda>r. key r = k) g (update_where (\<lambda>r. key r = k) f rs)
    = update_where (\<lambda>r. key r = k) (\<lambda>r. g (f r)) rs"
  by (induction rs) (auto simp: assms)

lemma closed_success: "closed_execution jid wid a True m x = closed_execution jid wid a True [] x"
  by (simp add: closed_execution_def)

text \<open>Both branches that record the outcome, as one.\<close>

lemma run_record:
  assumes "ready E w" and "j_id job \<in> j_id ` set (w_jobs w)" and "j_queue_id job \<in> q_id ` set (w_queues w)"
    and "\<not> success \<Longrightarrow> json_stringify p = Some s \<and> e_jsonb E s = Inr v \<and> CHR 0x00 \<notin> set m"
    and "int4_ok a" and "int4_ok d"
    and x: "w_executions w = xs @ [x]" "je_id x \<notin> je_id ` set xs"
    "je_job_id x = j_id job" "je_worker_id x = Some wid" "je_attempt x = a"
  obtains w' t x' y where "runP (if success then record_success E (j_id job) (je_id x) d
        else record_failure E job p (je_id x) a d m) w = (Inr (), w')"
    and "progress E w w'" and "w_now w \<le> t" and "t \<le> w_now w'"
    and "w_jobs w' = update_where (\<lambda>j. j_id j = j_id job)
           (close_set a (j_max_attempts job) success m t) (w_jobs w)"
    and "if \<not> success \<and> j_max_attempts job \<le> a then buried E (j_id job) (j_queue_id job) p m a (w_dlq w) (w_dlq w')
         else w_dlq w' = w_dlq w"
    and "w_executions w' = xs @ [x']" and "closed_execution (j_id job) wid a success m x'"
    and "w_logs w' = w_logs w @ [y]"
    and "if success then logged_line (j_id job) ''info'' ''Job completed'' y else logged_line (j_id job) ''error'' m y"
proof (cases success)
  case True
  obtain w' t x' y where r: "runP (record_success E (j_id job) (je_id x) d) w = (Inr (), w')"
    "progress E w w'" "w_now w \<le> t" "t \<le> w_now w'"
    "w_jobs w' = update_where (\<lambda>j. j_id j = j_id job) (complete_set t) (w_jobs w)"
    "w_dlq w' = w_dlq w" "w_executions w' = xs @ [x']" "closed_execution (j_id job) wid a True [] x'"
    "w_logs w' = w_logs w @ [y]" "logged_line (j_id job) ''info'' ''Job completed'' y"
    by (rule run_record_success [OF assms(1,2,6) x])
  have "close_set a (j_max_attempts job) True m t = complete_set t" by (auto simp: close_set_def)
  with True r show ?thesis by (intro that [of w' t x' y]) (simp_all add: closed_success [of _ _ _ m])
next
  case False
  with assms(4) have p: "json_stringify p = Some s" "e_jsonb E s = Inr v" "CHR 0x00 \<notin> set m" by auto
  obtain w' t x' y where r: "runP (record_failure E job p (je_id x) a d m) w = (Inr (), w')"
    "progress E w w'" "w_now w \<le> t" "t \<le> w_now w'"
    "w_jobs w' = update_where (\<lambda>j. j_id j = j_id job) (close_set a (j_max_attempts job) False m t) (w_jobs w)"
    "if j_max_attempts job \<le> a then buried E (j_id job) (j_queue_id job) p m a (w_dlq w) (w_dlq w')
     else w_dlq w' = w_dlq w"
    "w_executions w' = xs @ [x']" "closed_execution (j_id job) wid a False m x'"
    "w_logs w' = w_logs w @ [y]" "logged_line (j_id job) ''error'' m y"
    by (rule run_record_failure [OF assms(1-3) p assms(5,6) x])
  with False show ?thesis by (intro that [of w' t x' y]) simp_all
qed

lemma run_date_now: "runP (date_now E) w = (Inr (e_date E (w_ops w)), advance_clock E 0 w)"
  by (simp add: date_now_def)

lemma run_executeJob:
  assumes w: "ready E w" and "j_id job \<in> j_id ` set (w_jobs w)" and "j_queue_id job \<in> q_id ` set (w_queues w)"
    and "wid \<in> wk_id ` set (w_workers w)" and a: "int4_ok (j_attempts job + 1)"
    and p: "payload_value (j_payload job) = Inr p"
    and f: "\<not> fst (payload_outcome E p) \<Longrightarrow> json_stringify p = Some s \<and> e_jsonb E s = Inr v
      \<and> CHR 0x00 \<notin> set (snd (payload_outcome E p))"
  obtains w' where "runP (executeJob E job wid) w = (Inr (), w')" and "executed E job wid p w w'"
proof -
  let ?a = "j_attempts job + 1"
  obtain w1 w2 w3 x y where o: "runP (stmt E [''jobs''] (sql_start (j_id job) ?a)) w = (Inr (), w1)"
    "runP (stmt E [''job_executions''] (sql_insert_execution E (j_id job) wid ?a)) w1 = (Inr (je_id x), w2)"
    "runP (stmt E [''job_logs''] (sql_insert_log E (j_id job) ''info'' (Inr (Some ''Job started'')))) w2 = (Inr (), w3)"
    "progress E w w3" "w_now w \<le> w_now w1" "w_now w1 \<le> w_now w3"
    "w_jobs w3 = update_where (\<lambda>j. j_id j = j_id job) (start_set ?a (w_now w1)) (w_jobs w)"
    "w_dlq w3 = w_dlq w" "w_executions w3 = w_executions w @ [x]" "je_id x \<notin> je_id ` set (w_executions w)"
    "je_job_id x = j_id job" "je_worker_id x = Some wid" "je_attempt x = ?a"
    "w_logs w3 = w_logs w @ [y]" "logged_line (j_id job) ''info'' ''Job started'' y"
    by (rule run_opening [OF w assms(2,4) a])
  let ?w4 = "payload_world E p (advance_clock E 0 w3)" let ?w5 = "advance_clock E 0 ?w4"
  let ?d = "e_date E (w_ops ?w4) - e_date E (w_ops w3)"
  have r3: "ready E w3" by (rule progressD(1) [OF o(4)])
  have p5: "progress E w3 ?w5"
    by (rule progress_trans [OF progress_advance [OF r3] progress_trans [OF progress_payload_world]])
      (auto intro: ready_advance r3 progress_advance progressD(1) [OF progress_payload_world])
  have w5: "w_jobs ?w5 = w_jobs w3" "w_executions ?w5 = w_executions w @ [x]" "w_dlq ?w5 = w_dlq w"
    "w_logs ?w5 = w_logs w @ [y]"
    by (simp_all add: o(8,9,14))
  have d: "int4_ok ?d" using r3 by (simp add: ready_def)
  have jq: "j_id job \<in> j_id ` set (w_jobs ?w5)" "j_queue_id job \<in> q_id ` set (w_queues ?w5)"
    using assms(2,3) progressD(3,5) [OF o(4)] progressD(3,5) [OF p5] by simp_all
  obtain w' t x' z where r: "runP (if fst (payload_outcome E p) then record_success E (j_id job) (je_id x) ?d
        else record_failure E job p (je_id x) ?a ?d (snd (payload_outcome E p))) ?w5 = (Inr (), w')"
    "progress E ?w5 w'" "w_now ?w5 \<le> t" "t \<le> w_now w'"
    "w_jobs w' = update_where (\<lambda>j. j_id j = j_id job)
       (close_set ?a (j_max_attempts job) (fst (payload_outcome E p)) (snd (payload_outcome E p)) t) (w_jobs ?w5)"
    "if \<not> fst (payload_outcome E p) \<and> j_max_attempts job \<le> ?a
     then buried E (j_id job) (j_queue_id job) p (snd (payload_outcome E p)) ?a (w_dlq ?w5) (w_dlq w')
     else w_dlq w' = w_dlq ?w5"
    "w_executions w' = w_executions w @ [x']"
    "closed_execution (j_id job) wid ?a (fst (payload_outcome E p)) (snd (payload_outcome E p)) x'"
    "w_logs w' = w_logs ?w5 @ [z]"
    "if fst (payload_outcome E p) then logged_line (j_id job) ''info'' ''Job completed'' z
     else logged_line (j_id job) ''error'' (snd (payload_outcome E p)) z"
    by (rule run_record [OF progressD(1) [OF p5] jq f a d w5(2) o(10-13)])
  have run: "runP (executeJob E job wid) w = (Inr (), w')"
    using r(1) by (simp add: executeJob_def Let_def run_simps p o(1-3) run_date_now run_payload_outcome split_beta)
  have "w_jobs w' = update_where (\<lambda>j. j_id j = j_id job) (\<lambda>j. close_set ?a (j_max_attempts job)
      (fst (payload_outcome E p)) (snd (payload_outcome E p)) t (start_set ?a (w_now w1) j)) (w_jobs w)"
    unfolding r(5) w5(1) o(7) by (rule update_where_twice) (simp add: start_set_def)
  then have "w_jobs w' = update_where (\<lambda>j. j_id j = j_id job)
      (finish_set ?a (j_max_attempts job) (fst (payload_outcome E p)) (snd (payload_outcome E p)) t) (w_jobs w)"
    by (simp add: close_started)
  moreover have "w_now w \<le> t" using o(5,6) progressD(2) [OF p5] r(3) by linarith
  moreover have "progress E w w'" by (rule progress_trans [OF o(4) progress_trans [OF p5 r(2)]])
  ultimately have "executed E job wid p w w'"
    unfolding executed_def Let_def
    using r(4,7,8) r(6) [unfolded w5(3)] r(9) [unfolded w5(4)] r(10) o(15) by (intro conjI) auto
  with run show ?thesis by (rule that)
qed

end
