(* ===== verification/Fixtures.thy ===== *)
theory Fixtures
  imports Worker_Exec
begin

text \<open>
  A concrete environment and a small concrete database, at which the hypotheses of the
  theorems are shown to hold: ids are drawn in unary, the connection never fails, and the
  conversions of Postgres are the ones it documents for text, integers, UUIDs and JSON.
\<close>

section \<open>An environment\<close>

definition uuid_syntax :: "string \<Rightarrow> bool" where
  "uuid_syntax s \<longleftrightarrow> s \<noteq> [] \<and> (\<forall>c \<in> set s. c = CHR ''-'' \<or> c \<in> set ''0123456789abcdef'')"

definition text_in :: "jsval \<Rightarrow> pgerr + string option" where
  "text_in v = (case v of JNull \<Rightarrow> Inr None
     | JStr s \<Rightarrow> if CHR 0x00 \<in> set s then Inl (Invalid_text s) else Inr (Some s)
     | JNum n \<Rightarrow> Inr (Some (num_to_string n))
     | _ \<Rightarrow> Inl (Invalid_text (stringify v)))"

definition int4_in :: "jsval \<Rightarrow> pgerr + int option" where
  "int4_in v = (case v of JNull \<Rightarrow> Inr None
     | JNum (Fin q) \<Rightarrow> if q = of_int \<lfloor>q\<rfloor> then map_sum id Some (int4 \<lfloor>q\<rfloor>) else Inl (Invalid_text (num_to_string (Fin q)))
     | _ \<Rightarrow> Inl (Invalid_text (stringify v)))"

definition uuid_in :: "jsval \<Rightarrow> pgerr + uuid option" where
  "uuid_in v = (case v of JNull \<Rightarrow> Inr None
     | JStr s \<Rightarrow> if uuid_syntax s then Inr (Some s) else Inl (Invalid_text s)
     | _ \<Rightarrow> Inl (Invalid_text (stringify v)))"

definition jsonb_in :: "string \<Rightarrow> pgerr + jsval" where
  "jsonb_in s = (case json_parse s of Inl e \<Rightarrow> Inl (Invalid_text s) | Inr v \<Rightarrow> Inr v)"

definition seconds_in :: "jsnum \<Rightarrow> pgerr + int" where
  "seconds_in n = (case n of Fin q \<Rightarrow> Inr \<lfloor>q * 1000000\<rfloor> | _ \<Rightarrow> Inl Interval_out_of_range)"

text \<open>Tokens travel as the text of their payload; one that has an \<open>exp\<close> verifies until then.\<close>

definition verify_in :: "(nat \<Rightarrow> int) \<Rightarrow> string \<Rightarrow> nat \<Rightarrow> string \<Rightarrow> jsval option" where
  "verify_in date sec k token = (case json_parse token of
       Inr (JObj kvs) \<Rightarrow> (case map_of kvs ''exp'' of
           Some (JNum (Fin q)) \<Rightarrow> if of_int (date k div 1000) < q then Some (JObj kvs) else None
         | _ \<Rightarrow> Some (JObj kvs))
     | _ \<Rightarrow> None)"

definition demo_env :: env where
  "demo_env = \<lparr>e_uuid = (\<lambda>n. replicate n CHR ''a''), e_lag = (\<lambda>_. 1), e_scan = (\<lambda>_ _. []),
     e_locked = (\<lambda>_ _. False), e_date = (\<lambda>_. 0), e_fault = (\<lambda>_. None), e_text = text_in, e_int4 = int4_in,
     e_uuid_in = uuid_in, e_jsonb = jsonb_in, e_seconds = seconds_in, e_message = (\<lambda>_. ''error''),
     e_avg = (\<lambda>xs. of_int (sum_list xs) / of_nat (length xs)),
     e_jwt_sign = (\<lambda>sec alg payload. stringify payload), e_jwt_verify = verify_in (\<lambda>_. 0),
     e_environ = (\<lambda>n. if n = ''DATABASE_URL'' then Some ''postgres://db'' else None)\<rparr>"

section \<open>A database\<close>

definition demo_org :: org_row where
  "demo_org = \<lparr>o_id = ''0'', o_name = ''Acme'', o_slug = ''acme'', o_created_at = 0, o_updated_at = 0\<rparr>"

definition demo_project :: project_row where
  "demo_project = \<lparr>p_id = ''1'', p_org_id = ''0'', p_name = ''Main'', p_slug = ''main'', p_description = None,
     p_created_at = 0, p_updated_at = 0\<rparr>"

definition demo_queue :: queue_row where
  "demo_queue = \<lparr>q_id = ''2'', q_project_id = ''1'', q_name = ''mail'', q_slug = ''mail'', q_retry_policy_id = None,
     q_priority_default = 5, q_concurrency_limit = Some 1, q_paused = False, q_created_at = 0, q_updated_at = 0\<rparr>"

definition demo_worker :: worker_row where
  "demo_worker = \<lparr>wk_id = ''3'', wk_name = WORKER_NAME, wk_status = Active, wk_meta = None,
     wk_created_at = 0, wk_updated_at = 0\<rparr>"

definition demo_job :: "uuid \<Rightarrow> int \<Rightarrow> jsval \<Rightarrow> job_row" where
  "demo_job jid prio payload = \<lparr>j_id = jid, j_queue_id = ''2'', j_status = Queued, j_priority = prio,
     j_payload = payload, j_idempotency_key = None, j_next_run_at = Some 0, j_attempts = 0,
     j_max_attempts = 3, j_retry_policy_id = None, j_worker_id = None, j_claimed_at = None,
     j_lease_expires_at = None, j_completed_at = None, j_failed_at = None, j_error_message = None,
     j_cron_expr = None, j_batch_id = None, j_created_at = 0, j_updated_at = 0\<rparr>"

definition demo_world :: "job_row list \<Rightarrow> world" where
  "demo_world js = \<lparr>w_relations = idem_index # schema_tables, w_organizations = [demo_org], w_users = [],
     w_projects = [demo_project], w_queues = [demo_queue], w_workers = [demo_worker], w_heartbeats = [],
     w_jobs = js, w_executions = [], w_logs = [], w_dlq = [], w_ops = 0, w_now = 1000,
     w_in_flight = False, w_last_run_at = 0, w_background = 0\<rparr>"

definition noop_payload :: jsval where
  "noop_payload = JObj [(''type'', JStr ''echo'')]"

definition fail_payload :: jsval where
  "fail_payload = JObj [(''type'', JStr ''always_fail''), (''message'', JStr ''boom'')]"

lemmas demo_defs = demo_org_def demo_project_def demo_queue_def demo_worker_def demo_job_def demo_world_def

lemma demo_env_simps [simp]:
  "e_uuid demo_env = (\<lambda>n. replicate n CHR ''a'')" "e_lag demo_env = (\<lambda>_. 1)" "e_scan demo_env = (\<lambda>_ _. [])"
  "e_locked demo_env = (\<lambda>_ _. False)" "e_date demo_env = (\<lambda>_. 0)" "e_fault demo_env = (\<lambda>_. None)"
  "e_text demo_env = text_in" "e_int4 demo_env = int4_in" "e_uuid_in demo_env = uuid_in"
  "e_jsonb demo_env = jsonb_in" "e_seconds demo_env = seconds_in" "e_message demo_env = (\<lambda>_. ''error'')"
  by (simp_all add: demo_env_def)

lemma inj_unary: "inj (\<lambda>n. replicate n c)"
  by (rule injI) (metis length_replicate)

lemma ready_demo:
  assumes "j_id ` set js \<subseteq> {''4'', ''5''}"
  shows "ready demo_env (demo_world js)"
proof -
  have "replicate k CHR ''a'' \<notin> all_ids (demo_world js)" if "k > 0" for k
  proof -
    have "set (replicate k CHR ''a'') = {CHR ''a''}" using that by (simp add: set_replicate)
    moreover have "CHR ''a'' \<notin> set x" if "x \<in> all_ids (demo_world js)" for x
      using that assms by (auto simp: all_ids_def demo_defs)
    ultimately show ?thesis by (metis insertI1)
  qed
  then show ?thesis
    by (auto simp: ready_def demo_world_def inj_unary text_in_def int4_ok_def)
qed

end
