(* ===== verification/Claiming.thy ===== *)
theory Claiming
  imports Fixtures
begin

text \<open>
  The reaper and the claim: which jobs a tick takes back, which it takes, in which order, and
  what that means for the concurrency limit of a queue.
\<close>

section \<open>The candidates of a claim\<close>

lemma set_candidates:
  "set (claim_candidates E qid w) = {j \<in> set (w_jobs w). runnable qid (w_now w) j \<and> \<not> e_locked E (w_ops w) (j_id j)}"
  by (auto simp: claim_candidates_def)

lemma sorted_candidates: "sorted (map claim_key (claim_candidates E qid w))"
  by (simp add: claim_candidates_def sorted_filter)

lemma distinct_candidates:
  assumes "distinct (map j_id (w_jobs w))"
  shows "distinct (map j_id (claim_candidates E qid w))"
proof -
  have "distinct (map j_id (scan E w 0 (w_jobs w)))" using assms by simp
  then have "distinct (map j_id (filter (runnable qid (w_now w)) (scan E w 0 (w_jobs w))))"
    by (rule distinct_map_filter)
  moreover have "mset (map j_id (sort_key claim_key xs)) = mset (map j_id xs)" for xs
    by simp
  ultimately have "distinct (map j_id (sort_key claim_key (filter (runnable qid (w_now w)) (scan E w 0 (w_jobs w)))))"
    by (metis mset_eq_imp_distinct_iff)
  then show ?thesis unfolding claim_candidates_def by (rule distinct_map_filter)
qed

definition picked :: "env \<Rightarrow> uuid \<Rightarrow> int \<Rightarrow> world \<Rightarrow> job_row set" where
  "picked E qid b w = set (take (nat b) (claim_candidates E qid w))"

text \<open>
  What a claim is to do, spelled out: the jobs it may take, which of two comes first (higher priority,
  then the earlier time, a job without a time before all), and what becomes of a job it takes.
\<close>

definition available :: "env \<Rightarrow> uuid \<Rightarrow> world \<Rightarrow> job_row set" where
  "available E qid w = {j \<in> set (w_jobs w). j_queue_id j = qid \<and> j_status j = Queued
     \<and> (\<forall>t. j_next_run_at j = Some t \<longrightarrow> t \<le> w_now w) \<and> \<not> e_locked E (w_ops w) (j_id j)}"

definition goes_first :: "job_row \<Rightarrow> job_row \<Rightarrow> bool" where
  "goes_first j k \<longleftrightarrow> j_priority k < j_priority j \<or> j_priority j = j_priority k \<and>
     (case j_next_run_at j of None \<Rightarrow> True | Some s \<Rightarrow> (case j_next_run_at k of None \<Rightarrow> False | Some t \<Rightarrow> s \<le> t))"

definition claimed_row :: "uuid \<Rightarrow> timestamp \<Rightarrow> job_row \<Rightarrow> job_row" where
  "claimed_row wid now j = j\<lparr>j_status := Claimed, j_worker_id := Some wid, j_claimed_at := Some now,
     j_lease_expires_at := Some (now + 30 * 1000000), j_updated_at := now\<rparr>"

lemma claim_key_goes_first: "claim_key j \<le> claim_key k \<Longrightarrow> goes_first j k"
  by (auto simp: claim_key_def goes_first_def less_eq_prod_def split: option.splits)

lemma claim_set_row: "claim_set wid now = claimed_row wid now"
  by (auto simp: claim_set_def claimed_row_def seconds_def LEASE_SECONDS_def)

lemma available_candidates: "available E qid w = set (claim_candidates E qid w)"
  by (auto simp: available_def set_candidates runnable_def split: option.splits)

lemma picked_subset: "picked E qid b w \<subseteq> available E qid w"
  unfolding picked_def available_candidates by (rule set_take_subset)

lemma picked_runnable: "j \<in> picked E qid b w \<Longrightarrow> j \<in> set (w_jobs w) \<and> runnable qid (w_now w) j"
  using picked_subset by (fastforce simp: available_candidates set_candidates)

lemma picked_id:
  assumes "distinct (map j_id (w_jobs w))" and "j \<in> set (w_jobs w)"
  shows "j_id j \<in> set (claim_ids E qid b w) \<longleftrightarrow> j \<in> picked E qid b w"
proof
  assume "j_id j \<in> set (claim_ids E qid b w)"
  then obtain k where k: "k \<in> picked E qid b w" "j_id k = j_id j"
    by (auto simp: claim_ids_def picked_def)
  then have "k \<in> set (w_jobs w)" using picked_runnable by blast
  with k assms have "k = j" by (auto simp: distinct_map dest: inj_onD)
  with k show "j \<in> picked E qid b w" by simp
qed (auto simp: claim_ids_def picked_def)

lemma card_picked:
  assumes "distinct (map j_id (w_jobs w))"
  shows "card (picked E qid b w) = min (nat b) (card (available E qid w))"
proof -
  have d: "distinct (claim_candidates E qid w)"
    using distinct_candidates [OF assms] distinct_map by blast
  then have "card (picked E qid b w) = min (length (claim_candidates E qid w)) (nat b)"
    by (simp add: picked_def distinct_card)
  moreover have "card (available E qid w) = length (claim_candidates E qid w)"
    by (simp add: available_candidates distinct_card [OF d])
  ultimately show ?thesis by (simp add: min.commute)
qed

lemma picked_first:
  assumes "j \<in> picked E qid b w" and "k \<in> available E qid w - picked E qid b w"
  shows "claim_key j \<le> claim_key k"
proof -
  have "k \<in> set (claim_candidates E qid w)" using assms(2) by (simp add: available_candidates)
  then have "k \<in> set (take (nat b) (claim_candidates E qid w)) \<or> k \<in> set (drop (nat b) (claim_candidates E qid w))"
    by (metis append_take_drop_id Un_iff set_append)
  with assms show ?thesis
    using sorted_take_le [OF sorted_candidates] by (auto simp: picked_def)
qed

text \<open>A claim that succeeds, in terms of the picked jobs.\<close>

lemma sql_claim_ok:
  assumes "distinct (map j_id (w_jobs w))" and "sql_claim E wid qid b w = (Inr js, w')"
  shows "w' = w\<lparr>w_jobs := update_where (\<lambda>j. j \<in> picked E qid b w) (claim_set wid (w_now w)) (w_jobs w)\<rparr>"
    and "mset js = image_mset (claim_set wid (w_now w)) (mset_set (picked E qid b w))"
proof -
  let ?u = "claim_set wid (w_now w)"
  have P: "update_where (\<lambda>j. j_id j \<in> set (claim_ids E qid b w)) ?u (w_jobs w)
     = update_where (\<lambda>j. j \<in> picked E qid b w) ?u (w_jobs w)"
    unfolding update_where_def using picked_id [OF assms(1)] by simp
  from assms(2) show "w' = w\<lparr>w_jobs := update_where (\<lambda>j. j \<in> picked E qid b w) ?u (w_jobs w)\<rparr>"
    by (simp add: sql_claim_def Let_def P split: if_splits)
  have "filter (\<lambda>j. j_id j \<in> set (claim_ids E qid b w)) (update_where (\<lambda>j. j_id j \<in> set (claim_ids E qid b w)) ?u rs)
      = map ?u (filter (\<lambda>j. j_id j \<in> set (claim_ids E qid b w)) rs)" for rs
    by (induction rs) (auto simp: claim.key_upd)
  moreover have "filter (\<lambda>j. j_id j \<in> set (claim_ids E qid b w)) (w_jobs w) = filter (\<lambda>j. j \<in> picked E qid b w) (w_jobs w)"
    using picked_id [OF assms(1)] by (intro filter_cong) auto
  moreover have "mset (filter (\<lambda>j. j \<in> picked E qid b w) (w_jobs w)) = mset_set (picked E qid b w)"
  proof -
    have "distinct (filter (\<lambda>j. j \<in> picked E qid b w) (w_jobs w))"
      using assms(1) distinct_map by (auto intro: distinct_filter)
    moreover have "set (filter (\<lambda>j. j \<in> picked E qid b w) (w_jobs w)) = picked E qid b w"
      using picked_runnable by auto
    ultimately show ?thesis by (metis mset_set_set)
  qed
  moreover have "mset js = mset (filter (\<lambda>j. j_id j \<in> set (claim_ids E qid b w))
      (update_where (\<lambda>j. j_id j \<in> set (claim_ids E qid b w)) ?u (w_jobs w)))"
    using assms(2) unfolding sql_claim_def Let_def by (metis Pair_inject sum.inject(2) scan_simps(2) sum.distinct(1))
  ultimately show "mset js = image_mset ?u (mset_set (picked E qid b w))"
    by (simp only: mset_map)
qed

section \<open>Counting the jobs in flight\<close>

lemma in_flight_claimed:
  assumes "\<And>j. j \<in> set rs \<Longrightarrow> j \<in> P \<Longrightarrow> j_queue_id j = qid \<and> j_status j = Queued"
  shows "in_flight_count qid (update_where (\<lambda>j. j \<in> P) (claim_set wid now) rs)
    = in_flight_count qid rs + int (length (filter (\<lambda>j. j \<in> P) rs))"
  using assms
proof (induction rs)
  case (Cons r rs)
  then have "in_flight_count qid (update_where (\<lambda>j. j \<in> P) (claim_set wid now) rs)
    = in_flight_count qid rs + int (length (filter (\<lambda>j. j \<in> P) rs))" by simp
  moreover have "r \<in> P \<Longrightarrow> j_queue_id r = qid \<and> j_status r = Queued" using Cons.prems by simp
  moreover have "in_flight (claim_set wid now r)" "j_queue_id (claim_set wid now r) = j_queue_id r"
    by (simp_all add: in_flight_def claim_set_def)
  moreover have "r \<in> P \<Longrightarrow> \<not> in_flight r" using calculation(2) by (auto simp: in_flight_def)
  ultimately show ?case by (auto simp: in_flight_count_def)
qed (simp add: in_flight_count_def)

lemma claim_counts:
  assumes "distinct (map j_id (w_jobs w))" and "sql_claim E wid qid b w = (Inr js, w')"
  shows "in_flight_count qid (w_jobs w') = in_flight_count qid (w_jobs w) + int (length js)"
    and "length js = card (picked E qid b w)"
proof -
  note ok = sql_claim_ok [OF assms]
  have fin: "finite (picked E qid b w)" by (simp add: picked_def)
  have size: "size (mset js) = card (picked E qid b w)" unfolding ok(2) by simp
  then show len: "length js = card (picked E qid b w)" by simp
  have "distinct (filter (\<lambda>j. j \<in> picked E qid b w) (w_jobs w))"
    using assms(1) distinct_map by (auto intro: distinct_filter)
  then have "length (filter (\<lambda>j. j \<in> picked E qid b w) (w_jobs w)) = card (set (filter (\<lambda>j. j \<in> picked E qid b w) (w_jobs w)))"
    by (rule distinct_card [symmetric])
  also have "set (filter (\<lambda>j. j \<in> picked E qid b w) (w_jobs w)) = picked E qid b w"
    using picked_runnable by auto
  finally have "length (filter (\<lambda>j. j \<in> picked E qid b w) (w_jobs w)) = length js"
    by (simp add: len)
  moreover have "in_flight_count qid (update_where (\<lambda>j. j \<in> picked E qid b w) (claim_set wid (w_now w)) (w_jobs w))
    = in_flight_count qid (w_jobs w) + int (length (filter (\<lambda>j. j \<in> picked E qid b w) (w_jobs w)))"
    by (rule in_flight_claimed) (auto dest: picked_runnable simp: runnable_def)
  ultimately show "in_flight_count qid (w_jobs w') = in_flight_count qid (w_jobs w) + int (length js)"
    by (simp add: ok(1))
qed

lemma budget_ok:
  assumes "sql_budget qid w = (Inr b, w')" and "find_row q_id qid (w_queues w) = Some q"
  shows "b = max (queue_limit q - in_flight_count qid (w_jobs w)) 0" and "w' = w"
  using assms by (auto simp: sql_budget_def with_param_def int4_def split: if_splits)

end
