(* ===== verification/Tick.thy ===== *)
theory Tick
  imports Claiming
begin

text \<open>
  A tick that runs alone on a database that answers: the loop over the claimed jobs, the loop
  over the queues, and the whole of \<open>runWorkerTick\<close>.
\<close>

section \<open>Jobs the worker can execute\<close>

text \<open>
  The payload parses, the attempt number fits its column, and what a failing job writes is
  accepted by the database.
\<close>

definition executable :: "env \<Rightarrow> job_row \<Rightarrow> bool" where
  "executable E j \<longleftrightarrow> int4_ok (j_attempts j + 1) \<and>
     (case payload_value (j_payload j) of Inl e \<Rightarrow> False
      | Inr p \<Rightarrow> fst (payload_outcome E p) \<or>
          (case json_stringify p of None \<Rightarrow> False
           | Some s \<Rightarrow> \<not> isl (e_jsonb E s) \<and> CHR 0x00 \<notin> set (snd (payload_outcome E p))))"

lemma run_executable:
  assumes "ready E w" and "j_id job \<in> j_id ` set (w_jobs w)" and "j_queue_id job \<in> q_id ` set (w_queues w)"
    and "wid \<in> wk_id ` set (w_workers w)" and "executable E job"
  obtains p w' where "payload_value (j_payload job) = Inr p"
    and "runP (executeJob E job wid) w = (Inr (), w')" and "executed E job wid p w w'"
proof -
  obtain p where p: "payload_value (j_payload job) = Inr p"
    using assms(5) by (auto simp: executable_def split: sum.splits)
  define s where "s = the (json_stringify p)"
  define v where "v = projr (e_jsonb E s)"
  have "\<not> fst (payload_outcome E p) \<Longrightarrow> json_stringify p = Some s \<and> e_jsonb E s = Inr v
      \<and> CHR 0x00 \<notin> set (snd (payload_outcome E p))"
    using assms(5) p by (auto simp: executable_def s_def v_def split: option.splits)
  moreover have "int4_ok (j_attempts job + 1)" using assms(5) by (simp add: executable_def)
  ultimately obtain w' where "runP (executeJob E job wid) w = (Inr (), w')" "executed E job wid p w w'"
    using run_executeJob [OF assms(1-4) _ p, of s v] by blast
  with p show ?thesis by (rule that)
qed

section \<open>What a group of executions leaves\<close>

definition closed_row :: "execution_row \<Rightarrow> bool" where
  "closed_row x \<longleftrightarrow> je_finished_at x \<noteq> None \<and> je_duration_ms x \<noteq> None \<and> je_status x \<in> {''completed'', ''failed''}"

definition flying :: "world \<Rightarrow> job_row set" where
  "flying w = {j \<in> set (w_jobs w). in_flight j}"

definition others :: "uuid \<Rightarrow> world \<Rightarrow> job_row list" where
  "others qid w = filter (\<lambda>j. j_queue_id j \<noteq> qid) (w_jobs w)"

text \<open>\<open>n\<close> executions of jobs of one queue: \<open>n\<close> closed executions are added, the jobs of the
  other queues are untouched, and nothing is newly in flight.\<close>

definition batch :: "env \<Rightarrow> uuid \<Rightarrow> nat \<Rightarrow> world \<Rightarrow> world \<Rightarrow> bool" where
  "batch E qid n w w' \<longleftrightarrow> progress E w w' \<and> map j_id (w_jobs w') = map j_id (w_jobs w) \<and>
     (\<exists>xs. w_executions w' = w_executions w @ xs \<and> length xs = n \<and> list_all closed_row xs) \<and>
     others qid w' = others qid w \<and> flying w' \<subseteq> flying w"

lemma batch_trans: "batch E qid m u v \<Longrightarrow> batch E qid n v w \<Longrightarrow> batch E qid (m + n) u w"
  unfolding batch_def
  by (elim conjE exE, intro conjI) (auto intro: progress_trans)

lemma others_update:
  assumes "\<And>j. P j \<Longrightarrow> j \<in> set js \<Longrightarrow> j_queue_id j = qid" and "\<And>j. j_queue_id (f j) = j_queue_id j"
  shows "filter (\<lambda>j. j_queue_id j \<noteq> qid) (update_where P f js) = filter (\<lambda>j. j_queue_id j \<noteq> qid) js"
  using assms(1) by (induction js) (auto simp: assms(2))

lemma finish_set_simps [simp]:
  "j_id (finish_set a m s e t j) = j_id j" "j_queue_id (finish_set a m s e t j) = j_queue_id j"
  "\<not> in_flight (finish_set a m s e t j)"
  by (simp_all add: finish_set_def in_flight_def Let_def)

lemma start_set_simps [simp]:
  "j_id (start_set a t j) = j_id j" "j_queue_id (start_set a t j) = j_queue_id j"
  by (simp_all add: start_set_def)

lemma executed_batch:
  assumes "executed E job wid p w w'"
    and q: "\<And>j. j \<in> set (w_jobs w) \<Longrightarrow> j_id j = j_id job \<Longrightarrow> j_queue_id j = qid"
  shows "batch E qid 1 w w'" and "\<And>j. j \<in> flying w' \<Longrightarrow> j_id j \<noteq> j_id job"
    and "\<And>j. j \<in> set (w_jobs w) \<Longrightarrow> j_id j \<noteq> j_id job \<Longrightarrow> j \<in> set (w_jobs w')"
proof -
  let ?a = "j_attempts job + 1"
  obtain t x where js: "w_jobs w' = update_where (\<lambda>j. j_id j = j_id job)
      (finish_set ?a (j_max_attempts job) (fst (payload_outcome E p)) (snd (payload_outcome E p)) t) (w_jobs w)"
    and x: "w_executions w' = w_executions w @ [x]"
    "closed_execution (j_id job) wid ?a (fst (payload_outcome E p)) (snd (payload_outcome E p)) x"
    and pr: "progress E w w'"
    using assms(1) by (auto simp: executed_def Let_def)
  have "closed_row x" using x(2) by (auto simp: closed_execution_def closed_row_def split: if_splits)
  moreover have "others qid w' = others qid w"
    unfolding others_def js by (rule others_update) (auto simp: q)
  moreover have "flying w' \<subseteq> flying w" by (auto simp: flying_def js set_update_where)
  moreover have "map j_id (w_jobs w') = map j_id (w_jobs w)"
    unfolding js by (rule map_update_where) simp
  ultimately show "batch E qid 1 w w'" by (simp add: batch_def pr x)
  show "\<And>j. j \<in> flying w' \<Longrightarrow> j_id j \<noteq> j_id job" by (auto simp: flying_def js set_update_where split: if_splits)
  show "\<And>j. j \<in> set (w_jobs w) \<Longrightarrow> j_id j \<noteq> j_id job \<Longrightarrow> j \<in> set (w_jobs w')" unfolding js by (auto simp: set_update_where)
qed

text \<open>Executing a list of claimed jobs of one queue.\<close>

abbreviation run_each :: "env \<Rightarrow> uuid \<Rightarrow> job_row list \<Rightarrow> nat \<Rightarrow> nat io" where
  "run_each E wid \<equiv> forP (\<lambda>job n. bindP (executeJob E job wid) (\<lambda>_. Ret (Suc n)))"

lemma run_claimed:
  assumes "ready E w" and "distinct (map j_id (w_jobs w))" and "wid \<in> wk_id ` set (w_workers w)"
    and "\<forall>job \<in> set js. executable E job \<and> j_queue_id job \<in> q_id ` set (w_queues w)
       \<and> (\<exists>j \<in> set (w_jobs w). j_id j = j_id job \<and> j_queue_id j = qid)"
  shows "\<exists>w'. runP (run_each E wid js n) w = (Inr (n + length js), w') \<and> batch E qid (length js) w w'
    \<and> (\<forall>j \<in> flying w'. j_id j \<notin> j_id ` set js)
    \<and> (\<forall>j \<in> set (w_jobs w). j_id j \<notin> j_id ` set js \<longrightarrow> j \<in> set (w_jobs w'))"
  using assms
proof (induction js arbitrary: w n)
  case Nil
  then show ?case by (simp add: batch_def progress_refl)
next
  case (Cons job js)
  have uniq: "j_queue_id j = qid" if "j \<in> set (w_jobs w)" "j_id j = j_id job" for j
    using Cons.prems(2,4) that by (metis list.set_intros(1) distinct_map inj_onD)
  obtain p w1 where 1: "runP (executeJob E job wid) w = (Inr (), w1)" "executed E job wid p w w1"
  proof (rule run_executable [of E w job wid])
    show "j_id job \<in> j_id ` set (w_jobs w)" using Cons.prems(4) by (metis image_eqI list.set_intros(1))
  qed (use Cons.prems in auto)
  have b1: "batch E qid 1 w w1" by (rule executed_batch [OF 1(2) uniq])
  have f1: "\<And>j. j \<in> flying w1 \<Longrightarrow> j_id j \<noteq> j_id job" by (rule executed_batch(2) [OF 1(2) uniq])
  have p1: "progress E w w1" and ids: "map j_id (w_jobs w1) = map j_id (w_jobs w)"
    using b1 by (simp_all add: batch_def)
  have keep: "\<exists>j \<in> set (w_jobs w1). j_id j = k \<and> j_queue_id j = qid"
    if k: "\<exists>j \<in> set (w_jobs w). j_id j = k \<and> j_queue_id j = qid" for k
  proof -
    have "k \<in> j_id ` set (w_jobs w1)" using k ids by (metis image_eqI list.set_map)
    then obtain j where j: "j \<in> set (w_jobs w1)" "j_id j = k" by blast
    have "j \<notin> set (others qid w1)"
    proof
      assume "j \<in> set (others qid w1)"
      then have "j \<in> set (others qid w)" using b1 by (simp add: batch_def)
      with k j(2) Cons.prems(2) show False by (auto simp: others_def distinct_map dest: inj_onD)
    qed
    with j show ?thesis by (auto simp: others_def)
  qed
  have "\<exists>w'. runP (run_each E wid js (Suc n)) w1 = (Inr (Suc n + length js), w') \<and> batch E qid (length js) w1 w'
    \<and> (\<forall>j \<in> flying w'. j_id j \<notin> j_id ` set js)
    \<and> (\<forall>j \<in> set (w_jobs w1). j_id j \<notin> j_id ` set js \<longrightarrow> j \<in> set (w_jobs w'))"
    by (rule Cons.IH) (use Cons.prems progressD [OF p1] ids keep in auto)
  then obtain w' where 2: "runP (run_each E wid js (Suc n)) w1 = (Inr (Suc n + length js), w')"
    "batch E qid (length js) w1 w'" "\<forall>j \<in> flying w'. j_id j \<notin> j_id ` set js"
    "\<forall>j \<in> set (w_jobs w1). j_id j \<notin> j_id ` set js \<longrightarrow> j \<in> set (w_jobs w')" by blast
  have "runP (run_each E wid (job # js) n) w = (Inr (n + length (job # js)), w')"
    using 1(1) 2(1) by (simp add: run_simps)
  moreover have "batch E qid (length (job # js)) w w'"
    using batch_trans [OF b1 2(2)] by simp
  moreover have "\<forall>j \<in> flying w'. j_id j \<notin> j_id ` set (job # js)"
    using 2(2,3) f1 by (auto simp: batch_def)
  moreover have "\<forall>j \<in> set (w_jobs w). j_id j \<notin> j_id ` set (job # js) \<longrightarrow> j \<in> set (w_jobs w')"
    using executed_batch(3) [OF 1(2) uniq] 2(4) by simp
  ultimately show ?case by blast
qed

section \<open>One queue of a tick\<close>

definition healthy :: "env \<Rightarrow> world \<Rightarrow> bool" where
  "healthy E w \<longleftrightarrow> ready E w \<and> db_wf w \<and> length (w_jobs w) < 2 ^ 31 \<and>
     (\<forall>q \<in> set (w_queues w). 0 \<le> queue_limit q)"

lemma in_flight_count_bounds: "0 \<le> in_flight_count qid js" "in_flight_count qid js \<le> int (length js)"
  by (simp_all add: in_flight_count_def length_filter_le)

lemma run_budget:
  assumes "healthy E w" and "qid \<in> q_id ` set (w_queues w)"
  shows "\<exists>b. runP (stmt E [''queues'', ''jobs''] (sql_budget qid)) w = (Inr b, advance_clock E 0 w)"
proof -
  from assms(1) have r: "ready E w" by (simp add: healthy_def)
  from assms(2) obtain q where q: "find_row q_id qid (w_queues w) = Some q"
    by (metis find_row_None_iff option.exhaust)
  then have "q \<in> set (w_queues w)" by (auto dest: find_row_SomeD)
  with assms(1) have "0 \<le> queue_limit q" "queue_limit q < 2 ^ 31" "length (w_jobs w) < 2 ^ 31"
    by (auto simp: healthy_def wf_defs int4_ok_def queue_limit_def split: option.splits)
  then have "int4_ok (queue_limit q - in_flight_count qid (w_jobs w))"
    using in_flight_count_bounds [of qid "w_jobs w"] by (auto simp: int4_ok_def)
  with q show ?thesis
    by (simp add: run_stmt [OF r] schema_tables_def sql_budget_def with_param_def int4_def)
qed

lemma executable_claim [simp]: "executable E (claim_set wid now j) = executable E j"
  by (simp add: executable_def claim_set_def)

lemma claim_set_simps [simp]:
  "j_id (claim_set wid now j) = j_id j" "j_queue_id (claim_set wid now j) = j_queue_id j"
  by (simp_all add: claim_set_def)

lemma run_claim:
  assumes "ready E w" and "distinct (map j_id (w_jobs w))" and "wid \<in> wk_id ` set (w_workers w)"
  obtains js w' where "runP (stmt E [''jobs''] (sql_claim E wid qid b)) w = (Inr js, w')"
    and "progress E w w'" and "map j_id (w_jobs w') = map j_id (w_jobs w)"
    and "w_executions w' = w_executions w" and "others qid w' = others qid w"
    and "\<forall>j \<in> flying w'. j \<in> flying w \<or> j_id j \<in> j_id ` set js"
    and "\<forall>j \<in> set js. j \<in> set (w_jobs w') \<and> j_queue_id j = qid"
    and "(\<forall>j \<in> set (w_jobs w). j_queue_id j = qid \<longrightarrow> executable E j) \<longrightarrow> (\<forall>j \<in> set js. executable E j)"
proof -
  let ?v = "advance_clock E 0 w" let ?P = "picked E qid b ?v" let ?u = "claim_set wid (w_now ?v)"
  let ?w = "?v\<lparr>w_jobs := update_where (\<lambda>j. j \<in> ?P) ?u (w_jobs ?v)\<rparr>"
  have dv: "distinct (map j_id (w_jobs ?v))" using assms(2) by simp
  obtain js where run: "sql_claim E wid qid b ?v = (Inr js, snd (sql_claim E wid qid b ?v))"
    using assms(3) by (auto simp: sql_claim_def Let_def)
  have w': "snd (sql_claim E wid qid b ?v) = ?w" by (rule sql_claim_ok(1) [OF dv run])
  have js: "set js = ?u ` ?P"
    using arg_cong [OF sql_claim_ok(2) [OF dv run], of set_mset] by (simp add: picked_def)
  have P: "j \<in> set (w_jobs w) \<and> j_queue_id j = qid" if "j \<in> ?P" for j
    using picked_runnable [OF that] by (simp add: runnable_def)
  have ids: "map j_id (w_jobs ?w) = map j_id (w_jobs w)" by (simp add: claim.keys_update)
  have jobs: "set (w_jobs ?w) = (\<lambda>j. if j \<in> ?P then ?u j else j) ` set (w_jobs w)"
    by (simp add: set_update_where)
  show ?thesis
  proof (rule that [of js ?w])
    show "runP (stmt E [''jobs''] (sql_claim E wid qid b)) w = (Inr js, ?w)"
      using run w' by (simp add: run_stmt [OF assms(1)] schema_tables_def)
    have "ready E ?w"
      by (rule readyI [OF assms(1)]) (auto simp: all_ids_def claim.key_set_update)
    then show "progress E w ?w" by (simp add: progress_def advance_now claim.key_set_update)
    show "others qid ?w = others qid w"
      by (simp add: others_def) (rule others_update, use P in auto)
    show "\<forall>j \<in> flying ?w. j \<in> flying w \<or> j_id j \<in> j_id ` set js"
    proof
      fix j assume "j \<in> flying ?w"
      then have j: "j \<in> (\<lambda>j. if j \<in> ?P then ?u j else j) ` set (w_jobs w)" "in_flight j"
        by (auto simp: flying_def set_update_where)
      then show "j \<in> flying w \<or> j_id j \<in> j_id ` set js"
        unfolding js by (auto simp: flying_def split: if_splits)
    qed
    show "\<forall>j \<in> set js. j \<in> set (w_jobs ?w) \<and> j_queue_id j = qid"
      using P unfolding js jobs by force
    show "(\<forall>j \<in> set (w_jobs w). j_queue_id j = qid \<longrightarrow> executable E j) \<longrightarrow> (\<forall>j \<in> set js. executable E j)"
      using P unfolding js by auto
  qed (use ids in simp_all)
qed

lemma run_tick_queue:
  assumes h: "healthy E w" and "wid \<in> wk_id ` set (w_workers w)" and "qid \<in> q_id ` set (w_queues w)"
    and ex: "\<And>j. j \<in> set (w_jobs w) \<Longrightarrow> j_queue_id j = qid \<Longrightarrow> executable E j"
  shows "\<exists>w' m. runP (tick_queue E wid qid n) w = (Inr (n + m), w') \<and> batch E qid m w w'"
proof -
  from h have r: "ready E w" and d: "distinct (map j_id (w_jobs w))" by (auto simp: healthy_def wf_defs)
  let ?v = "advance_clock E 0 w"
  have pv: "progress E w ?v" by (rule progress_advance [OF r])
  obtain b where b: "runP (stmt E [''queues'', ''jobs''] (sql_budget qid)) w = (Inr b, ?v)"
    using run_budget [OF h assms(3)] by blast
  show ?thesis
  proof (cases "b \<le> 0")
    case True
    with b have "runP (tick_queue E wid qid n) w = (Inr (n + 0), ?v)" by (simp add: tick_queue_def run_simps)
    moreover have "batch E qid 0 w ?v" using pv by (simp add: batch_def others_def flying_def)
    ultimately show ?thesis by blast
  next
    case False
    have dv: "distinct (map j_id (w_jobs ?v))" and wv: "wid \<in> wk_id ` set (w_workers ?v)"
      using d assms(2) by simp_all
    obtain js w1 where c: "runP (stmt E [''jobs''] (sql_claim E wid qid b)) ?v = (Inr js, w1)"
      "progress E ?v w1" "map j_id (w_jobs w1) = map j_id (w_jobs ?v)" "w_executions w1 = w_executions ?v"
      "others qid w1 = others qid ?v" "\<forall>j \<in> flying w1. j \<in> flying ?v \<or> j_id j \<in> j_id ` set js"
      "\<forall>j \<in> set js. j \<in> set (w_jobs w1) \<and> j_queue_id j = qid"
      "(\<forall>j \<in> set (w_jobs ?v). j_queue_id j = qid \<longrightarrow> executable E j) \<longrightarrow> (\<forall>j \<in> set js. executable E j)"
      by (rule run_claim [OF progressD(1) [OF pv] dv wv])
    have ejs: "\<forall>j \<in> set js. executable E j" using c(8) ex by simp
    have qw1: "qid \<in> q_id ` set (w_queues w1)" using assms(3) progressD(3) [OF c(2)] by simp
    have "\<exists>w'. runP (run_each E wid js n) w1 = (Inr (n + length js), w') \<and> batch E qid (length js) w1 w'
      \<and> (\<forall>j \<in> flying w'. j_id j \<notin> j_id ` set js)
      \<and> (\<forall>j \<in> set (w_jobs w1). j_id j \<notin> j_id ` set js \<longrightarrow> j \<in> set (w_jobs w'))"
    proof (rule run_claimed)
      show "\<forall>job \<in> set js. executable E job \<and> j_queue_id job \<in> q_id ` set (w_queues w1)
          \<and> (\<exists>j \<in> set (w_jobs w1). j_id j = j_id job \<and> j_queue_id j = qid)"
        using c(7) ejs qw1 by blast
    qed (use c(3) dv wv progressD [OF c(2)] in simp_all)
    then obtain w' where 2: "runP (run_each E wid js n) w1 = (Inr (n + length js), w')"
      "batch E qid (length js) w1 w'" "\<forall>j \<in> flying w'. j_id j \<notin> j_id ` set js" by blast
    have "runP (tick_queue E wid qid n) w = (Inr (n + length js), w')"
      using b c(1) 2(1) False by (simp add: tick_queue_def run_simps)
    moreover have "flying w1 \<inter> {j. j_id j \<notin> j_id ` set js} \<subseteq> flying w" using c(6) by (fastforce simp: flying_def)
    then have "flying w' \<subseteq> flying w" using 2(2,3) unfolding batch_def by blast
    then have "batch E qid (length js) w w'"
      using 2(2) c(3-5) progress_trans [OF pv progress_trans [OF c(2)]]
      by (auto simp: batch_def others_def)
    ultimately show ?thesis by blast
  qed
qed

section \<open>The loop over the queues\<close>

definition swept :: "env \<Rightarrow> nat \<Rightarrow> world \<Rightarrow> world \<Rightarrow> bool" where
  "swept E n w w' \<longleftrightarrow> progress E w w' \<and> flying w' \<subseteq> flying w \<and>
     (\<exists>xs. w_executions w' = w_executions w @ xs \<and> length xs = n \<and> list_all closed_row xs)"

lemma swept_trans: "swept E m u v \<Longrightarrow> swept E n v w \<Longrightarrow> swept E (m + n) u w"
  unfolding swept_def by (elim conjE exE, intro conjI) (auto intro: progress_trans)

lemma batch_swept: "batch E qid n w w' \<Longrightarrow> swept E n w w'"
  by (simp add: batch_def swept_def)

lemma run_sound: "guar sound_step p \<Longrightarrow> runP p w = (r, w') \<Longrightarrow> db_wf w \<Longrightarrow> db_wf w'"
proof -
  assume "guar sound_step p"
  then have "sound_step w (snd (runP p w))" by (rule guar_run) (auto intro: sound_trans)
  then show "runP p w = (r, w') \<Longrightarrow> db_wf w \<Longrightarrow> db_wf w'" by (simp add: sound_step_def)
qed

lemma healthy_batch:
  assumes "healthy E w" and "batch E qid m w w'" and "db_wf w'"
  shows "healthy E w'"
proof -
  have "length (w_jobs w') = length (w_jobs w)" using assms(2) unfolding batch_def by (metis length_map)
  with assms show ?thesis by (auto simp: healthy_def batch_def progress_def)
qed

text \<open>The jobs of one queue.\<close>

definition of_queue :: "uuid \<Rightarrow> world \<Rightarrow> job_row list" where
  "of_queue qid w = filter (\<lambda>j. j_queue_id j = qid) (w_jobs w)"

lemma of_queue_others: "others qid w' = others qid w \<Longrightarrow> k \<noteq> qid \<Longrightarrow> of_queue k w' = of_queue k w"
proof -
  assume "others qid w' = others qid w" and k: "k \<noteq> qid"
  then have "filter (\<lambda>j. j_queue_id j = k) (others qid w') = filter (\<lambda>j. j_queue_id j = k) (others qid w)" by simp
  moreover have "filter (\<lambda>j. j_queue_id j = k) (others qid v) = of_queue k v" for v
    using k by (auto simp: others_def of_queue_def intro!: filter_cong)
  ultimately show ?thesis by simp
qed

lemma run_queues:
  assumes "healthy E w" and "wid \<in> wk_id ` set (w_workers w)" and "distinct qs"
    and "set qs \<subseteq> q_id ` set (w_queues w)"
    and "\<forall>j \<in> set (w_jobs w). j_queue_id j \<in> set qs \<longrightarrow> executable E j"
  shows "\<exists>w' m. runP (forP (tick_queue E wid) qs n) w = (Inr (n + m), w') \<and> swept E m w w'
    \<and> (\<forall>k. k \<notin> set qs \<longrightarrow> of_queue k w' = of_queue k w)"
  using assms
proof (induction qs arbitrary: w n)
  case Nil
  then show ?case by (auto simp: swept_def healthy_def progress_refl)
next
  case (Cons qid qs)
  obtain w1 m1 where 1: "runP (tick_queue E wid qid n) w = (Inr (n + m1), w1)" "batch E qid m1 w w1"
    using run_tick_queue [OF Cons.prems(1,2), of qid n] Cons.prems(4,5) by auto
  have "db_wf w1" using run_sound [OF guar_tick_queue 1(1)] Cons.prems(1) by (simp add: healthy_def)
  then have h1: "healthy E w1" by (rule healthy_batch [OF Cons.prems(1) 1(2)])
  have p1: "progress E w w1" using 1(2) by (simp add: batch_def)
  have ex: "\<forall>j \<in> set (w_jobs w1). j_queue_id j \<in> set qs \<longrightarrow> executable E j"
  proof (intro ballI impI)
    fix j assume j: "j \<in> set (w_jobs w1)" "j_queue_id j \<in> set qs"
    then have "j \<in> set (others qid w1)" using Cons.prems(3) by (auto simp: others_def)
    then have "j \<in> set (others qid w)" using 1(2) by (simp add: batch_def)
    with Cons.prems(5) j(2) show "executable E j" by (auto simp: others_def)
  qed
  obtain w2 m2 where 2: "runP (forP (tick_queue E wid) qs (n + m1)) w1 = (Inr (n + m1 + m2), w2)" "swept E m2 w1 w2"
    "\<forall>k. k \<notin> set qs \<longrightarrow> of_queue k w2 = of_queue k w1"
    using Cons.IH [OF h1 _ _ _ ex] Cons.prems(2-4) progressD(3,4) [OF p1] by force
  have "runP (forP (tick_queue E wid) (qid # qs) n) w = (Inr (n + (m1 + m2)), w2)"
    using 1(1) 2(1) by (simp add: run_simps add.assoc)
  moreover have "swept E (m1 + m2) w w2" by (rule swept_trans [OF batch_swept [OF 1(2)] 2(2)])
  moreover have "of_queue k w2 = of_queue k w" if "k \<notin> set (qid # qs)" for k
    using that 2(3) of_queue_others [of qid w1 w k] 1(2) by (simp add: batch_def)
  ultimately show ?case by blast
qed

section \<open>Registration of the worker\<close>

text \<open>Nothing but the worker tables changes.\<close>

definition registers :: "env \<Rightarrow> world \<Rightarrow> world \<Rightarrow> bool" where
  "registers E w w' \<longleftrightarrow> ready E w' \<and> w_jobs w' = w_jobs w \<and> w_queues w' = w_queues w \<and>
     w_executions w' = w_executions w \<and> wk_id ` set (w_workers w) \<subseteq> wk_id ` set (w_workers w')"

lemma registers_trans: "registers E u v \<Longrightarrow> registers E v w \<Longrightarrow> registers E u w"
  by (auto simp: registers_def)

lemma run_upsert_heartbeat:
  assumes "ready E w" and "wid \<in> wk_id ` set (w_workers w)"
  shows "\<exists>w'. runP (stmt E [''worker_heartbeats''] (sql_upsert_heartbeat E wid)) w = (Inr (), w') \<and> registers E w w'"
proof -
  let ?v = "advance_clock E 0 w"
  let ?w = "snd (sql_upsert_heartbeat E wid ?v)"
  have new: "gen_uuid E ?v \<notin> hb_id ` set (w_heartbeats w)"
    using ready_new [OF assms(1)] by (auto simp: gen_uuid_def all_ids_def)
  have tables: "w_jobs ?w = w_jobs w" "w_queues ?w = w_queues w" "w_executions ?w = w_executions w"
    "w_workers ?w = w_workers w"
    by (auto simp: sql_upsert_heartbeat_def insert_heartbeat_def)
  have "ready E ?w"
    by (rule readyI [OF assms(1)])
      (auto simp: sql_upsert_heartbeat_def insert_heartbeat_def new_heartbeat_def all_ids_def
        beat.key_set_update gen_uuid_def)
  then have "registers E w ?w" by (simp add: registers_def tables)
  moreover have "sql_upsert_heartbeat E wid ?v = (Inr (), ?w)"
    using assms(2) new by (auto simp: sql_upsert_heartbeat_def insert_heartbeat_def new_heartbeat_def)
  then have "runP (stmt E [''worker_heartbeats''] (sql_upsert_heartbeat E wid)) w = (Inr (), ?w)"
    by (simp add: run_stmt [OF assms(1)] schema_tables_def)
  ultimately show ?thesis by blast
qed

lemma run_touch_worker:
  assumes "ready E w"
  shows "\<exists>w'. runP (stmt E [''workers''] (sql_touch_worker wid)) w = (Inr (), w') \<and> registers E w w'"
proof -
  let ?w = "snd (sql_touch_worker wid (advance_clock E 0 w))"
  have "ready E ?w"
    by (rule readyI [OF assms]) (auto simp: sql_touch_worker_def all_ids_def touch.key_set_update)
  then have "registers E w ?w" by (simp add: registers_def sql_touch_worker_def touch.key_set_update)
  moreover have "runP (stmt E [''workers''] (sql_touch_worker wid)) w = (Inr (), ?w)"
    by (simp add: run_stmt [OF assms] schema_tables_def sql_touch_worker_def)
  ultimately show ?thesis by blast
qed

lemma run_insert_worker:
  assumes "ready E w"
  shows "\<exists>wid w'. runP (stmt E [''workers''] (sql_insert_worker E)) w = (Inr wid, w') \<and> registers E w w'
    \<and> wid \<in> wk_id ` set (w_workers w') \<and> wid \<notin> wk_id ` set (w_workers w) \<and> w_heartbeats w' = w_heartbeats w"
proof -
  let ?v = "advance_clock E 0 w"
  let ?w = "snd (sql_insert_worker E ?v)"
  have new: "gen_uuid E ?v \<notin> wk_id ` set (w_workers w)"
    using ready_new [OF assms] by (auto simp: gen_uuid_def all_ids_def)
  have "ready E ?w"
    by (rule readyI [OF assms]) (auto simp: sql_insert_worker_def insert_worker_def all_ids_def gen_uuid_def)
  then have "registers E w ?w" by (auto simp: registers_def sql_insert_worker_def insert_worker_def)
  moreover have "runP (stmt E [''workers''] (sql_insert_worker E)) w = (Inr (gen_uuid E ?v), ?w)"
    using new by (simp add: run_stmt [OF assms] schema_tables_def sql_insert_worker_def insert_worker_def)
  moreover have "gen_uuid E ?v \<in> wk_id ` set (w_workers ?w)" "w_heartbeats ?w = w_heartbeats w"
    using new by (simp_all add: sql_insert_worker_def insert_worker_def)
  ultimately show ?thesis using new by blast
qed

lemma run_ensureWorker:
  assumes "ready E w" and "db_wf w"
  shows "\<exists>wid w'. runP (ensureWorker E) w = (Inr wid, w') \<and> registers E w w' \<and> wid \<in> wk_id ` set (w_workers w')"
proof -
  let ?v = "advance_clock E 0 w"
  have rv: "ready E ?v" by (rule ready_advance [OF assms(1)])
  have v: "registers E w ?v" by (simp add: registers_def rv)
  have find: "runP (stmt E [''workers''] (sql_find_worker E)) w
      = (Inr (case filter (\<lambda>r. wk_name r = WORKER_NAME) (scan E ?v 0 (w_workers w)) of
           [] \<Rightarrow> None | r # _ \<Rightarrow> Some (wk_id r)), ?v)"
    by (simp add: run_stmt [OF assms(1)] schema_tables_def sql_find_worker_def)
  show ?thesis
  proof (cases "filter (\<lambda>r. wk_name r = WORKER_NAME) (scan E ?v 0 (w_workers w))")
    case Nil
    obtain wid w1 where 1: "runP (stmt E [''workers''] (sql_insert_worker E)) ?v = (Inr wid, w1)"
      "registers E ?v w1" "wid \<in> wk_id ` set (w_workers w1)" "wid \<notin> wk_id ` set (w_workers ?v)"
      "w_heartbeats w1 = w_heartbeats ?v"
      using run_insert_worker [OF rv] by blast
    have r1: "ready E w1" using 1(2) by (simp add: registers_def)
    have "wid \<notin> hb_worker_id ` set (w_heartbeats w1)"
      using assms(2) 1(4,5) by (auto simp: wf_defs)
    then have "sql_insert_heartbeat E wid (advance_clock E 0 w1) = sql_upsert_heartbeat E wid (advance_clock E 0 w1)"
      by (simp add: sql_insert_heartbeat_def sql_upsert_heartbeat_def)
    then have "runP (stmt E [''worker_heartbeats''] (sql_insert_heartbeat E wid)) w1
       = runP (stmt E [''worker_heartbeats''] (sql_upsert_heartbeat E wid)) w1"
      by (simp add: run_stmt [OF r1] schema_tables_def)
    then obtain w2 where 2: "runP (stmt E [''worker_heartbeats''] (sql_insert_heartbeat E wid)) w1 = (Inr (), w2)"
      "registers E w1 w2"
      using run_upsert_heartbeat [OF r1 1(3)] by auto
    have "runP (ensureWorker E) w = (Inr wid, w2)"
      using find Nil 1(1) 2(1) by (simp add: ensureWorker_def run_simps)
    moreover have "wid \<in> wk_id ` set (w_workers w2)" using 1(3) 2(2) by (auto simp: registers_def)
    ultimately show ?thesis using registers_trans [OF v registers_trans [OF 1(2) 2(2)]] by blast
  next
    case (Cons r rs)
    then have "r \<in> set (filter (\<lambda>r. wk_name r = WORKER_NAME) (scan E ?v 0 (w_workers w)))" by simp
    then have rin: "wk_id r \<in> wk_id ` set (w_workers ?v)" by simp
    obtain w1 where 1: "runP (stmt E [''worker_heartbeats''] (sql_upsert_heartbeat E (wk_id r))) ?v = (Inr (), w1)"
      "registers E ?v w1"
      using run_upsert_heartbeat [OF rv rin] by blast
    have r1: "ready E w1" using 1(2) by (simp add: registers_def)
    obtain w2 where 2: "runP (stmt E [''workers''] (sql_touch_worker (wk_id r))) w1 = (Inr (), w2)" "registers E w1 w2"
      using run_touch_worker [OF r1] by blast
    have "runP (ensureWorker E) w = (Inr (wk_id r), w2)"
      using find Cons 1(1) 2(1) by (simp add: ensureWorker_def run_simps)
    moreover have "wk_id r \<in> wk_id ` set (w_workers w2)" using rin 1(2) 2(2) by (auto simp: registers_def)
    ultimately show ?thesis using registers_trans [OF v registers_trans [OF 1(2) 2(2)]] by blast
  qed
qed

section \<open>The whole tick\<close>

lemma run_reaper:
  assumes "ready E w"
  shows "\<exists>w'. runP (reaper E) w = (Inr (), w') \<and> progress E w w' \<and> w_executions w' = w_executions w
    \<and> w_jobs w' = update_where (\<lambda>j. in_flight j \<and> lease_expired (w_now w') j) (reap_set (w_now w')) (w_jobs w)"
proof -
  let ?v = "advance_clock E 0 w"
  let ?w = "snd (sql_reap ?v)"
  have "ready E ?w"
    by (rule readyI [OF assms]) (auto simp: sql_reap_def all_ids_def reap.key_set_update)
  then have "progress E w ?w"
    by (simp add: progress_def sql_reap_def advance_now reap.key_set_update)
  moreover have "runP (reaper E) w = (Inr (), ?w)"
    by (simp add: reaper_def run_stmt [OF assms] schema_tables_def sql_reap_def)
  ultimately show ?thesis by (intro exI [of _ ?w]) (simp add: sql_reap_def)
qed

lemma executable_reap [simp]: "executable E (reap_set now j) = executable E j"
  by (simp add: executable_def reap_set_def)

lemma run_tick:
  assumes h: "healthy E w" and url: "getUrl E = Inr u"
    and ex: "\<forall>j \<in> set (w_jobs w). executable E j"
  shows "\<exists>w1 w2 m w'. runP (reaper E) w = (Inr (), w1) \<and> registers E w1 w2 \<and> swept E m w2 w'
    \<and> (\<forall>q \<in> set (w_queues w). q_paused q \<longrightarrow> of_queue (q_id q) w' = of_queue (q_id q) w1)
    \<and> runP (runWorkerTick E) w = (Inr \<lparr>t_processed = m, t_worker = WORKER_NAME\<rparr>, w')"
proof -
  from h have r: "ready E w" and wf: "db_wf w" by (simp_all add: healthy_def)
  obtain w1 where 1: "runP (reaper E) w = (Inr (), w1)" "progress E w w1" "w_executions w1 = w_executions w"
    "w_jobs w1 = update_where (\<lambda>j. in_flight j \<and> lease_expired (w_now w1) j) (reap_set (w_now w1)) (w_jobs w)"
    using run_reaper [OF r] by blast
  have wf1: "db_wf w1" by (rule run_sound [OF guar_reaper 1(1) wf])
  obtain wid w2 where 2: "runP (ensureWorker E) w1 = (Inr wid, w2)" "registers E w1 w2" "wid \<in> wk_id ` set (w_workers w2)"
    using run_ensureWorker [OF progressD(1) [OF 1(2)] wf1] by blast
  have wf2: "db_wf w2" by (rule run_sound [OF guar_ensureWorker 2(1) wf1])
  let ?v = "advance_clock E 0 w2"
  have r2: "ready E w2" using 2(2) by (simp add: registers_def)
  define qs where "qs = map q_id (filter (\<lambda>q. \<not> q_paused q) (scan E ?v 0 (w_queues w2)))"
  have 3: "runP (stmt E [''queues''] (sql_active_queues E)) w2 = (Inr qs, ?v)"
    by (simp add: run_stmt [OF r2] schema_tables_def sql_active_queues_def qs_def)
  have jobs: "w_jobs w2 = w_jobs w1" "w_queues w2 = w_queues w" "length (w_jobs w1) = length (w_jobs w)"
    using 2(2) progressD(3) [OF 1(2)] by (simp_all add: registers_def 1(4))
  have hv: "healthy E ?v"
    using h ready_advance [OF r2] wf2 jobs by (simp add: healthy_def wf_defs)
  have dq: "distinct qs" unfolding qs_def using wf2 by (intro distinct_map_filter) (simp add: wf_defs)
  have "\<forall>j \<in> set (w_jobs w1). executable E j" using ex unfolding 1(4) by (auto simp: set_update_where)
  then have "\<exists>w' m. runP (forP (tick_queue E wid) qs 0) ?v = (Inr (0 + m), w') \<and> swept E m ?v w'
     \<and> (\<forall>k. k \<notin> set qs \<longrightarrow> of_queue k w' = of_queue k ?v)"
    by (intro run_queues [OF hv _ dq]) (use 2(3) jobs in \<open>auto simp: qs_def\<close>)
  then obtain w' m where 4: "runP (forP (tick_queue E wid) qs 0) ?v = (Inr m, w')" "swept E m ?v w'"
    "\<forall>k. k \<notin> set qs \<longrightarrow> of_queue k w' = of_queue k ?v" by auto
  have "runP (runWorkerTick E) w = (Inr \<lparr>t_processed = m, t_worker = WORKER_NAME\<rparr>, w')"
    using 1(1) 2(1) 3 4(1) url by (simp add: runWorkerTick_def getSql_def run_simps)
  moreover have "swept E m w2 w'"
    using 4(2) progress_trans [OF progress_advance [OF r2, of 0]] by (auto simp: swept_def flying_def)
  moreover have "of_queue (q_id q) w' = of_queue (q_id q) w1" if "q \<in> set (w_queues w)" "q_paused q" for q
  proof -
    have "distinct (map q_id (w_queues w))" using wf by (simp add: wf_defs)
    then have "q_id q \<notin> set qs" using that jobs(2) by (auto simp: qs_def distinct_map dest: inj_onD)
    with 4(3) jobs(1) show ?thesis by (simp add: of_queue_def)
  qed
  ultimately show ?thesis using 1(1) 2(2) by blast
qed

end
