(* ===== verification/Worker_Props.thy ===== *)
theory Worker_Props
  imports Tick
begin

text \<open>
  The properties of the worker (\<open>server/worker.ts\<close>), each at the top level with its witness.
\<close>

section \<open>Executing a job\<close>

text \<open>C2: On a database that answers, executing an executable job returns normally. The
  job ends as the outcome of its payload and its attempts demand (completed; dead-lettered when
  the attempts are used up; otherwise queued again for five seconds later) and no other job
  changes; exactly one execution row is added and it is closed; exactly two lines are logged, the
  start and the outcome; a job that was dead-lettered now and had no entry in the dead-letter queue
  gets one, with its queue, its payload, the reason and the attempts, and otherwise the dead letters
  stay as they are. No other table and no variable of the scheduler changes.\<close>

theorem executeJob_outcome:
  assumes "ready E w" and "j_id job \<in> j_id ` set (w_jobs w)" and "j_queue_id job \<in> q_id ` set (w_queues w)"
    and "wid \<in> wk_id ` set (w_workers w)" and "executable E job" and "payload_value (j_payload job) = Inr p"
  shows "\<exists>w'. runP (executeJob E job wid) w = (Inr (), w') \<and> executed E job wid p w w'"
proof -
  obtain p' w' where "payload_value (j_payload job) = Inr p'"
    "runP (executeJob E job wid) w = (Inr (), w')" "executed E job wid p' w w'"
    by (rule run_executable [OF assms(1-5)])
  with assms(6) show ?thesis by auto
qed

lemma fail_outcome [simp]: "payload_outcome E fail_payload = (False, ''boom'')"
  by (simp add: payload_outcome_def fail_payload_def fail_message_def js_or_def)

lemma noop_outcome [simp]: "payload_outcome E noop_payload = (True, [])"
  by (simp add: payload_outcome_def noop_payload_def)

lemma payload_object [simp]:
  "payload_value fail_payload = Inr fail_payload" "payload_value noop_payload = Inr noop_payload"
  by (simp_all add: payload_value_def fail_payload_def noop_payload_def)

lemma fail_stringified:
  "json_stringify fail_payload = Some (stringify fail_payload) \<and> \<not> isl (jsonb_in (stringify fail_payload))"
  by code_simp

lemma executable_demo [simp]:
  "executable demo_env (demo_job jid prio noop_payload)" "executable demo_env (demo_job jid prio fail_payload)"
  using fail_stringified by (simp_all add: executable_def demo_job_def int4_ok_def)

lemma demo_job_simps [simp]:
  "j_id (demo_job jid prio p) = jid" "j_queue_id (demo_job jid prio p) = ''2''"
  "j_payload (demo_job jid prio p) = p" "j_attempts (demo_job jid prio p) = 0"
  "j_max_attempts (demo_job jid prio p) = 3" "j_status (demo_job jid prio p) = Queued"
  by (simp_all add: demo_job_def)

lemma demo_world_simps [simp]:
  "w_jobs (demo_world js) = js" "w_queues (demo_world js) = [demo_queue]" "w_workers (demo_world js) = [demo_worker]"
  "w_executions (demo_world js) = []" "w_dlq (demo_world js) = []" "w_now (demo_world js) = 1000"
  by (simp_all add: demo_world_def)

lemma demo_row_simps [simp]:
  "q_id demo_queue = ''2''" "wk_id demo_worker = ''3''" "wk_name demo_worker = WORKER_NAME"
  "queue_limit demo_queue = 1"
  by (simp_all add: demo_queue_def demo_worker_def queue_limit_def)

theorem executeJob_outcome_witness:
  "\<exists>w'. runP (executeJob demo_env (demo_job ''4'' 5 fail_payload) ''3'') (demo_world [demo_job ''4'' 5 fail_payload])
     = (Inr (), w') \<and> executed demo_env (demo_job ''4'' 5 fail_payload) ''3'' fail_payload
         (demo_world [demo_job ''4'' 5 fail_payload]) w'"
  by (rule executeJob_outcome) (simp_all add: ready_demo)

text \<open>C25: One job whose payload is a JSON string that is not itself JSON text stops a batch. The jobs
  claimed before it are executed; for it \<open>JSON.parse\<close> throws before anything is written, so its attempt
  is not counted; and it and the jobs after it are left as they were, claimed until their leases
  expire.\<close>

theorem poison_payload_stops_batch:
  assumes "payload_value (j_payload job) = Inl e"
    and "ready E w" and "distinct (map j_id (w_jobs w))" and "wid \<in> wk_id ` set (w_workers w)"
    and "\<forall>j \<in> set pre. executable E j \<and> j_queue_id j \<in> q_id ` set (w_queues w)
       \<and> (\<exists>k \<in> set (w_jobs w). j_id k = j_id j \<and> j_queue_id k = qid)"
  shows "\<exists>w' xs. runP (run_each E wid (pre @ job # rest) n) w = (Inl e, w')
    \<and> w_executions w' = w_executions w @ xs \<and> length xs = length pre \<and> list_all closed_row xs
    \<and> (\<forall>j \<in> set (w_jobs w). j_id j \<notin> j_id ` set pre \<longrightarrow> j \<in> set (w_jobs w'))"
proof -
  have poison: "runP (run_each E wid (job # rest) k) v = (Inl e, v)" for k v
    using assms(1) by (simp add: executeJob_def Let_def run_simps)
  obtain w' where "runP (run_each E wid pre n) w = (Inr (n + length pre), w')" "batch E qid (length pre) w w'"
    "\<forall>j \<in> set (w_jobs w). j_id j \<notin> j_id ` set pre \<longrightarrow> j \<in> set (w_jobs w')"
    using run_claimed [OF assms(2-5), of n] by blast
  moreover have "runP (run_each E wid (pre @ job # rest) n) w = (Inl e, w')"
    unfolding run_for_append using calculation(1) poison by simp
  ultimately show ?thesis by (auto simp: batch_def)
qed

theorem poison_payload_stops_batch_witness:
  "payload_value (JStr ''hello'') = Inl Syntax_error
   \<and> (\<exists>w'. runP (run_each demo_env ''3'' [demo_job ''4'' 5 noop_payload, demo_job ''5'' 5 (JStr ''hello'')] 0)
       (demo_world [demo_job ''4'' 5 noop_payload, demo_job ''5'' 5 (JStr ''hello'')]) = (Inl Syntax_error, w')
     \<and> demo_job ''5'' 5 (JStr ''hello'') \<in> set (w_jobs w'))"
proof -
  let ?w = "demo_world [demo_job ''4'' 5 noop_payload, demo_job ''5'' 5 (JStr ''hello'')]"
  have p: "payload_value (JStr ''hello'') = Inl Syntax_error" by code_simp
  moreover have "ready demo_env ?w" by (rule ready_demo) simp
  ultimately show ?thesis
    using poison_payload_stops_batch [of "demo_job ''5'' 5 (JStr ''hello'')" Syntax_error demo_env ?w "''3''" "[demo_job ''4'' 5 noop_payload]" "''2''" "[]" 0]
    by auto
qed

text \<open>A \<open>sleep\<close> job never sleeps longer than five seconds (nor less than a millisecond),
  whatever its \<open>duration_ms\<close> is.\<close>

theorem sleep_bounded:
  "sleep_delay payload = Inr ms \<Longrightarrow> 1 \<le> ms \<and> ms \<le> 5000"
proof -
  have "1 \<le> timer_ms (num_min n 5000) \<and> timer_ms (num_min n 5000) \<le> 5000" for n
    by (cases n) (auto simp: timer_ms_def min_def le_nat_iff nat_le_iff floor_le_iff)
  then show "sleep_delay payload = Inr ms \<Longrightarrow> 1 \<le> ms \<and> ms \<le> 5000"
    by (auto simp: sleep_delay_def split: sum.splits)
qed

theorem sleep_bounded_witness:
  "sleep_delay (JObj [(''duration_ms'', JInt 60000)]) = Inr 5000 \<and> (5000::nat) \<le> 5000"
proof -
  have "sleep_delay (JObj [(''duration_ms'', JInt 60000)]) = Inr 5000"
    by (simp add: sleep_delay_def num_or_def timer_ms_def)
  with sleep_bounded [OF this] show ?thesis by simp
qed

section \<open>Retries\<close>

text \<open>\<open>n\<close> attempts at a job, one after the other, each on the row as it is stored then.\<close>

fun attempts :: "env \<Rightarrow> uuid \<Rightarrow> uuid \<Rightarrow> nat \<Rightarrow> world \<Rightarrow> world option" where
  "attempts E jid wid 0 w = Some w"
| "attempts E jid wid (Suc n) w =
     (case find_row j_id jid (w_jobs w) of None \<Rightarrow> None
      | Some job \<Rightarrow> (case runP (executeJob E job wid) w of
            (Inr _, w') \<Rightarrow> attempts E jid wid n w' | (Inl _, _) \<Rightarrow> None))"

lemma failing_attempt:
  assumes "ready E w" and "find_row j_id jid (w_jobs w) = Some job" and "j_queue_id job \<in> q_id ` set (w_queues w)"
    and "wid \<in> wk_id ` set (w_workers w)" and "executable E job"
    and p: "payload_value (j_payload job) = Inr p" "\<not> fst (payload_outcome E p)"
  obtains w' job' where "runP (executeJob E job wid) w = (Inr (), w')" and "progress E w w'"
    and "find_row j_id jid (w_jobs w') = Some job'" and "j_attempts job' = j_attempts job + 1"
    and "j_payload job' = j_payload job" and "j_max_attempts job' = j_max_attempts job"
    and "j_queue_id job' = j_queue_id job"
    and "j_status job' = (if j_max_attempts job \<le> j_attempts job + 1 then Dead_letter else Queued)"
    and "d_job_id ` set (w_dlq w') = d_job_id ` set (w_dlq w)
           \<union> (if j_max_attempts job \<le> j_attempts job + 1 then {jid} else {})"
proof -
  have id: "j_id job = jid" and mem: "job \<in> set (w_jobs w)" using find_row_SomeD [OF assms(2)] by auto
  then have "j_id job \<in> j_id ` set (w_jobs w)" by blast
  then obtain p' w' where 1: "payload_value (j_payload job) = Inr p'"
    "runP (executeJob E job wid) w = (Inr (), w')" "executed E job wid p' w w'"
    by (rule run_executable [OF assms(1) _ assms(3-5)])
  let ?a = "j_attempts job + 1"
  let ?f = "finish_set ?a (j_max_attempts job) False (snd (payload_outcome E p))"
  from 1(1,3) p obtain t where js: "w_jobs w' = update_where (\<lambda>j. j_id j = jid) (?f t) (w_jobs w)"
    and d: "if j_max_attempts job \<le> ?a then buried E jid (j_queue_id job) p (snd (payload_outcome E p)) ?a (w_dlq w) (w_dlq w')
      else w_dlq w' = w_dlq w"
    and pr: "progress E w w'"
    by (auto simp: executed_def Let_def id cong: if_cong)
  from d have dl: "d_job_id ` set (w_dlq w') = d_job_id ` set (w_dlq w) \<union> (if j_max_attempts job \<le> ?a then {jid} else {})"
    by (auto dest: buried_ids split: if_splits)
  have "find_row j_id jid (w_jobs w') = Some (?f t job)"
    unfolding js by (subst keyed_update.find_update_key) (unfold_locales, simp_all add: assms(2))
  then show ?thesis
    by (rule that [OF 1(2) pr _ _ _ _ _ _ dl])
      (simp_all add: finish_set_def Let_def)
qed

text \<open>C4: A job that always fails is retried until exactly its \<open>max_attempts\<close>-th attempt: after
  every attempt before that it is queued again and not (newly) in the dead-letter queue, and after
  that one it is dead-lettered and in the dead-letter queue, with the attempts counted exactly.\<close>

theorem dead_letter_after_max_attempts:
  assumes "ready E w" and "find_row j_id jid (w_jobs w) = Some job" and "j_queue_id job \<in> q_id ` set (w_queues w)"
    and "wid \<in> wk_id ` set (w_workers w)" and "executable E job" and "int4_ok (j_max_attempts job)"
    and "payload_value (j_payload job) = Inr p" and "\<not> fst (payload_outcome E p)"
    and "0 < n" and "j_attempts job + int n \<le> j_max_attempts job" and "- (2 ^ 31) \<le> j_attempts job"
  shows "\<exists>w' job'. attempts E jid wid n w = Some w' \<and> find_row j_id jid (w_jobs w') = Some job' \<and>
    j_attempts job' = j_attempts job + int n \<and>
    j_status job' = (if j_attempts job + int n = j_max_attempts job then Dead_letter else Queued) \<and>
    (jid \<in> d_job_id ` set (w_dlq w') \<longleftrightarrow>
       jid \<in> d_job_id ` set (w_dlq w) \<or> j_attempts job + int n = j_max_attempts job)"
  using assms
proof (induction n arbitrary: w job)
  case (Suc n)
  obtain w1 job1 where 1: "runP (executeJob E job wid) w = (Inr (), w1)" "progress E w w1"
    "find_row j_id jid (w_jobs w1) = Some job1" "j_attempts job1 = j_attempts job + 1"
    "j_payload job1 = j_payload job" "j_max_attempts job1 = j_max_attempts job" "j_queue_id job1 = j_queue_id job"
    "j_status job1 = (if j_max_attempts job \<le> j_attempts job + 1 then Dead_letter else Queued)"
    "d_job_id ` set (w_dlq w1) = d_job_id ` set (w_dlq w)
           \<union> (if j_max_attempts job \<le> j_attempts job + 1 then {jid} else {})"
    by (rule failing_attempt [OF Suc.prems(1-5,7,8)])
  show ?case
  proof (cases n)
    case 0
    with 1 Suc.prems show ?thesis by auto
  next
    case (Suc k)
    have "executable E job1" using Suc.prems(5,6,10,11) 1(4,5) Suc by (auto simp: executable_def int4_ok_def)
    then have "\<exists>w' job'. attempts E jid wid n w1 = Some w' \<and> find_row j_id jid (w_jobs w') = Some job' \<and>
      j_attempts job' = j_attempts job1 + int n \<and>
      j_status job' = (if j_attempts job1 + int n = j_max_attempts job1 then Dead_letter else Queued) \<and>
      (jid \<in> d_job_id ` set (w_dlq w') \<longleftrightarrow>
         jid \<in> d_job_id ` set (w_dlq w1) \<or> j_attempts job1 + int n = j_max_attempts job1)"
      by (intro Suc.IH [OF progressD(1) [OF 1(2)] 1(3)])
        (use Suc.prems 1(4-7) progressD(3,4) [OF 1(2)] Suc in simp_all)
    with 1 Suc.prems(2,10) Suc show ?thesis by (auto simp: algebra_simps)
  qed
qed simp

theorem dead_letter_after_max_attempts_witness:
  "\<exists>w' job'. attempts demo_env ''4'' ''3'' 3 (demo_world [demo_job ''4'' 5 fail_payload]) = Some w'
     \<and> find_row j_id ''4'' (w_jobs w') = Some job' \<and> j_attempts job' = 3 \<and> j_status job' = Dead_letter
     \<and> ''4'' \<in> d_job_id ` set (w_dlq w')"
  using dead_letter_after_max_attempts [of demo_env "demo_world [demo_job ''4'' 5 fail_payload]" "''4''"
      "demo_job ''4'' 5 fail_payload" "''3''" fail_payload 3]
  by (simp add: ready_demo int4_ok_def)

section \<open>Claiming\<close>

text \<open>C3: A claim takes as many of the available jobs of the queue (queued, due, not locked by
  another transaction) as the budget allows, and the first ones in the order of higher priority,
  then earlier \<open>next_run_at\<close> with unset first. Exactly those are marked claimed by this worker
  with a lease of thirty seconds, those rows are what it returns, and nothing else changes.\<close>

theorem claim_takes_first_available:
  assumes "db_wf w" and "sql_claim E wid qid b w = (Inr js, w')"
  shows "\<exists>P \<subseteq> available E qid w. card P = min (nat b) (card (available E qid w))
    \<and> (\<forall>j \<in> P. \<forall>k \<in> available E qid w - P. goes_first j k)
    \<and> mset js = image_mset (claimed_row wid (w_now w)) (mset_set P)
    \<and> w' = w\<lparr>w_jobs := update_where (\<lambda>j. j \<in> P) (claimed_row wid (w_now w)) (w_jobs w)\<rparr>"
proof -
  have d: "distinct (map j_id (w_jobs w))" using assms(1) by (simp add: wf_defs)
  show ?thesis
    by (intro exI [of _ "picked E qid b w"] conjI ballI picked_subset card_picked [OF d]
        sql_claim_ok [OF d assms(2), unfolded claim_set_row] claim_key_goes_first picked_first)
qed

lemma demo_wf:
  assumes "distinct (map j_id js)" and "\<forall>j \<in> set js. j_queue_id j = ''2'' \<and> j_worker_id j \<in> {None, Some ''3''} \<and> job_ok j"
    and "idem_unique js"
  shows "db_wf (demo_world js)"
  using assms by (auto simp: wf_defs demo_world_def demo_org_def demo_project_def demo_queue_def demo_worker_def int4_ok_def)

lemma demo_job_ok [simp]: "int4_ok prio \<Longrightarrow> job_ok (demo_job jid prio p)"
  by (simp add: job_ok_def demo_job_def int4_ok_def)

lemma demo_jobs_wf:
  "distinct (map fst ps) \<Longrightarrow> \<forall>p \<in> set ps. int4_ok (fst (snd p))
   \<Longrightarrow> db_wf (demo_world (map (\<lambda>(jid, prio, p). demo_job jid prio p) ps))"
  by (rule demo_wf) (auto simp: demo_job_def job_ok_def int4_ok_def idem_unique_def comp_def split_beta filter_map)

lemma demo_two_wf [simp]: "db_wf (demo_world [demo_job ''4'' 5 p, demo_job ''5'' 5 q])" "db_wf (demo_world [demo_job ''4'' 5 p])"
  using demo_jobs_wf [of "[(''4'', 5, p), (''5'', 5, q)]"] demo_jobs_wf [of "[(''4'', 5, p)]"]
  by (simp_all add: int4_ok_def)

text \<open>The two rows of the examples.\<close>

abbreviation two_jobs :: "job_row list" where
  "two_jobs \<equiv> [demo_job ''4'' 5 noop_payload, demo_job ''5'' 5 noop_payload]"

theorem claim_takes_first_available_witness:
  "\<exists>js w'. sql_claim demo_env ''3'' ''2'' 1 (demo_world two_jobs) = (Inr js, w') \<and>
     (\<exists>P \<subseteq> available demo_env ''2'' (demo_world two_jobs). card P = min 1 (card (available demo_env ''2'' (demo_world two_jobs)))
       \<and> mset js = image_mset (claimed_row ''3'' 1000) (mset_set P))"
proof -
  have "\<exists>js w'. sql_claim demo_env ''3'' ''2'' 1 (demo_world two_jobs) = (Inr js, w')"
    by (simp add: sql_claim_def Let_def)
  then obtain js w' where c: "sql_claim demo_env ''3'' ''2'' 1 (demo_world two_jobs) = (Inr js, w')" by blast
  with claim_takes_first_available [OF demo_two_wf(1) c] show ?thesis by auto
qed

text \<open>C16: The concurrency limit, as far as the worker enforces it. It reads the budget of a queue in one
  statement and claims in a later one. If what other transactions did in between has not raised the
  number of jobs in flight in that queue, the claim adds exactly the jobs it returns to those in
  flight, and when it claims any job at all the queue then has at most its limit in flight
  (\<open>concurrency_limit\<close>, or 5 when unset).\<close>

theorem claim_within_budget_keeps_limit:
  assumes "find_row q_id qid (w_queues w) = Some q" and "sql_budget qid w = (Inr b, w1)"
    and "in_flight_count qid (w_jobs w2) \<le> in_flight_count qid (w_jobs w1)" and "db_wf w2"
    and "sql_claim E wid qid b w2 = (Inr js, w3)"
  shows "in_flight_count qid (w_jobs w3) = in_flight_count qid (w_jobs w2) + int (length js)
    \<and> (js \<noteq> [] \<longrightarrow> in_flight_count qid (w_jobs w3) \<le> (case q_concurrency_limit q of None \<Rightarrow> 5 | Some n \<Rightarrow> n))"
proof -
  note b = budget_ok [OF assms(2,1)]
  have d: "distinct (map j_id (w_jobs w2))" using assms(4) by (simp add: wf_defs)
  note c = claim_counts [OF d assms(5)]
  have "length js \<le> nat b" unfolding c(2) card_picked [OF d] by simp
  then have "in_flight_count qid (w_jobs w1) + int (length js) \<le> queue_limit q" if "js \<noteq> []"
    using that b by (cases js) (auto simp: max_def split: if_splits)
  with c(1) assms(3) show ?thesis unfolding queue_limit_def by fastforce
qed

theorem claim_within_budget_keeps_limit_witness:
  "\<exists>js w3. sql_budget ''2'' (demo_world two_jobs) = (Inr 1, demo_world two_jobs)
     \<and> sql_claim demo_env ''3'' ''2'' 1 (demo_world two_jobs) = (Inr js, w3)
     \<and> js \<noteq> [] \<and> in_flight_count ''2'' (w_jobs w3) \<le> 1"
proof -
  have f: "find_row q_id ''2'' (w_queues (demo_world two_jobs)) = Some demo_queue" by simp
  have "in_flight_count ''2'' two_jobs = 0" by (simp add: in_flight_count_def in_flight_def)
  then have b: "sql_budget ''2'' (demo_world two_jobs) = (Inr 1, demo_world two_jobs)"
    by (simp add: sql_budget_def with_param_def int4_def int4_ok_def)
  have "case fst (sql_claim demo_env ''3'' ''2'' 1 (demo_world two_jobs)) of Inr js \<Rightarrow> js \<noteq> [] | Inl e \<Rightarrow> False"
    by code_simp
  then obtain js w3 where c: "sql_claim demo_env ''3'' ''2'' 1 (demo_world two_jobs) = (Inr js, w3)" "js \<noteq> []"
    by (cases "sql_claim demo_env ''3'' ''2'' 1 (demo_world two_jobs)") (auto split: sum.splits)
  with b claim_within_budget_keeps_limit [OF f b order_refl demo_two_wf(1) c(1)] show ?thesis by (auto simp: demo_queue_def)
qed

text \<open>C17: The limit does not hold when two ticks interleave. Both may read the budget before either
  claims, and then a queue whose limit is 1 has two jobs in flight.\<close>

theorem interleaved_ticks_exceed_limit:
  "\<exists>ps w'. pool_reach {runWorkerTick demo_env} ([], demo_world two_jobs) (ps, w')
     \<and> in_flight_count ''2'' (w_jobs (demo_world two_jobs)) = 0 \<and> queue_limit demo_queue = 1
     \<and> in_flight_count ''2'' (w_jobs w') = 2"
proof -
  let ?Q = "\<lambda>w'. in_flight_count ''2'' (w_jobs (demo_world two_jobs)) = 0 \<and> queue_limit demo_queue = 1
     \<and> in_flight_count ''2'' (w_jobs w') = 2"
  have "?Q (snd (play [0, 0, 0, 0, 0, 0, 1, 1, 1, 1, 1, 1, 0, 1]
      ([runWorkerTick demo_env, runWorkerTick demo_env], demo_world two_jobs)))" by code_simp
  then show ?thesis by (rule schedule_witness [where Q = ?Q, rotated]) simp
qed

section \<open>Leases\<close>

text \<open>C15: The reaper returns to the queue exactly the claimed and running jobs whose lease has
  expired, leaves every other job as it is, and after it no job in flight has an expired lease.\<close>

theorem reaper_exact:
  assumes "ready E w"
  shows "\<exists>w'. runP (reaper E) w = (Inr (), w') \<and> length (w_jobs w') = length (w_jobs w)
    \<and> (\<forall>i < length (w_jobs w). let j = w_jobs w ! i in w_jobs w' ! i =
          (if j_status j \<in> {Claimed, Running} \<and> (\<exists>l. j_lease_expires_at j = Some l \<and> l < w_now w')
           then j\<lparr>j_status := Queued, j_worker_id := None, j_claimed_at := None, j_lease_expires_at := None,
                  j_updated_at := w_now w'\<rparr> else j))
    \<and> (\<forall>j \<in> set (w_jobs w'). \<not> (j_status j \<in> {Claimed, Running} \<and> (\<exists>l. j_lease_expires_at j = Some l \<and> l < w_now w')))"
proof -
  have old: "in_flight j \<and> lease_expired now j \<longleftrightarrow> j_status j \<in> {Claimed, Running} \<and> (\<exists>l. j_lease_expires_at j = Some l \<and> l < now)"
    for j now by (auto simp: in_flight_def lease_expired_def split: option.splits)
  obtain w' where w': "runP (reaper E) w = (Inr (), w')"
    "w_jobs w' = update_where (\<lambda>j. in_flight j \<and> lease_expired (w_now w') j) (reap_set (w_now w')) (w_jobs w)"
    using run_reaper [OF assms] by blast
  have "\<forall>j \<in> set (w_jobs w'). \<not> (in_flight j \<and> lease_expired (w_now w') j)"
    unfolding w'(2) by (auto simp: set_update_where reap_set_def in_flight_def)
  moreover have "w_jobs w' ! i = (let j = w_jobs w ! i in if in_flight j \<and> lease_expired (w_now w') j
     then reap_set (w_now w') j else j)" if "i < length (w_jobs w)" for i
    using that unfolding w'(2) by (simp add: update_where_def Let_def)
  moreover have "length (w_jobs w') = length (w_jobs w)" unfolding w'(2) by simp
  ultimately show ?thesis
    using w'(1) unfolding reap_set_def Let_def old by blast
qed

theorem reaper_exact_witness:
  "\<exists>w'. runP (reaper demo_env) (demo_world two_jobs) = (Inr (), w') \<and> length (w_jobs w') = 2"
  using reaper_exact [OF ready_demo [of two_jobs]] by auto

text \<open>An environment in which every operation takes forty seconds: longer than a lease.\<close>

definition slow_env :: env where
  "slow_env = demo_env\<lparr>e_lag := \<lambda>_. 40000000\<rparr>"

text \<open>C18: A lease is not renewed and its loss is not noticed. A tick whose claimed job outlives its
  lease has the job taken back by the reaper of another tick, and then starts it all the same; the
  job is then running without a lease. If that instance dies there, no later reaper or claim touches
  the job: it is running for ever.\<close>

theorem running_without_lease:
  "\<exists>ps w'. pool_reach {runWorkerTick slow_env} ([], demo_world [demo_job ''4'' 5 noop_payload]) (ps, w')
     \<and> (\<exists>j \<in> set (w_jobs w'). j_id j = ''4'' \<and> j_status j = Running \<and> j_lease_expires_at j = None
         \<and> (\<forall>now. \<not> lease_expired now j) \<and> (\<forall>qid now. \<not> runnable qid now j))"
proof -
  let ?Q = "\<lambda>w'. list_ex (\<lambda>j. j_id j = ''4'' \<and> j_status j = Running \<and> j_lease_expires_at j = None) (w_jobs w')"
  have "?Q (snd (play [0, 0, 0, 0, 0, 0, 0, 1, 0] ([runWorkerTick slow_env, runWorkerTick slow_env],
      demo_world [demo_job ''4'' 5 noop_payload])))" by code_simp
  then have "\<exists>ps w'. pool_reach {runWorkerTick slow_env} ([], demo_world [demo_job ''4'' 5 noop_payload]) (ps, w') \<and> ?Q w'"
    by (rule schedule_witness [where Q = ?Q, rotated]) simp
  then show ?thesis by (fastforce simp: list_ex_iff lease_expired_def runnable_def)
qed

section \<open>The tick\<close>

text \<open>C5: A tick that runs alone, on a healthy database with executable jobs, returns. It reports
  exactly the number of executions it added; all of them are closed; and what is in flight
  afterwards was in flight before, with a lease that had not expired: everything the tick claimed
  it has finished.\<close>

theorem tick_outcome:
  assumes "healthy E w" and "getUrl E = Inr u" and "\<forall>j \<in> set (w_jobs w). executable E j"
  shows "\<exists>r w' xs. runP (runWorkerTick E) w = (Inr r, w') \<and> t_worker r = WORKER_NAME
    \<and> w_executions w' = w_executions w @ xs \<and> length xs = t_processed r \<and> list_all closed_row xs
    \<and> flying w' \<subseteq> {j \<in> flying w. \<not> lease_expired (w_now w) j}"
proof -
  obtain w1 w2 m w' where t: "runP (reaper E) w = (Inr (), w1)" "registers E w1 w2" "swept E m w2 w'"
    "runP (runWorkerTick E) w = (Inr \<lparr>t_processed = m, t_worker = WORKER_NAME\<rparr>, w')"
    using run_tick [OF assms] by blast
  have "ready E w" using assms(1) by (simp add: healthy_def)
  then have r: "progress E w w1" "w_executions w1 = w_executions w"
    "w_jobs w1 = update_where (\<lambda>j. in_flight j \<and> lease_expired (w_now w1) j) (reap_set (w_now w1)) (w_jobs w)"
    using run_reaper [of E w] t(1) by auto
  have "\<not> lease_expired (w_now w) j" if "\<not> lease_expired (w_now w1) j" for j
    using that progressD(2) [OF r(1)] by (auto simp: lease_expired_def split: option.splits)
  then have "flying w1 \<subseteq> {j \<in> flying w. \<not> lease_expired (w_now w) j}"
    unfolding flying_def r(3) by (auto simp: set_update_where reap_set_def in_flight_def)
  moreover have "flying w2 = flying w1" using t(2) by (simp add: registers_def flying_def)
  moreover obtain xs where "w_executions w' = w_executions w @ xs" "length xs = m" "list_all closed_row xs"
    using t(2,3) r(2) by (auto simp: swept_def registers_def)
  ultimately show ?thesis using t(3,4) by (fastforce simp: swept_def)
qed

lemma healthy_demo: "healthy demo_env (demo_world two_jobs)"
  by (simp add: healthy_def ready_demo)

lemma demo_url: "getUrl demo_env = Inr ''postgres://db''"
  by (simp add: getUrl_def environ_def demo_env_def)

theorem tick_outcome_witness:
  "\<exists>r w'. runP (runWorkerTick demo_env) (demo_world two_jobs) = (Inr r, w')
     \<and> length (w_executions w') = t_processed r \<and> flying w' = {}"
proof -
  have "flying (demo_world two_jobs) = {}" by (auto simp: flying_def in_flight_def)
  then show ?thesis using tick_outcome [OF healthy_demo demo_url] by auto
qed

text \<open>C19: A tick leaves a paused queue alone: apart from the expired leases the reaper takes back,
  every job of the queue is as it was before.\<close>

theorem paused_queue_untouched:
  assumes "healthy E w" and "getUrl E = Inr u" and "\<forall>j \<in> set (w_jobs w). executable E j"
    and "q \<in> set (w_queues w)" and "q_paused q"
  shows "\<exists>r w' t. runP (runWorkerTick E) w = (Inr r, w') \<and> of_queue (q_id q) w' =
    update_where (\<lambda>j. in_flight j \<and> lease_expired t j) (reap_set t) (of_queue (q_id q) w)"
proof -
  obtain w1 w2 m w' where t: "runP (reaper E) w = (Inr (), w1)"
    "of_queue (q_id q) w' = of_queue (q_id q) w1"
    "runP (runWorkerTick E) w = (Inr \<lparr>t_processed = m, t_worker = WORKER_NAME\<rparr>, w')"
    using run_tick [OF assms(1-3)] assms(4,5) by blast
  have "ready E w" using assms(1) by (simp add: healthy_def)
  then have r: "w_jobs w1 = update_where (\<lambda>j. in_flight j \<and> lease_expired (w_now w1) j) (reap_set (w_now w1)) (w_jobs w)"
    using run_reaper [of E w] t(1) by auto
  have "filter (\<lambda>j. j_queue_id j = k) (update_where P (reap_set now) js)
    = update_where P (reap_set now) (filter (\<lambda>j. j_queue_id j = k) js)" for k P now js
    by (induction js) (auto simp: reap.queue_upd)
  with t r show ?thesis by (auto simp: of_queue_def)
qed

lemma healthy_paused:
  "healthy demo_env (demo_world two_jobs\<lparr>w_queues := [demo_queue\<lparr>q_paused := True\<rparr>]\<rparr>)"
proof -
  have "all_ids (demo_world two_jobs\<lparr>w_queues := [demo_queue\<lparr>q_paused := True\<rparr>]\<rparr>) = all_ids (demo_world two_jobs)"
    by (simp add: all_ids_def)
  then have "ready demo_env (demo_world two_jobs\<lparr>w_queues := [demo_queue\<lparr>q_paused := True\<rparr>]\<rparr>)"
    using ready_demo [of two_jobs] by (simp add: ready_def demo_world_def)
  moreover have "db_wf (demo_world two_jobs\<lparr>w_queues := [demo_queue\<lparr>q_paused := True\<rparr>]\<rparr>)"
    using demo_two_wf(1) [of noop_payload noop_payload] by (simp add: wf_defs demo_queue_def demo_world_def)
  ultimately show ?thesis by (simp add: healthy_def queue_limit_def demo_queue_def)
qed

theorem paused_queue_untouched_witness:
  "\<exists>r w'. runP (runWorkerTick demo_env) (demo_world two_jobs\<lparr>w_queues := [demo_queue\<lparr>q_paused := True\<rparr>]\<rparr>) = (Inr r, w')
     \<and> of_queue ''2'' w' = two_jobs"
  using paused_queue_untouched [OF healthy_paused demo_url, of "demo_queue\<lparr>q_paused := True\<rparr>"]
  by (auto simp: of_queue_def in_flight_def)

end
