(* ===== verification/Tick_Cost.thy ===== *)
theory Tick_Cost
  imports Worker_Props
begin

text \<open>
  How long a tick runs: the number of its operations (SQL statements, readings of the clock and
  waits), whatever fails on the way.
\<close>

section \<open>Counting operations\<close>

primrec steps :: "('w, 'e, 'a) prog \<Rightarrow> 'w \<Rightarrow> nat" where
  "steps (Ret x) = (\<lambda>w. 0)"
| "steps (Throw e) = (\<lambda>w. 0)"
| "steps (Atom f) = (\<lambda>w. case map_prod steps id (f w) of (n, w') \<Rightarrow> Suc (n w'))"

lemma steps_Atom: "steps (Atom f) w = Suc (steps (fst (f w)) (snd (f w)))"
  by (simp add: map_prod_def split_beta)

lemma steps_bind:
  "steps (bindP p k) w = steps p w + (case runP p w of (Inl e, w') \<Rightarrow> 0 | (Inr x, w') \<Rightarrow> steps (k x) w')"
proof (induction p arbitrary: w)
  case (Atom f)
  have "steps (bindP (fst (f w)) k) (snd (f w)) = steps (fst (f w)) (snd (f w))
      + (case runP (fst (f w)) (snd (f w)) of (Inl e, w') \<Rightarrow> 0 | (Inr x, w') \<Rightarrow> steps (k x) w')"
    by (rule Atom_IH [of f "\<lambda>p. \<forall>w. steps (bindP p k) w = steps p w
      + (case runP p w of (Inl e, w') \<Rightarrow> 0 | (Inr x, w') \<Rightarrow> steps (k x) w')", rule_format])
      (use Atom in blast)
  then show ?case by (simp add: steps_Atom runP_Atom del: steps.simps(3) runP.simps(3))
qed simp_all

lemma steps_bind_le:
  assumes "steps p w \<le> m" and "\<And>x u. runP p w = (Inr x, u) \<Longrightarrow> steps (k x) u \<le> n"
  shows "steps (bindP p k) w \<le> m + n"
  using assms by (cases "runP p w"; cases "fst (runP p w)") (auto simp: steps_bind intro: add_mono trans_le_add1)

lemma steps_catch:
  "steps (catchP p h) w = steps p w + (case runP p w of (Inl e, w') \<Rightarrow> steps (h e) w' | (Inr x, w') \<Rightarrow> 0)"
proof (induction p arbitrary: w)
  case (Atom f)
  have "steps (catchP (fst (f w)) h) (snd (f w)) = steps (fst (f w)) (snd (f w))
      + (case runP (fst (f w)) (snd (f w)) of (Inl e, w') \<Rightarrow> steps (h e) w' | (Inr x, w') \<Rightarrow> 0)"
    by (rule Atom_IH [of f "\<lambda>p. \<forall>w. steps (catchP p h) w = steps p w
      + (case runP p w of (Inl e, w') \<Rightarrow> steps (h e) w' | (Inr x, w') \<Rightarrow> 0)", rule_format])
      (use Atom in blast)
  then show ?case by (simp add: steps_Atom runP_Atom del: steps.simps(3) runP.simps(3))
qed simp_all

lemma steps_atom [simp]: "steps (atom f) w = 1"
  by (auto simp: atom_def steps_Atom split: prod.split sum.split simp del: steps.simps(3))

lemma steps_pure [simp]: "steps (pureP r) w = 0"
  by (cases r) (simp_all add: pureP_def)

lemma steps_stmt [simp]: "steps (stmt E tabs f) w = 1" "steps (date_now E) w = 1" "steps (sleepP E ms) w = 1"
  by (simp_all add: stmt_def date_now_def sleepP_def)

text \<open>A program that never does more than \<open>n\<close> operations.\<close>

definition costs :: "nat \<Rightarrow> ('w, 'e, 'a) prog \<Rightarrow> bool" where
  "costs n p \<longleftrightarrow> (\<forall>w. steps p w \<le> n)"

lemma costs_bind: "costs m p \<Longrightarrow> (\<And>x. costs n (k x)) \<Longrightarrow> costs (m + n) (bindP p k)"
  by (auto simp: costs_def intro: steps_bind_le)

lemma costs_catch: "costs m p \<Longrightarrow> (\<And>e. costs n (h e)) \<Longrightarrow> costs (m + n) (catchP p h)"
  by (auto simp: costs_def steps_catch split: prod.split sum.split intro!: add_mono intro: trans_le_add1)

lemma costs_if: "costs m p \<Longrightarrow> costs n q \<Longrightarrow> costs (max m n) (if b then p else q)"
  by (auto simp: costs_def le_max_iff_disj)

lemma costs_atoms: "costs 0 (Ret x)" "costs 0 (pureP r)" "costs 1 (stmt E tabs f)" "costs 1 (date_now E)" "costs 1 (sleepP E ms)"
  by (simp_all add: costs_def)

lemma costs_mono: "costs m p \<Longrightarrow> m \<le> n \<Longrightarrow> costs n p"
  by (auto simp: costs_def intro: order_trans)

lemmas costs_rules = costs_bind costs_catch costs_if costs_atoms

lemma costs_payload: "costs 1 (run_payload E p)"
  unfolding run_payload_def by (rule costs_mono, (rule costs_rules)+) simp

lemma costs_executeJob: "costs 10 (executeJob E job wid)"
proof -
  have s: "costs 3 (record_success E j x d)" for j x d
    unfolding record_success_def by (rule costs_mono, (rule costs_rules)+) simp
  have f: "costs 4 (record_failure E job p x a d m)" for p x a d m
    unfolding record_failure_def by (rule costs_mono, (rule costs_rules)+) simp
  have e: "costs 5 (bindP (date_now E) (\<lambda>finish. if r then record_success E j x (finish - b) else record_failure E job p x a (finish - b) m))"
    for r j x b p a m
    by (rule costs_mono, (rule costs_rules s f)+) simp
  show ?thesis
    unfolding executeJob_def Let_def split_beta by (rule costs_mono, (rule e costs_payload costs_rules)+) simp
qed

section \<open>What a tick does not change\<close>

text \<open>A tick neither adds jobs nor moves them to other queues, and leaves the queues as they are.\<close>

definition same_keys :: "world \<Rightarrow> world \<Rightarrow> bool" where
  "same_keys w w' \<longleftrightarrow> w_queues w' = w_queues w \<and>
     map (\<lambda>j. (j_id j, j_queue_id j)) (w_jobs w') = map (\<lambda>j. (j_id j, j_queue_id j)) (w_jobs w)"

lemma same_keys_refl: "same_keys w w" "same_keys w (advance_clock E n w)"
  by (simp_all add: same_keys_def)

lemma same_keys_trans: "same_keys u v \<Longrightarrow> same_keys v w \<Longrightarrow> same_keys u w"
  by (simp add: same_keys_def)

lemma keys_stmt:
  assumes "\<And>w. same_keys w (snd (f w))"
  shows "guar same_keys (stmt E tabs f)"
proof -
  have "same_keys w (snd (f (advance_clock E 0 w)))" for w
    by (rule same_keys_trans [OF same_keys_refl(2) assms])
  then show ?thesis
    unfolding stmt_def exec_stmt_def Let_def
    by (intro guar_atom) (auto simp: same_keys_refl split: option.splits fault.splits)
qed

lemma keys_update_where: "(\<And>j. j_id (f j) = j_id j \<and> j_queue_id (f j) = j_queue_id j) \<Longrightarrow>
  map (\<lambda>j. (j_id j, j_queue_id j)) (update_where P f js) = map (\<lambda>j. (j_id j, j_queue_id j)) js"
  by (rule map_update_where) simp

lemmas set_defs = reap_set_def claim_set_def start_set_def complete_set_def dead_set_def requeue_set_def

lemma keys_stmts:
  "same_keys w (snd (sql_reap w))" "same_keys w (snd (sql_find_worker E w))" "same_keys w (snd (sql_upsert_heartbeat E wid w))"
  "same_keys w (snd (sql_touch_worker wid w))" "same_keys w (snd (sql_insert_worker E w))" "same_keys w (snd (sql_insert_heartbeat E wid w))"
  "same_keys w (snd (sql_active_queues E w))" "same_keys w (snd (sql_claim E wid q b w))" "same_keys w (snd (sql_start j a w))"
  "same_keys w (snd (sql_insert_execution E j wid a w))" "same_keys w (snd (sql_insert_log E j lev msg w))"
  "same_keys w (snd (sql_complete j w))" "same_keys w (snd (sql_complete_execution x d w))" "same_keys w (snd (sql_fail_execution E x d m w))"
  "same_keys w (snd (sql_dead_letter E j m w))" "same_keys w (snd (sql_requeue E j m w))" "same_keys w (snd (sql_budget q w))"
  by (auto simp: same_keys_def sql_reap_def sql_find_worker_def sql_upsert_heartbeat_def sql_touch_worker_def sql_insert_worker_def
      sql_insert_heartbeat_def sql_active_queues_def sql_claim_def sql_start_def sql_insert_execution_def sql_insert_log_def sql_complete_def
      sql_complete_execution_def sql_fail_execution_def sql_dead_letter_def sql_requeue_def sql_budget_def with_param_def with_required_def
      insert_heartbeat_def insert_worker_def insert_execution_def insert_log_def Let_def set_defs
      intro!: keys_update_where split: sum.split option.split)

lemma keys_insert_dlq: "same_keys w (snd (sql_insert_dlq E j q p m a w))"
  by (auto simp: sql_insert_dlq_def with_param_def insert_dlq_def same_keys_def split: sum.split option.split)

lemma keys_clock: "guar same_keys (date_now E)" "guar same_keys (sleepP E ms)"
  unfolding date_now_def sleepP_def by (intro guar_atom; simp add: same_keys_refl)+

lemmas keys_rules = guar_Ret guar_Throw guar_bind guar_catch guar_pure guar_for guar_option guar_if keys_stmt keys_stmts keys_insert_dlq keys_clock

lemma keys_executeJob: "guar same_keys (executeJob E job wid)"
  unfolding executeJob_def run_payload_def record_success_def record_failure_def Let_def
  by (auto intro!: keys_rules split: prod.split)

lemma keys_tick_queue: "guar same_keys (tick_queue E wid q n)"
  unfolding tick_queue_def by (intro keys_rules keys_executeJob)

lemma keys_start: "guar same_keys (reaper E)" "guar same_keys (ensureWorker E)"
  unfolding reaper_def ensureWorker_def by (intro keys_rules)+

lemma keys_run: "guar same_keys p \<Longrightarrow> runP p w = (r, w') \<Longrightarrow> same_keys w w'"
  using guar_run [of same_keys p w] same_keys_refl(1) same_keys_trans by (metis snd_conv)

section \<open>The cost of a tick\<close>

definition jobs_in :: "uuid set \<Rightarrow> world \<Rightarrow> nat" where
  "jobs_in Q w = length (filter (\<lambda>j. j_queue_id j \<in> Q) (w_jobs w))"

lemma jobs_in_keys: "jobs_in Q w = length (filter (\<lambda>x. snd x \<in> Q) (map (\<lambda>j. (j_id j, j_queue_id j)) (w_jobs w)))"
  by (simp add: jobs_in_def filter_map comp_def)

lemma jobs_in_same: "same_keys w w' \<Longrightarrow> jobs_in Q w' = jobs_in Q w"
  by (simp add: jobs_in_keys same_keys_def)

lemma jobs_in_insert: "q \<notin> Q \<Longrightarrow> jobs_in (insert q Q) w = jobs_in {q} w + jobs_in Q w"
proof -
  assume "q \<notin> Q"
  then have "length (filter (\<lambda>j. j_queue_id j = q \<or> j_queue_id j \<in> Q) js)
    = length (filter (\<lambda>j. j_queue_id j = q) js) + length (filter (\<lambda>j. j_queue_id j \<in> Q) js)" for js
    by (induction js) auto
  then show ?thesis by (simp add: jobs_in_def)
qed

lemma distinct_same: "same_keys w w' \<Longrightarrow> distinct (map j_id (w_jobs w)) \<Longrightarrow> distinct (map j_id (w_jobs w'))"
proof -
  assume "same_keys w w'" and d: "distinct (map j_id (w_jobs w))"
  then have "map fst (map (\<lambda>j. (j_id j, j_queue_id j)) (w_jobs w')) = map fst (map (\<lambda>j. (j_id j, j_queue_id j)) (w_jobs w))"
    by (simp only: same_keys_def)
  then have "map j_id (w_jobs w') = map j_id (w_jobs w)" by (simp add: comp_def)
  with d show ?thesis by simp
qed

lemma claim_length:
  assumes "distinct (map j_id (w_jobs w))" and "sql_claim E wid q b w = (Inr js, w')"
  shows "length js \<le> jobs_in {q} w"
proof -
  have "picked E q b w \<subseteq> set (filter (\<lambda>j. j_queue_id j \<in> {q}) (w_jobs w))"
    by (auto dest: picked_runnable simp: runnable_def)
  then have "card (picked E q b w) \<le> card (set (filter (\<lambda>j. j_queue_id j \<in> {q}) (w_jobs w)))" by (rule card_mono [rotated]) simp
  also have "\<dots> \<le> jobs_in {q} w" unfolding jobs_in_def by (rule card_length)
  finally show ?thesis by (simp add: claim_counts(2) [OF assms])
qed

lemma stmt_result: "runP (stmt E tabs f) w = (Inr x, w') \<Longrightarrow> f (advance_clock E 0 w) = (Inr x, w')"
  by (auto simp: stmt_def exec_stmt_def Let_def split: option.splits fault.splits)

lemma steps_each: "steps (run_each E wid js n) w \<le> 10 * length js"
proof (induction js arbitrary: n w)
  case (Cons job js)
  have "steps (executeJob E job wid) w \<le> 10" using costs_executeJob by (simp add: costs_def)
  then have "steps (bindP (executeJob E job wid) (\<lambda>_. Ret (Suc n))) w \<le> 10 + 0" by (rule steps_bind_le) simp
  from steps_bind_le [OF this Cons] show ?case by simp
qed simp

lemma steps_tick_queue:
  assumes "distinct (map j_id (w_jobs w))"
  shows "steps (tick_queue E wid q n) w \<le> 2 + 10 * jobs_in {q} w"
proof -
  have "length js \<le> jobs_in {q} w"
    if "runP (stmt E [''queues'', ''jobs''] (sql_budget q)) w = (Inr b, u)" "runP (stmt E [''jobs''] (sql_claim E wid q b)) u = (Inr js, v)" for b u js v
  proof -
    have "same_keys w (advance_clock E 0 u)"
      using keys_run [OF keys_stmt [OF keys_stmts(17)] that(1)] same_keys_refl(2) same_keys_trans by blast
    then show ?thesis
      using claim_length [OF distinct_same [OF _ assms] stmt_result [OF that(2)]] jobs_in_same by metis
  qed
  then have "steps (tick_queue E wid q n) w \<le> 1 + (1 + 10 * jobs_in {q} w)"
    unfolding tick_queue_def
    by (intro steps_bind_le) (auto intro!: steps_bind_le [where m = 1, simplified] order_trans [OF steps_each])
  then show ?thesis by simp
qed

lemma steps_queues:
  assumes "distinct qs" and "distinct (map j_id (w_jobs w))"
  shows "steps (forP (tick_queue E wid) qs n) w \<le> 2 * length qs + 10 * jobs_in (set qs) w"
  using assms
proof (induction qs arbitrary: n w)
  case (Cons q qs)
  have "steps (forP (tick_queue E wid) (q # qs) n) w \<le> (2 + 10 * jobs_in {q} w) + (2 * length qs + 10 * jobs_in (set qs) w)"
    unfolding forP.simps
  proof (rule steps_bind_le [OF steps_tick_queue [OF Cons.prems(2)]])
    fix m u assume "runP (tick_queue E wid q n) w = (Inr m, u)"
    then have k: "same_keys w u" by (rule keys_run [OF keys_tick_queue])
    show "steps (forP (tick_queue E wid) qs m) u \<le> 2 * length qs + 10 * jobs_in (set qs) w"
      using Cons.IH [OF _ distinct_same [OF k Cons.prems(2)], of m] Cons.prems(1) unfolding jobs_in_same [OF k] distinct.simps by blast
  qed
  moreover have "jobs_in (set (q # qs)) w = jobs_in {q} w + jobs_in (set qs) w" using Cons.prems(1) jobs_in_insert [of q "set qs" w] by simp
  ultimately show ?case by simp
qed simp

text \<open>C21: A tick that nothing interrupts always comes to an end, and soon: from any database whose keys are
  unique, and whatever statements fail, it does at most \<open>5 + 2 q + 10 j\<close> operations (statements, clock readings and waits)
  when there are \<open>q\<close> queues and \<open>j\<close> jobs.\<close>

theorem tick_terminates:
  assumes "db_wf w"
  shows "steps (runWorkerTick E) w \<le> 5 + 2 * length (w_queues w) + 10 * length (w_jobs w)"
proof -
  have e: "steps (ensureWorker E) u \<le> 3" for u
  proof -
    have "costs 3 (ensureWorker E)"
      unfolding ensureWorker_def
      by (rule costs_mono [where m = "1 + 2"], rule costs_bind, rule costs_atoms) (auto simp: costs_def steps_bind split: option.split prod.split sum.split)
    then show ?thesis by (simp add: costs_def)
  qed
  have loop: "steps (forP (tick_queue E wid) qs 0) u \<le> 2 * length (w_queues w) + 10 * length (w_jobs w)"
    if "same_keys w v" and "runP (stmt E [''queues''] (sql_active_queues E)) v = (Inr qs, u)" for wid qs u v
  proof -
    have k: "same_keys w u"
      using keys_run [OF keys_stmt [OF keys_stmts(7)] that(2)] same_keys_trans [OF that(1)] by blast
    have qs: "qs = map q_id (filter (\<lambda>q. \<not> q_paused q) (scan E (advance_clock E 0 v) 0 (w_queues w)))"
      using stmt_result [OF that(2)] that(1) by (auto simp: sql_active_queues_def same_keys_def)
    have "distinct qs" unfolding qs using assms by (intro distinct_map_filter) (simp add: wf_defs)
    moreover have "distinct (map j_id (w_jobs u))" by (rule distinct_same [OF k]) (use assms in \<open>simp add: wf_defs\<close>)
    ultimately have "steps (forP (tick_queue E wid) qs 0) u \<le> 2 * length qs + 10 * jobs_in (set qs) u" by (rule steps_queues)
    also have "length qs \<le> length (w_queues w)" unfolding qs using length_filter_le [of _ "scan E (advance_clock E 0 v) 0 (w_queues w)"] by simp
    also have "jobs_in (set qs) u = jobs_in (set qs) w" by (rule jobs_in_same [OF k])
    also have "jobs_in (set qs) w \<le> length (w_jobs w)" by (simp add: jobs_in_def length_filter_le)
    finally show ?thesis by simp
  qed
  let ?n = "2 * length (w_queues w) + 10 * length (w_jobs w)"
  have "steps (runWorkerTick E) w \<le> 0 + (1 + (3 + (1 + (?n + 0))))"
    unfolding runWorkerTick_def
  proof (intro steps_bind_le)
    fix x u y v wid z qs t
    assume "runP (getSql E) w = (Inr x, u)" and 1: "runP (reaper E) u = (Inr y, v)" and 2: "runP (ensureWorker E) v = (Inr wid, z)"
      and 3: "runP (stmt E [''queues''] (sql_active_queues E)) z = (Inr qs, t)"
    then have "u = w" by (simp add: getSql_def)
    with 1 2 have "same_keys w z" using keys_run [OF keys_start(1)] keys_run [OF keys_start(2)] same_keys_trans by blast
    from loop [OF this 3] show "steps (forP (tick_queue E wid) qs 0) t \<le> ?n" .
  qed (simp_all add: getSql_def reaper_def e)
  then show ?thesis by simp
qed

theorem tick_terminates_witness:
  "steps (runWorkerTick demo_env) (demo_world two_jobs) \<le> 27"
  using tick_terminates [of "demo_world two_jobs" demo_env] by simp

end
