(* ===== verification/Http.thy ===== *)
theory Http
  imports Worker
begin

text \<open>
  \<open>server/http.ts\<close>: responses, and the JSON views of rows. A response carries the value handed
  to \<open>NextResponse.json\<close>; its text is \<open>stringify\<close> of it (\<open>None\<close> is an empty body). A
  \<open>TIMESTAMPTZ\<close> reaches the code as a \<open>Date\<close>, which has whole milliseconds.
\<close>

section \<open>Responses\<close>

record response =
  rs_status :: nat
  rs_data :: "jsval option"

definition json :: "jsval \<Rightarrow> nat \<Rightarrow> response" where
  "json data status = \<lparr>rs_status = status, rs_data = Some data\<rparr>"

definition error_response :: "string \<Rightarrow> nat \<Rightarrow> string \<Rightarrow> response" where
  "error_response message status code = json (JObj [(''error'', JStr message), (''code'', JStr code)]) status"

definition unauthorized :: response where
  "unauthorized = error_response ''unauthorized'' 401 ''UNAUTHORIZED''"

definition no_content :: response where
  "no_content = \<lparr>rs_status = 204, rs_data = None\<rparr>"

section \<open>Dates\<close>

text \<open>The civil date of a day counted from 1 January 1970.\<close>

definition civil_from_days :: "int \<Rightarrow> int \<times> int \<times> int" where
  "civil_from_days z =
     (let z' = z + 719468; era = z' div 146097; doe = z' mod 146097;
          yoe = (doe - doe div 1460 + doe div 36524 - doe div 146096) div 365;
          doy = doe - (365 * yoe + yoe div 4 - yoe div 100);
          mp = (5 * doy + 2) div 153;
          d = doy - (153 * mp + 2) div 5 + 1;
          mo = (if mp < 10 then mp + 3 else mp - 9);
          y = yoe + era * 400
      in (if mo \<le> 2 then y + 1 else y, mo, d))"

definition pad :: "nat \<Rightarrow> int \<Rightarrow> string" where
  "pad n i = (let s = dec_digits (nat i) in replicate (n - length s) CHR ''0'' @ s)"

definition iso_year :: "int \<Rightarrow> string" where
  "iso_year y = (if 0 \<le> y \<and> y \<le> 9999 then pad 4 y
     else if y < 0 then CHR ''-'' # pad 6 (- y) else CHR ''+'' # pad 6 y)"

text \<open>\<open>toISOString\<close> of a time value in milliseconds.\<close>

definition iso_string :: "int \<Rightarrow> string" where
  "iso_string ms =
     (let day = ms div 86400000; t = ms mod 86400000; (y, mo, d) = civil_from_days day
      in iso_year y @ ''-'' @ pad 2 mo @ ''-'' @ pad 2 d @ ''T'' @ pad 2 (t div 3600000) @ '':''
         @ pad 2 (t div 60000 mod 60) @ '':'' @ pad 2 (t div 1000 mod 60) @ ''.'' @ pad 3 (t mod 1000) @ ''Z'')"

definition date_ms :: "timestamp \<Rightarrow> int" where
  "date_ms t = t div 1000"

definition valid_date :: "timestamp \<Rightarrow> bool" where
  "valid_date t \<longleftrightarrow> \<bar>date_ms t\<bar> \<le> 8640000000000000"

definition toIso :: "timestamp option \<Rightarrow> exn + jsval" where
  "toIso v = (case v of None \<Rightarrow> Inr JUndef
     | Some t \<Rightarrow> if valid_date t then Inr (JStr (iso_string (date_ms t))) else Inl Range_error)"

text \<open>A \<open>Date\<close> inside a value that is serialised: \<open>toJSON\<close> gives null for an invalid one.\<close>

definition date_json :: "timestamp \<Rightarrow> jsval" where
  "date_json t = (if valid_date t then JStr (iso_string (date_ms t)) else JNull)"

definition opt_json :: "('a \<Rightarrow> jsval) \<Rightarrow> 'a option \<Rightarrow> jsval" where
  "opt_json f v = (case v of None \<Rightarrow> JNull | Some x \<Rightarrow> f x)"

text \<open>\<open>v ?? undefined\<close> on a column.\<close>

definition opt_undef :: "('a \<Rightarrow> jsval) \<Rightarrow> 'a option \<Rightarrow> jsval" where
  "opt_undef f v = (case v of None \<Rightarrow> JUndef | Some x \<Rightarrow> f x)"

section \<open>Views of rows\<close>

definition status_text :: "job_status \<Rightarrow> string" where
  "status_text s = (case s of Queued \<Rightarrow> ''queued'' | Scheduled \<Rightarrow> ''scheduled'' | Claimed \<Rightarrow> ''claimed''
     | Running \<Rightarrow> ''running'' | Completed \<Rightarrow> ''completed'' | Failed \<Rightarrow> ''failed'' | Dead_letter \<Rightarrow> ''dead_letter'')"

definition worker_status_text :: "worker_status \<Rightarrow> string" where
  "worker_status_text s = (case s of Active \<Rightarrow> ''active'' | Draining \<Rightarrow> ''draining'' | Offline \<Rightarrow> ''offline'')"

text \<open>An object literal whose fields are evaluated in order; the first exception is thrown.\<close>

fun object :: "(string \<times> (exn + jsval)) list \<Rightarrow> exn + jsval" where
  "object [] = Inr (JObj [])"
| "object ((k, r) # fs) =
     (case r of Inl e \<Rightarrow> Inl e
      | Inr v \<Rightarrow> (case object fs of Inr (JObj kvs) \<Rightarrow> Inr (JObj ((k, v) # kvs)) | Inr u \<Rightarrow> Inr u | Inl e \<Rightarrow> Inl e))"

definition mapQueue :: "queue_row \<Rightarrow> exn + jsval" where
  "mapQueue r = object
     [(''id'', Inr (JStr (q_id r))), (''project_id'', Inr (JStr (q_project_id r))), (''name'', Inr (JStr (q_name r))),
      (''slug'', Inr (JStr (q_slug r))), (''retry_policy_id'', Inr (opt_undef JStr (q_retry_policy_id r))),
      (''priority_default'', Inr (JInt (q_priority_default r))),
      (''concurrency_limit'', Inr (opt_undef JInt (q_concurrency_limit r))),
      (''is_paused'', Inr (JBool (q_paused r))),
      (''created_at'', toIso (Some (q_created_at r))), (''updated_at'', toIso (Some (q_updated_at r)))]"

definition mapJob :: "job_row \<Rightarrow> exn + jsval" where
  "mapJob r = object
     [(''id'', Inr (JStr (j_id r))), (''queue_id'', Inr (JStr (j_queue_id r))),
      (''status'', Inr (JStr (status_text (j_status r)))), (''priority'', Inr (JInt (j_priority r))),
      (''payload'', payload_value (j_payload r)),
      (''idempotency_key'', Inr (opt_undef JStr (j_idempotency_key r))), (''next_run_at'', toIso (j_next_run_at r)),
      (''attempts'', Inr (JInt (j_attempts r))), (''max_attempts'', Inr (JInt (j_max_attempts r))),
      (''retry_policy_id'', Inr (opt_undef JStr (j_retry_policy_id r))),
      (''worker_id'', Inr (opt_undef JStr (j_worker_id r))), (''claimed_at'', toIso (j_claimed_at r)),
      (''lease_expires_at'', toIso (j_lease_expires_at r)), (''completed_at'', toIso (j_completed_at r)),
      (''failed_at'', toIso (j_failed_at r)), (''error_message'', Inr (opt_undef JStr (j_error_message r))),
      (''cron_expr'', Inr (opt_undef JStr (j_cron_expr r))), (''batch_id'', Inr (opt_undef JStr (j_batch_id r))),
      (''created_at'', toIso (Some (j_created_at r))), (''updated_at'', toIso (Some (j_updated_at r)))]"

text \<open>\<open>rows.map(f)\<close> with a function that may throw.\<close>

fun map_rows :: "('r \<Rightarrow> exn + jsval) \<Rightarrow> 'r list \<Rightarrow> exn + jsval list" where
  "map_rows f [] = Inr []"
| "map_rows f (r # rs) =
     (case f r of Inl e \<Rightarrow> Inl e | Inr v \<Rightarrow> (case map_rows f rs of Inl e \<Rightarrow> Inl e | Inr vs \<Rightarrow> Inr (v # vs)))"

section \<open>When a view exists\<close>

lemma object_ok: "(\<exists>v. object fs = Inr v) \<longleftrightarrow> (\<forall>f \<in> set fs. \<not> isl (snd f))"
proof -
  have "(\<exists>kvs. object fs = Inr (JObj kvs)) \<or> isl (object fs)" for fs
    by (induction fs rule: object.induct) (auto split: sum.splits)
  then have shape: "object fs = Inr v \<Longrightarrow> \<exists>kvs. v = JObj kvs" for fs v by (metis sum.disc(2) sum.inject(2))
  show ?thesis
  proof (induction fs rule: object.induct)
    case (2 k r fs)
    then show ?case using shape by (fastforce split: sum.splits)
  qed simp
qed

definition job_dates :: "job_row \<Rightarrow> timestamp list" where
  "job_dates r = List.map_filter id [j_next_run_at r, j_claimed_at r, j_lease_expires_at r, j_completed_at r,
     j_failed_at r, Some (j_created_at r), Some (j_updated_at r)]"

lemma isl_toIso: "isl (toIso v) \<longleftrightarrow> (\<exists>t. v = Some t \<and> \<not> valid_date t)"
  by (auto simp: toIso_def split: option.splits)

lemma mapJob_ok:
  "(\<exists>v. mapJob r = Inr v) \<longleftrightarrow> \<not> isl (payload_value (j_payload r)) \<and> (\<forall>t \<in> set (job_dates r). valid_date t)"
  unfolding mapJob_def object_ok
  by (auto simp: isl_toIso job_dates_def List.map_filter_def split: option.splits)

lemma map_rows_ok: "(\<exists>vs. map_rows f rs = Inr vs) \<longleftrightarrow> (\<forall>r \<in> set rs. \<not> isl (f r))"
  by (induction rs) (auto split: sum.splits)

end
