(* ===== verification/Auth.thy ===== *)
theory Auth
  imports Http
begin

text \<open>
  \<open>server/auth.ts\<close>: tokens and the claims of a request. The JWT library is a parameter: signing
  depends on the secret, the algorithm and the payload, which carries the time of issue and of
  expiry; verifying also depends, through the time, on the number of the operation.
\<close>

record request =
  rq_method :: string
  rq_path :: "string list"
  rq_auth :: "string option"
  rq_body :: string
  rq_query :: "(string \<times> string) list"

record claims =
  cl_user_id :: string
  cl_org_id :: string
  cl_email :: string
  cl_role :: string

definition secret :: "env \<Rightarrow> string" where
  "secret E = (case environ E ''JWT_SECRET'' of Some s \<Rightarrow> s | None \<Rightarrow> ''vercel-demo-secret-change-me'')"

text \<open>
  \<open>setIssuedAt()\<close> and \<open>setExpirationTime("24h")\<close> read the clock one after the other and count in
  seconds.
\<close>

definition epoch :: "int \<Rightarrow> int" where
  "epoch ms = ms div 1000"

definition token_payload :: "claims \<Rightarrow> int \<Rightarrow> int \<Rightarrow> jsval" where
  "token_payload c iat expires = JObj [(''user_id'', JStr (cl_user_id c)), (''org_id'', JStr (cl_org_id c)),
     (''email'', JStr (cl_email c)), (''role'', JStr (cl_role c)), (''iat'', JInt iat), (''exp'', JInt expires)]"

definition signToken :: "env \<Rightarrow> claims \<Rightarrow> string io" where
  "signToken E c =
     bindP (date_now E) (\<lambda>issued.
     bindP (date_now E) (\<lambda>now.
     Ret (e_jwt_sign E (secret E) ''HS256'' (token_payload c (epoch issued) (epoch now + 24 * 60 * 60)))))"

text \<open>\<open>String(payload.k)\<close>\<close>

definition claim_text :: "jsval \<Rightarrow> string \<Rightarrow> exn + string" where
  "claim_text payload k = (case get_prop payload k of Inl e \<Rightarrow> Inl e | Inr v \<Rightarrow> js_String v)"

definition payload_claims :: "jsval \<Rightarrow> claims option" where
  "payload_claims payload =
     (case (claim_text payload ''user_id'', claim_text payload ''org_id'',
            claim_text payload ''email'', claim_text payload ''role'') of
        (Inr u, Inr g, Inr m, Inr r) \<Rightarrow> Some \<lparr>cl_user_id = u, cl_org_id = g, cl_email = m, cl_role = r\<rparr>
      | _ \<Rightarrow> None)"

definition verifyToken :: "env \<Rightarrow> string \<Rightarrow> claims option io" where
  "verifyToken E token = atom (\<lambda>w. (Inr
     (case e_jwt_verify E (secret E) (w_ops w) token of None \<Rightarrow> None | Some payload \<Rightarrow> payload_claims payload), w))"

definition demoAuthEnabled :: "env \<Rightarrow> bool" where
  "demoAuthEnabled E \<longleftrightarrow> e_environ E ''DEMO_AUTH'' \<noteq> Some ''false''"

text \<open>The synchronous variant always gives null.\<close>

definition bearerClaims :: "request \<Rightarrow> claims option" where
  "bearerClaims req = (case rq_auth req of None \<Rightarrow> None
     | Some h \<Rightarrow> if \<not> starts_with h ''Bearer '' then None else None)"

definition claimsFromRequest :: "env \<Rightarrow> request \<Rightarrow> claims option io" where
  "claimsFromRequest E req = (case rq_auth req of None \<Rightarrow> Ret None
     | Some h \<Rightarrow> if \<not> starts_with h ''Bearer '' then Ret None else verifyToken E (drop 7 h))"

definition requireAuth :: "env \<Rightarrow> request \<Rightarrow> claims option io" where
  "requireAuth E req = bindP (claimsFromRequest E req) (\<lambda>c. case c of None \<Rightarrow> Ret None | Some cl \<Rightarrow> Ret (Some cl))"

section \<open>Facts\<close>

text \<open>
  What is relied on of the JWT library: a token that it signed verifies with the same secret, to the
  payload that was signed, as long as the time in seconds is before the \<open>exp\<close> of that payload, and
  not at all from then on.
\<close>

definition jwt_law :: "env \<Rightarrow> claims \<Rightarrow> bool" where
  "jwt_law E c \<longleftrightarrow> (\<forall>i j k. let p = token_payload c (epoch (e_date E i)) (epoch (e_date E j) + 24 * 60 * 60) in
     e_jwt_verify E (secret E) k (e_jwt_sign E (secret E) ''HS256'' p)
       = (if epoch (e_date E k) < epoch (e_date E j) + 24 * 60 * 60 then Some p else None))"

lemma token_claims: "payload_claims (token_payload c iat expires) = Some c"
  by (simp add: payload_claims_def claim_text_def token_payload_def)

lemma run_signToken:
  "runP (signToken E c) w = (Inr (e_jwt_sign E (secret E) ''HS256''
     (token_payload c (epoch (e_date E (w_ops w))) (epoch (e_date E (Suc (w_ops w))) + 24 * 60 * 60))),
     advance_clock E 0 (advance_clock E 0 w))"
  by (simp add: signToken_def date_now_def run_simps advance_clock_def)

lemma run_claimsFromRequest:
  "runP (claimsFromRequest E req) w = (Inr (case rq_auth req of None \<Rightarrow> None
     | Some h \<Rightarrow> if starts_with h ''Bearer '' then
         (case e_jwt_verify E (secret E) (w_ops w) (drop 7 h) of None \<Rightarrow> None | Some p \<Rightarrow> payload_claims p)
       else None), w)"
  by (simp add: claimsFromRequest_def verifyToken_def run_simps split: option.splits)

lemma run_requireAuth: "runP (requireAuth E req) w = runP (claimsFromRequest E req) w"
  by (simp add: requireAuth_def run_bind run_claimsFromRequest run_simps split: option.splits)

lemma guar_signToken [guar_rules]: "(\<And>w. R w (advance_clock E 0 w)) \<Longrightarrow> guar R (signToken E c)"
  unfolding signToken_def date_now_def by (intro guar_rules guar_atom) simp_all

lemma guar_requireAuth [guar_rules]: "(\<And>w. R w w) \<Longrightarrow> guar R (requireAuth E req)"
  unfolding requireAuth_def claimsFromRequest_def verifyToken_def
  by (intro guar_rules) (auto intro!: guar_rules guar_atom split: option.splits)

end
