(* ===== verification/Scheduler.thy ===== *)
theory Scheduler
  imports Worker_Facts
begin

text \<open>
  \<open>server/worker-scheduler.ts\<close>: ticks started in the background of a request. The promise in
  \<open>inFlight\<close> is \<open>w_in_flight\<close>; a tick that has been started and has not yet made its first step
  is counted in \<open>w_background\<close>, and \<open>background_tick\<close> is the program that then runs it. The
  module variables belong to one server process.
\<close>

definition MIN_INTERVAL_MS :: int where
  "MIN_INTERVAL_MS = 2500"

text \<open>Synchronous: reading the clock, the check and the assignments are one step.\<close>

definition schedule_step :: "env \<Rightarrow> world \<Rightarrow> world" where
  "schedule_step E w =
     (let now = e_date E (w_ops w); w1 = advance_clock E 0 w
      in if w_in_flight w \<or> now - w_last_run_at w < MIN_INTERVAL_MS then w1
         else w1\<lparr>w_last_run_at := now, w_in_flight := True, w_background := Suc (w_background w)\<rparr>)"

definition scheduleWorkerTick :: "env \<Rightarrow> unit io" where
  "scheduleWorkerTick E = atom (\<lambda>w. (Inr (), schedule_step E w))"

definition tick_failed :: tick_result where
  "tick_failed = \<lparr>t_processed = 0, t_worker = ''vercel-worker-1''\<rparr>"

text \<open>\<open>runWorkerTick().catch(...).finally(...)\<close>\<close>

definition background_tick :: "env \<Rightarrow> tick_result io" where
  "background_tick E =
     bindP (atom (\<lambda>w. if w_background w = 0 then (Inr False, w)
                      else (Inr True, w\<lparr>w_background := w_background w - 1\<rparr>))) (\<lambda>started.
     if \<not> started then Ret tick_failed
     else bindP (catchP (runWorkerTick E) (\<lambda>err. Ret tick_failed)) (\<lambda>r.
          bindP (atom (\<lambda>w. (Inr (), w\<lparr>w_in_flight := False\<rparr>))) (\<lambda>_. Ret r)))"

definition runWorkerTickNow :: "env \<Rightarrow> tick_result io" where
  "runWorkerTickNow E =
     bindP (atom (\<lambda>w. (Inr (), (advance_clock E 0 w)\<lparr>w_last_run_at := e_date E (w_ops w)\<rparr>))) (\<lambda>_. runWorkerTick E)"

section \<open>The guarantee\<close>

lemma ids_grow_frame [simp]:
  "ids_grow w (w'\<lparr>w_in_flight := b\<rparr>) = ids_grow w w'" "ids_grow w (w'\<lparr>w_last_run_at := t\<rparr>) = ids_grow w w'"
  "ids_grow w (w'\<lparr>w_background := n\<rparr>) = ids_grow w w'"
  by (simp_all add: ids_grow_def)

lemma sound_frame [simp]:
  "sound_step w (w'\<lparr>w_in_flight := b\<rparr>) = sound_step w w'" "sound_step w (w'\<lparr>w_last_run_at := t\<rparr>) = sound_step w w'"
  "sound_step w (w'\<lparr>w_background := n\<rparr>) = sound_step w w'"
  by (simp_all add: sound_step_def)

lemma guar_schedule [guar_rules]: "guar sound_step (scheduleWorkerTick E)"
  unfolding scheduleWorkerTick_def
  by (rule guar_atom) (simp add: schedule_step_def Let_def sound_advance)

lemma guar_runWorkerTickNow [guar_rules]: "guar sound_step (runWorkerTickNow E)"
  unfolding runWorkerTickNow_def by (intro guar_rules guar_atom) (simp add: sound_advance)

lemma guar_background [guar_rules]: "guar sound_step (background_tick E)"
  unfolding background_tick_def by (auto intro!: guar_rules guar_atom)

end
