(* ===== verification/Setup.thy ===== *)
theory Setup
  imports Auth Scheduler
begin

text \<open>
  \<open>server/setup.ts\<close>: the schema, the demo data, and the demo user; and \<open>app/api/setup/route.ts\<close>.
  The statements of the schema are data; running one creates a named object once what it refers to
  exists. What the columns and constraints of a table mean for its rows is in the row types and
  inserts of the store.
\<close>

section \<open>The schema\<close>

datatype sql_type = UUID | TEXT | INT4 | BOOLEAN | JSONB | TIMESTAMPTZ | ENUM string

datatype sql_default = Gen_random_uuid | Now | Literal string

datatype on_delete = Cascade | Set_null

record sql_column =
  col_name :: string
  col_type :: sql_type
  col_primary :: bool
  col_not_null :: bool
  col_unique :: bool
  col_default :: "sql_default option"
  col_references :: "(string \<times> on_delete) option"

text \<open>A column that may be null, one that may not, one with a default, and a reference to another table.\<close>

definition opt_col :: "string \<Rightarrow> sql_type \<Rightarrow> sql_column" where
  "opt_col n t = \<lparr>col_name = n, col_type = t, col_primary = False, col_not_null = False, col_unique = False,
     col_default = None, col_references = None\<rparr>"

definition req_col :: "string \<Rightarrow> sql_type \<Rightarrow> sql_column" where
  "req_col n t = opt_col n t\<lparr>col_not_null := True\<rparr>"

definition def_col :: "string \<Rightarrow> sql_type \<Rightarrow> sql_default \<Rightarrow> sql_column" where
  "def_col n t d = req_col n t\<lparr>col_default := Some d\<rparr>"

definition ref_col :: "string \<Rightarrow> string \<Rightarrow> sql_column" where
  "ref_col n table = req_col n UUID\<lparr>col_references := Some (table, Cascade)\<rparr>"

definition id_col :: sql_column where
  "id_col = opt_col ''id'' UUID\<lparr>col_primary := True, col_default := Some Gen_random_uuid\<rparr>"

definition created_col :: sql_column where
  "created_col = def_col ''created_at'' TIMESTAMPTZ Now"

definition updated_col :: sql_column where
  "updated_col = def_col ''updated_at'' TIMESTAMPTZ Now"

text \<open>A table has its columns and the columns of its \<open>UNIQUE\<close> constraint, if any; an index has its keys and its condition.\<close>

datatype ddl =
    Create_extension string
  | Create_enum string "string list"
  | Create_function string
  | Create_table string "sql_column list" "string list"
  | Create_index string string "string list" "string option"
  | Create_unique_index string string "string list" "string option"

definition users_table :: ddl where
  "users_table = Create_table ''users''
     [id_col, ref_col ''org_id'' ''organizations'', req_col ''email'' TEXT, req_col ''name'' TEXT,
      def_col ''role'' TEXT (Literal ''member''), def_col ''password_hash'' TEXT (Literal []),
      created_col, updated_col] [''org_id'', ''email'']"

definition queues_table :: ddl where
  "queues_table = Create_table ''queues''
     [id_col, ref_col ''project_id'' ''projects'', req_col ''name'' TEXT, req_col ''slug'' TEXT,
      opt_col ''retry_policy_id'' UUID, def_col ''priority_default'' INT4 (Literal ''0''),
      opt_col ''concurrency_limit'' INT4, def_col ''paused'' BOOLEAN (Literal ''FALSE''),
      created_col, updated_col] [''project_id'', ''slug'']"

definition jobs_table :: ddl where
  "jobs_table = Create_table ''jobs''
     [id_col, ref_col ''queue_id'' ''queues'', def_col ''status'' (ENUM ''job_status'') (Literal ''queued''),
      def_col ''priority'' INT4 (Literal ''0''), req_col ''payload'' JSONB, opt_col ''idempotency_key'' TEXT,
      opt_col ''next_run_at'' TIMESTAMPTZ\<lparr>col_default := Some Now\<rparr>,
      def_col ''attempts'' INT4 (Literal ''0''), def_col ''max_attempts'' INT4 (Literal ''3''),
      opt_col ''retry_policy_id'' UUID, opt_col ''worker_id'' UUID\<lparr>col_references := Some (''workers'', Set_null)\<rparr>,
      opt_col ''claimed_at'' TIMESTAMPTZ, opt_col ''lease_expires_at'' TIMESTAMPTZ,
      opt_col ''completed_at'' TIMESTAMPTZ, opt_col ''failed_at'' TIMESTAMPTZ, opt_col ''error_message'' TEXT,
      opt_col ''cron_expr'' TEXT, opt_col ''batch_id'' UUID, created_col, updated_col] []"

definition job_executions_table :: ddl where
  "job_executions_table = Create_table ''job_executions''
     [id_col, ref_col ''job_id'' ''jobs'', opt_col ''worker_id'' UUID\<lparr>col_references := Some (''workers'', Set_null)\<rparr>,
      req_col ''attempt'' INT4, req_col ''status'' TEXT, req_col ''started_at'' TIMESTAMPTZ,
      opt_col ''finished_at'' TIMESTAMPTZ, opt_col ''error'' TEXT, opt_col ''duration_ms'' INT4,
      created_col, updated_col] []"

definition dead_letter_queue_table :: ddl where
  "dead_letter_queue_table = Create_table ''dead_letter_queue''
     [id_col, ref_col ''job_id'' ''jobs''\<lparr>col_unique := True\<rparr>, ref_col ''original_queue_id'' ''queues'',
      req_col ''payload'' JSONB, def_col ''failed_at'' TIMESTAMPTZ Now, opt_col ''reason'' TEXT,
      req_col ''attempts_made'' INT4, created_col] []"

definition STATEMENTS :: "ddl list" where
  "STATEMENTS =
     [Create_extension ''pgcrypto'',
      Create_enum ''job_status'' (map status_text [Queued, Scheduled, Claimed, Running, Completed, Failed, Dead_letter]),
      Create_enum ''worker_status'' (map worker_status_text [Active, Draining, Offline]),
      Create_function ''set_updated_at'',
      Create_table ''organizations''
        [id_col, req_col ''name'' TEXT, req_col ''slug'' TEXT\<lparr>col_unique := True\<rparr>, created_col, updated_col] [],
      users_table,
      Create_table ''projects''
        [id_col, ref_col ''org_id'' ''organizations'', req_col ''name'' TEXT, req_col ''slug'' TEXT,
         opt_col ''description'' TEXT, created_col, updated_col] [''org_id'', ''slug''],
      queues_table,
      Create_table ''workers''
        [id_col, req_col ''name'' TEXT, def_col ''status'' (ENUM ''worker_status'') (Literal ''active''),
         opt_col ''meta'' JSONB, created_col, updated_col] [],
      Create_table ''worker_heartbeats''
        [id_col, ref_col ''worker_id'' ''workers''\<lparr>col_unique := True\<rparr>, def_col ''last_seen_at'' TIMESTAMPTZ Now,
         opt_col ''metadata'' JSONB, created_col, updated_col] [],
      jobs_table,
      job_executions_table,
      Create_table ''job_logs''
        [id_col, ref_col ''job_id'' ''jobs'', def_col ''level'' TEXT (Literal ''info''), req_col ''message'' TEXT,
         opt_col ''metadata'' JSONB, created_col] [],
      dead_letter_queue_table,
      Create_index ''idx_jobs_claim'' ''jobs'' [''queue_id'', ''priority DESC'', ''next_run_at ASC NULLS FIRST'']
        (Some (''status = '' @ CHR 0x27 # ''queued'' @ [CHR 0x27])),
      Create_unique_index idem_index ''jobs'' [''queue_id'', ''idempotency_key''] (Some ''idempotency_key IS NOT NULL''),
      Create_index ''idx_jobs_queue_status'' ''jobs'' [''queue_id'', ''status''] None,
      Create_index ''idx_job_executions_job_id'' ''job_executions'' [''job_id'', ''attempt''] None,
      Create_index ''idx_job_logs_job_created'' ''job_logs'' [''job_id'', ''created_at''] None,
      Create_index ''idx_job_executions_finished'' ''job_executions'' [''finished_at DESC'']
        (Some ''finished_at IS NOT NULL'')]"

lemmas schema_defs = STATEMENTS_def users_table_def queues_table_def jobs_table_def job_executions_table_def
  dead_letter_queue_table_def

text \<open>The tables and types that a table refers to.\<close>

definition column_deps :: "sql_column \<Rightarrow> string list" where
  "column_deps c = (case col_type c of ENUM t \<Rightarrow> [t] | _ \<Rightarrow> []) @ (case col_references c of Some (t, _) \<Rightarrow> [t] | None \<Rightarrow> [])"

definition table_deps :: "sql_column list \<Rightarrow> string list" where
  "table_deps cs = concat (map column_deps cs)"

text \<open>\<open>IF NOT EXISTS\<close> (and the handler of \<open>duplicate_object\<close>): nothing happens when the object is there.\<close>

definition create_object :: "string \<Rightarrow> string list \<Rightarrow> world \<Rightarrow> (exn + unit) \<times> world" where
  "create_object name deps w =
     (if name \<in> set (w_relations w) then ok () w
      else case List.find (\<lambda>t. t \<notin> set (w_relations w)) deps of
             Some t \<Rightarrow> pg_fail (Undefined_table t) w
           | None \<Rightarrow> ok () (w\<lparr>w_relations := w_relations w @ [name]\<rparr>))"

fun run_ddl :: "ddl \<Rightarrow> world \<Rightarrow> (exn + unit) \<times> world" where
  "run_ddl (Create_extension n) w = create_object n [] w"
| "run_ddl (Create_enum n vs) w = create_object n [] w"
| "run_ddl (Create_function n) w = create_object n [] w"
| "run_ddl (Create_table n cols us) w = create_object n (table_deps cols) w"
| "run_ddl (Create_index n t ks cond) w = create_object n [t] w"
| "run_ddl (Create_unique_index n t ks cond) w =
     (if n = idem_index \<and> n \<notin> set (w_relations w) \<and> t \<in> set (w_relations w) \<and> \<not> idem_unique (w_jobs w)
      then pg_fail (Unique_violation n) w else create_object n [t] w)"

text \<open>The pool is ended in any case, which changes nothing here.\<close>

definition ensureSchema :: "env \<Rightarrow> unit io" where
  "ensureSchema E =
     bindP (getPool E) (\<lambda>_. forP (\<lambda>s _. stmt E [] (run_ddl s)) STATEMENTS ())"

section \<open>The demo data\<close>

definition sql_find_org :: "string \<Rightarrow> world \<Rightarrow> (exn + bool) \<times> world" where
  "sql_find_org slug w = ok (slug \<in> o_slug ` set (w_organizations w)) w"

definition sql_insert_org :: "env \<Rightarrow> string \<Rightarrow> string \<Rightarrow> world \<Rightarrow> (exn + org_row) \<times> world" where
  "sql_insert_org E name slug w = insert_org \<lparr>o_id = gen_uuid E w, o_name = name, o_slug = slug,
     o_created_at = w_now w, o_updated_at = w_now w\<rparr> w"

definition sql_insert_user :: "env \<Rightarrow> uuid \<Rightarrow> world \<Rightarrow> (exn + user_row) \<times> world" where
  "sql_insert_user E org w = insert_user \<lparr>u_id = gen_uuid E w, u_org_id = org, u_email = ''admin@demo.com'',
     u_name = ''Demo Admin'', u_role = ''admin'', u_password_hash = ''demo'',
     u_created_at = w_now w, u_updated_at = w_now w\<rparr> w"

definition sql_seed_project :: "env \<Rightarrow> uuid \<Rightarrow> world \<Rightarrow> (exn + project_row) \<times> world" where
  "sql_seed_project E org w = insert_project \<lparr>p_id = gen_uuid E w, p_org_id = org, p_name = ''Platform'',
     p_slug = ''platform'', p_description = Some ''Demo project'', p_created_at = w_now w, p_updated_at = w_now w\<rparr> w"

definition sql_seed_queue :: "env \<Rightarrow> uuid \<Rightarrow> string \<Rightarrow> string \<Rightarrow> int \<Rightarrow> world \<Rightarrow> (exn + queue_row) \<times> world" where
  "sql_seed_queue E proj name slug cap = with_param (int4 cap) (\<lambda>l w.
     insert_queue \<lparr>q_id = gen_uuid E w, q_project_id = proj, q_name = name, q_slug = slug, q_retry_policy_id = None,
       q_priority_default = 5, q_concurrency_limit = Some l, q_paused = False,
       q_created_at = w_now w, q_updated_at = w_now w\<rparr> w)"

text \<open>A row of \<open>jobs\<close> with the defaults of its table.\<close>

definition new_job :: "env \<Rightarrow> world \<Rightarrow> uuid \<Rightarrow> int \<Rightarrow> jsval \<Rightarrow> timestamp \<Rightarrow> job_row" where
  "new_job E w qid prio payload due = \<lparr>j_id = gen_uuid E w, j_queue_id = qid, j_status = Queued, j_priority = prio,
     j_payload = payload, j_idempotency_key = None, j_next_run_at = Some due, j_attempts = 0,
     j_max_attempts = 3, j_retry_policy_id = None, j_worker_id = None, j_claimed_at = None,
     j_lease_expires_at = None, j_completed_at = None, j_failed_at = None, j_error_message = None,
     j_cron_expr = None, j_batch_id = None, j_created_at = w_now w, j_updated_at = w_now w\<rparr>"

definition sql_seed_job :: "env \<Rightarrow> uuid \<Rightarrow> nat \<Rightarrow> world \<Rightarrow> (exn + job_row) \<times> world" where
  "sql_seed_job E qid i = with_param
     (e_jsonb E (stringify (JObj [(''type'', JStr ''sleep''), (''duration_ms'', JInt (200 + int i * 100))])))
     (\<lambda>p w. insert_job (new_job E w qid 5 p (w_now w)) w)"

definition seed_queues :: "(string \<times> string \<times> int) list" where
  "seed_queues = [(''Emails'', ''emails'', 10), (''Webhooks'', ''webhooks'', 5), (''Reports'', ''reports'', 3)]"

definition seed_queue :: "env \<Rightarrow> uuid \<Rightarrow> string \<times> string \<times> int \<Rightarrow> unit io" where
  "seed_queue E proj q = (case q of (name, slug, cap) \<Rightarrow>
     bindP (stmt E [''queues''] (sql_seed_queue E proj name slug cap)) (\<lambda>queue.
     forP (\<lambda>i _. bindP (stmt E [''jobs''] (sql_seed_job E (q_id queue) i)) (\<lambda>_. Ret ())) [0, 1, 2] ()))"

definition seeded_user :: "user_row \<Rightarrow> jsval" where
  "seeded_user u = JObj [(''id'', JStr (u_id u)), (''org_id'', JStr (u_org_id u)), (''email'', JStr (u_email u)),
     (''role'', JStr (u_role u))]"

definition seedDemo :: "env \<Rightarrow> (string \<times> jsval) list io" where
  "seedDemo E =
     bindP (getSql E) (\<lambda>_.
     bindP (stmt E [''organizations''] (sql_find_org ''demo'')) (\<lambda>existing.
     if existing then Ret [(''seeded'', JBool False)]
     else
       bindP (stmt E [''organizations''] (sql_insert_org E ''Demo Corp'' ''demo'')) (\<lambda>org.
       bindP (stmt E [''users''] (sql_insert_user E (o_id org))) (\<lambda>user.
       bindP (stmt E [''projects''] (sql_seed_project E (o_id org))) (\<lambda>project.
       bindP (forP (\<lambda>q _. seed_queue E (p_id project) q) seed_queues ()) (\<lambda>_.
       bindP (stmt E [''workers''] (sql_insert_worker E)) (\<lambda>_.
       Ret [(''seeded'', JBool True), (''user'', seeded_user user)])))))))"

section \<open>The demo user\<close>

definition sql_find_user :: "env \<Rightarrow> jsval \<Rightarrow> world \<Rightarrow> (exn + user_row option) \<times> world" where
  "sql_find_user E email = with_param (e_text E email) (\<lambda>m w.
     ok (case filter (\<lambda>u. Some (u_email u) = m) (scan E w 0 (w_users w)) of [] \<Rightarrow> None | u # _ \<Rightarrow> Some u) w)"

definition resolveDemoUser :: "env \<Rightarrow> string \<Rightarrow> user_row option io" where
  "resolveDemoUser E email =
     bindP (getSql E) (\<lambda>_.
     bindP (stmt E [''users''] (sql_find_user E (JStr email))) (\<lambda>row.
     case row of Some u \<Rightarrow> Ret (Some u)
     | None \<Rightarrow> stmt E [''users''] (sql_find_user E (JStr ''admin@demo.com''))))"

section \<open>The setup route\<close>

definition bearer :: "string \<Rightarrow> string" where
  "bearer s = ''Bearer '' @ s"

definition setup_POST :: "env \<Rightarrow> request \<Rightarrow> response io" where
  "setup_POST E req =
     (let sec = (case environ E ''SETUP_SECRET'' of Some s \<Rightarrow> Some s | None \<Rightarrow> environ E ''CRON_SECRET'')
      in if (case sec of None \<Rightarrow> False | Some s \<Rightarrow> rq_auth req \<noteq> Some (bearer s))
         then Ret (error_response ''forbidden'' 403 ''FORBIDDEN'')
         else catchP
           (bindP (ensureSchema E) (\<lambda>_.
            bindP (seedDemo E) (\<lambda>seed.
            Ret (json (JObj ([(''ok'', JBool True), (''schema'', JBool True)] @ seed)) 200))))
           (\<lambda>e. Ret (error_response (exn_message E e) 500 ''ERROR'')))"

definition setup_GET :: response where
  "setup_GET = json (JObj [(''endpoint'', JStr ''POST /api/setup to initialize database and seed demo data'')]) 200"

section \<open>The cron route\<close>

definition tick_fields :: "tick_result \<Rightarrow> (string \<times> jsval) list" where
  "tick_fields r = [(''processed'', JInt (int (t_processed r))), (''worker'', JStr (t_worker r))]"

definition cron_GET :: "env \<Rightarrow> request \<Rightarrow> response io" where
  "cron_GET E req =
     (if (case environ E ''CRON_SECRET'' of None \<Rightarrow> False | Some s \<Rightarrow> rq_auth req \<noteq> Some (bearer s))
      then Ret (error_response ''forbidden'' 403 ''FORBIDDEN'')
      else catchP
        (bindP (runWorkerTick E) (\<lambda>r. Ret (json (JObj ((''ok'', JBool True) # tick_fields r)) 200)))
        (\<lambda>e. Ret (error_response (exn_message E e) 500 ''ERROR'')))"

section \<open>The guarantee\<close>

lemma db_wf_relations:
  assumes "db_wf w" and "n = idem_index \<Longrightarrow> idem_unique (w_jobs w)"
  shows "db_wf (w\<lparr>w_relations := w_relations w @ [n]\<rparr>)"
  using assms by (auto simp: wf_defs)

lemma sound_create_object:
  assumes "n = idem_index \<Longrightarrow> n \<notin> set (w_relations w) \<Longrightarrow> set deps \<subseteq> set (w_relations w) \<Longrightarrow> idem_unique (w_jobs w)"
  shows "sound_step w (snd (create_object n deps w))"
proof -
  have "sound_step w (w\<lparr>w_relations := w_relations w @ [n]\<rparr>)"
    if "n \<notin> set (w_relations w)" "set deps \<subseteq> set (w_relations w)"
    using assms that db_wf_relations [of w n] by (auto simp: sound_step_def ids_grow_def)
  then show ?thesis
    by (auto simp: create_object_def find_None_iff split: option.splits)
qed

text \<open>The statements of the schema create the index of the idempotency keys only by the
  statement that checks for duplicates.\<close>

definition ddl_ok :: "ddl \<Rightarrow> bool" where
  "ddl_ok s \<longleftrightarrow> (case s of Create_unique_index n t ks cond \<Rightarrow> True | Create_extension n \<Rightarrow> n \<noteq> idem_index
     | Create_enum n vs \<Rightarrow> n \<noteq> idem_index | Create_function n \<Rightarrow> n \<noteq> idem_index
     | Create_table n cols us \<Rightarrow> n \<noteq> idem_index | Create_index n t ks cond \<Rightarrow> n \<noteq> idem_index)"

lemma sound_run_ddl: "ddl_ok s \<Longrightarrow> sound_step w (snd (run_ddl s w))"
  by (cases s) (auto simp: ddl_ok_def intro!: sound_create_object)

lemma STATEMENTS_ok: "list_all ddl_ok STATEMENTS"
  by (simp add: schema_defs ddl_ok_def idem_index_def)

lemma guar_for_each:
  "(\<And>x s. x \<in> set xs \<Longrightarrow> guar R (body x s)) \<Longrightarrow> guar R (forP body xs s)"
  by (induction xs arbitrary: s) (auto intro: guar_rules)

lemma guar_ensureSchema [guar_rules]: "guar sound_step (ensureSchema E)"
  unfolding ensureSchema_def
proof (rule guar_bind [OF guar_getPool])
  show "guar sound_step (forP (\<lambda>s _. stmt E [] (run_ddl s)) STATEMENTS ())"
    by (rule guar_for_each, rule guar_stmt, rule sound_run_ddl) (use STATEMENTS_ok in \<open>auto simp: list_all_iff\<close>)
qed

lemma sound_find_org [sound_stmts]: "sound_step w (snd (sql_find_org s w))"
  by (simp add: sql_find_org_def)

lemma sound_sql_insert_org [sound_stmts]: "sound_step w (snd (sql_insert_org E n s w))"
  by (simp add: sql_insert_org_def sound_insert_org)

lemma sound_sql_insert_user [sound_stmts]: "sound_step w (snd (sql_insert_user E g w))"
  by (simp add: sql_insert_user_def sound_insert_user)

lemma sound_seed_project [sound_stmts]: "sound_step w (snd (sql_seed_project E g w))"
  by (simp add: sql_seed_project_def sound_insert_project)

lemma sound_seed_queue [sound_stmts]: "sound_step w (snd (sql_seed_queue E p n s l w))"
  unfolding sql_seed_queue_def
  by (intro sound_with_param sound_insert_queue) (auto simp: int4_ok_def)

lemma new_job_ok: "int4_ok prio \<Longrightarrow> job_ok (new_job E w qid prio p t)"
  by (simp add: new_job_def job_ok_def int4_ok_def)

lemma sound_seed_job [sound_stmts]: "sound_step w (snd (sql_seed_job E qid i w))"
  unfolding sql_seed_job_def
  by (intro sound_with_param sound_insert_job new_job_ok) (simp_all add: int4_ok_def new_job_def)

lemma sound_find_user [sound_stmts]: "sound_step w (snd (sql_find_user E m w))"
  unfolding sql_find_user_def by (intro sound_with_param) simp

lemma guar_seed_queue [guar_rules]: "guar sound_step (seed_queue E p q)"
  unfolding seed_queue_def by (cases q) (auto intro!: guar_rules sound_stmts)

lemma guar_seedDemo [guar_rules]: "guar sound_step (seedDemo E)"
  unfolding seedDemo_def by (auto intro!: guar_rules sound_stmts)

lemma guar_resolveDemoUser [guar_rules]: "guar sound_step (resolveDemoUser E m)"
  unfolding resolveDemoUser_def by (auto intro!: guar_rules sound_stmts split: option.splits)

lemma guar_setup_POST [guar_rules]: "guar sound_step (setup_POST E req)"
  unfolding setup_POST_def Let_def by (auto intro!: guar_rules)

lemma guar_cron_GET [guar_rules]: "guar sound_step (cron_GET E req)"
  unfolding cron_GET_def by (auto intro!: guar_rules)

end
