(* ===== verification/Router.thy ===== *)
theory Router
  imports Setup
begin

text \<open>
  \<open>server/router.ts\<close> and \<open>app/api/[[...path]]/route.ts\<close>: the API. Every SQL statement is a
  function on the world, every route a program, and \<open>handleApi\<close> dispatches in the order of the
  source.
\<close>

section \<open>Parameters and conditions\<close>

text \<open>Reading properties of a parsed body: the first read throws when it is null.\<close>

definition reader :: "jsval \<Rightarrow> exn + (string \<Rightarrow> jsval)" where
  "reader body = (if nullish body then Inl Type_error
     else Inr (\<lambda>k. case get_prop body k of Inl e \<Rightarrow> JUndef | Inr v \<Rightarrow> v))"

definition int4_param :: "env \<Rightarrow> jsval \<Rightarrow> pgerr + int option" where
  "int4_param E v = (case e_int4 E v of Inl e \<Rightarrow> Inl e | Inr None \<Rightarrow> Inr None
     | Inr (Some n) \<Rightarrow> map_sum id Some (int4 n))"

definition uuid_param :: "env \<Rightarrow> string \<Rightarrow> pgerr + uuid option" where
  "uuid_param E s = e_uuid_in E (JStr s)"

text \<open>\<open>JOIN projects p ON p.id = q.project_id WHERE p.org_id = ...\<close>; a null never compares equal.\<close>

definition queue_in_org :: "world \<Rightarrow> uuid option \<Rightarrow> queue_row \<Rightarrow> bool" where
  "queue_in_org w org q \<longleftrightarrow> (\<exists>p \<in> set (w_projects w). p_id p = q_project_id q \<and> Some (p_org_id p) = org)"

definition job_in_org :: "world \<Rightarrow> uuid option \<Rightarrow> job_row \<Rightarrow> bool" where
  "job_in_org w org j \<longleftrightarrow> (\<exists>q \<in> set (w_queues w). q_id q = j_queue_id j \<and> queue_in_org w org q)"

section \<open>Projects\<close>

definition sql_projects :: "env \<Rightarrow> string \<Rightarrow> world \<Rightarrow> (exn + project_row list) \<times> world" where
  "sql_projects E orgId = with_param (uuid_param E orgId) (\<lambda>org w.
     ok (sort_key p_created_at (filter (\<lambda>p. Some (p_org_id p) = org) (scan E w 0 (w_projects w)))) w)"

definition project_json :: "project_row \<Rightarrow> jsval" where
  "project_json p = JObj [(''id'', JStr (p_id p)), (''org_id'', JStr (p_org_id p)), (''name'', JStr (p_name p)),
     (''slug'', JStr (p_slug p)), (''description'', opt_json JStr (p_description p)),
     (''created_at'', date_json (p_created_at p)), (''updated_at'', date_json (p_updated_at p))]"

definition page :: "jsval list \<Rightarrow> jsval" where
  "page items = JObj [(''items'', JArr items), (''has_more'', JBool False)]"

definition get_projects :: "env \<Rightarrow> string \<Rightarrow> response io" where
  "get_projects E orgId =
     bindP (stmt E [''projects''] (sql_projects E orgId)) (\<lambda>rows. Ret (json (page (map project_json rows)) 200))"

definition sql_create_project :: "env \<Rightarrow> string \<Rightarrow> (string \<Rightarrow> jsval) \<Rightarrow> world \<Rightarrow> (exn + project_row) \<times> world" where
  "sql_create_project E orgId body =
     with_required ''org_id'' (uuid_param E orgId) (\<lambda>org.
     with_required ''name'' (e_text E (body ''name'')) (\<lambda>name.
     with_required ''slug'' (e_text E (body ''slug'')) (\<lambda>slug.
     with_param (e_text E (js_coalesce (body ''description'') JNull)) (\<lambda>desc w.
     insert_project \<lparr>p_id = gen_uuid E w, p_org_id = org, p_name = name, p_slug = slug, p_description = desc,
       p_created_at = w_now w, p_updated_at = w_now w\<rparr> w))))"

definition post_projects :: "env \<Rightarrow> request \<Rightarrow> string \<Rightarrow> response io" where
  "post_projects E req orgId =
     bindP (pureP (json_parse (rq_body req))) (\<lambda>body.
     bindP (pureP (reader body)) (\<lambda>field.
     bindP (stmt E [''projects''] (sql_create_project E orgId field)) (\<lambda>row.
     Ret (json (project_json row) 201))))"

section \<open>Queues\<close>

definition sql_queues :: "env \<Rightarrow> string \<Rightarrow> world \<Rightarrow> (exn + queue_row list) \<times> world" where
  "sql_queues E orgId = with_param (uuid_param E orgId) (\<lambda>org w.
     ok (sort_key q_created_at (filter (queue_in_org w org) (scan E w 0 (w_queues w)))) w)"

definition get_queues :: "env \<Rightarrow> string \<Rightarrow> response io" where
  "get_queues E orgId =
     bindP (stmt E [''queues'', ''projects''] (sql_queues E orgId)) (\<lambda>rows.
     bindP (pureP (map_rows mapQueue rows)) (\<lambda>items. Ret (json (page items) 200)))"

definition sql_find_project :: "env \<Rightarrow> jsval \<Rightarrow> string \<Rightarrow> world \<Rightarrow> (exn + bool) \<times> world" where
  "sql_find_project E pid orgId = with_param (e_uuid_in E pid) (\<lambda>p. with_param (uuid_param E orgId) (\<lambda>org w.
     ok (\<exists>r \<in> set (w_projects w). Some (p_id r) = p \<and> Some (p_org_id r) = org) w))"

definition sql_create_queue :: "env \<Rightarrow> (string \<Rightarrow> jsval) \<Rightarrow> world \<Rightarrow> (exn + queue_row) \<times> world" where
  "sql_create_queue E body =
     with_required ''project_id'' (e_uuid_in E (body ''project_id'')) (\<lambda>pid.
     with_required ''name'' (e_text E (body ''name'')) (\<lambda>name.
     with_required ''slug'' (e_text E (body ''slug'')) (\<lambda>slug.
     with_required ''priority_default'' (int4_param E (js_coalesce (body ''priority_default'') (JInt 5))) (\<lambda>prio.
     with_param (int4_param E (js_coalesce (body ''concurrency_limit'') JNull)) (\<lambda>cap w.
     insert_queue \<lparr>q_id = gen_uuid E w, q_project_id = pid, q_name = name, q_slug = slug, q_retry_policy_id = None,
       q_priority_default = prio, q_concurrency_limit = cap, q_paused = False,
       q_created_at = w_now w, q_updated_at = w_now w\<rparr> w)))))"

definition post_queues :: "env \<Rightarrow> request \<Rightarrow> string \<Rightarrow> response io" where
  "post_queues E req orgId =
     bindP (pureP (json_parse (rq_body req))) (\<lambda>body.
     bindP (pureP (reader body)) (\<lambda>field.
     bindP (stmt E [''projects''] (sql_find_project E (field ''project_id'') orgId)) (\<lambda>proj.
     if \<not> proj then Ret (error_response ''project not found'' 404 ''ERROR'')
     else bindP (stmt E [''queues''] (sql_create_queue E field)) (\<lambda>row.
          bindP (pureP (mapQueue row)) (\<lambda>v. Ret (json v 201))))))"

text \<open>\<open>p.match(/^kind\/([^/]+)(?:\/(.+))?$/)\<close>, with \<open>match[2] || ""\<close>\<close>

definition has_line_end :: "string \<Rightarrow> bool" where
  "has_line_end s \<longleftrightarrow> CHR 0x0A \<in> set s \<or> CHR 0x0D \<in> set s
     \<or> str_includes s (map char_of [0xE2, 0x80, 0xA8::nat]) \<or> str_includes s (map char_of [0xE2, 0x80, 0xA9::nat])"

definition match_sub :: "string \<Rightarrow> string \<Rightarrow> (string \<times> string) option" where
  "match_sub kind p =
     (if \<not> starts_with p (kind @ ''/'') then None
      else let r = drop (length kind + 1) p; seg = takeWhile (\<lambda>c. c \<noteq> CHR ''/'') r;
               rest = dropWhile (\<lambda>c. c \<noteq> CHR ''/'') r
           in if seg = [] then None
              else case rest of [] \<Rightarrow> Some (seg, [])
                   | _ # sub \<Rightarrow> if sub = [] \<or> has_line_end sub then None else Some (seg, sub))"

section \<open>Queue statistics\<close>

definition sql_depth :: "env \<Rightarrow> string \<Rightarrow> world \<Rightarrow> (exn + int) \<times> world" where
  "sql_depth E queueId = with_param (uuid_param E queueId) (\<lambda>q w.
     ok (int (length (filter (\<lambda>j. Some (j_queue_id j) = q \<and> j_status j = Queued) (w_jobs w)))) w)"

record stats =
  st_tp1h :: int
  st_tp24h :: int
  st_completed :: int
  st_failed :: int
  st_avg_ms :: rat

definition finished_since :: "timestamp \<Rightarrow> execution_row \<Rightarrow> bool" where
  "finished_since t x \<longleftrightarrow> (case je_finished_at x of None \<Rightarrow> False | Some f \<Rightarrow> t \<le> f)"

definition count_where :: "('a \<Rightarrow> bool) \<Rightarrow> 'a list \<Rightarrow> int" where
  "count_where P xs = int (length (filter P xs))"

definition stats_of :: "env \<Rightarrow> timestamp \<Rightarrow> execution_row list \<Rightarrow> stats" where
  "stats_of E now xs =
     (let completed = (\<lambda>x. je_status x = ''completed'');
          ds = List.map_filter je_duration_ms (filter completed xs)
      in \<lparr>st_tp1h = count_where (\<lambda>x. completed x \<and> finished_since (now - seconds 3600) x) xs,
          st_tp24h = count_where (\<lambda>x. completed x \<and> finished_since (now - seconds 86400) x) xs,
          st_completed = count_where completed xs,
          st_failed = count_where (\<lambda>x. je_status x = ''failed'') xs,
          st_avg_ms = (if ds = [] then 0 else e_avg E ds)\<rparr>)"

definition sql_stats :: "env \<Rightarrow> string \<Rightarrow> world \<Rightarrow> (exn + stats) \<times> world" where
  "sql_stats E queueId = with_param (uuid_param E queueId) (\<lambda>q w.
     ok (stats_of E (w_now w) (filter (\<lambda>x. finished_since (w_now w - seconds 86400) x
           \<and> (\<exists>j \<in> set (w_jobs w). j_id j = je_job_id x \<and> Some (j_queue_id j) = q)) (w_executions w))) w)"

definition sql_queue_name :: "env \<Rightarrow> string \<Rightarrow> string \<Rightarrow> world \<Rightarrow> (exn + string option) \<times> world" where
  "sql_queue_name E queueId orgId = with_param (uuid_param E queueId) (\<lambda>q. with_param (uuid_param E orgId) (\<lambda>org w.
     ok (map_option q_name (List.find (\<lambda>r. Some (q_id r) = q \<and> queue_in_org w org r) (w_queues w))) w))"

definition success_rate :: "int \<Rightarrow> int \<Rightarrow> jsnum" where
  "success_rate completed failed =
     (let total = completed + failed in if total \<noteq> 0 then to_num (of_int completed / of_int total) else Fin 1)"

definition get_queue_stats :: "env \<Rightarrow> string \<Rightarrow> string \<Rightarrow> response io" where
  "get_queue_stats E orgId queueId =
     bindP (stmt E [''jobs''] (sql_depth E queueId)) (\<lambda>depth.
     bindP (stmt E [''job_executions'', ''jobs''] (sql_stats E queueId)) (\<lambda>st.
     bindP (stmt E [''queues'', ''projects''] (sql_queue_name E queueId orgId)) (\<lambda>qname.
     case qname of None \<Rightarrow> Ret (error_response ''not found'' 404 ''ERROR'')
     | Some name \<Rightarrow> Ret (json (JObj
         [(''queue_id'', JStr queueId), (''queue_name'', JStr name), (''depth'', JInt depth),
          (''throughput_1h'', JInt (st_tp1h st)), (''throughput_24h'', JInt (st_tp24h st)),
          (''success_rate'', JNum (success_rate (st_completed st) (st_failed st))),
          (''avg_latency_ms'', JNum (to_num (st_avg_ms st))),
          (''p95_latency_ms'', JNum (to_num (st_avg_ms st)))]) 200))))"

section \<open>Changing a queue\<close>

definition pause_set :: "bool \<Rightarrow> timestamp \<Rightarrow> queue_row \<Rightarrow> queue_row" where
  "pause_set b now q = q\<lparr>q_paused := b, q_updated_at := now\<rparr>"

definition sql_set_paused :: "env \<Rightarrow> bool \<Rightarrow> string \<Rightarrow> string \<Rightarrow> world \<Rightarrow> (exn + unit) \<times> world" where
  "sql_set_paused E b queueId orgId =
     with_param (uuid_param E queueId) (\<lambda>q. with_param (uuid_param E orgId) (\<lambda>org w.
     ok () (w\<lparr>w_queues := update_where (\<lambda>r. Some (q_id r) = q \<and> queue_in_org w org r)
       (pause_set b (w_now w)) (w_queues w)\<rparr>)))"

definition post_pause :: "env \<Rightarrow> string \<Rightarrow> string \<Rightarrow> response io" where
  "post_pause E orgId queueId =
     bindP (stmt E [''queues'', ''projects''] (sql_set_paused E True queueId orgId)) (\<lambda>_. Ret no_content)"

definition post_resume :: "env \<Rightarrow> string \<Rightarrow> string \<Rightarrow> response io" where
  "post_resume E orgId queueId =
     bindP (stmt E [''queues'', ''projects''] (sql_set_paused E False queueId orgId)) (\<lambda>_. Ret no_content)"

text \<open>\<open>COALESCE(new, old)\<close> on each column.\<close>

definition queue_set :: "string option \<Rightarrow> int option \<Rightarrow> int option \<Rightarrow> timestamp \<Rightarrow> queue_row \<Rightarrow> queue_row" where
  "queue_set name prio cap now q = q\<lparr>q_name := (case name of None \<Rightarrow> q_name q | Some n \<Rightarrow> n),
     q_priority_default := (case prio of None \<Rightarrow> q_priority_default q | Some p \<Rightarrow> p),
     q_concurrency_limit := (case cap of None \<Rightarrow> q_concurrency_limit q | Some c \<Rightarrow> Some c),
     q_updated_at := now\<rparr>"

definition sql_update_queue ::
  "env \<Rightarrow> string \<Rightarrow> string \<Rightarrow> (string \<Rightarrow> jsval) \<Rightarrow> world \<Rightarrow> (exn + queue_row option) \<times> world" where
  "sql_update_queue E queueId orgId body =
     with_param (uuid_param E queueId) (\<lambda>q. with_param (uuid_param E orgId) (\<lambda>org.
     with_param (e_text E (js_coalesce (body ''name'') JNull)) (\<lambda>name.
     with_param (int4_param E (js_coalesce (body ''priority_default'') JNull)) (\<lambda>prio.
     with_param (int4_param E (js_coalesce (body ''concurrency_limit'') JNull)) (\<lambda>cap w.
       (let P = (\<lambda>r. Some (q_id r) = q \<and> queue_in_org w org r); upd = queue_set name prio cap (w_now w)
        in ok (map_option upd (List.find P (w_queues w))) (w\<lparr>w_queues := update_where P upd (w_queues w)\<rparr>)))))))"

definition put_queue :: "env \<Rightarrow> request \<Rightarrow> string \<Rightarrow> string \<Rightarrow> response io" where
  "put_queue E req orgId queueId =
     bindP (pureP (json_parse (rq_body req))) (\<lambda>body.
     bindP (pureP (reader body)) (\<lambda>field.
     bindP (stmt E [''queues'', ''projects''] (sql_update_queue E queueId orgId field)) (\<lambda>row.
     case row of None \<Rightarrow> Ret (error_response ''not found'' 404 ''ERROR'')
     | Some r \<Rightarrow> bindP (pureP (mapQueue r)) (\<lambda>v. Ret (json v 200)))))"

section \<open>Submitting a job\<close>

definition sql_queue_default :: "env \<Rightarrow> string \<Rightarrow> string \<Rightarrow> world \<Rightarrow> (exn + int option) \<times> world" where
  "sql_queue_default E queueId orgId =
     with_param (uuid_param E queueId) (\<lambda>q. with_param (uuid_param E orgId) (\<lambda>org w.
     ok (map_option q_priority_default (List.find (\<lambda>r. Some (q_id r) = q \<and> queue_in_org w org r) (w_queues w))) w))"

definition sql_find_idem :: "env \<Rightarrow> string \<Rightarrow> jsval \<Rightarrow> world \<Rightarrow> (exn + job_row option) \<times> world" where
  "sql_find_idem E queueId key = with_param (uuid_param E queueId) (\<lambda>q. with_param (e_text E key) (\<lambda>k w.
     ok (List.find (\<lambda>j. Some (j_queue_id j) = q \<and> k \<noteq> None \<and> j_idempotency_key j = k) (scan E w 0 (w_jobs w))) w))"

text \<open>\<open>Number(body.delay_seconds) || 0\<close>; the insert has \<open>NOW()\<close> unless the delay is positive.\<close>

definition delay_of :: "jsval \<Rightarrow> exn + jsnum" where
  "delay_of v = (case js_Number v of Inl e \<Rightarrow> Inl e | Inr n \<Rightarrow> Inr (num_or n 0))"

definition delay_param :: "env \<Rightarrow> jsnum \<Rightarrow> pgerr + int" where
  "delay_param E d = (if num_pos d then e_seconds E d else Inr 0)"

definition sql_submit ::
  "env \<Rightarrow> string \<Rightarrow> int \<Rightarrow> (string \<Rightarrow> jsval) \<Rightarrow> jsnum \<Rightarrow> world \<Rightarrow> (exn + job_row) \<times> world" where
  "sql_submit E queueId dflt body delaySec =
     with_required ''queue_id'' (uuid_param E queueId) (\<lambda>qid.
     with_required ''priority'' (int4_param E (js_coalesce (body ''priority'') (JInt dflt))) (\<lambda>prio.
     with_required ''payload'' (case json_stringify (body ''payload'') of None \<Rightarrow> Inr None
         | Some t \<Rightarrow> map_sum id Some (e_jsonb E t)) (\<lambda>payload.
     with_param (e_text E (js_coalesce (body ''idempotency_key'') JNull)) (\<lambda>key.
     with_required ''max_attempts'' (int4_param E (js_coalesce (body ''max_attempts'') (JInt 3))) (\<lambda>maxa.
     with_param (delay_param E delaySec) (\<lambda>delay.
     with_param (e_text E (js_coalesce (body ''cron_expr'') JNull)) (\<lambda>cron w.
       insert_job ((new_job E w qid prio payload (w_now w + delay))
         \<lparr>j_idempotency_key := key, j_max_attempts := maxa, j_cron_expr := cron\<rparr>) w)))))))"

definition post_job :: "env \<Rightarrow> request \<Rightarrow> string \<Rightarrow> string \<Rightarrow> response io" where
  "post_job E req orgId queueId =
     bindP (pureP (json_parse (rq_body req))) (\<lambda>body.
     bindP (stmt E [''queues'', ''projects''] (sql_queue_default E queueId orgId)) (\<lambda>qrow.
     case qrow of None \<Rightarrow> Ret (error_response ''not found'' 404 ''ERROR'')
     | Some dflt \<Rightarrow>
         bindP (pureP (reader body)) (\<lambda>field.
         bindP (if truthy (field ''idempotency_key'')
                then stmt E [''jobs''] (sql_find_idem E queueId (field ''idempotency_key'')) else Ret None) (\<lambda>existing.
         case existing of Some r \<Rightarrow> bindP (pureP (mapJob r)) (\<lambda>v. Ret (json v 200))
         | None \<Rightarrow>
             bindP (pureP (delay_of (field ''delay_seconds''))) (\<lambda>delaySec.
             bindP (stmt E [''jobs''] (sql_submit E queueId dflt field delaySec)) (\<lambda>row.
             bindP (scheduleWorkerTick E) (\<lambda>_.
             bindP (pureP (mapJob row)) (\<lambda>v. Ret (json v 201)))))))))"

section \<open>Jobs\<close>

text \<open>\<open>searchParams.get\<close>\<close>

definition query_get :: "request \<Rightarrow> string \<Rightarrow> string option" where
  "query_get req k = map_of (rq_query req) k"

definition sql_jobs ::
  "env \<Rightarrow> string \<Rightarrow> string \<Rightarrow> string option \<Rightarrow> world \<Rightarrow> (exn + job_row list) \<times> world" where
  "sql_jobs E orgId status queueId =
     with_param (uuid_param E orgId) (\<lambda>org. with_param (e_text E (JStr status)) (\<lambda>s.
     with_param (case queueId of None \<Rightarrow> Inr None | Some q \<Rightarrow> uuid_param E q) (\<lambda>qid w.
     ok (take 100 (sort_key (\<lambda>j. - j_created_at j) (filter
           (\<lambda>j. job_in_org w org j \<and> (s = Some [] \<or> Some (status_text (j_status j)) = s)
              \<and> (qid = None \<or> Some (j_queue_id j) = qid)) (scan E w 0 (w_jobs w))))) w)))"

definition get_jobs :: "env \<Rightarrow> request \<Rightarrow> string \<Rightarrow> response io" where
  "get_jobs E req orgId =
     bindP (scheduleWorkerTick E) (\<lambda>_.
     (let status = (case query_get req ''status'' of None \<Rightarrow> [] | Some s \<Rightarrow> s) in
      bindP (stmt E [''jobs'', ''queues'', ''projects''] (sql_jobs E orgId status (query_get req ''queue_id''))) (\<lambda>rows.
      bindP (pureP (map_rows mapJob rows)) (\<lambda>items. Ret (json (page items) 200)))))"

definition sql_executions :: "env \<Rightarrow> string \<Rightarrow> string \<Rightarrow> world \<Rightarrow> (exn + execution_row list) \<times> world" where
  "sql_executions E jobId orgId = with_param (uuid_param E jobId) (\<lambda>jid. with_param (uuid_param E orgId) (\<lambda>org w.
     ok (sort_key je_attempt (filter (\<lambda>x. Some (je_job_id x) = jid
           \<and> (\<exists>j \<in> set (w_jobs w). j_id j = je_job_id x \<and> job_in_org w org j)) (scan E w 0 (w_executions w)))) w))"

definition execution_json :: "execution_row \<Rightarrow> jsval" where
  "execution_json x = JObj [(''id'', JStr (je_id x)), (''job_id'', JStr (je_job_id x)),
     (''worker_id'', opt_json JStr (je_worker_id x)), (''attempt'', JInt (je_attempt x)), (''status'', JStr (je_status x)),
     (''started_at'', date_json (je_started_at x)), (''finished_at'', opt_json date_json (je_finished_at x)),
     (''error'', opt_json JStr (je_error x)), (''duration_ms'', opt_json JInt (je_duration_ms x)),
     (''created_at'', date_json (je_created_at x)), (''updated_at'', date_json (je_updated_at x))]"

definition get_executions :: "env \<Rightarrow> string \<Rightarrow> string \<Rightarrow> response io" where
  "get_executions E orgId jobId =
     bindP (stmt E [''job_executions'', ''jobs'', ''queues'', ''projects''] (sql_executions E jobId orgId)) (\<lambda>rows.
     Ret (json (JArr (map execution_json rows)) 200))"

definition sql_logs :: "env \<Rightarrow> string \<Rightarrow> string \<Rightarrow> world \<Rightarrow> (exn + log_row list) \<times> world" where
  "sql_logs E jobId orgId = with_param (uuid_param E jobId) (\<lambda>jid. with_param (uuid_param E orgId) (\<lambda>org w.
     ok (sort_key jl_created_at (filter (\<lambda>x. Some (jl_job_id x) = jid
           \<and> (\<exists>j \<in> set (w_jobs w). j_id j = jl_job_id x \<and> job_in_org w org j)) (scan E w 0 (w_logs w)))) w))"

definition log_json :: "log_row \<Rightarrow> jsval" where
  "log_json x = JObj [(''id'', JStr (jl_id x)), (''job_id'', JStr (jl_job_id x)), (''level'', JStr (jl_level x)),
     (''message'', JStr (jl_message x)), (''metadata'', opt_json id (jl_metadata x)),
     (''created_at'', date_json (jl_created_at x))]"

definition get_logs :: "env \<Rightarrow> string \<Rightarrow> string \<Rightarrow> response io" where
  "get_logs E orgId jobId =
     bindP (stmt E [''job_logs'', ''jobs'', ''queues'', ''projects''] (sql_logs E jobId orgId)) (\<lambda>rows.
     Ret (json (JArr (map log_json rows)) 200))"

definition sql_delete_dlq :: "env \<Rightarrow> string \<Rightarrow> world \<Rightarrow> (exn + unit) \<times> world" where
  "sql_delete_dlq E jobId = with_param (uuid_param E jobId) (\<lambda>jid w.
     ok () (w\<lparr>w_dlq := filter (\<lambda>d. Some (d_job_id d) \<noteq> jid) (w_dlq w)\<rparr>))"

definition retry_set :: "timestamp \<Rightarrow> job_row \<Rightarrow> job_row" where
  "retry_set now j = j\<lparr>j_status := Queued, j_attempts := 0, j_next_run_at := Some now, j_failed_at := None,
     j_error_message := None, j_worker_id := None, j_claimed_at := None, j_lease_expires_at := None,
     j_updated_at := now\<rparr>"

definition sql_retry :: "env \<Rightarrow> string \<Rightarrow> string \<Rightarrow> world \<Rightarrow> (exn + job_row option) \<times> world" where
  "sql_retry E jobId orgId = with_param (uuid_param E jobId) (\<lambda>jid. with_param (uuid_param E orgId) (\<lambda>org w.
     (let P = (\<lambda>j. Some (j_id j) = jid \<and> job_in_org w org j)
      in ok (map_option (retry_set (w_now w)) (List.find P (w_jobs w)))
           (w\<lparr>w_jobs := update_where P (retry_set (w_now w)) (w_jobs w)\<rparr>))))"

definition post_retry :: "env \<Rightarrow> string \<Rightarrow> string \<Rightarrow> response io" where
  "post_retry E orgId jobId =
     bindP (stmt E [''dead_letter_queue''] (sql_delete_dlq E jobId)) (\<lambda>_.
     bindP (stmt E [''jobs'', ''queues'', ''projects''] (sql_retry E jobId orgId)) (\<lambda>row.
     case row of None \<Rightarrow> Ret (error_response ''not found'' 404 ''ERROR'')
     | Some r \<Rightarrow> bindP (scheduleWorkerTick E) (\<lambda>_. bindP (pureP (mapJob r)) (\<lambda>v. Ret (json v 200)))))"

definition sql_job :: "env \<Rightarrow> string \<Rightarrow> string \<Rightarrow> world \<Rightarrow> (exn + job_row option) \<times> world" where
  "sql_job E jobId orgId = with_param (uuid_param E jobId) (\<lambda>jid. with_param (uuid_param E orgId) (\<lambda>org w.
     ok (List.find (\<lambda>j. Some (j_id j) = jid \<and> job_in_org w org j) (w_jobs w)) w))"

definition get_job :: "env \<Rightarrow> string \<Rightarrow> string \<Rightarrow> response io" where
  "get_job E orgId jobId =
     bindP (stmt E [''jobs'', ''queues'', ''projects''] (sql_job E jobId orgId)) (\<lambda>row.
     case row of None \<Rightarrow> Ret (error_response ''not found'' 404 ''ERROR'')
     | Some r \<Rightarrow> bindP (pureP (mapJob r)) (\<lambda>v. Ret (json v 200)))"

section \<open>Workers and dead letters\<close>

definition worker_json :: "world \<Rightarrow> worker_row \<Rightarrow> jsval" where
  "worker_json w r = JObj [(''id'', JStr (wk_id r)), (''name'', JStr (wk_name r)),
     (''status'', JStr (worker_status_text (wk_status r))),
     (''last_seen_at'', opt_json date_json (map_option hb_last_seen_at (find_row hb_worker_id (wk_id r) (w_heartbeats w)))),
     (''created_at'', date_json (wk_created_at r)), (''updated_at'', date_json (wk_updated_at r)),
     (''jobs_in_flight'', JInt (count_where (\<lambda>j. j_worker_id j = Some (wk_id r) \<and> in_flight j) (w_jobs w)))]"

definition sql_workers :: "env \<Rightarrow> world \<Rightarrow> (exn + jsval list) \<times> world" where
  "sql_workers E w = ok (map (worker_json w) (sort_key (\<lambda>r. - wk_created_at r) (scan E w 0 (w_workers w)))) w"

definition get_workers :: "env \<Rightarrow> response io" where
  "get_workers E = bindP (stmt E [''workers'', ''worker_heartbeats'', ''jobs''] (sql_workers E)) (\<lambda>rows.
     Ret (json (JArr rows) 200))"

definition dlq_json :: "queue_row \<Rightarrow> dlq_row \<Rightarrow> jsval" where
  "dlq_json q d = JObj [(''id'', JStr (d_id d)), (''job_id'', JStr (d_job_id d)),
     (''original_queue_id'', JStr (d_original_queue_id d)), (''queue_name'', JStr (q_name q)), (''payload'', d_payload d),
     (''failed_at'', date_json (d_failed_at d)), (''reason'', opt_json JStr (d_reason d)),
     (''attempts_made'', JInt (d_attempts_made d)), (''created_at'', date_json (d_created_at d))]"

definition sql_dlq :: "env \<Rightarrow> string \<Rightarrow> world \<Rightarrow> (exn + jsval list) \<times> world" where
  "sql_dlq E orgId = with_param (uuid_param E orgId) (\<lambda>org w.
     ok (map (\<lambda>(q, d). dlq_json q d) (take 100 (sort_key (\<lambda>(q, d). - d_failed_at d)
           (List.map_filter (\<lambda>d. case find_row q_id (d_original_queue_id d) (w_queues w) of
               Some q \<Rightarrow> if queue_in_org w org q then Some (q, d) else None | None \<Rightarrow> None) (scan E w 0 (w_dlq w)))))) w)"

definition get_dlq :: "env \<Rightarrow> string \<Rightarrow> response io" where
  "get_dlq E orgId = bindP (stmt E [''dead_letter_queue'', ''queues'', ''projects''] (sql_dlq E orgId)) (\<lambda>rows.
     Ret (json (page rows) 200))"

definition get_pulse :: "env \<Rightarrow> response io" where
  "get_pulse E = bindP (runWorkerTickNow E) (\<lambda>r. Ret (json (JObj ((''ok'', JBool True) # tick_fields r)) 200))"

section \<open>Login\<close>

definition user_json :: "user_row \<Rightarrow> jsval" where
  "user_json u = JObj [(''id'', JStr (u_id u)), (''org_id'', JStr (u_org_id u)), (''email'', JStr (u_email u)),
     (''name'', JStr (u_name u)), (''role'', JStr (u_role u)), (''password_hash'', JUndef)]"

definition user_claims :: "user_row \<Rightarrow> claims" where
  "user_claims u = \<lparr>cl_user_id = u_id u, cl_org_id = u_org_id u, cl_email = u_email u, cl_role = u_role u\<rparr>"

definition post_login :: "env \<Rightarrow> request \<Rightarrow> response io" where
  "post_login E req =
     bindP (pureP (json_parse (rq_body req))) (\<lambda>body.
     bindP (pureP (reader body)) (\<lambda>field.
     bindP (pureP (js_String (js_or (field ''email'') (JStr [])))) (\<lambda>raw.
     bindP (pureP (js_String (js_or (field ''password'') (JStr [])))) (\<lambda>password.
     (let email = trim raw in
      if email = [] \<or> password = [] then Ret (error_response ''email and password required'' 422 ''ERROR'')
      else
        bindP (getSql E) (\<lambda>_.
        bindP (if demoAuthEnabled E then resolveDemoUser E email
               else stmt E [''users''] (sql_find_user E (JStr email))) (\<lambda>user.
        case user of None \<Rightarrow> Ret (error_response ''invalid credentials'' 401 ''UNAUTHORIZED'')
        | Some u \<Rightarrow> bindP (signToken E (user_claims u)) (\<lambda>token.
            Ret (json (JObj [(''token'', JStr token), (''user'', user_json u)]) 200)))))))))"

section \<open>Dispatch\<close>

definition queue_routes :: "env \<Rightarrow> request \<Rightarrow> string \<Rightarrow> string \<Rightarrow> string \<Rightarrow> response io option" where
  "queue_routes E req orgId queueId sub =
     (if rq_method req = ''GET'' \<and> sub = ''stats'' then Some (get_queue_stats E orgId queueId)
      else if rq_method req = ''POST'' \<and> sub = ''pause'' then Some (post_pause E orgId queueId)
      else if rq_method req = ''POST'' \<and> sub = ''resume'' then Some (post_resume E orgId queueId)
      else if rq_method req = ''PUT'' \<and> sub = [] then Some (put_queue E req orgId queueId)
      else if rq_method req = ''POST'' \<and> sub = ''jobs'' then Some (post_job E req orgId queueId)
      else None)"

definition job_routes :: "env \<Rightarrow> request \<Rightarrow> string \<Rightarrow> string \<Rightarrow> string \<Rightarrow> response io option" where
  "job_routes E req orgId jobId sub =
     (if rq_method req = ''GET'' \<and> sub = ''executions'' then Some (get_executions E orgId jobId)
      else if rq_method req = ''GET'' \<and> sub = ''logs'' then Some (get_logs E orgId jobId)
      else if rq_method req = ''POST'' \<and> sub = ''retry'' then Some (post_retry E orgId jobId)
      else if rq_method req = ''GET'' \<and> sub = [] then Some (get_job E orgId jobId)
      else None)"

text \<open>A block \<open>if (match) { ... }\<close> that may fall through.\<close>

definition sub_routes :: "(string \<times> string) option \<Rightarrow> (string \<Rightarrow> string \<Rightarrow> response io option) \<Rightarrow> response io option" where
  "sub_routes m f = (case m of None \<Rightarrow> None | Some (i, sub) \<Rightarrow> f i sub)"

definition routes :: "env \<Rightarrow> request \<Rightarrow> string \<Rightarrow> string \<Rightarrow> response io" where
  "routes E req p orgId =
     (if rq_method req = ''GET'' \<and> p = ''projects'' then get_projects E orgId
      else if rq_method req = ''POST'' \<and> p = ''projects'' then post_projects E req orgId
      else if rq_method req = ''GET'' \<and> p = ''queues'' then get_queues E orgId
      else if rq_method req = ''POST'' \<and> p = ''queues'' then post_queues E req orgId
      else case sub_routes (match_sub ''queues'' p) (queue_routes E req orgId) of Some r \<Rightarrow> r
      | None \<Rightarrow>
         if rq_method req = ''GET'' \<and> p = ''worker/pulse'' then get_pulse E
         else if rq_method req = ''GET'' \<and> p = ''jobs'' then get_jobs E req orgId
         else case sub_routes (match_sub ''jobs'' p) (job_routes E req orgId) of Some r \<Rightarrow> r
         | None \<Rightarrow>
            if rq_method req = ''GET'' \<and> p = ''workers'' then get_workers E
            else if rq_method req = ''GET'' \<and> p = ''dlq'' then get_dlq E orgId
            else Ret (error_response ''not found'' 404 ''NOT_FOUND''))"

definition api_error :: "env \<Rightarrow> exn \<Rightarrow> response" where
  "api_error E e = (let msg = exn_message E e in
     if str_includes msg ''DATABASE_URL'' then error_response msg 503 ''UNAVAILABLE''
     else error_response msg 500 ''INTERNAL'')"

definition handleApi :: "env \<Rightarrow> request \<Rightarrow> response io" where
  "handleApi E req =
     (let p = sep_by ''/'' (rq_path req) in catchP
       (if rq_method req = ''POST'' \<and> p = ''auth/login'' then post_login E req
        else bindP (requireAuth E req) (\<lambda>claims.
          case claims of None \<Rightarrow> Ret unauthorized
          | Some c \<Rightarrow> bindP (getSql E) (\<lambda>_. routes E req p (cl_org_id c))))
       (\<lambda>e. Ret (api_error E e)))"

text \<open>The catch-all route: \<open>GET\<close>, \<open>POST\<close>, \<open>PUT\<close> and \<open>DELETE\<close> all go through it.\<close>

definition dispatch :: "env \<Rightarrow> request \<Rightarrow> string list option \<Rightarrow> response io" where
  "dispatch E req path = handleApi E (req\<lparr>rq_path := (case path of None \<Rightarrow> [] | Some ps \<Rightarrow> ps)\<rparr>)"

end
