(* ===== verification/Router_Facts.thy ===== *)
theory Router_Facts
  imports Router
begin

text \<open>
  Every statement and every route of the API gives the guarantee \<open>sound_step\<close>; the updates of
  queues are interpretations of \<open>queue_update\<close>.
\<close>

section \<open>Updates of queues\<close>

locale queue_update = keyed_update q_id upd for upd :: "queue_row \<Rightarrow> queue_row" +
  assumes project_upd: "q_project_id (upd q) = q_project_id q"
    and slug_upd: "q_slug (upd q) = q_slug q"
    and prio_upd: "int4_ok (q_priority_default q) \<Longrightarrow> int4_ok (q_priority_default (upd q))"
    and cap_upd: "(\<forall>n. q_concurrency_limit q = Some n \<longrightarrow> int4_ok n)
      \<Longrightarrow> q_concurrency_limit (upd q) = Some n \<Longrightarrow> int4_ok n"
begin

lemma sound_update: "sound_step w (w\<lparr>w_queues := update_where P upd (w_queues w)\<rparr>)"
proof -
  have ids: "q_id ` set (update_where P upd qs) = q_id ` set qs" for qs by (rule key_set_update)
  have slugs: "map (\<lambda>q. (q_project_id q, q_slug q)) (update_where P upd qs) = map (\<lambda>q. (q_project_id q, q_slug q)) qs" for qs
    by (rule map_update_where) (simp add: project_upd slug_upd)
  have projects: "q_project_id ` set (update_where P upd qs) = q_project_id ` set qs" for qs
    by (metis map_update_where [of qs P q_project_id upd] project_upd list.set_map)
  have "db_wf (w\<lparr>w_queues := update_where P upd (w_queues w)\<rparr>)" if wf: "db_wf w"
  proof -
    have "\<forall>q \<in> set (update_where P upd (w_queues w)). int4_ok (q_priority_default q)
        \<and> (\<forall>n. q_concurrency_limit q = Some n \<longrightarrow> int4_ok n)"
    proof
      fix q assume "q \<in> set (update_where P upd (w_queues w))"
      then obtain r where r: "r \<in> set (w_queues w)" and q: "q = (if P r then upd r else r)"
        by (auto simp: set_update_where)
      from wf r have ok: "int4_ok (q_priority_default r)" "\<forall>n. q_concurrency_limit r = Some n \<longrightarrow> int4_ok n"
        unfolding db_wf_def wf_queues_def by blast+
      then have "int4_ok (q_priority_default (upd r))" "\<forall>n. q_concurrency_limit (upd r) = Some n \<longrightarrow> int4_ok n"
        using prio_upd cap_upd by blast+
      with ok q show "int4_ok (q_priority_default q) \<and> (\<forall>n. q_concurrency_limit q = Some n \<longrightarrow> int4_ok n)"
        by (cases "P r") simp_all
    qed
    with wf show ?thesis
      by (simp add: db_wf_def wf_jobs_def keys_update wf_tenants_def wf_queues_def wf_workers_def
          wf_history_def ids slugs projects)
  qed
  then show ?thesis by (simp add: sound_step_def ids_grow_def ids)
qed

end

interpretation pause: queue_update "pause_set b now" for b now
  by unfold_locales (auto simp: pause_set_def)

lemma queue_update_set:
  assumes "\<And>p. prio = Some p \<Longrightarrow> int4_ok p" and "\<And>c. cap = Some c \<Longrightarrow> int4_ok c"
  shows "queue_update (queue_set name prio cap now)"
  using assms by unfold_locales (auto simp: queue_set_def split: option.splits)

interpretation retry: job_update "retry_set now" "{}" for now
  by unfold_locales (auto simp: retry_set_def job_ok_def int4_ok_def)

lemma int4_param_ok: "int4_param E v = Inr (Some n) \<Longrightarrow> int4_ok n"
  by (auto simp: int4_param_def int4_def split: sum.splits option.splits if_splits)

section \<open>Statements\<close>

text \<open>A statement that only reads.\<close>

lemma sound_read [sound_stmts]: "sound_step w (snd (ok x w))"
  by simp

lemmas read_defs = sql_projects_def sql_queues_def sql_find_project_def sql_depth_def sql_stats_def
  sql_queue_name_def sql_queue_default_def sql_find_idem_def sql_jobs_def sql_executions_def sql_logs_def
  sql_job_def sql_workers_def sql_dlq_def

lemma sound_reads [sound_stmts]:
  "sound_step w (snd (sql_projects E g w))" "sound_step w (snd (sql_queues E g w))"
  "sound_step w (snd (sql_find_project E p g w))" "sound_step w (snd (sql_depth E q w))"
  "sound_step w (snd (sql_stats E q w))" "sound_step w (snd (sql_queue_name E q g w))"
  "sound_step w (snd (sql_queue_default E q g w))" "sound_step w (snd (sql_find_idem E q k w))"
  "sound_step w (snd (sql_jobs E g s qo w))" "sound_step w (snd (sql_executions E j g w))"
  "sound_step w (snd (sql_logs E j g w))" "sound_step w (snd (sql_job E j g w))"
  "sound_step w (snd (sql_workers E w))" "sound_step w (snd (sql_dlq E g w))"
  unfolding read_defs by (intro sound_with_param sound_read)+

lemma sound_create_project [sound_stmts]: "sound_step w (snd (sql_create_project E g f w))"
  unfolding sql_create_project_def by (intro sound_stmts)

lemma sound_create_queue [sound_stmts]: "sound_step w (snd (sql_create_queue E f w))"
  unfolding sql_create_queue_def
  by (intro sound_with_required sound_with_param sound_insert_queue) (auto dest: int4_param_ok)

lemma sound_set_paused [sound_stmts]: "sound_step w (snd (sql_set_paused E b q g w))"
  unfolding sql_set_paused_def by (intro sound_with_param) (simp add: pause.sound_update)

lemma sound_update_queue [sound_stmts]: "sound_step w (snd (sql_update_queue E q g f w))"
  unfolding sql_update_queue_def
  by (intro sound_with_param)
    (auto simp: Let_def intro!: queue_update.sound_update queue_update_set dest: int4_param_ok)

lemma sound_submit [sound_stmts]: "sound_step w (snd (sql_submit E q d f s w))"
  unfolding sql_submit_def
  by (intro sound_with_required sound_with_param sound_insert_job)
    (auto simp: new_job_def job_ok_def int4_ok_def dest!: int4_param_ok)

lemma sound_delete_dlq [sound_stmts]: "sound_step w (snd (sql_delete_dlq E j w))"
  unfolding sql_delete_dlq_def
  by (intro sound_with_param) (auto simp: sound_step_def ids_grow_def wf_defs distinct_map_filter)

lemma sound_retry [sound_stmts]: "sound_step w (snd (sql_retry E j g w))"
  unfolding sql_retry_def by (intro sound_with_param) (simp add: Let_def retry.sound_update)

section \<open>Routes\<close>

lemma guar_get_projects: "guar sound_step (get_projects E g)"
  unfolding get_projects_def Let_def by (intro guar_rules sound_stmts)

lemma guar_post_projects: "guar sound_step (post_projects E req g)"
  unfolding post_projects_def Let_def by (intro guar_rules sound_stmts)

lemma guar_get_queues: "guar sound_step (get_queues E g)"
  unfolding get_queues_def Let_def by (intro guar_rules sound_stmts)

lemma guar_post_queues: "guar sound_step (post_queues E req g)"
  unfolding post_queues_def Let_def by (auto intro!: guar_rules sound_stmts split: option.splits)

lemma guar_get_queue_stats: "guar sound_step (get_queue_stats E g q)"
  unfolding get_queue_stats_def Let_def by (auto intro!: guar_rules sound_stmts split: option.splits)

lemma guar_post_pause: "guar sound_step (post_pause E g q)"
  unfolding post_pause_def Let_def by (intro guar_rules sound_stmts)

lemma guar_post_resume: "guar sound_step (post_resume E g q)"
  unfolding post_resume_def Let_def by (intro guar_rules sound_stmts)

lemma guar_put_queue: "guar sound_step (put_queue E req g q)"
  unfolding put_queue_def Let_def by (auto intro!: guar_rules sound_stmts split: option.splits)

lemma guar_get_jobs: "guar sound_step (get_jobs E req g)"
  unfolding get_jobs_def Let_def by (auto intro!: guar_rules sound_stmts split: option.splits)

lemma guar_get_executions: "guar sound_step (get_executions E g j)"
  unfolding get_executions_def Let_def by (intro guar_rules sound_stmts)

lemma guar_get_logs: "guar sound_step (get_logs E g j)"
  unfolding get_logs_def Let_def by (intro guar_rules sound_stmts)

lemma guar_post_retry: "guar sound_step (post_retry E g j)"
  unfolding post_retry_def Let_def by (auto intro!: guar_rules sound_stmts split: option.splits)

lemma guar_get_job: "guar sound_step (get_job E g j)"
  unfolding get_job_def Let_def by (auto intro!: guar_rules sound_stmts split: option.splits)

lemma guar_get_workers: "guar sound_step (get_workers E)"
  unfolding get_workers_def Let_def by (intro guar_rules sound_stmts)

lemma guar_get_dlq: "guar sound_step (get_dlq E g)"
  unfolding get_dlq_def Let_def by (intro guar_rules sound_stmts)

lemma guar_get_pulse: "guar sound_step (get_pulse E)"
  unfolding get_pulse_def Let_def by (intro guar_rules sound_stmts)

lemmas guar_routes = guar_get_projects guar_post_projects guar_get_queues guar_post_queues guar_get_queue_stats guar_post_pause guar_post_resume guar_put_queue guar_get_jobs guar_get_executions guar_get_logs guar_post_retry guar_get_job guar_get_workers guar_get_dlq guar_get_pulse

declare guar_option [guar_rules] guar_if [guar_rules]

lemma guar_post_job: "guar sound_step (post_job E req g q)"
  unfolding post_job_def by (intro guar_rules sound_stmts)

lemma guar_post_login: "guar sound_step (post_login E req)"
  unfolding post_login_def Let_def by (intro guar_rules sound_stmts sound_refl sound_advance)

lemma guar_queue_routes: "queue_routes E req g q s = Some r \<Longrightarrow> guar sound_step r"
  by (auto simp: queue_routes_def guar_routes guar_post_job split: if_splits)

lemma guar_job_routes: "job_routes E req g j s = Some r \<Longrightarrow> guar sound_step r"
  by (auto simp: job_routes_def guar_routes split: if_splits)

lemma guar_sub_routes:
  "guar R p \<Longrightarrow> (\<And>i s r. f i s = Some r \<Longrightarrow> guar R r)
   \<Longrightarrow> guar R (case sub_routes m f of None \<Rightarrow> p | Some r \<Rightarrow> r)"
  by (simp add: sub_routes_def split: option.splits)

lemma guar_all_routes: "guar sound_step (routes E req p g)"
  unfolding routes_def
  by (intro guar_if guar_sub_routes guar_routes guar_Ret guar_queue_routes guar_job_routes)

lemma guar_handleApi [guar_rules]: "guar sound_step (handleApi E req)"
  unfolding handleApi_def Let_def
  by (auto intro!: guar_rules guar_post_login guar_all_routes split: option.splits)

end
