(* ===== verification/Server.thy ===== *)
theory Server
  imports Worker_Props Router_Facts
begin

text \<open>
  The whole server as a set of programs that may arrive at any time, its reachable states, and
  the facts about routes that the properties use.
\<close>

section \<open>Everything that may run\<close>

definition discard :: "'a io \<Rightarrow> unit io" where
  "discard p = bindP p (\<lambda>_. Ret ())"

text \<open>Requests to the API, the cron and setup routes, and ticks started in the background.\<close>

definition server_programs :: "env \<Rightarrow> unit io set" where
  "server_programs E = range (\<lambda>(req, path). discard (dispatch E req path)) \<union> range (\<lambda>req. discard (cron_GET E req))
     \<union> range (\<lambda>req. discard (setup_POST E req)) \<union> {discard (background_tick E)}"

lemma guar_discard: "guar R p \<Longrightarrow> guar R (discard p)"
  unfolding discard_def by (intro guar_bind guar_Ret)

lemma guar_server: "p \<in> server_programs E \<Longrightarrow> guar sound_step p"
  by (auto simp: server_programs_def dispatch_def intro!: guar_discard guar_handleApi guar_cron_GET
      guar_setup_POST guar_background)

interpretation server: interleaved "server_programs E" sound_step db_wf for E
  by unfold_locales (auto simp: guar_server sound_step_def)

interpretation ids: interleaved "server_programs E" sound_step "ids_grow w" for E w
  by unfold_locales (auto simp: guar_server sound_step_def intro: ids_grow_trans)

text \<open>A request without a token, for the examples.\<close>

definition demo_request :: "string \<Rightarrow> string list \<Rightarrow> string \<Rightarrow> request" where
  "demo_request meth path body = \<lparr>rq_method = meth, rq_path = path, rq_auth = None, rq_body = body, rq_query = []\<rparr>"

text \<open>A database without rows.\<close>

definition empty_world :: "string list \<Rightarrow> world" where
  "empty_world rels = \<lparr>w_relations = rels, w_organizations = [], w_users = [], w_projects = [], w_queues = [],
     w_workers = [], w_heartbeats = [], w_jobs = [], w_executions = [], w_logs = [], w_dlq = [], w_ops = 0,
     w_now = 0, w_in_flight = False, w_last_run_at = 0, w_background = 0\<rparr>"

lemma empty_wf: "db_wf (empty_world rels)"
  by (simp add: empty_world_def wf_defs idem_unique_def)

section \<open>Who may change what\<close>

text \<open>
  A step on behalf of an organization: the queues and jobs of others stay as they are, and so do
  their places in the hierarchy.
\<close>

definition org_step :: "uuid option \<Rightarrow> world \<Rightarrow> world \<Rightarrow> bool" where
  "org_step org w w' \<longleftrightarrow>
     (\<forall>q \<in> set (w_queues w). \<not> queue_in_org w org q \<longrightarrow> q \<in> set (w_queues w')) \<and>
     (\<forall>j \<in> set (w_jobs w). \<not> job_in_org w org j \<longrightarrow> j \<in> set (w_jobs w')) \<and>
     w_organizations w' = w_organizations w \<and> w_users w' = w_users w \<and>
     set (w_projects w) \<subseteq> set (w_projects w')"

lemma org_refl [simp, intro]: "org_step org w w"
  by (simp add: org_step_def)

lemma org_frame [simp]:
  "org_step g w (w'\<lparr>w_ops := n\<rparr>) = org_step g w w'" "org_step g w (w'\<lparr>w_now := t\<rparr>) = org_step g w w'"
  "org_step g w (w'\<lparr>w_in_flight := b\<rparr>) = org_step g w w'" "org_step g w (w'\<lparr>w_last_run_at := t\<rparr>) = org_step g w w'"
  "org_step g w (w'\<lparr>w_background := n\<rparr>) = org_step g w w'" "org_step g w (w'\<lparr>w_dlq := ds\<rparr>) = org_step g w w'"
  by (simp_all add: org_step_def)

lemma org_in_org_advance [simp]:
  "queue_in_org (advance_clock E n w) g q = queue_in_org w g q" "job_in_org (advance_clock E n w) g j = job_in_org w g j"
  by (simp_all add: queue_in_org_def job_in_org_def)

lemma org_advance [simp]: "org_step g (advance_clock E n w) w' = org_step g w w'"
  by (simp add: org_step_def)

lemma org_advance' [simp]: "org_step g w (advance_clock E n w') = org_step g w w'"
  by (simp add: org_step_def)

lemma org_exec: "(\<And>w. org_step g w (snd (f w))) \<Longrightarrow> org_step g w (snd (exec_stmt E tabs f w))"
proof -
  assume f: "\<And>w. org_step g w (snd (f w))"
  then have "org_step g w (snd (f (advance_clock E 0 w)))"
    using org_advance [of g E 0 w] by metis
  then show ?thesis
    unfolding exec_stmt_def Let_def by (auto split: option.splits fault.splits)
qed

lemma org_stmt: "(\<And>w. org_step g w (snd (f w))) \<Longrightarrow> guar (org_step g) (stmt E tabs f)"
  unfolding stmt_def by (intro guar_atom org_exec)

lemma org_param:
  "(\<And>x. c = Inr x \<Longrightarrow> org_step g w (snd (k x w))) \<Longrightarrow> org_step g w (snd (with_param c k w))"
  by (simp add: with_param_def split: sum.splits)

lemma org_required:
  "(\<And>x. c = Inr (Some x) \<Longrightarrow> org_step g w (snd (k x w))) \<Longrightarrow> org_step g w (snd (with_required col c k w))"
  by (simp add: with_required_def with_param_def split: sum.splits option.splits)

lemma org_read: "org_step g w (snd (ok x w))"
  by simp

lemma org_reads:
  "org_step g w (snd (sql_projects E o' w))" "org_step g w (snd (sql_queues E o' w))"
  "org_step g w (snd (sql_find_project E p o' w))" "org_step g w (snd (sql_depth E q w))"
  "org_step g w (snd (sql_stats E q w))" "org_step g w (snd (sql_queue_name E q o' w))"
  "org_step g w (snd (sql_queue_default E q o' w))" "org_step g w (snd (sql_find_idem E q k w))"
  "org_step g w (snd (sql_jobs E o' s qo w))" "org_step g w (snd (sql_executions E j o' w))"
  "org_step g w (snd (sql_logs E j o' w))" "org_step g w (snd (sql_job E j o' w))"
  "org_step g w (snd (sql_workers E w))" "org_step g w (snd (sql_dlq E o' w))"
  unfolding read_defs by (intro org_param org_read)+

lemma org_inserts:
  "org_step g w (snd (insert_project p w))" "org_step g w (snd (insert_queue q w))" "org_step g w (snd (insert_job j w))"
  by (auto simp: insert_project_def insert_queue_def insert_job_def org_step_def)

lemma org_writes:
  "org_step g w (snd (sql_create_project E o' f w))" "org_step g w (snd (sql_create_queue E f w))"
  "org_step g w (snd (sql_submit E q d f s w))" "org_step g w (snd (sql_delete_dlq E j w))"
  unfolding sql_create_project_def sql_create_queue_def sql_submit_def sql_delete_dlq_def
  by (intro org_param org_required org_inserts | simp)+

lemma update_where_keeps: "r \<in> set rs \<Longrightarrow> \<not> P r \<Longrightarrow> r \<in> set (update_where P f rs)"
  by (force simp: set_update_where)

text \<open>The organization the claims of a request name, as the database reads it.\<close>

definition org_of :: "env \<Rightarrow> string \<Rightarrow> uuid option" where
  "org_of E orgId = (case uuid_param E orgId of Inr g \<Rightarrow> g | Inl _ \<Rightarrow> None)"

lemma org_updates:
  "org_step (org_of E orgId) w (snd (sql_set_paused E b q orgId w))"
  "org_step (org_of E orgId) w (snd (sql_update_queue E q orgId f w))"
  "org_step (org_of E orgId) w (snd (sql_retry E j orgId w))"
  unfolding sql_set_paused_def sql_update_queue_def sql_retry_def
  by ((intro org_param; auto simp: org_step_def org_of_def Let_def intro!: update_where_keeps)+)

lemma org_schedule: "guar (org_step g) (scheduleWorkerTick E)"
  unfolding scheduleWorkerTick_def by (rule guar_atom) (simp add: schedule_step_def Let_def)

lemmas org_rules = guar_bind guar_pure guar_Ret guar_option guar_if org_stmt org_reads org_writes org_updates org_schedule

lemma org_get_projects: "guar (org_step (org_of E g)) (get_projects E g)"
  unfolding get_projects_def Let_def by (intro org_rules)

lemma org_post_projects: "guar (org_step (org_of E g)) (post_projects E req g)"
  unfolding post_projects_def Let_def by (intro org_rules)

lemma org_get_queues: "guar (org_step (org_of E g)) (get_queues E g)"
  unfolding get_queues_def Let_def by (intro org_rules)

lemma org_post_queues: "guar (org_step (org_of E g)) (post_queues E req g)"
  unfolding post_queues_def Let_def by (intro org_rules)

lemma org_get_queue_stats: "guar (org_step (org_of E g)) (get_queue_stats E g q)"
  unfolding get_queue_stats_def Let_def by (intro org_rules)

lemma org_post_pause: "guar (org_step (org_of E g)) (post_pause E g q)"
  unfolding post_pause_def Let_def by (intro org_rules)

lemma org_post_resume: "guar (org_step (org_of E g)) (post_resume E g q)"
  unfolding post_resume_def Let_def by (intro org_rules)

lemma org_put_queue: "guar (org_step (org_of E g)) (put_queue E req g q)"
  unfolding put_queue_def Let_def by (intro org_rules)

lemma org_post_job: "guar (org_step (org_of E g)) (post_job E req g q)"
  unfolding post_job_def Let_def by (intro org_rules)

lemma org_get_jobs: "guar (org_step (org_of E g)) (get_jobs E req g)"
  unfolding get_jobs_def Let_def by (intro org_rules)

lemma org_get_executions: "guar (org_step (org_of E g)) (get_executions E g j)"
  unfolding get_executions_def Let_def by (intro org_rules)

lemma org_get_logs: "guar (org_step (org_of E g)) (get_logs E g j)"
  unfolding get_logs_def Let_def by (intro org_rules)

lemma org_post_retry: "guar (org_step (org_of E g)) (post_retry E g j)"
  unfolding post_retry_def Let_def by (intro org_rules)

lemma org_get_job: "guar (org_step (org_of E g)) (get_job E g j)"
  unfolding get_job_def Let_def by (intro org_rules)

lemma org_get_workers: "guar (org_step (org_of E g)) (get_workers E)"
  unfolding get_workers_def Let_def by (intro org_rules)

lemma org_get_dlq: "guar (org_step (org_of E g)) (get_dlq E g)"
  unfolding get_dlq_def Let_def by (intro org_rules)

lemmas org_routes = org_get_projects org_post_projects org_get_queues org_post_queues org_get_queue_stats org_post_pause org_post_resume org_put_queue org_post_job org_get_jobs org_get_executions org_get_logs org_post_retry org_get_job org_get_workers org_get_dlq

text \<open>Every route but the one that runs the worker.\<close>

lemma org_all_routes:
  assumes "p \<noteq> ''worker/pulse''"
  shows "guar (org_step (org_of E g)) (routes E req p g)"
proof -
  have q: "guar (org_step (org_of E g)) r" if "queue_routes E req g i s = Some r" for i s r
    using that by (auto simp: queue_routes_def org_routes split: if_splits)
  have j: "guar (org_step (org_of E g)) r" if "job_routes E req g i s = Some r" for i s r
    using that by (auto simp: job_routes_def org_routes split: if_splits)
  have p: "(rq_method req = ''GET'' \<and> p = ''worker/pulse'') = False" using assms by simp
  show ?thesis
    unfolding routes_def p if_False
    by (intro guar_if guar_sub_routes org_routes guar_Ret) (erule q j)+
qed

section \<open>What a program may return\<close>

inductive yields :: "('a \<Rightarrow> bool) \<Rightarrow> ('w, 'e, 'a) prog \<Rightarrow> bool" for Q where
  yields_Ret: "Q x \<Longrightarrow> yields Q (Ret x)"
| yields_Throw: "yields Q (Throw e)"
| yields_Atom: "(\<And>w. yields Q (fst (f w))) \<Longrightarrow> yields Q (Atom f)"

lemma yields_any: "yields (\<lambda>_. True) p"
proof (induction p)
  case (Atom f)
  have "yields (\<lambda>_. True) (fst (f w))" for w by (rule Atom_IH [of f "yields (\<lambda>_. True)"]) (rule Atom.IH)
  then show ?case by (rule yields_Atom)
qed (auto intro: yields.intros)

lemma yields_bind:
  assumes "\<And>x. yields Q (k x)"
  shows "yields Q (bindP p k)"
proof -
  have "yields (\<lambda>_. True) p \<Longrightarrow> yields Q (bindP p k)"
    by (induction rule: yields.induct) (auto intro: yields.intros assms)
  then show ?thesis using yields_any by blast
qed

lemma yields_catch: "yields Q p \<Longrightarrow> (\<And>e. yields Q (h e)) \<Longrightarrow> yields Q (catchP p h)"
  by (induction rule: yields.induct) (auto intro: yields.intros)

lemma yields_run: "yields Q p \<Longrightarrow> runP p w = (Inr x, w') \<Longrightarrow> Q x"
proof (induction arbitrary: w rule: yields.induct)
  case (yields_Atom f)
  then show ?case by (simp add: runP_Atom del: runP.simps(3))
qed auto

lemma yields_option:
  "yields Q p \<Longrightarrow> (\<And>x. yields Q (f x)) \<Longrightarrow> yields Q (case v of None \<Rightarrow> p | Some x \<Rightarrow> f x)"
  by (cases v) auto

lemma yields_if: "yields Q p \<Longrightarrow> yields Q q \<Longrightarrow> yields Q (if b then p else q)"
  by simp

text \<open>The status codes of the API.\<close>

definition api_status :: "response \<Rightarrow> bool" where
  "api_status r \<longleftrightarrow> rs_status r \<in> {200, 201, 204, 401, 404, 422, 500, 503}"

lemma api_status_simps [simp]:
  "api_status (json v n) \<longleftrightarrow> n \<in> {200, 201, 204, 401, 404, 422, 500, 503}"
  "api_status (error_response m n c) \<longleftrightarrow> n \<in> {200, 201, 204, 401, 404, 422, 500, 503}"
  "api_status no_content" "api_status unauthorized" "api_status (api_error E e)"
  by (simp_all add: api_status_def json_def error_response_def no_content_def unauthorized_def api_error_def Let_def)

lemmas yields_rules = yields_bind yields_option yields_if yields_Ret

lemmas route_defs = get_projects_def post_projects_def get_queues_def post_queues_def get_queue_stats_def
  post_pause_def post_resume_def put_queue_def post_job_def get_jobs_def get_executions_def get_logs_def
  post_retry_def get_job_def get_workers_def get_dlq_def get_pulse_def

lemma status_routes:
  "yields api_status (get_projects E g)" "yields api_status (post_projects E req g)" "yields api_status (get_queues E g)"
  "yields api_status (post_queues E req g)" "yields api_status (get_queue_stats E g q)" "yields api_status (post_pause E g q)"
  "yields api_status (post_resume E g q)" "yields api_status (put_queue E req g q)" "yields api_status (post_job E req g q)"
  "yields api_status (get_jobs E req g)" "yields api_status (get_executions E g j)" "yields api_status (get_logs E g j)"
  "yields api_status (post_retry E g j)" "yields api_status (get_job E g j)" "yields api_status (get_workers E)"
  "yields api_status (get_dlq E g)" "yields api_status (get_pulse E)"
  unfolding route_defs Let_def by (intro yields_rules; simp)+

lemma status_login: "yields api_status (post_login E req)"
  unfolding post_login_def Let_def by (intro yields_rules; simp)

lemma status_sub_routes:
  "yields Q p \<Longrightarrow> (\<And>i s r. f i s = Some r \<Longrightarrow> yields Q r)
   \<Longrightarrow> yields Q (case sub_routes m f of None \<Rightarrow> p | Some r \<Rightarrow> r)"
  by (simp add: sub_routes_def split: option.splits)

lemma status_all_routes: "yields api_status (routes E req p g)"
proof -
  have q: "yields api_status r" if "queue_routes E req g i s = Some r" for i s r
    using that by (auto simp: queue_routes_def status_routes split: if_splits)
  have j: "yields api_status r" if "job_routes E req g i s = Some r" for i s r
    using that by (auto simp: job_routes_def status_routes split: if_splits)
  have "yields api_status (Ret (error_response ''not found'' 404 ''NOT_FOUND''))"
    by (rule yields_Ret) simp
  then show ?thesis
    unfolding routes_def by (intro yields_if status_sub_routes status_routes) (assumption | erule q j)+
qed

lemma status_handleApi: "yields api_status (handleApi E req)"
  unfolding handleApi_def Let_def
  by (intro yields_catch yields_rules status_login status_all_routes) simp_all

end
