(* ===== verification/Server_Props.thy ===== *)
theory Server_Props
  imports Server
begin

text \<open>
  The properties of the server as a whole and of the API (\<open>server/router.ts\<close>,
  \<open>server/setup.ts\<close>, \<open>server/worker-scheduler.ts\<close>), each with its witness.
\<close>

section \<open>All interleavings\<close>

text \<open>C1: Whatever requests, cron calls, setups and background ticks arrive, however their
  statements interleave, whichever of them are killed and whichever statements fail, the database
  keeps its integrity: keys and idempotency keys unique, references valid, and every job's lease,
  worker and time columns as its status demands.\<close>

theorem integrity_always:
  "pool_reach (server_programs E) ([], w) (ps, w') \<Longrightarrow> db_wf w \<Longrightarrow> db_wf w'"
  by (rule server.reach_inv)

theorem integrity_always_witness:
  "pool_reach (server_programs demo_env) ([], empty_world []) ([discard (background_tick demo_env)], empty_world [])
   \<and> db_wf (empty_world [])"
proof -
  have "pool_reach (server_programs demo_env) ([], empty_world []) ([discard (background_tick demo_env)], empty_world [])"
    by (rule arrive_reach) (simp add: server_programs_def)
  with integrity_always [OF this empty_wf] show ?thesis by simp
qed

text \<open>C20: No run of the server ever loses an organization, a project, a queue, a worker, a job or an
  execution record, and the database clock never runs backwards.\<close>

theorem nothing_lost:
  assumes "pool_reach (server_programs E) ([], w) (ps, w')"
  shows "o_id ` set (w_organizations w) \<subseteq> o_id ` set (w_organizations w') \<and>
    p_id ` set (w_projects w) \<subseteq> p_id ` set (w_projects w') \<and> q_id ` set (w_queues w) \<subseteq> q_id ` set (w_queues w') \<and>
    wk_id ` set (w_workers w) \<subseteq> wk_id ` set (w_workers w') \<and> j_id ` set (w_jobs w) \<subseteq> j_id ` set (w_jobs w') \<and>
    je_id ` set (w_executions w) \<subseteq> je_id ` set (w_executions w') \<and> w_now w \<le> w_now w'"
  using ids.reach_inv [OF assms ids_grow_refl] by (simp add: ids_grow_def)

theorem nothing_lost_witness:
  "\<exists>ps w'. pool_reach (server_programs demo_env) ([], demo_world two_jobs) (ps, w') \<and> {''4'', ''5''} \<subseteq> j_id ` set (w_jobs w')"
proof -
  define x where "x = play [0, 0, 0, 0, 0, 0, 0, 0] ([discard (cron_GET demo_env (demo_request ''GET'' [] []))], demo_world two_jobs)"
  have "pool_reach (server_programs demo_env) ([], demo_world two_jobs) (fst x, snd x)"
    unfolding x_def by (rule schedule_reach) (auto simp: server_programs_def)
  moreover from nothing_lost [OF this] have "{''4'', ''5''} \<subseteq> j_id ` set (w_jobs (snd x))" by auto
  ultimately show ?thesis by blast
qed

section \<open>The API\<close>

text \<open>C10: A request to the API is always answered: whatever its method, path, headers and body,
  and whatever the database does, \<open>handleApi\<close> throws nothing, and the status is one of 200, 201,
  204, 401, 404, 422, 500 and 503.\<close>

theorem handleApi_answers:
  "\<exists>r. fst (runP (handleApi E req) w) = Inr r \<and> rs_status r \<in> {200, 201, 204, 401, 404, 422, 500, 503}"
proof -
  have "\<exists>r w'. runP (handleApi E req) w = (Inr r, w')"
    by (simp add: handleApi_def Let_def run_catch split: prod.splits sum.splits)
  then obtain r w' where "runP (handleApi E req) w = (Inr r, w')" by blast
  with yields_run [OF status_handleApi this] show ?thesis by (simp add: api_status_def)
qed

text \<open>C9: A request that is not a login is answered with 401 and changes nothing at all, unless its
  Authorization header is \<open>Bearer\<close> followed by a token that the JWT library accepts under the
  server's secret and whose payload has the three claims.\<close>

theorem unauthenticated_no_effect:
  assumes "\<And>t p. rq_auth req = Some (''Bearer '' @ t) \<Longrightarrow> e_jwt_verify E (secret E) (w_ops w) t = Some p
      \<Longrightarrow> payload_claims p = None"
    and "\<not> (rq_method req = ''POST'' \<and> sep_by ''/'' (rq_path req) = ''auth/login'')"
  shows "runP (handleApi E req) w = (Inr unauthorized, w)"
proof -
  have "runP (requireAuth E req) w = (Inr None, w)"
    using assms(1) by (auto simp: run_requireAuth run_claimsFromRequest starts_with_iff split: option.splits)
  with assms(2) show ?thesis by (auto simp: handleApi_def Let_def run_simps)
qed

theorem unauthenticated_no_effect_witness:
  "runP (handleApi demo_env (demo_request ''POST'' [''jobs'', ''4'', ''retry''] [])) (demo_world two_jobs)
     = (Inr unauthorized, demo_world two_jobs)"
  by (rule unauthenticated_no_effect) (simp_all add: demo_request_def run_claimsFromRequest sep_by_def)

text \<open>C8: Every statement of every route but \<open>GET worker/pulse\<close>, run for a user of an
  organization, leaves the queues and jobs of all other organizations exactly as they are, and
  touches no organization, user or existing project.\<close>

theorem tenant_write_isolation:
  "p \<noteq> ''worker/pulse'' \<Longrightarrow> guar (org_step (org_of E orgId)) (routes E req p orgId)"
  by (rule org_all_routes)

theorem tenant_write_isolation_witness:
  "guar (org_step (org_of demo_env ''0'')) (routes demo_env (demo_request ''POST'' [] []) ''jobs/4/retry'' ''0'')"
  by (rule tenant_write_isolation) simp

end
