(* ===== verification/Api_Props.thy ===== *)
theory Api_Props
  imports Server
begin

text \<open>
  Properties of single routes of the API: login, submitting, retrying, listing, changing a queue,
  and the matching of paths.
\<close>

section \<open>Running statements of the API\<close>

lemma in_org_frame [simp]:
  "queue_in_org (w\<lparr>w_dlq := ds\<rparr>) g q = queue_in_org w g q" "job_in_org (w\<lparr>w_dlq := ds\<rparr>) g j = job_in_org w g j"
  "queue_in_org (w\<lparr>w_jobs := js\<rparr>) g q = queue_in_org w g q" "job_in_org (w\<lparr>w_jobs := js\<rparr>) g j = job_in_org w g j"
  by (simp_all add: queue_in_org_def job_in_org_def)

lemma schedule_tables [simp]:
  "w_relations (schedule_step E w) = w_relations w" "w_organizations (schedule_step E w) = w_organizations w"
  "w_users (schedule_step E w) = w_users w" "w_projects (schedule_step E w) = w_projects w"
  "w_queues (schedule_step E w) = w_queues w" "w_workers (schedule_step E w) = w_workers w"
  "w_heartbeats (schedule_step E w) = w_heartbeats w" "w_jobs (schedule_step E w) = w_jobs w"
  "w_executions (schedule_step E w) = w_executions w" "w_logs (schedule_step E w) = w_logs w"
  "w_dlq (schedule_step E w) = w_dlq w" "w_ops (schedule_step E w) = Suc (w_ops w)"
  by (simp_all add: schedule_step_def Let_def)

lemma ready_schedule: "ready E w \<Longrightarrow> ready E (schedule_step E w)"
  by (rule readyI) (auto simp: all_ids_def)

lemma in_org_schedule [simp]: "job_in_org (schedule_step E w) g j = job_in_org w g j"
  by (simp add: job_in_org_def queue_in_org_def)

lemma run_schedule: "runP (scheduleWorkerTick E) w = (Inr (), schedule_step E w)"
  by (simp add: scheduleWorkerTick_def)

lemma api_tables: "set [''jobs'', ''queues'', ''projects''] \<subseteq> set schema_tables"
  "set [''dead_letter_queue''] \<subseteq> set schema_tables" "set [''queues'', ''projects''] \<subseteq> set schema_tables"
  "set [''jobs''] \<subseteq> set schema_tables"
  by (simp_all add: schema_tables_def)

section \<open>Retrying\<close>

text \<open>C23: The retry route deletes the dead-letter entry before it checks whose job it is. A request
  to retry a job that is not of the user's organization is answered with 404, and no job changes,
  but every dead-letter entry of that job is gone.\<close>

theorem retry_of_foreign_job_drops_dead_letter:
  assumes "ready E w" and "uuid_param E jobId = Inr (Some jid)" and "uuid_param E orgId = Inr g"
    and "\<forall>j \<in> set (w_jobs w). j_id j = jid \<longrightarrow> \<not> job_in_org w g j"
  shows "\<exists>w'. runP (post_retry E orgId jobId) w = (Inr (error_response ''not found'' 404 ''ERROR''), w')
    \<and> w_jobs w' = w_jobs w \<and> w_dlq w' = filter (\<lambda>d. d_job_id d \<noteq> jid) (w_dlq w)"
proof -
  let ?w1 = "(advance_clock E 0 w)\<lparr>w_dlq := filter (\<lambda>d. d_job_id d \<noteq> jid) (w_dlq w)\<rparr>"
  have 1: "runP (stmt E [''dead_letter_queue''] (sql_delete_dlq E jobId)) w = (Inr (), ?w1)"
    unfolding run_stmt [OF assms(1) api_tables(2)] by (simp add: sql_delete_dlq_def with_param_def assms(2))
  have r1: "ready E ?w1" by (rule readyI [OF assms(1)]) (auto simp: all_ids_def)
  let ?v = "advance_clock E 0 ?w1"
  have none: "\<not> (Some (j_id j) = Some jid \<and> job_in_org ?v g j)" if "j \<in> set (w_jobs w)" for j
    using assms(4) that by auto
  have "List.find (\<lambda>j. Some (j_id j) = Some jid \<and> job_in_org ?v g j) (w_jobs w) = None"
    using none by (auto simp: find_None_iff)
  moreover have "update_where (\<lambda>j. Some (j_id j) = Some jid \<and> job_in_org ?v g j) (retry_set (w_now ?v)) (w_jobs w) = w_jobs w"
    using none by (intro update_where_False) blast
  ultimately have "sql_retry E jobId orgId ?v = (Inr None, ?v)"
    by (simp add: sql_retry_def with_param_def assms(2,3) Let_def)
  then have 2: "runP (stmt E [''jobs'', ''queues'', ''projects''] (sql_retry E jobId orgId)) ?w1 = (Inr None, ?v)"
    unfolding run_stmt [OF r1 api_tables(1)] .
  show ?thesis
    by (intro exI [of _ ?v]) (simp add: post_retry_def run_simps 1 2)
qed

definition demo_dlq :: dlq_row where
  "demo_dlq = \<lparr>d_id = ''6'', d_job_id = ''4'', d_original_queue_id = ''2'', d_payload = noop_payload,
     d_failed_at = 0, d_reason = None, d_attempts_made = 3, d_created_at = 0\<rparr>"

lemma ready_demo_dlq: "ready demo_env (demo_world two_jobs\<lparr>w_dlq := [demo_dlq]\<rparr>)"
proof -
  have "replicate k CHR ''a'' \<noteq> ''6''" for k
    using set_replicate_Suc by (cases k) auto
  moreover have "all_ids (demo_world two_jobs\<lparr>w_dlq := [demo_dlq]\<rparr>) = insert ''6'' (all_ids (demo_world two_jobs))"
    by (auto simp: all_ids_def demo_dlq_def)
  ultimately show ?thesis using ready_demo [of two_jobs] by (simp add: ready_def demo_world_def)
qed

theorem retry_of_foreign_job_drops_dead_letter_witness:
  "\<exists>w'. runP (post_retry demo_env ''9'' ''4'') (demo_world two_jobs\<lparr>w_dlq := [demo_dlq]\<rparr>)
     = (Inr (error_response ''not found'' 404 ''ERROR''), w') \<and> w_jobs w' = two_jobs \<and> w_dlq w' = []"
proof -
  let ?w = "demo_world two_jobs\<lparr>w_dlq := [demo_dlq]\<rparr>"
  have u: "uuid_param demo_env ''4'' = Inr (Some ''4'')" "uuid_param demo_env ''9'' = Inr (Some ''9'')"
    by (simp_all add: uuid_param_def uuid_in_def uuid_syntax_def)
  have "\<forall>j \<in> set (w_jobs ?w). j_id j = ''4'' \<longrightarrow> \<not> job_in_org ?w (Some ''9'') j"
    by (simp add: job_in_org_def queue_in_org_def demo_world_def demo_project_def)
  from retry_of_foreign_job_drops_dead_letter [OF ready_demo_dlq u(1,2) this] show ?thesis
    by (simp add: demo_dlq_def)
qed

section \<open>Listing\<close>

lemma map_rows_throws: "j \<in> set rows \<Longrightarrow> isl (f j) \<Longrightarrow> \<exists>e. map_rows f rows = Inl e"
  using map_rows_ok [of f rows] by (metis sum.exhaust)

lemma mapJob_poison: "isl (payload_value (j_payload j)) \<Longrightarrow> isl (mapJob j)"
  using mapJob_ok [of j] by (metis isl_def sum.exhaust)

lemma sql_jobs_all:
  assumes "uuid_param E orgId = Inr g" and "e_text E (JStr []) = Inr (Some [])" and "length (w_jobs w) \<le> 100"
    and "j \<in> set (w_jobs w)" and "job_in_org w g j"
  obtains rows where "sql_jobs E orgId [] None w = (Inr rows, w)" and "j \<in> set rows"
proof -
  let ?rows = "sort_key (\<lambda>j. - j_created_at j) (filter (\<lambda>j. job_in_org w g j) (scan E w 0 (w_jobs w)))"
  have "length ?rows \<le> length (scan E w 0 (w_jobs w))" by (simp only: length_sort length_filter_le)
  then have "take 100 ?rows = ?rows" using assms(3) by simp
  then have "sql_jobs E orgId [] None w = (Inr ?rows, w)"
    by (simp add: sql_jobs_def with_param_def assms(1,2))
  then show ?thesis by (rule that) (use assms(4,5) in simp)
qed

text \<open>One job whose payload is a string that is not JSON text makes the job list of its whole
  organization fail: \<open>GET jobs\<close> throws (which \<open>handleApi\<close> turns into a 500 or 503) for as long as
  the job is among those listed.\<close>

theorem poison_job_breaks_listing:
  assumes "ready E w" and "uuid_param E orgId = Inr g" and "rq_query req = []" and "length (w_jobs w) \<le> 100"
    and "j \<in> set (w_jobs w)" and "job_in_org w g j" and "isl (payload_value (j_payload j))"
  shows "\<exists>e w'. runP (get_jobs E req orgId) w = (Inl e, w')"
proof -
  let ?v = "advance_clock E 0 (schedule_step E w)"
  have r: "ready E (schedule_step E w)" by (rule ready_schedule [OF assms(1)])
  have t: "e_text E (JStr []) = Inr (Some [])" using assms(1) by (simp add: ready_def)
  obtain rows where rows: "sql_jobs E orgId [] None ?v = (Inr rows, ?v)" "j \<in> set rows"
    by (rule sql_jobs_all [OF assms(2) t, of ?v j]) (use assms(4-6) in auto)
  obtain e where "map_rows mapJob rows = Inl e"
    using map_rows_throws [of j rows mapJob, OF rows(2) mapJob_poison [OF assms(7)]] by blast
  with rows(1) show ?thesis
    by (simp add: get_jobs_def Let_def run_simps run_schedule query_get_def assms(3) run_stmt [OF r api_tables(1)])
qed

theorem poison_job_breaks_listing_witness:
  "\<exists>e w'. runP (get_jobs demo_env (demo_request ''GET'' [''jobs''] []) ''0'')
     (demo_world [demo_job ''4'' 5 (JStr ''hello'')]) = (Inl e, w')"
proof (rule poison_job_breaks_listing)
  show "ready demo_env (demo_world [demo_job ''4'' 5 (JStr ''hello'')])" by (rule ready_demo) simp
  show "uuid_param demo_env ''0'' = Inr (Some ''0'')" by (simp add: uuid_param_def uuid_in_def uuid_syntax_def)
  show "job_in_org (demo_world [demo_job ''4'' 5 (JStr ''hello'')]) (Some ''0'') (demo_job ''4'' 5 (JStr ''hello''))"
    by (simp add: job_in_org_def queue_in_org_def demo_world_def demo_project_def demo_queue_def)
  have "isl (payload_value (JStr ''hello''))" by code_simp
  then show "isl (payload_value (j_payload (demo_job ''4'' 5 (JStr ''hello''))))" by simp
qed (simp_all add: demo_request_def)

section \<open>Paths\<close>

lemma starts_with_append [simp]: "starts_with (p @ r) p"
  by (auto simp: starts_with_iff)

lemma match_sub_iff:
  "match_sub kind p = Some (i, s) \<longleftrightarrow> i \<noteq> [] \<and> CHR ''/'' \<notin> set i \<and>
     (s = [] \<and> p = kind @ ''/'' @ i \<or> s \<noteq> [] \<and> \<not> has_line_end s \<and> p = kind @ ''/'' @ i @ ''/'' @ s)"
proof (cases "starts_with p (kind @ ''/'')")
  case False
  then have "p \<noteq> kind @ ''/'' @ r" for r by (auto simp: starts_with_iff)
  with False show ?thesis by (auto simp: match_sub_def)
next
  case True
  then obtain r where p: "p = kind @ ''/'' @ r" by (auto simp: starts_with_iff)
  let ?N = "\<lambda>c. c \<noteq> CHR ''/''"
  have split: "r = takeWhile ?N r @ dropWhile ?N r" by simp
  have tw: "CHR ''/'' \<notin> set (takeWhile ?N r)" by (auto dest: set_takeWhileD)
  have uniq: "takeWhile ?N (i @ CHR ''/'' # s) = i" "dropWhile ?N (i @ CHR ''/'' # s) = CHR ''/'' # s"
    if "CHR ''/'' \<notin> set i" for i s
    using that by (induction i) auto
  have m: "match_sub kind p = (if takeWhile ?N r = [] then None else case dropWhile ?N r of [] \<Rightarrow> Some (takeWhile ?N r, [])
      | _ # sub \<Rightarrow> if sub = [] \<or> has_line_end sub then None else Some (takeWhile ?N r, sub))"
    using True p by (simp add: match_sub_def Let_def)
  show ?thesis
  proof (cases "dropWhile ?N r")
    case Nil
    with split have tr: "takeWhile ?N r = r" by (metis append_Nil2)
    have mm: "match_sub kind p = (if r = [] then None else Some (r, []))"
      unfolding m Nil tr by simp
    have nr: "CHR ''/'' \<notin> set r" using tw unfolding tr .
    have eq: "p = kind @ ''/'' @ x \<longleftrightarrow> r = x" for x using p by simp
    have "r \<noteq> i @ ''/'' @ s" using nr by auto
    then show ?thesis unfolding mm eq using nr by auto
  next
    case (Cons c sub)
    then have c: "c = CHR ''/''" using hd_dropWhile [of ?N r] by auto
    with Cons split have r: "r = takeWhile ?N r @ CHR ''/'' # sub" by simp
    have key: "CHR ''/'' \<notin> set i \<and> r = i @ CHR ''/'' # s \<longleftrightarrow> i = takeWhile ?N r \<and> s = sub" for i s
    proof
      assume "CHR ''/'' \<notin> set i \<and> r = i @ CHR ''/'' # s"
      with uniq [of i s] Cons show "i = takeWhile ?N r \<and> s = sub" by simp
    next
      assume "i = takeWhile ?N r \<and> s = sub"
      with r tw show "CHR ''/'' \<notin> set i \<and> r = i @ CHR ''/'' # s" by simp
    qed
    have "match_sub kind p = Some (i, s) \<longleftrightarrow> i \<noteq> [] \<and> s \<noteq> [] \<and> \<not> has_line_end s \<and> i = takeWhile ?N r \<and> s = sub"
      using m Cons by auto
    also have "\<dots> \<longleftrightarrow> i \<noteq> [] \<and> s \<noteq> [] \<and> \<not> has_line_end s \<and> CHR ''/'' \<notin> set i \<and> r = i @ CHR ''/'' # s"
      using key by blast
    also have "\<dots> \<longleftrightarrow> i \<noteq> [] \<and> CHR ''/'' \<notin> set i \<and> (s = [] \<and> r = i \<or> s \<noteq> [] \<and> \<not> has_line_end s \<and> r = i @ CHR ''/'' # s)"
      using r by (metis in_set_conv_decomp)
    finally show ?thesis using p by simp
  qed
qed

text \<open>C24: \<open>match_sub\<close> accepts exactly the paths \<open>kind/id\<close> and \<open>kind/id/rest\<close> with an id that is not
  empty and has no slash and a rest that is not empty and has no line end, and returns that id and
  that rest (empty when there is none).\<close>

theorem match_sub_spec:
  "match_sub kind p = Some (i, s) \<longleftrightarrow> i \<noteq> [] \<and> CHR ''/'' \<notin> set i \<and>
     (s = [] \<and> p = kind @ ''/'' @ i \<or> s \<noteq> [] \<and> \<not> has_line_end s \<and> p = kind @ ''/'' @ i @ ''/'' @ s)"
  by (rule match_sub_iff)

section \<open>Submitting\<close>

text \<open>The queue of a submission, found for the organization of the user.\<close>

definition owned_queue :: "env \<Rightarrow> world \<Rightarrow> string \<Rightarrow> string \<Rightarrow> queue_row \<Rightarrow> bool" where
  "owned_queue E w queueId orgId q \<longleftrightarrow> q \<in> set (w_queues w) \<and> uuid_param E queueId = Inr (Some (q_id q))
     \<and> (\<exists>g. uuid_param E orgId = Inr g \<and> queue_in_org w g q)"

lemma run_queue_default:
  assumes "ready E w" and "db_wf w" and "owned_queue E w queueId orgId q"
  shows "runP (stmt E [''queues'', ''projects''] (sql_queue_default E queueId orgId)) w
    = (Inr (Some (q_priority_default q)), advance_clock E 0 w)"
proof -
  obtain g where g: "uuid_param E orgId = Inr g" "queue_in_org w g q" "uuid_param E queueId = Inr (Some (q_id q))"
    "q \<in> set (w_queues w)" using assms(3) by (auto simp: owned_queue_def)
  have "distinct (map q_id (w_queues w))" using assms(2) by (simp add: wf_defs)
  then have "r = q" if "r \<in> set (w_queues w)" "q_id r = q_id q" for r
    using that g(4) by (auto simp: distinct_map dest: inj_onD)
  then have "List.find (\<lambda>r. Some (q_id r) = Some (q_id q) \<and> queue_in_org (advance_clock E 0 w) g r) (w_queues w) = Some q"
    using g(2,4) by (intro find_unique) auto
  then show ?thesis
    unfolding run_stmt [OF assms(1) api_tables(3)] by (simp add: sql_queue_default_def with_param_def g(1,3))
qed

text \<open>C22: Submitting again with an idempotency key that a job of the queue has returns that job with
  status 200, adds no job, and starts no worker tick.\<close>

theorem resubmission_returns_existing_job:
  assumes "ready E w" and "db_wf w" and "idem_index \<in> set (w_relations w)" and "owned_queue E w queueId orgId q"
    and "json_parse (rq_body req) = Inr body" and "reader body = Inr field" and "truthy (field ''idempotency_key'')"
    and "e_text E (field ''idempotency_key'') = Inr (Some k)"
    and "j \<in> set (w_jobs w)" and "j_queue_id j = q_id q" and "j_idempotency_key j = Some k" and "mapJob j = Inr v"
  shows "\<exists>w'. runP (post_job E req orgId queueId) w = (Inr (json v 200), w')
    \<and> w_jobs w' = w_jobs w \<and> w_background w' = w_background w"
proof -
  let ?v = "advance_clock E 0 w" let ?u = "advance_clock E 0 ?v"
  have rv: "ready E ?v" by (rule ready_advance [OF assms(1)])
  have uq: "uuid_param E queueId = Inr (Some (q_id q))" using assms(4) by (simp add: owned_queue_def)
  have unique: "i = j" if "i \<in> set (w_jobs w)" "j_queue_id i = q_id q" "j_idempotency_key i = Some k" for i
  proof -
    have "inj_on idem_pair {i \<in> set (w_jobs w). j_idempotency_key i \<noteq> None}"
      using assms(2,3) by (simp add: wf_defs idem_unique_def distinct_map)
    moreover have "idem_pair i = idem_pair j" using that assms(10,11) by (simp add: idem_pair_def)
    ultimately show ?thesis using that assms(9,11) by (auto dest: inj_onD)
  qed
  let ?P = "\<lambda>i. Some (j_queue_id i) = Some (q_id q) \<and> Some k \<noteq> None \<and> j_idempotency_key i = Some k"
  have "List.find ?P (scan E ?u 0 (w_jobs w)) = Some j"
  proof (rule find_unique)
    show "j \<in> set (scan E ?u 0 (w_jobs w))" and "?P j" using assms(9-11) by simp_all
    show "y = j" if "y \<in> set (scan E ?u 0 (w_jobs w))" "?P y" for y by (rule unique) (use that in simp_all)
  qed
  then have 2: "runP (stmt E [''jobs''] (sql_find_idem E queueId (field ''idempotency_key''))) ?v = (Inr (Some j), ?u)"
    unfolding run_stmt [OF rv api_tables(4)] by (simp add: sql_find_idem_def with_param_def uq assms(8))
  have "runP (post_job E req orgId queueId) w = (Inr (json v 200), ?u)"
    by (simp add: post_job_def run_simps assms(5-7,12) run_queue_default [OF assms(1,2,4)] 2)
  then show ?thesis by (intro exI [of _ ?u]) (simp add: advance_clock_def)
qed

definition keyed_body :: jsval where
  "keyed_body = JObj [(''idempotency_key'', JStr ''k''), (''payload'', noop_payload)]"

definition keyed_job :: job_row where
  "keyed_job = (demo_job ''4'' 5 noop_payload)\<lparr>j_idempotency_key := Some ''k''\<rparr>"

lemma keyed_facts:
  "ready demo_env (demo_world [keyed_job])" "db_wf (demo_world [keyed_job])"
  "owned_queue demo_env (demo_world js) ''2'' ''0'' demo_queue"
  "json_parse (stringify keyed_body) = Inr keyed_body" "\<exists>v. mapJob keyed_job = Inr v"
proof -
  show "ready demo_env (demo_world [keyed_job])" by (rule ready_demo) (simp add: keyed_job_def)
  show "db_wf (demo_world [keyed_job])"
    by (rule demo_wf) (simp_all add: keyed_job_def demo_job_def job_ok_def int4_ok_def idem_unique_def)
  show "owned_queue demo_env (demo_world js) ''2'' ''0'' demo_queue"
    by (simp add: owned_queue_def uuid_param_def uuid_in_def uuid_syntax_def queue_in_org_def demo_world_def
        demo_queue_def demo_project_def)
  show "json_parse (stringify keyed_body) = Inr keyed_body" by code_simp
  show "\<exists>v. mapJob keyed_job = Inr v"
    unfolding mapJob_ok by (simp add: keyed_job_def demo_job_def job_dates_def List.map_filter_def valid_date_def date_ms_def)
qed

theorem resubmission_returns_existing_job_witness:
  "\<exists>v w'. mapJob keyed_job = Inr v
     \<and> runP (post_job demo_env (demo_request ''POST'' [] (stringify keyed_body)) ''0'' ''2'') (demo_world [keyed_job])
         = (Inr (json v 200), w') \<and> w_jobs w' = [keyed_job]"
proof -
  obtain v where v: "mapJob keyed_job = Inr v" using keyed_facts(5) by blast
  let ?f = "\<lambda>k. case get_prop keyed_body k of Inl e \<Rightarrow> JUndef | Inr v \<Rightarrow> v"
  have "\<exists>w'. runP (post_job demo_env (demo_request ''POST'' [] (stringify keyed_body)) ''0'' ''2'') (demo_world [keyed_job])
      = (Inr (json v 200), w') \<and> w_jobs w' = w_jobs (demo_world [keyed_job])
      \<and> w_background w' = w_background (demo_world [keyed_job])"
    by (rule resubmission_returns_existing_job [where q = demo_queue and body = keyed_body and field = ?f and k = "''k''"])
      (use keyed_facts v in \<open>simp_all add: demo_request_def reader_def keyed_body_def nullish_def text_in_def keyed_job_def\<close>,
       simp add: demo_world_def)
  with v show ?thesis by auto
qed

section \<open>Changing a queue\<close>

text \<open>\<open>PUT queues/id\<close> cannot remove a concurrency limit: whatever else it changes, a body whose
  \<open>concurrency_limit\<close> is null or missing leaves the limit of every queue as it was.\<close>

theorem update_cannot_clear_limit:
  assumes "nullish (body ''concurrency_limit'')" and "e_int4 E JNull = Inr None"
  shows "map q_concurrency_limit (w_queues (snd (sql_update_queue E queueId orgId body w))) = map q_concurrency_limit (w_queues w)"
proof -
  have p: "int4_param E (js_coalesce (body ''concurrency_limit'') JNull) = Inr None"
    using assms by (simp add: js_coalesce_def int4_param_def)
  have "map q_concurrency_limit (update_where P (queue_set n pr None now) qs) = map q_concurrency_limit qs" for P n pr now qs
    by (rule map_update_where) (simp add: queue_set_def)
  then show ?thesis
    by (simp add: sql_update_queue_def with_param_def p Let_def split: sum.splits)
qed

theorem update_cannot_clear_limit_witness:
  "map q_concurrency_limit (w_queues (snd (sql_update_queue demo_env ''2'' ''0''
     (\<lambda>k. if k = ''name'' then JStr ''new'' else JNull) (demo_world [])))) = [Some 1]"
proof -
  have "map q_concurrency_limit (w_queues (snd (sql_update_queue demo_env ''2'' ''0''
     (\<lambda>k. if k = ''name'' then JStr ''new'' else JNull) (demo_world [])))) = map q_concurrency_limit (w_queues (demo_world []))"
    by (rule update_cannot_clear_limit) (simp_all add: nullish_def int4_in_def)
  then show ?thesis by (simp add: demo_queue_def)
qed

section \<open>Statistics\<close>

lemma count_where_nonneg: "0 \<le> count_where P xs"
  by (simp add: count_where_def)

lemma count_where_mono: "(\<And>x. x \<in> set xs \<Longrightarrow> P x \<Longrightarrow> Q x) \<Longrightarrow> count_where P xs \<le> count_where Q xs"
proof (induction xs)
  case (Cons a xs)
  then have "count_where P xs \<le> count_where Q xs" by simp
  with Cons.prems [of a] show ?case by (auto simp: count_where_def)
qed (simp add: count_where_def)

lemma count_where_disjoint:
  "(\<And>x. x \<in> set xs \<Longrightarrow> \<not> (P x \<and> Q x)) \<Longrightarrow> count_where P xs + count_where Q xs \<le> int (length xs)"
proof (induction xs)
  case (Cons a xs)
  then have "count_where P xs + count_where Q xs \<le> int (length xs)" by simp
  with Cons.prems [of a] show ?case by (auto simp: count_where_def)
qed (simp add: count_where_def)

text \<open>The numbers of a queue's statistics fit together: the throughput of the last hour is at
  most that of the last day, the latter is the number of completed executions the success rate is
  computed from, and completed and failed executions together are no more than all executions.\<close>

theorem stats_consistent:
  assumes "sql_stats E queueId w = (Inr st, w')"
  shows "0 \<le> st_tp1h st \<and> st_tp1h st \<le> st_tp24h st \<and> st_tp24h st = st_completed st \<and> 0 \<le> st_failed st
    \<and> st_completed st + st_failed st \<le> int (length (w_executions w)) \<and> w' = w"
proof -
  obtain q where q: "uuid_param E queueId = Inr q"
    using assms by (cases "uuid_param E queueId") (simp_all add: sql_stats_def with_param_def)
  define P where "P = (\<lambda>x :: execution_row. \<exists>j \<in> set (w_jobs w). j_id j = je_job_id x \<and> Some (j_queue_id j) = q)"
  have st: "st = stats_of E (w_now w) (filter (\<lambda>x. finished_since (w_now w - seconds 86400) x \<and> P x) (w_executions w))"
    and w: "w' = w"
    using assms by (auto simp: sql_stats_def with_param_def q P_def)
  define xs where "xs = filter (\<lambda>x. finished_since (w_now w - seconds 86400) x \<and> P x) (w_executions w)"
  let ?C = "\<lambda>x. je_status x = ''completed''"
  have "filter (\<lambda>x. ?C x \<and> finished_since (w_now w - seconds 86400) x) xs = filter ?C xs"
    unfolding xs_def filter_filter by (rule filter_cong) auto
  then have tp24: "count_where (\<lambda>x. ?C x \<and> finished_since (w_now w - seconds 86400) x) xs = count_where ?C xs"
    by (simp only: count_where_def)
  have "finished_since (w_now w - seconds 86400) x" if "finished_since (w_now w - seconds 3600) x" for x
    using that by (auto simp: finished_since_def seconds_def split: option.splits)
  then have 1: "count_where (\<lambda>x. ?C x \<and> finished_since (w_now w - seconds 3600) x) xs
      \<le> count_where (\<lambda>x. ?C x \<and> finished_since (w_now w - seconds 86400) x) xs"
    by (intro count_where_mono) auto
  have "count_where ?C xs + count_where (\<lambda>x. je_status x = ''failed'') xs \<le> int (length xs)"
    by (rule count_where_disjoint) auto
  moreover have "length xs \<le> length (w_executions w)" unfolding xs_def by (rule length_filter_le)
  ultimately have 2: "count_where ?C xs + count_where (\<lambda>x. je_status x = ''failed'') xs \<le> int (length (w_executions w))"
    by linarith
  show ?thesis
    using 1 2 w unfolding st xs_def [symmetric] stats_of_def Let_def stats.select_convs tp24
    by (simp add: count_where_nonneg)
qed

theorem stats_consistent_witness:
  "\<exists>st w'. sql_stats demo_env ''2'' (demo_world two_jobs) = (Inr st, w') \<and> st_tp1h st \<le> st_tp24h st"
proof -
  have "\<exists>st w'. sql_stats demo_env ''2'' (demo_world two_jobs) = (Inr st, w')"
    by (simp add: sql_stats_def with_param_def uuid_param_def uuid_in_def uuid_syntax_def)
  then show ?thesis using stats_consistent by blast
qed

end
