(* ===== verification/Setup_Props.thy ===== *)
theory Setup_Props
  imports Api_Props
begin

text \<open>
  Properties of the setup (\<open>server/setup.ts\<close>), of the scheduler of background ticks
  (\<open>server/worker-scheduler.ts\<close>), and of the two routes guarded by a shared secret.
\<close>

section \<open>The schema\<close>

fun ddl_name :: "ddl \<Rightarrow> string" where
  "ddl_name (Create_extension n) = n" | "ddl_name (Create_enum n vs) = n" | "ddl_name (Create_function n) = n"
| "ddl_name (Create_table n cs us) = n" | "ddl_name (Create_index n t ks p) = n" | "ddl_name (Create_unique_index n t ks p) = n"

fun ddl_deps :: "ddl \<Rightarrow> string list" where
  "ddl_deps (Create_table n cs us) = table_deps cs" | "ddl_deps (Create_index n t ks p) = [t]"
| "ddl_deps (Create_unique_index n t ks p) = [t]" | "ddl_deps _ = []"

text \<open>Every statement refers to objects that earlier statements created.\<close>

fun in_order :: "string set \<Rightarrow> ddl list \<Rightarrow> bool" where
  "in_order R [] = True"
| "in_order R (s # ss) = (set (ddl_deps s) \<subseteq> R \<and> in_order (insert (ddl_name s) R) ss)"

lemma in_order_mono: "in_order R ss \<Longrightarrow> R \<subseteq> R' \<Longrightarrow> in_order R' ss"
proof (induction ss arbitrary: R R')
  case (Cons s ss)
  then have "in_order (insert (ddl_name s) R') ss" by (metis in_order.simps(2) insert_mono)
  with Cons.prems show ?case by auto
qed simp

lemma column_deps_simps [simp]:
  "column_deps (opt_col n t) = (case t of ENUM e \<Rightarrow> [e] | _ \<Rightarrow> [])" "column_deps (req_col n t) = (case t of ENUM e \<Rightarrow> [e] | _ \<Rightarrow> [])"
  "column_deps (def_col n t d) = (case t of ENUM e \<Rightarrow> [e] | _ \<Rightarrow> [])" "column_deps (ref_col n r) = [r]"
  "column_deps id_col = []" "column_deps created_col = []" "column_deps updated_col = []"
  "column_deps (c\<lparr>col_unique := b\<rparr>) = column_deps c" "column_deps (c\<lparr>col_default := v\<rparr>) = column_deps c"
  "column_deps (opt_col n UUID\<lparr>col_references := Some (r, x)\<rparr>) = [r]"
  by (simp_all add: column_deps_def ref_col_def def_col_def req_col_def id_col_def created_col_def updated_col_def opt_col_def)

lemma STATEMENTS_in_order: "in_order {} STATEMENTS"
  by (simp add: schema_defs table_deps_def)

text \<open>Nothing but the set of created objects (and the clock) changes.\<close>

definition same_rows :: "world \<Rightarrow> world \<Rightarrow> bool" where
  "same_rows w w' \<longleftrightarrow> w_organizations w' = w_organizations w \<and> w_users w' = w_users w \<and> w_projects w' = w_projects w \<and>
     w_queues w' = w_queues w \<and> w_workers w' = w_workers w \<and> w_heartbeats w' = w_heartbeats w \<and> w_jobs w' = w_jobs w \<and>
     w_executions w' = w_executions w \<and> w_logs w' = w_logs w \<and> w_dlq w' = w_dlq w"

lemma same_rows_trans: "same_rows u v \<Longrightarrow> same_rows v w \<Longrightarrow> same_rows u w"
  by (simp add: same_rows_def)

text \<open>The index of the idempotency keys can be created when it exists or no two jobs share a key.\<close>

definition keys_free :: "world \<Rightarrow> bool" where
  "keys_free w \<longleftrightarrow> idem_index \<in> set (w_relations w) \<or> idem_unique (w_jobs w)"

lemma run_ddl_ok:
  assumes "set (ddl_deps s) \<subseteq> set (w_relations w)" and "keys_free w \<or> ddl_name s \<noteq> idem_index"
  shows "run_ddl s w = (Inr (), w\<lparr>w_relations := (if ddl_name s \<in> set (w_relations w) then w_relations w
     else w_relations w @ [ddl_name s])\<rparr>)"
proof -
  have "List.find (\<lambda>t. t \<notin> set (w_relations w)) (ddl_deps s) = None"
    using assms(1) by (auto simp: find_None_iff)
  then show ?thesis using assms(2) by (cases s) (auto simp: create_object_def keys_free_def)
qed

lemma run_all_ddl:
  assumes "\<forall>k. e_fault E k = None" and "in_order (set (w_relations w)) ss"
    and "keys_free w \<or> idem_index \<notin> ddl_name ` set ss"
  shows "\<exists>w'. runP (forP (\<lambda>s _. stmt E [] (run_ddl s)) ss ()) w = (Inr (), w') \<and> same_rows w w'
    \<and> set (w_relations w') = set (w_relations w) \<union> ddl_name ` set ss
    \<and> (ddl_name ` set ss \<subseteq> set (w_relations w) \<longrightarrow> w_relations w' = w_relations w)"
  using assms(2,3)
proof (induction ss arbitrary: w)
  case Nil
  then show ?case by (simp add: same_rows_def)
next
  case (Cons s ss)
  let ?v = "advance_clock E 0 w"
  let ?w1 = "?v\<lparr>w_relations := (if ddl_name s \<in> set (w_relations w) then w_relations w else w_relations w @ [ddl_name s])\<rparr>"
  have "run_ddl s ?v = (Inr (), ?w1)"
    using run_ddl_ok [of s ?v] Cons.prems by (auto simp: keys_free_def)
  then have 1: "runP (stmt E [] (run_ddl s)) w = (Inr (), ?w1)"
    by (simp add: stmt_def exec_stmt_def assms(1))
  have rel: "set (w_relations ?w1) = insert (ddl_name s) (set (w_relations w))" by auto
  have o: "in_order (set (w_relations ?w1)) ss" using Cons.prems(1) unfolding rel by simp
  have "keys_free ?w1 \<or> idem_index \<notin> ddl_name ` set ss" using Cons.prems(2) by (auto simp: keys_free_def)
  then obtain w' where 2: "runP (forP (\<lambda>s _. stmt E [] (run_ddl s)) ss ()) ?w1 = (Inr (), w')" "same_rows ?w1 w'"
    "set (w_relations w') = set (w_relations ?w1) \<union> ddl_name ` set ss"
    "ddl_name ` set ss \<subseteq> set (w_relations ?w1) \<longrightarrow> w_relations w' = w_relations ?w1"
    using Cons.IH [OF o] by blast
  have "runP (forP (\<lambda>s _. stmt E [] (run_ddl s)) (s # ss) ()) w = (Inr (), w')"
    using 1 2(1) by (simp add: run_simps)
  moreover have "same_rows w ?w1" by (simp add: same_rows_def)
  then have "same_rows w w'" using 2(2) by (rule same_rows_trans)
  ultimately show ?case using 2(3,4) rel by (intro exI [of _ w']) auto
qed

lemma STATEMENTS_names: "ddl_name ` set STATEMENTS \<supseteq> insert idem_index (set schema_tables)"
  by (simp add: schema_defs schema_tables_def)

text \<open>The statements before the index of the idempotency keys create all tables.\<close>

lemma STATEMENTS_split:
  obtains pre ks p post where "STATEMENTS = pre @ Create_unique_index idem_index ''jobs'' ks p # post"
    and "set schema_tables \<subseteq> ddl_name ` set pre" and "idem_index \<notin> ddl_name ` set pre"
proof (rule that)
  show "STATEMENTS = take 15 STATEMENTS @ Create_unique_index idem_index ''jobs'' [''queue_id'', ''idempotency_key'']
      (Some ''idempotency_key IS NOT NULL'') # drop 16 STATEMENTS"
    by (simp add: STATEMENTS_def)
qed (simp_all add: schema_defs schema_tables_def idem_index_def)

lemma in_order_append: "in_order R (ss @ ts) \<Longrightarrow> in_order R ss"
  by (induction ss arbitrary: R) simp_all

lemma run_ddl_duplicates:
  assumes "idem_index \<notin> set (w_relations w)" and "\<not> idem_unique (w_jobs w)" and "''jobs'' \<in> set (w_relations w)"
    and "\<forall>k. e_fault E k = None"
  shows "runP (stmt E [] (run_ddl (Create_unique_index idem_index ''jobs'' ks p))) w
    = (Inl (Pg_error (Unique_violation idem_index)), advance_clock E 0 w)"
  using assms by (simp add: stmt_def exec_stmt_def)

text \<open>C29: What \<open>ensureSchema\<close> does on a database that answers. It never changes a row, and afterwards
  all ten tables exist, whatever existed before, since every statement refers only to what earlier
  ones created. If the index of the idempotency keys exists already, or no two jobs of a queue share
  an idempotency key, it succeeds, the index exists too, and running it again succeeds and creates
  nothing; otherwise it fails with a violation of that index, which is not created.\<close>

theorem ensureSchema_outcome:
  assumes "\<forall>k. e_fault E k = None" and "getUrl E = Inr u"
  shows "\<exists>r w1. runP (ensureSchema E) w = (r, w1) \<and> same_rows w w1 \<and> set schema_tables \<subseteq> set (w_relations w1)
    \<and> (if idem_index \<in> set (w_relations w) \<or> idem_unique (w_jobs w)
       then r = Inr () \<and> idem_index \<in> set (w_relations w1)
         \<and> (\<exists>w2. runP (ensureSchema E) w1 = (Inr (), w2) \<and> same_rows w1 w2 \<and> w_relations w2 = w_relations w1)
       else r = Inl (Pg_error (Unique_violation idem_index)) \<and> idem_index \<notin> set (w_relations w1))"
proof -
  have o: "in_order (set R) STATEMENTS" for R by (rule in_order_mono [OF STATEMENTS_in_order]) simp
  have s: "runP (ensureSchema E) v = runP (forP (\<lambda>s _. stmt E [] (run_ddl s)) STATEMENTS ()) v" for v
    using assms(2) by (simp add: ensureSchema_def getPool_def run_simps)
  show ?thesis
  proof (cases "keys_free w")
    case True
    then obtain w1 where 1: "runP (ensureSchema E) w = (Inr (), w1)" "same_rows w w1"
      "set (w_relations w1) = set (w_relations w) \<union> ddl_name ` set STATEMENTS"
      using run_all_ddl [OF assms(1) o] unfolding s by blast
    then have "keys_free w1" using STATEMENTS_names by (auto simp: keys_free_def)
    then obtain w2 where 2: "runP (ensureSchema E) w1 = (Inr (), w2)" "same_rows w1 w2" "w_relations w2 = w_relations w1"
      using run_all_ddl [OF assms(1) o, of w1] 1(3) unfolding s by auto
    show ?thesis
      using True 1 2 STATEMENTS_names unfolding keys_free_def
      by (intro exI [of _ "Inr ()"] exI [of _ w1] conjI) auto
  next
    case False
    obtain pre ks p post where pre: "STATEMENTS = pre @ Create_unique_index idem_index ''jobs'' ks p # post"
      "set schema_tables \<subseteq> ddl_name ` set pre" "idem_index \<notin> ddl_name ` set pre"
      by (rule STATEMENTS_split)
    have "in_order (set (w_relations w)) pre" using o unfolding pre(1) by (rule in_order_append)
    then obtain w1 where 1: "runP (forP (\<lambda>s _. stmt E [] (run_ddl s)) pre ()) w = (Inr (), w1)" "same_rows w w1"
      "set (w_relations w1) = set (w_relations w) \<union> ddl_name ` set pre"
      using run_all_ddl [OF assms(1), of w pre] pre(3) by blast
    have dup: "idem_index \<notin> set (w_relations w1)" "\<not> idem_unique (w_jobs w1)" "''jobs'' \<in> set (w_relations w1)"
      using False 1(2,3) pre(2,3) by (auto simp: keys_free_def same_rows_def schema_tables_def)
    have "runP (ensureSchema E) w = (Inl (Pg_error (Unique_violation idem_index)), advance_clock E 0 w1)"
      unfolding s pre(1) run_for_append
      by (simp add: 1(1) run_bind run_ddl_duplicates [OF dup assms(1)])
    moreover have "same_rows w (advance_clock E 0 w1)" using 1(2) by (simp add: same_rows_def)
    ultimately show ?thesis using False 1(3) pre(2) dup(1) by (auto simp: keys_free_def)
  qed
qed

theorem ensureSchema_outcome_witness:
  "(\<exists>w1. runP (ensureSchema demo_env) (empty_world []) = (Inr (), w1) \<and> ''jobs'' \<in> set (w_relations w1))
   \<and> (\<exists>w1. runP (ensureSchema demo_env) ((demo_world [demo_job ''4'' 5 noop_payload\<lparr>j_idempotency_key := Some ''k''\<rparr>,
          demo_job ''5'' 5 noop_payload\<lparr>j_idempotency_key := Some ''k''\<rparr>])\<lparr>w_relations := []\<rparr>)
        = (Inl (Pg_error (Unique_violation idem_index)), w1) \<and> idem_index \<notin> set (w_relations w1))"
proof -
  have f: "\<forall>k. e_fault demo_env k = None" by simp
  let ?w = "(demo_world [demo_job ''4'' 5 noop_payload\<lparr>j_idempotency_key := Some ''k''\<rparr>,
          demo_job ''5'' 5 noop_payload\<lparr>j_idempotency_key := Some ''k''\<rparr>])\<lparr>w_relations := []\<rparr>"
  have "idem_unique (w_jobs (empty_world []))" by (simp add: empty_world_def idem_unique_def)
  with ensureSchema_outcome [OF f demo_url, of "empty_world []"]
  have "\<exists>w1. runP (ensureSchema demo_env) (empty_world []) = (Inr (), w1) \<and> ''jobs'' \<in> set (w_relations w1)"
    by (auto simp: schema_tables_def)
  moreover have "\<not> idem_unique (w_jobs ?w)" by (simp add: idem_unique_def idem_pair_def)
  then have "\<exists>w1. runP (ensureSchema demo_env) ?w = (Inl (Pg_error (Unique_violation idem_index)), w1) \<and> idem_index \<notin> set (w_relations w1)"
    using ensureSchema_outcome [OF f demo_url, of ?w] by auto
  ultimately show ?thesis by blast
qed

section \<open>The demo data\<close>

text \<open>\<open>seedDemo\<close> does nothing once an organization with the slug \<open>demo\<close> exists, however little
  else of the demo data does. A seeding that was cut off after its first insert is therefore never
  completed: no later setup adds the missing user, project, queues or jobs.\<close>

theorem seed_skips_existing_org:
  assumes "ready E w" and "getUrl E = Inr u" and "''demo'' \<in> o_slug ` set (w_organizations w)"
  shows "\<exists>w'. runP (seedDemo E) w = (Inr [(''seeded'', JBool False)], w') \<and> same_rows w w'"
proof -
  have "runP (stmt E [''organizations''] (sql_find_org ''demo'')) w = (Inr True, advance_clock E 0 w)"
    using assms(3) by (simp add: run_stmt [OF assms(1)] schema_tables_def sql_find_org_def)
  then show ?thesis
    using assms(2) by (intro exI [of _ "advance_clock E 0 w"]) (simp add: seedDemo_def getSql_def run_simps same_rows_def)
qed

theorem seed_skips_existing_org_witness:
  "\<exists>w'. runP (seedDemo demo_env) (demo_world []\<lparr>w_organizations := [demo_org\<lparr>o_slug := ''demo''\<rparr>]\<rparr>)
     = (Inr [(''seeded'', JBool False)], w') \<and> w_users w' = []"
proof -
  let ?w = "demo_world []\<lparr>w_organizations := [demo_org\<lparr>o_slug := ''demo''\<rparr>]\<rparr>"
  have "all_ids ?w = all_ids (demo_world [])" by (simp add: all_ids_def demo_world_def)
  then have "ready demo_env ?w" using ready_demo [of "[]"] by (simp add: ready_def demo_world_def)
  from seed_skips_existing_org [OF this demo_url] show ?thesis
    by (auto simp: same_rows_def) (simp add: demo_world_def)
qed

section \<open>Background ticks\<close>

text \<open>C28: A tick that \<open>scheduleWorkerTick\<close> has started is always cleaned up after, whether the tick
  itself returns or throws: once it has run, no tick is in flight.\<close>

theorem background_tick_releases:
  assumes "w_background w = 1"
  shows "\<exists>r w'. runP (background_tick E) w = (Inr r, w') \<and> \<not> w_in_flight w'"
  using assms by (auto simp: background_tick_def run_simps split: prod.splits sum.splits)

theorem background_tick_releases_witness:
  "\<exists>r w'. runP (background_tick demo_env) (demo_world two_jobs\<lparr>w_background := 1, w_in_flight := True\<rparr>) = (Inr r, w')
     \<and> \<not> w_in_flight w'"
  by (rule background_tick_releases) simp

section \<open>Guarded routes\<close>

text \<open>C30: With a secret configured, a cron call that does not present it is refused with 403 and has
  no effect at all; and whatever happens, a cron call is answered.\<close>

theorem cron_guarded:
  "(\<exists>r w'. runP (cron_GET E req) w = (Inr r, w'))
   \<and> (\<forall>s. environ E ''CRON_SECRET'' = Some s \<and> rq_auth req \<noteq> Some (''Bearer '' @ s)
        \<longrightarrow> runP (cron_GET E req) w = (Inr (error_response ''forbidden'' 403 ''FORBIDDEN''), w))"
  by (auto simp: cron_GET_def bearer_def run_simps split: option.splits prod.splits sum.splits)

theorem cron_guarded_witness:
  "runP (cron_GET (demo_env\<lparr>e_environ := \<lambda>_. Some ''s''\<rparr>) (demo_request ''GET'' [] [])) (demo_world [])
     = (Inr (error_response ''forbidden'' 403 ''FORBIDDEN''), demo_world [])"
  using cron_guarded [of "demo_env\<lparr>e_environ := \<lambda>_. Some ''s''\<rparr>" "demo_request ''GET'' [] []" "demo_world []"]
  by (simp add: environ_def demo_request_def)

end
