(* ===== verification/Spacing.thy ===== *)
theory Spacing
  imports Server
begin

text \<open>
  The variables of the scheduler (\<open>server/worker-scheduler.ts\<close>) in the whole server: which steps of
  the requests, the cron and setup routes and the ticks may change them, and when background ticks
  start in a run of the server.
\<close>

section \<open>Statements leave the scheduler alone\<close>

definition quiet :: "(world \<Rightarrow> 'r \<times> world) \<Rightarrow> bool" where
  "quiet f \<longleftrightarrow> (\<forall>w. w_ops (snd (f w)) = w_ops w \<and> w_in_flight (snd (f w)) = w_in_flight w
     \<and> w_last_run_at (snd (f w)) = w_last_run_at w \<and> w_background (snd (f w)) = w_background w)"

lemma quiet_param: "(\<And>x. c = Inr x \<Longrightarrow> quiet (k x)) \<Longrightarrow> quiet (with_param c k)"
  by (cases c) (simp_all add: quiet_def with_param_def)

lemma quiet_required: "(\<And>x. quiet (k x)) \<Longrightarrow> quiet (with_required col c k)"
  unfolding with_required_def [abs_def] by (intro quiet_param) (simp add: quiet_def split: option.split)

lemma quiet_ok: "quiet (\<lambda>w. ok (f w) w)"
  by (simp add: quiet_def)

lemma quiet_reads:
  "quiet (sql_projects E g)" "quiet (sql_queues E g)" "quiet (sql_find_project E v g)" "quiet (sql_depth E q)"
  "quiet (sql_stats E q)" "quiet (sql_queue_name E q g)" "quiet (sql_queue_default E q g)" "quiet (sql_find_idem E q v)"
  "quiet (sql_jobs E g s qo)" "quiet (sql_executions E j g)" "quiet (sql_logs E j g)" "quiet (sql_job E j g)"
  "quiet (sql_workers E)" "quiet (sql_dlq E g)" "quiet (sql_find_worker E)" "quiet (sql_active_queues E)"
  "quiet (sql_find_org s)" "quiet (sql_find_user E v)"
  unfolding read_defs sql_find_worker_def [abs_def] sql_active_queues_def [abs_def] sql_find_org_def [abs_def] sql_find_user_def
  by (intro quiet_param quiet_ok)+

lemmas insert_defs = insert_org_def insert_user_def insert_project_def insert_queue_def insert_worker_def insert_heartbeat_def
  insert_job_def insert_execution_def insert_log_def insert_dlq_def

lemma quiet_inserts:
  "quiet (sql_create_project E g f)" "quiet (sql_create_queue E f)" "quiet (sql_submit E q d f secs)"
  "quiet (sql_insert_org E n s)" "quiet (sql_insert_user E g)" "quiet (sql_seed_project E g)" "quiet (sql_seed_queue E p n s l)"
  "quiet (sql_seed_job E q i)" "quiet (sql_insert_worker E)" "quiet (sql_insert_heartbeat E wid)" "quiet (sql_upsert_heartbeat E wid)"
  "quiet (sql_insert_execution E j wid a)" "quiet (sql_insert_log E j lev msg)"
  unfolding sql_create_project_def sql_create_queue_def sql_submit_def sql_insert_org_def [abs_def] sql_insert_user_def [abs_def]
    sql_seed_project_def [abs_def] sql_seed_queue_def sql_seed_job_def sql_insert_worker_def [abs_def] sql_insert_heartbeat_def [abs_def]
    sql_upsert_heartbeat_def [abs_def] sql_insert_execution_def sql_insert_log_def
  by ((intro quiet_required quiet_param)?, simp add: quiet_def insert_defs Let_def)+

lemma quiet_insert_dlq: "quiet (sql_insert_dlq E j q p m a)"
proof (cases "json_stringify p")
  case (Some t)
  then show ?thesis
    unfolding sql_insert_dlq_def option.case by (simp, intro quiet_param) (simp add: quiet_def insert_dlq_def)
qed (simp add: sql_insert_dlq_def [abs_def] quiet_def)

lemma quiet_updates:
  "quiet (sql_set_paused E b q g)" "quiet (sql_update_queue E q g f)" "quiet (sql_retry E j g)" "quiet (sql_delete_dlq E j)"
  "quiet (sql_touch_worker wid)" "quiet sql_reap" "quiet (sql_claim E wid q n)" "quiet (sql_budget q)" "quiet (sql_start j a)"
  "quiet (sql_complete j)" "quiet (sql_complete_execution x d)" "quiet (sql_fail_execution E x d m)" "quiet (sql_dead_letter E j m)"
  "quiet (sql_requeue E j m)"
  unfolding sql_set_paused_def sql_update_queue_def sql_retry_def sql_delete_dlq_def sql_touch_worker_def [abs_def] sql_reap_def [abs_def]
    sql_claim_def [abs_def] sql_budget_def [abs_def] sql_start_def sql_complete_def [abs_def] sql_complete_execution_def
    sql_fail_execution_def sql_dead_letter_def sql_requeue_def
  by ((intro quiet_param)?, simp add: quiet_def Let_def with_param_def split: option.split sum.split)+

lemma quiet_ddl: "quiet (run_ddl s)"
  by (cases s) (simp_all add: quiet_def create_object_def split: option.split)

lemmas quiet_stmts = quiet_reads quiet_inserts quiet_insert_dlq quiet_updates quiet_ddl

section \<open>Steps of the scheduler\<close>

text \<open>
  A step of the server, as far as the scheduler's variables go: it starts no tick and records no run; or
  it records a run now without starting a background tick (\<open>runWorkerTickNow\<close>); or it starts one
  (\<open>scheduleWorkerTick\<close>), and then none was in flight and the last recorded run is at least 2500
  milliseconds back.
\<close>

definition sched_step :: "env \<Rightarrow> world \<Rightarrow> world \<Rightarrow> bool" where
  "sched_step E w w' \<longleftrightarrow> w_ops w \<le> w_ops w' \<and>
     (w_background w' \<le> w_background w \<and> (w_last_run_at w' = w_last_run_at w \<or> w_last_run_at w' = e_date E (w_ops w))
      \<or> \<not> w_in_flight w \<and> w_in_flight w' \<and> w_last_run_at w' = e_date E (w_ops w) \<and> 2500 \<le> w_last_run_at w' - w_last_run_at w)"

lemma sched_refl: "sched_step E w w" "sched_step E w (advance_clock E n w)"
  by (simp_all add: sched_step_def)

lemma sched_stmt:
  assumes "quiet f"
  shows "guar (sched_step E) (stmt E tabs f)"
proof -
  have "w_ops (snd (f (advance_clock E 0 w))) = Suc (w_ops w) \<and> w_last_run_at (snd (f (advance_clock E 0 w))) = w_last_run_at w
    \<and> w_background (snd (f (advance_clock E 0 w))) = w_background w" for w
    using assms by (simp add: quiet_def)
  then show ?thesis
    unfolding stmt_def exec_stmt_def Let_def
    by (intro guar_atom) (auto simp: sched_step_def split: option.splits fault.splits)
qed

lemma sched_clock: "guar (sched_step E) (date_now E)" "guar (sched_step E) (sleepP E ms)"
  unfolding date_now_def sleepP_def by (intro guar_atom; simp add: sched_refl)+

lemmas sched_rules = guar_Ret guar_Throw guar_bind guar_catch guar_pure guar_for guar_option guar_if sched_stmt quiet_stmts sched_clock

lemma sched_getSql: "guar (sched_step E) (getSql E)" "guar (sched_step E) (getPool E)"
  unfolding getSql_def getPool_def by (intro sched_rules)+

lemma sched_run_payload: "guar (sched_step E) (run_payload E p)"
  unfolding run_payload_def by (intro sched_rules)

lemma sched_executeJob: "guar (sched_step E) (executeJob E job wid)"
  unfolding executeJob_def record_success_def record_failure_def Let_def
  by (auto intro!: sched_rules sched_run_payload split: prod.split)

lemma sched_runWorkerTick: "guar (sched_step E) (runWorkerTick E)"
  unfolding runWorkerTick_def reaper_def ensureWorker_def tick_queue_def [abs_def]
  by (intro sched_rules sched_getSql sched_executeJob)

lemma sched_schedule: "guar (sched_step E) (scheduleWorkerTick E)"
  unfolding scheduleWorkerTick_def
  by (rule guar_atom) (simp add: schedule_step_def Let_def sched_step_def MIN_INTERVAL_MS_def)

lemma sched_runWorkerTickNow: "guar (sched_step E) (runWorkerTickNow E)"
  unfolding runWorkerTickNow_def by (intro sched_rules guar_atom sched_runWorkerTick) (simp add: sched_step_def)

lemma sched_background: "guar (sched_step E) (background_tick E)"
  unfolding background_tick_def
  by (intro sched_rules guar_atom sched_runWorkerTick) (simp_all add: sched_step_def)

lemma sched_setup: "guar (sched_step E) (setup_POST E req)" "guar (sched_step E) (cron_GET E req)"
  unfolding setup_POST_def cron_GET_def ensureSchema_def seedDemo_def seed_queue_def Let_def
  by (intro sched_rules sched_getSql sched_runWorkerTick | simp add: prod.case_eq_if)+

lemma sched_routes:
  "guar (sched_step E) (get_projects E g)" "guar (sched_step E) (post_projects E req g)" "guar (sched_step E) (get_queues E g)"
  "guar (sched_step E) (post_queues E req g)" "guar (sched_step E) (get_queue_stats E g q)" "guar (sched_step E) (post_pause E g q)"
  "guar (sched_step E) (post_resume E g q)" "guar (sched_step E) (put_queue E req g q)" "guar (sched_step E) (post_job E req g q)"
  "guar (sched_step E) (get_jobs E req g)" "guar (sched_step E) (get_executions E g j)" "guar (sched_step E) (get_logs E g j)"
  "guar (sched_step E) (post_retry E g j)" "guar (sched_step E) (get_job E g j)" "guar (sched_step E) (get_workers E)"
  "guar (sched_step E) (get_dlq E g)" "guar (sched_step E) (get_pulse E)"
  unfolding route_defs Let_def by (intro sched_rules sched_schedule sched_runWorkerTickNow)+

lemma sched_login: "guar (sched_step E) (post_login E req)"
  unfolding post_login_def resolveDemoUser_def Let_def
  by (intro sched_rules sched_getSql guar_signToken sched_refl)

lemma sched_all_routes: "guar (sched_step E) (Router.routes E req p g)"
proof -
  have q: "guar (sched_step E) r" if "queue_routes E req g i s = Some r" for i s r
    using that by (auto simp: queue_routes_def sched_routes split: if_splits)
  have j: "guar (sched_step E) r" if "job_routes E req g i s = Some r" for i s r
    using that by (auto simp: job_routes_def sched_routes split: if_splits)
  show ?thesis
    unfolding Router.routes_def by (intro guar_if guar_sub_routes sched_routes guar_Ret) (erule q j)+
qed

lemma sched_handleApi: "guar (sched_step E) (handleApi E req)"
  unfolding handleApi_def Let_def
  by (intro sched_rules sched_login sched_getSql sched_all_routes guar_requireAuth sched_refl)

lemma sched_server: "p \<in> server_programs E \<Longrightarrow> guar (sched_step E) p"
  by (auto simp: server_programs_def dispatch_def intro!: guar_discard sched_handleApi sched_setup sched_background)

interpretation sched: interleaved "server_programs E" "sched_step E" "\<lambda>_. True" for E
  by unfold_locales (simp_all add: sched_server)

section \<open>Runs\<close>

text \<open>
  The times at which background ticks start in a run: \<open>scheduleWorkerTick\<close> starts one in a step that
  raises the number of started ticks, and records the time.
\<close>

fun start_times :: "world list \<Rightarrow> int list" where
  "start_times (u # v # ws) = (if w_background u < w_background v then [w_last_run_at v] else []) @ start_times (v # ws)"
| "start_times _ = []"

lemma run_spaced:
  assumes "successively (pool_step (server_programs E)) (x # xs)" and "\<forall>p \<in> set (fst x). guar (sched_step E) p"
    and mono: "mono (e_date E)" and "t \<le> w_last_run_at (snd x)" and "w_last_run_at (snd x) \<le> e_date E (w_ops (snd x))"
  shows "successively (\<lambda>a b. 2500 \<le> b - a) (t # start_times (map snd (x # xs)))
    \<and> successively (\<lambda>u v. w_background u < w_background v \<longrightarrow> \<not> w_in_flight u \<and> w_in_flight v) (map snd (x # xs))"
  using assms(1,2,4,5)
proof (induction xs arbitrary: x t)
  case (Cons y ys)
  then have step: "pool_step (server_programs E) x y" and rest: "successively (pool_step (server_programs E)) (y # ys)" by simp_all
  have g: "\<forall>p \<in> set (fst y). guar (sched_step E) p" using sched.step_keeps [OF step Cons.prems(2)] by simp
  have R: "sched_step E (snd x) (snd y)" using sched.step_rel [OF step Cons.prems(2)] sched_refl(1) by metis
  then have date: "e_date E (w_ops (snd x)) \<le> e_date E (w_ops (snd y))" using mono by (auto simp: sched_step_def monoD)
  have inv: "w_last_run_at (snd y) \<le> e_date E (w_ops (snd y))" and t: "t \<le> w_last_run_at (snd y)"
    using R date Cons.prems(3,4) by (auto simp: sched_step_def)
  show ?case
  proof (cases "w_background (snd x) < w_background (snd y)")
    case True
    with R have "2500 \<le> w_last_run_at (snd y) - t" "\<not> w_in_flight (snd x)" "w_in_flight (snd y)"
      using Cons.prems(3) by (auto simp: sched_step_def)
    with True Cons.IH [OF rest g order_refl inv] show ?thesis by simp
  next
    case False
    with Cons.IH [OF rest g t inv] show ?thesis by simp
  qed
qed simp

text \<open>C27: In any run of one server process, with whatever requests, cron calls, setups, direct ticks
  (\<open>runWorkerTickNow\<close>, which also records the time it runs) and background ticks interleaved and killed
  at will, and with a clock \<open>Date.now()\<close> that never runs backwards: consecutive background ticks
  that \<open>scheduleWorkerTick\<close> starts are at least 2500 milliseconds apart, the first one that long after
  the last recorded run, and each starts only when none is in flight.\<close>

theorem scheduled_ticks_spaced:
  assumes "successively (pool_step (server_programs E)) (([], w) # xs)"
    and "mono (e_date E)" and "w_last_run_at w \<le> e_date E (w_ops w)"
  shows "successively (\<lambda>a b. 2500 \<le> b - a) (w_last_run_at w # start_times (w # map snd xs))
    \<and> successively (\<lambda>u v. w_background u < w_background v \<longrightarrow> \<not> w_in_flight u \<and> w_in_flight v) (w # map snd xs)"
  using run_spaced [OF assms(1) _ assms(2) order_refl] assms(3) by simp

text \<open>
  The example: a request for the jobs starts a tick, the tick runs to its end, and a second request
  starts another. Each operation takes three seconds.
\<close>

definition slow_clock_env :: env where
  "slow_clock_env = demo_env\<lparr>e_date := \<lambda>k. 3000 * int k\<rparr>"

definition jobs_request :: request where
  "jobs_request = (demo_request ''GET'' [''jobs''] [])\<lparr>rq_auth := Some (''Bearer '' @ stringify (JObj [(''user_id'', JStr ''7''),
     (''org_id'', JStr ''0''), (''email'', JStr ''a@b.c''), (''role'', JStr ''admin'')]))\<rparr>"

definition tick_programs :: "unit io list" where
  "tick_programs = [discard (dispatch slow_clock_env jobs_request (Some [''jobs''])), discard (background_tick slow_clock_env),
     discard (dispatch slow_clock_env jobs_request (Some [''jobs'']))]"

definition tick_trace :: "(unit io list \<times> world) list" where
  "tick_trace = trace [0, 0, 1, 1, 1, 1, 1, 1, 1, 1, 1, 2, 2] (tick_programs, (demo_world [])\<lparr>w_ops := 1\<rparr>)"

theorem scheduled_ticks_spaced_witness:
  "\<exists>xs a b. successively (pool_step (server_programs slow_clock_env)) (([], (demo_world [])\<lparr>w_ops := 1\<rparr>) # xs)
     \<and> start_times ((demo_world [])\<lparr>w_ops := 1\<rparr> # map snd xs) = [a, b] \<and> 2500 \<le> b - a"
proof -
  let ?w = "(demo_world [])\<lparr>w_ops := 1\<rparr>" and ?S = "server_programs slow_clock_env"
  let ?ps = "tick_programs"
  let ?xs = "([hd ?ps], ?w) # (take 2 ?ps, ?w) # tick_trace"
  have S: "p \<in> ?S" if "p \<in> set ?ps" for p
    using that by (auto simp: tick_programs_def server_programs_def)
  obtain ys where ys: "tick_trace = (?ps, ?w) # ys" using trace_hd unfolding tick_trace_def by blast
  have 0: "pool_step ?S ([], ?w) ([hd ?ps], ?w)" "pool_step ?S ([hd ?ps], ?w) (take 2 ?ps, ?w)" "pool_step ?S (take 2 ?ps, ?w) (?ps, ?w)"
    using pool_step.arrive [of "?ps ! 0" ?S "[]" ?w] pool_step.arrive [of "?ps ! 1" ?S "[hd ?ps]" ?w]
      pool_step.arrive [of "?ps ! 2" ?S "take 2 ?ps" ?w] S by (simp_all add: tick_programs_def)
  have "successively (pool_step ?S) tick_trace" unfolding tick_trace_def by (rule trace_steps)
  with 0 have run: "successively (pool_step ?S) (([], ?w) # ?xs)" unfolding ys by simp
  have times: "start_times (?w # map snd ?xs) = [3000, 27000]" by code_simp
  have "mono (e_date slow_clock_env)" by (simp add: slow_clock_env_def mono_def)
  then have "successively (\<lambda>a b. 2500 \<le> b - a) (w_last_run_at ?w # start_times (?w # map snd ?xs))"
    using scheduled_ticks_spaced [OF run] by (simp add: slow_clock_env_def demo_world_def)
  then have "2500 \<le> (27000 :: int) - 3000" unfolding times by simp
  with run times show ?thesis by blast
qed

end
