(* ===== verification/Js_Num.thy ===== *)
theory Js_Num
  imports Js
begin

text \<open>
  Arithmetic on JavaScript numbers, as the browser code uses it, and the two facts on rounding
  that make it predictable: an integer of at most 53 bits is a double, and the floor of a
  quotient of such integers is their integer quotient.
\<close>

section \<open>Operations\<close>

text \<open>
  Addition, subtraction, multiplication and division of finite numbers round the exact result.
  A zero divisor counts as positive.
\<close>

fun num_neg :: "jsnum \<Rightarrow> jsnum" where
  "num_neg NaN = NaN"
| "num_neg PInf = NInf"
| "num_neg NInf = PInf"
| "num_neg (Fin q) = Fin (- q)"

fun num_add :: "jsnum \<Rightarrow> jsnum \<Rightarrow> jsnum" where
  "num_add (Fin a) (Fin b) = to_num (a + b)"
| "num_add NaN b = NaN"
| "num_add a NaN = NaN"
| "num_add PInf NInf = NaN"
| "num_add NInf PInf = NaN"
| "num_add PInf b = PInf"
| "num_add NInf b = NInf"
| "num_add (Fin a) b = b"

definition num_sub :: "jsnum \<Rightarrow> jsnum \<Rightarrow> jsnum" where
  "num_sub a b = num_add a (num_neg b)"

definition num_sign :: "jsnum \<Rightarrow> int" where
  "num_sign n = (case n of Fin q \<Rightarrow> (if q < 0 then - 1 else if 0 < q then 1 else 0)
     | PInf \<Rightarrow> 1 | NInf \<Rightarrow> - 1 | NaN \<Rightarrow> 0)"

definition num_inf :: "int \<Rightarrow> jsnum" where
  "num_inf s = (if 0 < s then PInf else if s < 0 then NInf else NaN)"

definition num_mul :: "jsnum \<Rightarrow> jsnum \<Rightarrow> jsnum" where
  "num_mul a b = (case (a, b) of (Fin p, Fin q) \<Rightarrow> to_num (p * q)
     | _ \<Rightarrow> if a = NaN \<or> b = NaN then NaN else num_inf (num_sign a * num_sign b))"

definition num_div :: "jsnum \<Rightarrow> jsnum \<Rightarrow> jsnum" where
  "num_div a b = (case (a, b) of
       (Fin p, Fin q) \<Rightarrow> if q = 0 then num_inf (num_sign a) else to_num (p / q)
     | (Fin p, _) \<Rightarrow> if b = NaN then NaN else Fin 0
     | (_, Fin q) \<Rightarrow> if a = NaN then NaN else num_inf (num_sign a * (if q < 0 then - 1 else 1))
     | _ \<Rightarrow> NaN)"

text \<open>\<open>a < b\<close>; false when either is NaN.\<close>

fun num_lt :: "jsnum \<Rightarrow> jsnum \<Rightarrow> bool" where
  "num_lt (Fin a) (Fin b) = (a < b)"
| "num_lt (Fin a) PInf = True"
| "num_lt NInf (Fin b) = True"
| "num_lt NInf PInf = True"
| "num_lt _ _ = False"

definition num_le :: "jsnum \<Rightarrow> jsnum \<Rightarrow> bool" where
  "num_le a b \<longleftrightarrow> num_lt a b \<or> (a = b \<and> a \<noteq> NaN)"

fun num_floor :: "jsnum \<Rightarrow> jsnum" where
  "num_floor (Fin q) = Fin (of_int \<lfloor>q\<rfloor>)"
| "num_floor n = n"

text \<open>\<open>Math.round\<close>: the nearest integer, the larger one of two.\<close>

fun num_round :: "jsnum \<Rightarrow> jsnum" where
  "num_round (Fin q) = Fin (of_int \<lfloor>q + 1 / 2\<rfloor>)"
| "num_round n = n"

text \<open>\<open>Math.max\<close> and \<open>Math.min\<close> of two numbers\<close>

definition num_max2 :: "jsnum \<Rightarrow> jsnum \<Rightarrow> jsnum" where
  "num_max2 a b = (if a = NaN \<or> b = NaN then NaN else if num_lt a b then b else a)"

definition num_min2 :: "jsnum \<Rightarrow> jsnum \<Rightarrow> jsnum" where
  "num_min2 a b = (if a = NaN \<or> b = NaN then NaN else if num_lt b a then b else a)"

text \<open>\<open>toFixed(f)\<close>: the closest decimal with \<open>f\<close> places, the larger one of two.\<close>

definition fixed_pos :: "rat \<Rightarrow> nat \<Rightarrow> string" where
  "fixed_pos q f = (if 10 ^ 21 \<le> q then num_to_string (Fin q)
     else (let ds = dec_digits (nat \<lfloor>q * 10 ^ f + 1 / 2\<rfloor>);
               ds' = replicate (Suc f - length ds) CHR ''0'' @ ds; k = length ds' - f
           in if f = 0 then ds else take k ds' @ ''.'' @ drop k ds'))"

fun toFixed :: "jsnum \<Rightarrow> nat \<Rightarrow> string" where
  "toFixed (Fin q) f = (if q < 0 then CHR ''-'' # fixed_pos (- q) f else fixed_pos q f)"
| "toFixed n f = num_to_string n"

section \<open>Rounding\<close>

lemma pow2_pos [simp]: "0 < pow2 k"
  by (simp add: pow2_def)

lemma pow2_powi: "pow2 k = 2 powi k"
  by (cases "0 \<le> k") (simp_all add: pow2_def power_int_def inverse_eq_divide power_one_over)

lemma pow2_add: "pow2 (a + b) = pow2 a * pow2 b"
  unfolding pow2_powi by (rule power_int_add) simp

lemma pow2_nat [simp]: "pow2 (int n) = 2 ^ n"
  by (simp add: pow2_def)

lemma pow2_mono: "a \<le> b \<Longrightarrow> pow2 a \<le> pow2 b"
  using pow2_add [of a "b - a"] by (simp add: pow2_def [of "b - a"] divide_simps)

lemma pow2_less: "a < b \<Longrightarrow> pow2 a < pow2 b"
  using pow2_add [of a "b - a"] by (simp add: pow2_def [of "b - a"] one_less_power)

lemma pow2_less_iff: "pow2 a < pow2 b \<longleftrightarrow> a < b"
  using pow2_mono pow2_less by (meson leD not_less)

lemma pow2_bitlen:
  assumes "0 < n"
  shows "pow2 (bitlen n - 1) \<le> of_int n" and "of_int n < pow2 (bitlen n)"
proof -
  from assms have "0 \<le> bitlen n - 1" using bitlen_nonneg [of "n div 2"] by (subst compute_bitlen) simp
  moreover have "(of_int (2 ^ nat (bitlen n - 1)) :: rat) \<le> of_int n" "(of_int n :: rat) < of_int (2 ^ nat (bitlen n))"
    using bitlen_bounds [OF assms] by (simp_all only: of_int_le_iff of_int_less_iff)
  ultimately show "pow2 (bitlen n - 1) \<le> of_int n" and "of_int n < pow2 (bitlen n)"
    by (simp_all add: pow2_def)
qed

lemma ilog2_le:
  assumes "0 < q"
  shows "pow2 (ilog2 q) \<le> q"
proof -
  obtain n d where nd: "quotient_of q = (n, d)" by (cases "quotient_of q")
  then have d: "0 < d" and q: "q = of_int n / of_int d"
    by (simp_all add: quotient_of_denom_pos quotient_of_div)
  with assms have n: "0 < n" by (simp add: zero_less_divide_iff)
  have "pow2 (bitlen n - bitlen d - 1) * pow2 (bitlen d) \<le> of_int n"
    using pow2_bitlen(1) [OF n] by (simp flip: pow2_add)
  then have "pow2 (bitlen n - bitlen d - 1) * of_int d \<le> of_int n"
    using pow2_bitlen(2) [OF d]
    by (meson less_imp_le mult_left_mono order_trans pow2_pos)
  then have "pow2 (bitlen n - bitlen d - 1) \<le> q"
    using d by (simp add: q le_divide_eq)
  then show ?thesis by (auto simp: ilog2_def nd Let_def)
qed

lemma rne_error: "\<bar>of_int (rne q) - q\<bar> \<le> 1 / 2"
proof -
  define f where "f = \<lfloor>q\<rfloor>"
  have "of_int f \<le> q" "q < of_int f + 1" unfolding f_def by linarith+
  then show ?thesis unfolding rne_def Let_def abs_le_iff f_def [symmetric] by auto
qed

lemma fl_zero [simp]: "fl 0 = 0"
  by (simp add: fl_def)

lemma fl_error:
  assumes "pow2 (- 1022) \<le> \<bar>q\<bar>"
  shows "\<bar>fl q - q\<bar> \<le> \<bar>q\<bar> / 2 ^ 53"
proof -
  from assms have pos: "0 < \<bar>q\<bar>" using pow2_pos [of "- 1022"] by linarith
  define u where "u = pow2 (max (ilog2 \<bar>q\<bar> - 52) (- 1074))"
  have u: "0 < u" by (simp add: u_def)
  have "fl q - q = (of_int (rne (q / u)) - q / u) * u"
    using pos u by (simp add: fl_def Let_def u_def [symmetric] left_diff_distrib)
  then have "\<bar>fl q - q\<bar> \<le> 1 / 2 * u"
    using mult_right_mono [OF rne_error [of "q / u"], of u] u by (simp add: abs_mult)
  also have "\<dots> \<le> \<bar>q\<bar> / 2 ^ 53"
  proof -
    have "pow2 (ilog2 \<bar>q\<bar> - 52) * 2 ^ 52 = pow2 (ilog2 \<bar>q\<bar>)"
      using pow2_add [of "ilog2 \<bar>q\<bar> - 52" 52] by (simp add: pow2_def [of 52])
    with ilog2_le [OF pos] have a: "pow2 (ilog2 \<bar>q\<bar> - 52) * 2 ^ 52 \<le> \<bar>q\<bar>" by simp
    have "pow2 (- 1074) * pow2 52 = pow2 (- 1022)" by (simp only: pow2_add [symmetric]) simp
    then have b: "pow2 (- 1074) * 2 ^ 52 \<le> \<bar>q\<bar>" using assms by (simp add: pow2_def [of 52])
    from a b have "u * 2 ^ 52 \<le> \<bar>q\<bar>" by (auto simp: u_def max_def)
    then show ?thesis by simp
  qed
  finally show ?thesis .
qed

lemma pow2_inverse: "1 / pow2 k = pow2 (- k)"
  by (simp add: pow2_def)

lemma fl_int:
  assumes "\<bar>n\<bar> \<le> 2 ^ 53"
  shows "fl (of_int n) = of_int n"
proof (cases "n = 0")
  case False
  define q :: rat where "q = of_int n"
  from False have pos: "0 < \<bar>q\<bar>" by (simp add: q_def)
  have "1 \<le> \<bar>n\<bar>" using False by simp
  then have one: "1 \<le> \<bar>q\<bar>" unfolding q_def by (metis of_int_1 of_int_abs of_int_le_iff)
  have top: "\<bar>q\<bar> \<le> 2 ^ 53"
    unfolding q_def using assms by (metis of_int_abs of_int_le_iff of_int_numeral of_int_power)
  then have "pow2 (ilog2 \<bar>q\<bar>) \<le> pow2 53" using ilog2_le [OF pos] by (simp add: pow2_def [of 53])
  then have le: "ilog2 \<bar>q\<bar> \<le> 53" by (meson leD leI pow2_less)
  define e where "e = max (ilog2 \<bar>q\<bar> - 52) (- 1074)"
  define u where "u = pow2 e"
  have "q / u \<in> \<int>"
  proof (cases "e \<le> 0")
    case True
    then have "1 / u = of_int (2 ^ nat (- e))" by (simp add: u_def pow2_inverse) (simp add: pow2_def)
    then have "q / u = of_int (n * 2 ^ nat (- e))" by (simp add: q_def divide_inverse)
    then show ?thesis by (metis Ints_of_int)
  next
    case False
    with le have e1: "e = 1" "ilog2 \<bar>q\<bar> = 53" by (auto simp: e_def)
    with ilog2_le [OF pos] top have "\<bar>q\<bar> = 2 ^ 53" by (simp add: pow2_def)
    then have "q = 2 ^ 53 \<or> q = - (2 ^ 53)" by linarith
    then have "q / u = of_int (2 ^ 52) \<or> q / u = of_int (- (2 ^ 52))" by (auto simp: u_def e1 pow2_def)
    then show ?thesis by (metis Ints_of_int)
  qed
  then obtain m where m: "q / u = of_int m" by (auto elim: Ints_cases)
  have "fl q = of_int (rne (q / u)) * u" using pos by (simp add: fl_def Let_def u_def e_def)
  also have "\<dots> = of_int m * u" by (simp only: m rne_int)
  also have "\<dots> = q / u * u" by (simp only: m)
  also have "\<dots> = q" by (simp add: u_def less_imp_neq [OF pow2_pos, symmetric])
  finally show ?thesis by (simp add: q_def)
qed simp

lemma to_num_int: "\<bar>n\<bar> \<le> 2 ^ 53 \<Longrightarrow> to_num (of_int n) = Fin (of_int n)"
proof -
  assume n: "\<bar>n\<bar> \<le> 2 ^ 53"
  then have "n < 2 ^ 1024" "- (2 ^ 1024) < n" by (auto intro: le_less_trans [of _ "2 ^ 53"])
  then have "of_int n < (2 ^ 1024 :: rat)" "- (2 ^ 1024 :: rat) < of_int n"
    by (metis of_int_less_iff of_int_minus of_int_numeral of_int_power)+
  with n show ?thesis by (simp add: to_num_def fl_int Let_def)
qed

lemma to_num_Fin: "\<bar>fl q\<bar> \<le> 2 ^ 100 \<Longrightarrow> to_num q = Fin (fl q)"
proof -
  assume "\<bar>fl q\<bar> \<le> 2 ^ 100"
  moreover have "(2 :: rat) ^ 100 < 2 ^ 1024" by (rule power_strict_increasing) simp_all
  ultimately have "fl q < 2 ^ 1024" "- (2 ^ 1024) < fl q" by linarith+
  then show ?thesis unfolding to_num_def Let_def by (simp only: not_le if_not_P)
qed

text \<open>\<open>Math.floor(x / d)\<close> of integers is the integer quotient.\<close>

lemma floor_fl_div:
  assumes "\<bar>x\<bar> < 2 ^ 53" and "0 < d" and "d \<le> 2 ^ 53"
  shows "\<lfloor>fl (of_int x / of_int d)\<rfloor> = x div d"
proof (cases "x mod d = 0")
  case True
  then have x: "x = d * (x div d)" by auto
  have "\<bar>x div d\<bar> \<le> \<bar>x\<bar>"
    by (subst (2) x) (use assms(2) in \<open>simp add: abs_mult mult_le_cancel_right1\<close>)
  with assms have "fl (of_int (x div d)) = of_int (x div d)" by (intro fl_int) simp
  moreover have "of_int x / of_int d = (of_int (x div d) :: rat)"
    by (subst x) (use assms(2) in simp)
  ultimately show ?thesis by simp
next
  case False
  let ?y = "of_int x / of_int d :: rat"
  have d: "(0::rat) < of_int d" using assms(2) by simp
  have x0: "1 \<le> \<bar>x\<bar>" using False by (cases "x = 0") auto
  have ay: "\<bar>?y\<bar> = of_int \<bar>x\<bar> / of_int d" by (simp only: abs_divide of_int_abs abs_of_pos [OF d])
  have xr: "1 \<le> (of_int \<bar>x\<bar> :: rat)" "(of_int \<bar>x\<bar> :: rat) < 2 ^ 53"
    using x0 assms(1) by (metis of_int_1 of_int_le_iff, metis of_int_less_iff of_int_numeral of_int_power)
  have dr: "(of_int d :: rat) \<le> 2 ^ 53" using assms(3) by (metis of_int_le_iff of_int_numeral of_int_power)
  have "pow2 (- 1022) \<le> 1 / 2 ^ 53"
    using pow2_mono [of "- 1022" "- 53"] by (simp add: pow2_def [of "- 53"])
  also have "\<dots> \<le> 1 / of_int d" using dr d by (intro divide_left_mono) auto
  also have "\<dots> \<le> \<bar>?y\<bar>" unfolding ay using xr d by (intro divide_right_mono) auto
  finally have "\<bar>fl ?y - ?y\<bar> \<le> \<bar>?y\<bar> / 2 ^ 53" by (rule fl_error)
  also have "\<bar>?y\<bar> / 2 ^ 53 = (of_int \<bar>x\<bar> / 2 ^ 53) / of_int d"
    by (simp only: ay divide_divide_eq_left mult.commute)
  also have "\<dots> < 1 / of_int d" using xr d by (intro divide_strict_right_mono) auto
  finally have err: "\<bar>fl ?y - ?y\<bar> < 1 / of_int d" .
  have y: "?y = of_int (x div d) + of_int (x mod d) / of_int d"
  proof -
    have "of_int x = (of_int d * of_int (x div d) + of_int (x mod d) :: rat)"
      by (metis mult_div_mod_eq of_int_add of_int_mult)
    with d show ?thesis by (simp add: field_simps)
  qed
  have m: "1 \<le> x mod d" "x mod d \<le> d - 1" using False assms(2) pos_mod_bound [of d x] pos_mod_sign [of d x] by linarith+
  have lo: "1 / of_int d \<le> (of_int (x mod d) / of_int d :: rat)"
    using m(1) d by (intro divide_right_mono) (metis of_int_1 of_int_le_iff, simp)
  have "(of_int (x mod d) :: rat) \<le> of_int (d - 1)" using m(2) of_int_le_iff by blast
  then have hi: "of_int (x mod d) / of_int d \<le> (1 - 1 / of_int d :: rat)"
    using d by (simp add: field_simps)
  show ?thesis
    using err lo hi unfolding y by (intro floor_unique) linarith+
qed

end
