(* ===== verification/Json_Facts.thy ===== *)
theory Json_Facts
  imports Json Js_Num
begin

text \<open>
  \<open>JSON.parse\<close> undoes \<open>JSON.stringify\<close>: for every value whose numbers are integers of at most
  53 bits and whose objects have distinct keys, the text reads back as the value itself, less
  what JSON cannot carry (\<open>wire\<close>). This is what a request or an answer is on the other side of
  the connection.
\<close>

section \<open>Decimal digits\<close>

lemma char_digit: "d < 10 \<Longrightarrow> is_digit (char_of (48 + d :: nat))"
  by (simp add: is_digit_def Let_def)

lemma char_zero [simp]: "char_of (48 :: nat) = CHR ''0''"
  using char_of_char [where 'a = nat, of "CHR ''0''"] by simp

lemma digits_ne [simp]: "dec_digits n \<noteq> []"
  by (subst dec_digits.simps) simp

lemma digits_are_digits: "c \<in> set (dec_digits n) \<Longrightarrow> is_digit c"
proof (induction n rule: dec_digits.induct)
  case (1 n)
  then show ?case by (subst (asm) (2) dec_digits.simps) (auto simp: char_digit split: if_splits)
qed

lemma dec_val_snoc: "dec_val (s @ [c]) = 10 * dec_val s + (of_char c - 48)"
  by (simp add: dec_val_def)

lemma dec_val_digits [simp]: "dec_val (dec_digits n) = n"
proof (induction n rule: dec_digits.induct)
  case (1 n)
  show ?case
  proof (cases "n < 10")
    case True
    then show ?thesis by (subst dec_digits.simps) (simp add: dec_val_def)
  next
    case False
    then have "dec_val (dec_digits n) = 10 * (n div 10) + n mod 10"
      using 1 by (subst dec_digits.simps) (simp add: dec_val_snoc)
    then show ?thesis by simp
  qed
qed

lemma digits_upper: "n < 10 ^ length (dec_digits n)"
proof (induction n rule: dec_digits.induct)
  case (1 n)
  then show ?case by (subst dec_digits.simps) (auto simp: less_mult_imp_div_less div_less_iff_less_mult mult.commute)
qed

lemma digits_lower: "0 < n \<Longrightarrow> 10 ^ (length (dec_digits n) - 1) \<le> n"
proof (induction n rule: dec_digits.induct)
  case (1 n)
  show ?case
  proof (cases "n < 10")
    case True
    with 1 show ?thesis by (subst dec_digits.simps) simp
  next
    case False
    then have le: "10 ^ (length (dec_digits (n div 10)) - 1) \<le> n div 10" using 1 by simp
    have "dec_digits n = dec_digits (n div 10) @ [char_of (48 + n mod 10)]" using False by (subst dec_digits.simps) simp
    moreover have "length (dec_digits (n div 10)) = Suc (length (dec_digits (n div 10)) - 1)"
      by (cases "dec_digits (n div 10)") simp_all
    ultimately have "length (dec_digits n) - 1 = Suc (length (dec_digits (n div 10)) - 1)" by simp
    moreover have "10 * 10 ^ (length (dec_digits (n div 10)) - 1) \<le> n" using le by simp
    ultimately show ?thesis by (simp only: power_Suc)
  qed
qed

lemma digits_mult: "0 < n \<Longrightarrow> dec_digits (n * 10 ^ j) = dec_digits n @ replicate j CHR ''0''"
proof (induction j)
  case (Suc j)
  then have "\<not> n * 10 ^ Suc j < 10" by (simp add: not_less)
  then have "dec_digits (n * 10 ^ Suc j) = dec_digits (n * 10 ^ Suc j div 10) @ [char_of (48 + n * 10 ^ Suc j mod 10)]"
    by (subst dec_digits.simps) simp
  also have "n * 10 ^ Suc j div 10 = n * 10 ^ j" by simp
  also have "n * 10 ^ Suc j mod 10 = 0" by simp
  finally show ?case using Suc by (simp add: replicate_app_Cons_same)
qed simp

lemma digits_hd: "0 < n \<Longrightarrow> hd (dec_digits n) \<noteq> CHR ''0''"
proof (induction n rule: dec_digits.induct)
  case (1 n)
  show ?case
  proof (cases "n < 10")
    case True
    have "of_char (char_of (48 + n) :: char) \<noteq> (of_char (CHR ''0'') :: nat)" using True 1(2) by simp
    then have "char_of (48 + n) \<noteq> CHR ''0''" by metis
    with True show ?thesis by (subst dec_digits.simps) simp
  next
    case False
    with 1 show ?thesis by (subst dec_digits.simps) (simp add: hd_append)
  qed
qed

section \<open>Numbers as text\<close>

lemma find_first:
  assumes "y \<in> set xs" and "P y"
  obtains x where "List.find P xs = Some x" and "P x" and "x \<in> set xs" and "sorted xs \<Longrightarrow> x \<le> (y :: nat)"
proof -
  obtain x where x: "List.find P xs = Some x" using assms by (cases "List.find P xs") (auto simp: find_None_iff)
  then obtain i where i: "i < length xs" "P (xs ! i)" "x = xs ! i" "\<forall>j<i. \<not> P (xs ! j)" by (auto simp: find_Some_iff)
  have "x \<le> y" if "sorted xs"
  proof -
    obtain j where "j < length xs" "y = xs ! j" using assms(1) by (auto simp: in_set_conv_nth)
    with i assms(2) have "i \<le> j" by (metis not_le)
    with that i \<open>j < length xs\<close> \<open>y = xs ! j\<close> show ?thesis by (simp add: sorted_nth_mono)
  qed
  with that x i show ?thesis by (simp add: nth_mem)
qed

lemma pow10_nonneg: "pow10 (int j) = 10 ^ j"
  by (simp add: pow10_def)

lemma fl_nat_inj:
  assumes "fl (of_int x) = of_int m" and "0 \<le> x" and "\<bar>m\<bar> < 2 ^ 53"
  shows "x = m"
proof (cases "x \<le> 2 ^ 53")
  case True
  with assms show ?thesis by (simp add: fl_int)
next
  case False
  define X :: rat where "X = of_int x"
  have "2 ^ 53 + 1 \<le> x" using False by simp
  then have "of_int (2 ^ 53 + 1) \<le> X" unfolding X_def by (simp only: of_int_le_iff)
  then have X: "2 ^ 53 + 1 \<le> X" by simp
  have "m \<le> 2 ^ 53 - 1" using assms(3) by simp
  then have "(of_int m :: rat) \<le> of_int (2 ^ 53 - 1)" by (simp only: of_int_le_iff)
  then have M: "fl X \<le> 2 ^ 53 - 1" using assms(1) by (simp add: X_def)
  have "pow2 (- 1022) \<le> 1" using pow2_mono [of "- 1022" 0] by (simp add: pow2_def [of 0])
  with X have "\<bar>fl X - X\<bar> \<le> \<bar>X\<bar> / 2 ^ 53" by (intro fl_error) (simp add: abs_if)
  moreover have "\<bar>X\<bar> = X" using X by simp
  ultimately have "X - X / 2 ^ 53 \<le> fl X" by (simp only: abs_le_iff) linarith
  with M X show ?thesis by (simp add: field_simps)
qed

lemma shortest_nat:
  assumes "0 < m" and "m < 2 ^ 53"
  shows "\<exists>c j. shortest (of_nat m) = (c, int (length (dec_digits m))) \<and> m = c * 10 ^ j"
proof -
  define L where "L = length (dec_digits m)"
  have L1: "1 \<le> L" unfolding L_def by (cases "dec_digits m") simp_all
  have "10 ^ (L - 1) < (10 ^ 16 :: nat)"
    using digits_lower [OF assms(1)] assms(2) by (simp add: L_def)
  then have L: "L \<le> 16" using power_less_imp_less_exp [of "10 :: nat" "L - 1" 16] by simp
  define q :: rat where "q = of_nat m"
  have n: "ilog10 q + 1 = int L" using assms(1) by (simp add: ilog10_def q_def L_def)
  define cand where "cand = (\<lambda>k. rne (q / pow10 (int L - int k)))"
  define ok where "ok = (\<lambda>k. fl (of_int (cand k) * pow10 (int L - int k)) = q)"
  have q_int: "q = of_int (int m)" by (simp add: q_def)
  have "cand L = int m" unfolding cand_def q_int by (simp add: pow10_def del: of_int_of_nat_eq)
  moreover have "fl q = q" unfolding q_int using assms(2) by (intro fl_int) simp
  ultimately have "ok L" by (simp add: ok_def pow10_def q_def)
  moreover have "L \<in> set [1..<18]" using L L1 by simp
  ultimately obtain k where k: "List.find ok [1..<18] = Some k" "ok k" "k \<in> set [1..<18]" "k \<le> L"
    using find_first [of L "[1..<18]" ok] sorted_upt by metis
  define j where "j = L - k"
  have j: "int L - int k = int j" using k by (simp add: j_def)
  have c0: "0 \<le> cand k"
  proof -
    have "0 \<le> q / pow10 (int j)" by (simp add: q_def pow10_nonneg)
    then have "0 \<le> \<lfloor>q / pow10 (int j)\<rfloor>" by simp
    then show ?thesis by (simp add: cand_def j rne_def Let_def)
  qed
  have "fl (of_int (cand k * 10 ^ j)) = of_int (int m)"
    using k(2) by (simp add: ok_def j pow10_nonneg q_def)
  then have cm: "cand k * 10 ^ j = int m" by (rule fl_nat_inj) (use c0 assms(2) in auto)
  then have cm': "nat (cand k) * 10 ^ j = m" using c0
    by (metis int_nat_eq nat_int nat_mult_distrib nat_power_eq nat_numeral zero_le_numeral)
  have "nat (cand k) \<noteq> 10 ^ k"
  proof
    assume "nat (cand k) = 10 ^ k"
    with cm' have "m = 10 ^ k * 10 ^ j" by metis
    then have "m = 10 ^ L" using k(4) by (simp add: j_def flip: power_add)
    then show False using digits_upper [of m] by (simp add: L_def)
  qed
  then have "shortest q = (nat (cand k), int L)"
    using k(1) unfolding shortest_def n Let_def cand_def ok_def by simp
  with cm' show ?thesis unfolding q_def L_def by metis
qed

lemma num_to_string_nat:
  assumes "0 < m" and "m < 2 ^ 53"
  shows "pos_to_string (of_nat m) = dec_digits m"
proof -
  obtain c j where cj: "shortest (of_nat m) = (c, int (length (dec_digits m)))" "m = c * 10 ^ j"
    using shortest_nat [OF assms] by blast
  have c: "0 < c" using cj assms(1) by (cases c) auto
  have ds: "dec_digits m = dec_digits c @ replicate j CHR ''0''" using cj(2) digits_mult [OF c] by simp
  have "10 ^ (length (dec_digits m) - 1) < (10 ^ 16 :: nat)"
    using digits_lower [OF assms(1)] assms(2) by simp
  then have "length (dec_digits m) \<le> 16"
    using power_less_imp_less_exp [of "10 :: nat" "length (dec_digits m) - 1" 16] by simp
  then show ?thesis by (simp add: pos_to_string_def cj(1) Let_def ds)
qed

lemma num_to_string_int: "\<bar>n\<bar> < 2 ^ 53 \<Longrightarrow> num_to_string (Fin (of_int n)) = int_to_string n"
proof -
  assume n: "\<bar>n\<bar> < 2 ^ 53"
  have pos: "pos_to_string (of_int k) = dec_digits (nat k)" if "0 < k" "k < 2 ^ 53" for k :: int
    using num_to_string_nat [of "nat k"] that by (simp add: nat_less_iff)
  have "dec_digits 0 = ''0''" by (subst dec_digits.simps) simp
  with n pos [of n] pos [of "- n"] show ?thesis by (auto simp: int_to_string_def)
qed

text \<open>What may follow a number: nothing that would continue it.\<close>

definition number_end :: "string \<Rightarrow> bool" where
  "number_end r = (case r of [] \<Rightarrow> True | c # _ \<Rightarrow> \<not> is_digit c \<and> c \<notin> set ''.eE'')"

lemma digits_prefix:
  assumes "number_end r"
  shows "takeWhile is_digit (dec_digits m @ r) = dec_digits m" and "dropWhile is_digit (dec_digits m @ r) = r"
proof -
  have "takeWhile is_digit r = []" "dropWhile is_digit r = r"
    using assms by (auto simp: number_end_def split: list.splits)
  then show "takeWhile is_digit (dec_digits m @ r) = dec_digits m" and "dropWhile is_digit (dec_digits m @ r) = r"
    using digits_are_digits by (simp_all add: takeWhile_append2 dropWhile_append2 takeWhile_append dropWhile_append)
qed

lemma digits_no_minus: "\<not> starts_with (dec_digits m @ r) ''-''"
proof -
  obtain c cs where c: "dec_digits m = c # cs" by (cases "dec_digits m") simp_all
  then have "is_digit c" using digits_are_digits [of c m] by simp
  then show ?thesis using c by (auto simp: is_digit_def)
qed

lemma lex_number_int:
  assumes "number_end r" and "\<bar>n\<bar> < 2 ^ 53"
  shows "lex_number (int_to_string n @ r) = Some (Fin (of_int n), r)"
proof -
  define m where "m = nat \<bar>n\<bar>"
  have lead: "\<not> (hd (dec_digits m) = CHR ''0'' \<and> length (dec_digits m) \<noteq> 1)"
  proof (cases "m = 0")
    case True
    then show ?thesis by (subst (2) dec_digits.simps) simp
  qed (use digits_hd in auto)
  have no_dot: "\<not> starts_with r ''.''" and ex: "exponent r = Some (0, r)"
    using assms(1) by (auto simp: number_end_def exponent_def split: list.splits)
  have dec: "decimal (dec_digits m) [] 0 = of_nat m" by (simp add: decimal_def pow10_def)
  have int_m: "(of_nat m :: rat) = of_int \<bar>n\<bar>" by (simp add: m_def)
  show ?thesis
  proof (cases "n < 0")
    case True
    then have "int_to_string n = CHR ''-'' # dec_digits m" by (simp add: int_to_string_def m_def)
    moreover have "to_num (- of_nat m) = Fin (of_int n)"
      using True to_num_int [of n] assms(2) by (simp add: int_m)
    ultimately show ?thesis
      using lead no_dot ex dec by (simp add: lex_number_def Let_def digits_prefix [OF assms(1)])
  next
    case False
    then have "int_to_string n = dec_digits m" by (simp add: int_to_string_def m_def)
    moreover have "to_num (of_nat m) = Fin (of_int n)"
      using False to_num_int [of n] assms(2) by (simp add: int_m)
    ultimately show ?thesis
      using lead no_dot ex dec digits_no_minus [of m r]
      by (simp add: lex_number_def Let_def digits_prefix [OF assms(1)])
  qed
qed

section \<open>Strings as text\<close>

lemma digit_val_hex: "a < 16 \<Longrightarrow> digit_val (hex_digit a) = Some a"
  by (simp add: hex_digit_def digit_val_def Let_def)

lemma hex4_byte:
  assumes "n < 256"
  shows "hex4 [CHR ''0'', CHR ''0'', hex_digit (n div 16), hex_digit (n mod 16)] = Some n"
proof -
  have "digit_val CHR ''0'' = Some 0" by (simp add: digit_val_def)
  with assms show ?thesis by (simp add: hex4_def digit_val_hex)
qed

lemma lex_quote_char: "lex_string (quote_char c @ r) = map_option (apfst (Cons c)) (lex_string r)"
proof (cases "is_control c \<and> c \<notin> {CHR 0x08, CHR 0x0C, CHR 0x0A, CHR 0x0D, CHR 0x09}")
  case True
  define n :: nat where "n = of_char c"
  have n: "n < 32" using True by (simp add: is_control_def n_def)
  have q: "quote_char c = [CHR 0x5C, CHR ''u'', CHR ''0'', CHR ''0'', hex_digit (n div 16), hex_digit (n mod 16)]"
  proof -
    have "c \<noteq> CHR 0x22" "c \<noteq> CHR 0x5C" using n by (auto simp: n_def)
    with True show ?thesis by (simp add: quote_char_def n_def)
  qed
  have "hex4 (take 4 ([CHR ''0'', CHR ''0'', hex_digit (n div 16), hex_digit (n mod 16)] @ r)) = Some n"
    using n hex4_byte [of n] by simp
  moreover have "utf8 n = [c]" using n by (simp add: utf8_def) (simp add: n_def)
  ultimately have "unicode_escape ([CHR ''0'', CHR ''0'', hex_digit (n div 16), hex_digit (n mod 16)] @ r) = Some ([c], 4)"
    using n by (simp only: unicode_escape_def) simp
  moreover have "append [c] = Cons c" by (rule ext) simp
  ultimately show ?thesis unfolding q by (simp add: is_control_def)
next
  case False
  then show ?thesis by (auto simp: quote_char_def simple_escape_def is_control_def)
qed

lemma lex_quoted: "lex_string (concat (map quote_char s) @ CHR 0x22 # r) = Some (s, r)"
  by (induction s) (simp_all add: lex_quote_char)

section \<open>Values as tokens\<close>

text \<open>What is left of a value on the other side.\<close>

fun wire :: "jsval \<Rightarrow> jsval" where
  "wire JUndef = JNull"
| "wire (JNum (Fin q)) = JNum (Fin q)"
| "wire (JNum n) = JNull"
| "wire (JArr vs) = JArr (map wire vs)"
| "wire (JObj kvs) = JObj (map (\<lambda>(k, v). (k, wire v)) (filter (\<lambda>(k, v). v \<noteq> JUndef) kvs))"
| "wire v = v"

fun wireable :: "jsval \<Rightarrow> bool" where
  "wireable (JNum (Fin q)) = (\<exists>n. q = of_int n \<and> \<bar>n\<bar> < 2 ^ 53)"
| "wireable (JArr vs) = (\<forall>v \<in> set vs. wireable v)"
| "wireable (JObj kvs) = (distinct (map fst kvs) \<and> (\<forall>kv \<in> set kvs. wireable (snd kv)))"
| "wireable v = True"

definition sep_tokens :: "token list list \<Rightarrow> token list" where
  "sep_tokens tss = (case tss of [] \<Rightarrow> [] | ts # r \<Rightarrow> ts @ concat (map (Cons TComma) r))"

fun tokens_of :: "jsval \<Rightarrow> token list" where
  "tokens_of JUndef = [TNull]"
| "tokens_of JNull = [TNull]"
| "tokens_of (JBool b) = [if b then TTrue else TFalse]"
| "tokens_of (JNum (Fin q)) = [TNum (Fin q)]"
| "tokens_of (JNum n) = [TNull]"
| "tokens_of (JStr s) = [TStr s]"
| "tokens_of (JArr vs) = TOpenArr # sep_tokens (map tokens_of vs) @ [TCloseArr]"
| "tokens_of (JObj kvs) = TOpenObj
     # sep_tokens (map (\<lambda>(k, v). TStr k # TColon # tokens_of v) (filter (\<lambda>(k, v). v \<noteq> JUndef) kvs)) @ [TCloseObj]"

abbreviation lexes :: "string \<Rightarrow> token list \<Rightarrow> bool" where
  "lexes s ts \<equiv> \<forall>r us. number_end r \<longrightarrow> lex r = Some us \<longrightarrow> lex (s @ r) = Some (ts @ us)"

lemma lex_step: "lex_one s = Some (t, r) \<Longrightarrow> \<not> json_space (hd s) \<Longrightarrow> lex s = map_option (Cons t) (lex r)"
  by (cases s) (simp add: lex_one_def, subst lex.simps, simp add: Let_def)

lemma lex_punct [simp]:
  "lex (CHR ''['' # r) = map_option (Cons TOpenArr) (lex r)"
  "lex (CHR '']'' # r) = map_option (Cons TCloseArr) (lex r)"
  "lex (CHR ''{'' # r) = map_option (Cons TOpenObj) (lex r)"
  "lex (CHR ''}'' # r) = map_option (Cons TCloseObj) (lex r)"
  "lex (CHR '','' # r) = map_option (Cons TComma) (lex r)"
  "lex (CHR '':'' # r) = map_option (Cons TColon) (lex r)"
  by (rule lex_step; simp add: lex_one_def json_space_def)+

lemma lex_words [simp]:
  "lex (CHR ''n'' # CHR ''u'' # CHR ''l'' # CHR ''l'' # r) = map_option (Cons TNull) (lex r)"
  "lex (CHR ''t'' # CHR ''r'' # CHR ''u'' # CHR ''e'' # r) = map_option (Cons TTrue) (lex r)"
  "lex (CHR ''f'' # CHR ''a'' # CHR ''l'' # CHR ''s'' # CHR ''e'' # r) = map_option (Cons TFalse) (lex r)"
  by (rule lex_step; simp add: lex_one_def json_space_def)+

lemma lex_json_quote [simp]: "lex (json_quote s @ r) = map_option (Cons (TStr s)) (lex r)"
  by (rule lex_step) (simp_all add: lex_one_def json_quote_def json_space_def lex_quoted)

lemma lex_int:
  assumes "number_end r" and "\<bar>n\<bar> < 2 ^ 53"
  shows "lex (int_to_string n @ r) = map_option (Cons (TNum (Fin (of_int n)))) (lex r)"
proof -
  obtain c cs where c: "int_to_string n = c # cs" "c = CHR ''-'' \<or> is_digit c"
  proof (cases "n < 0")
    case False
    obtain c cs where "dec_digits (nat n) = c # cs" by (cases "dec_digits (nat n)") simp_all
    with False digits_are_digits [of c "nat n"] that show thesis by (simp add: int_to_string_def)
  qed (use that in \<open>simp add: int_to_string_def\<close>)
  then have ne: "c \<notin> set ''[]{},:ntf '' \<union> {CHR 0x22, CHR 0x09, CHR 0x0A, CHR 0x0D}" by (auto simp: is_digit_def)
  have "lex_one (int_to_string n @ r) = Some (TNum (Fin (of_int n)), r)"
    using lex_number_int [OF assms] ne unfolding c by (auto simp: lex_one_def)
  then show ?thesis by (rule lex_step) (use ne in \<open>simp add: c json_space_def\<close>)
qed

lemma append_comma: "append '','' = Cons CHR '',''"
  by (rule ext) simp

lemma lexes_sep:
  assumes "list_all2 lexes ss tss"
  shows "lexes (sep_by '','' ss) (sep_tokens tss)"
proof -
  have ends: "number_end (concat (map (\<lambda>t. '','' @ t) ss) @ r)" if "number_end r" for ss r
    using that by (cases ss) (simp_all add: number_end_def is_digit_def)
  have tail: "lexes (concat (map (\<lambda>t. '','' @ t) ss)) (concat (map (Cons TComma) tss))"
    if "list_all2 lexes ss tss" for ss tss
    using that
  proof (induction rule: list_all2_induct)
    case (Cons s ss ts tss)
    then show ?case using ends by simp
  qed simp
  show ?thesis
  proof (cases ss)
    case (Cons s ss')
    then show ?thesis
      using assms tail [of ss'] ends by (auto simp: sep_by_def sep_tokens_def list_all2_Cons1 append_comma)
  qed (use assms in \<open>simp add: sep_by_def sep_tokens_def\<close>)
qed

lemma lexes_stringify: "wireable v \<Longrightarrow> lexes (stringify v) (tokens_of v)"
proof (induction v rule: stringify.induct)
  case (4 q)
  then obtain n where n: "q = of_int n" "\<bar>n\<bar> < 2 ^ 53" by auto
  then have "stringify (JNum (Fin q)) = int_to_string n" by (simp only: stringify.simps num_to_string_int)
  with n lex_int show ?case by simp
next
  case (7 vs)
  then have "list_all2 lexes (map stringify vs) (map tokens_of vs)"
    unfolding list.rel_map list_all2_same by simp
  from lexes_sep [OF this] show ?case
    by (simp add: number_end_def is_digit_def)
next
  case (8 kvs)
  have m: "lexes (json_quote k @ '':'' @ stringify v) (TStr k # TColon # tokens_of v)"
    if "(k, v) \<in> set (filter (\<lambda>(k, v). v \<noteq> JUndef) kvs)" for k v
  proof -
    have "(k, v) \<in> set kvs" "v \<noteq> JUndef" using that by auto
    with 8 have "lexes (stringify v) (tokens_of v)" by fastforce
    then show ?thesis by simp
  qed
  have "list_all2 lexes (map (\<lambda>(k, v). json_quote k @ '':'' @ stringify v) (filter (\<lambda>(k, v). v \<noteq> JUndef) kvs))
      (map (\<lambda>(k, v). TStr k # TColon # tokens_of v) (filter (\<lambda>(k, v). v \<noteq> JUndef) kvs))"
    unfolding list.rel_map list_all2_same
  proof (rule ballI)
    fix x
    assume "x \<in> set (filter (\<lambda>(k, v). v \<noteq> JUndef) kvs)"
    with m [of "fst x" "snd x"] show "lexes (case x of (k, v) \<Rightarrow> json_quote k @ '':'' @ stringify v)
      (case x of (k, v) \<Rightarrow> TStr k # TColon # tokens_of v)" by (cases x) simp
  qed
  from lexes_sep [OF this] show ?case
    by (simp add: number_end_def is_digit_def)
qed auto

section \<open>The round trip\<close>

lemma tokens_first: "\<exists>t ts. tokens_of v = t # ts \<and> t \<noteq> TCloseArr \<and> t \<noteq> TCloseObj"
  by (cases v rule: tokens_of.cases) auto

abbreviation parses :: "jsval \<Rightarrow> bool" where
  "parses v \<equiv> \<forall>st ts. parse_tokens Value st (tokens_of v @ ts) = parse_tokens (After (wire v)) st ts"

lemma parse_elements:
  assumes "\<forall>v \<in> set (v # vs). parses v"
  shows "parse_tokens Value (FArr acc # st) (sep_tokens (map tokens_of (v # vs)) @ TCloseArr # ts)
    = parse_tokens (After (JArr (rev acc @ map wire (v # vs)))) st ts"
  using assms
proof (induction vs arbitrary: v acc)
  case (Cons w vs)
  have "sep_tokens (map tokens_of (v # w # vs)) = tokens_of v @ TComma # sep_tokens (map tokens_of (w # vs))"
    by (simp add: sep_tokens_def)
  with Cons show ?case by (simp add: parse_step_def)
qed (simp add: sep_tokens_def parse_step_def)

lemma parse_members:
  assumes "\<forall>m \<in> set (m # ms). parses (snd m)" and "distinct (map fst (kvs @ m # ms))"
  shows "parse_tokens (Key kvs) st (sep_tokens (map (\<lambda>(k, v). TStr k # TColon # tokens_of v) (m # ms)) @ TCloseObj # ts)
    = parse_tokens (After (JObj (kvs @ map (\<lambda>(k, v). (k, wire v)) (m # ms)))) st ts"
  using assms
proof (induction ms arbitrary: m kvs)
  case Nil
  then show ?case by (cases m) (auto simp: sep_tokens_def parse_step_def set_key_def)
next
  case (Cons m' ms)
  obtain k v where m: "m = (k, v)" by (cases m)
  let ?t = "\<lambda>(k, v). TStr k # TColon # tokens_of v"
  have "sep_tokens (map ?t (m # m' # ms)) = (TStr k # TColon # tokens_of v) @ TComma # sep_tokens (map ?t (m' # ms))"
    by (simp add: sep_tokens_def m)
  moreover have "set_key k (wire v) kvs = kvs @ [(k, wire v)]"
    using Cons.prems(2) by (auto simp: set_key_def m)
  moreover have "parses v" using Cons.prems(1) by (simp add: m)
  ultimately show ?case
    using Cons.IH [of m' "kvs @ [(k, wire v)]"] Cons.prems by (simp add: parse_step_def m)
qed

lemma parse_tokens_of: "wireable v \<Longrightarrow> parses v"
proof (induction v rule: tokens_of.induct)
  case (7 vs)
  show ?case
  proof (cases vs)
    case Nil
    then show ?thesis by (simp add: parse_step_def value_token_def sep_tokens_def)
  next
    case (Cons v vs')
    obtain t us where t: "tokens_of v = t # us" "t \<noteq> TCloseArr" using tokens_first by blast
    have open_elem: "parse_tokens Value_or_close st (sep_tokens (map tokens_of vs) @ ts)
      = parse_tokens Value st (sep_tokens (map tokens_of vs) @ ts)" for st ts
      using t by (cases t) (simp_all add: Cons sep_tokens_def parse_step_def split: list.splits frame.splits)
    have "\<forall>v \<in> set (v # vs'). parses v" using 7 Cons by auto
    from parse_elements [OF this, of "[]"] show ?thesis
      by (simp add: parse_step_def value_token_def open_elem) (simp add: Cons)
  qed
next
  case (8 kvs)
  define ms where "ms = filter (\<lambda>(k, v). v \<noteq> JUndef) kvs"
  show ?case
  proof (cases ms)
    case Nil
    then show ?thesis by (simp add: parse_step_def value_token_def sep_tokens_def ms_def)
  next
    case (Cons m ms')
    have ps: "\<forall>m \<in> set (m # ms'). parses (snd m)"
      using 8 unfolding Cons [symmetric] by (auto simp: ms_def)
    have "distinct (map fst ms)" using 8(2) by (simp add: ms_def distinct_map_filter)
    then have dist: "distinct (map fst ([] @ m # ms'))" by (simp add: Cons)
    let ?t = "\<lambda>(k, v). TStr k # TColon # tokens_of v"
    have "parse_tokens Key_or_close st (sep_tokens (map ?t (m # ms')) @ ts)
      = parse_tokens (Key []) st (sep_tokens (map ?t (m # ms')) @ ts)" for st ts
      by (cases m) (simp add: sep_tokens_def parse_step_def)
    with parse_members [OF ps dist] show ?thesis
      by (simp add: parse_step_def value_token_def ms_def [symmetric] Cons)
  qed
qed (auto simp: parse_step_def value_token_def)

lemma json_roundtrip: "wireable v \<Longrightarrow> json_parse (stringify v) = Inr (wire v)"
proof -
  assume w: "wireable v"
  have "lex [] = Some []" by (subst lex.simps) simp
  then have "lex (stringify v) = Some (tokens_of v)"
    using lexes_stringify [OF w, rule_format, of "[]" "[]"] by (simp add: number_end_def)
  moreover have "parse_tokens Value [] (tokens_of v) = Some (wire v)"
    using parse_tokens_of [OF w, rule_format, of "[]" "[]"] by simp
  ultimately show ?thesis by (simp add: json_parse_def)
qed

end
