(* ===== verification/Types.thy ===== *)
theory Types
  imports Router Json_Facts "HOL-Library.Monad_Syntax"
begin

text \<open>
  \<open>lib/types.ts\<close>: the interfaces the browser code reads the server's answers as, one record each,
  with a reader from JSON. A member that may be missing is an option; the code that uses such a
  member treats null and a missing one alike, and so does the reader.
\<close>

section \<open>Reading members\<close>

definition member :: "jsval \<Rightarrow> string \<Rightarrow> jsval" where
  "member v k = (case get_prop v k of Inl e \<Rightarrow> JUndef | Inr x \<Rightarrow> x)"

definition as_str :: "jsval \<Rightarrow> string option" where
  "as_str v = (case v of JStr s \<Rightarrow> Some s | _ \<Rightarrow> None)"

definition as_num :: "jsval \<Rightarrow> jsnum option" where
  "as_num v = (case v of JNum n \<Rightarrow> Some n | _ \<Rightarrow> None)"

definition as_bool :: "jsval \<Rightarrow> bool option" where
  "as_bool v = (case v of JBool b \<Rightarrow> Some b | _ \<Rightarrow> None)"

definition as_record :: "jsval \<Rightarrow> jsval option" where
  "as_record v = (case v of JObj kvs \<Rightarrow> Some v | _ \<Rightarrow> None)"

definition as_opt :: "(jsval \<Rightarrow> 'a option) \<Rightarrow> jsval \<Rightarrow> 'a option option" where
  "as_opt f v = (if nullish v then Some None else map_option Some (f v))"

fun as_list :: "(jsval \<Rightarrow> 'a option) \<Rightarrow> jsval list \<Rightarrow> 'a list option" where
  "as_list f [] = Some []"
| "as_list f (v # vs) = do { x \<leftarrow> f v; xs \<leftarrow> as_list f vs; Some (x # xs) }"

definition as_array :: "(jsval \<Rightarrow> 'a option) \<Rightarrow> jsval \<Rightarrow> 'a list option" where
  "as_array f v = (case v of JArr vs \<Rightarrow> as_list f vs | _ \<Rightarrow> None)"

section \<open>The interfaces\<close>

record Queue =
  cq_id :: string
  cq_project_id :: string
  cq_name :: string
  cq_slug :: string
  cq_retry_policy_id :: "string option"
  cq_priority_default :: jsnum
  cq_concurrency_limit :: "jsnum option"
  cq_is_paused :: bool
  cq_created_at :: string
  cq_updated_at :: string

record QueueStats =
  cs_queue_id :: string
  cs_queue_name :: string
  cs_depth :: jsnum
  cs_throughput_1h :: jsnum
  cs_throughput_24h :: jsnum
  cs_success_rate :: jsnum
  cs_avg_latency_ms :: jsnum
  cs_p95_latency_ms :: jsnum

record Job =
  cj_id :: string
  cj_queue_id :: string
  cj_status :: string
  cj_priority :: jsnum
  cj_payload :: jsval
  cj_idempotency_key :: "string option"
  cj_next_run_at :: "string option"
  cj_attempts :: jsnum
  cj_max_attempts :: jsnum
  cj_retry_policy_id :: "string option"
  cj_worker_id :: "string option"
  cj_claimed_at :: "string option"
  cj_lease_expires_at :: "string option"
  cj_completed_at :: "string option"
  cj_failed_at :: "string option"
  cj_error_message :: "string option"
  cj_cron_expr :: "string option"
  cj_batch_id :: "string option"
  cj_created_at :: string
  cj_updated_at :: string

record JobExecution =
  ce_id :: string
  ce_job_id :: string
  ce_worker_id :: string
  ce_attempt :: jsnum
  ce_status :: string
  ce_started_at :: string
  ce_finished_at :: "string option"
  ce_error :: "string option"
  ce_duration_ms :: "jsnum option"

record JobLog =
  cg_id :: string
  cg_job_id :: string
  cg_level :: string
  cg_message :: string
  cg_metadata :: "jsval option"
  cg_created_at :: string

record WorkerInfo =
  cw_id :: string
  cw_name :: string
  cw_status :: string
  cw_last_seen_at :: "string option"
  cw_jobs_in_flight :: jsnum
  cw_created_at :: string
  cw_updated_at :: string

record DLQItem =
  cd_id :: string
  cd_job_id :: string
  cd_original_queue_id :: string
  cd_queue_name :: string
  cd_payload :: jsval
  cd_failed_at :: string
  cd_reason :: "string option"
  cd_attempts_made :: jsnum
  cd_created_at :: string

record 'a Page =
  pg_items :: "'a list"
  pg_next_cursor :: "string option"
  pg_has_more :: bool

record Project =
  cp_id :: string
  cp_org_id :: string
  cp_name :: string
  cp_slug :: string
  cp_description :: "string option"
  cp_created_at :: string
  cp_updated_at :: string

section \<open>Readers\<close>

definition as_Queue :: "jsval \<Rightarrow> Queue option" where
  "as_Queue v = do {
     i \<leftarrow> as_str (member v ''id''); p \<leftarrow> as_str (member v ''project_id''); n \<leftarrow> as_str (member v ''name'');
     s \<leftarrow> as_str (member v ''slug''); r \<leftarrow> as_opt as_str (member v ''retry_policy_id'');
     d \<leftarrow> as_num (member v ''priority_default''); c \<leftarrow> as_opt as_num (member v ''concurrency_limit'');
     b \<leftarrow> as_bool (member v ''is_paused''); t \<leftarrow> as_str (member v ''created_at''); u \<leftarrow> as_str (member v ''updated_at'');
     Some \<lparr>cq_id = i, cq_project_id = p, cq_name = n, cq_slug = s, cq_retry_policy_id = r, cq_priority_default = d,
       cq_concurrency_limit = c, cq_is_paused = b, cq_created_at = t, cq_updated_at = u\<rparr> }"

definition as_QueueStats :: "jsval \<Rightarrow> QueueStats option" where
  "as_QueueStats v = do {
     i \<leftarrow> as_str (member v ''queue_id''); n \<leftarrow> as_str (member v ''queue_name''); d \<leftarrow> as_num (member v ''depth'');
     h \<leftarrow> as_num (member v ''throughput_1h''); y \<leftarrow> as_num (member v ''throughput_24h'');
     s \<leftarrow> as_num (member v ''success_rate''); a \<leftarrow> as_num (member v ''avg_latency_ms'');
     p \<leftarrow> as_num (member v ''p95_latency_ms'');
     Some \<lparr>cs_queue_id = i, cs_queue_name = n, cs_depth = d, cs_throughput_1h = h, cs_throughput_24h = y,
       cs_success_rate = s, cs_avg_latency_ms = a, cs_p95_latency_ms = p\<rparr> }"

definition as_Job :: "jsval \<Rightarrow> Job option" where
  "as_Job v = do {
     i \<leftarrow> as_str (member v ''id''); q \<leftarrow> as_str (member v ''queue_id''); s \<leftarrow> as_str (member v ''status'');
     p \<leftarrow> as_num (member v ''priority''); y \<leftarrow> as_record (member v ''payload'');
     k \<leftarrow> as_opt as_str (member v ''idempotency_key''); n \<leftarrow> as_opt as_str (member v ''next_run_at'');
     a \<leftarrow> as_num (member v ''attempts''); m \<leftarrow> as_num (member v ''max_attempts'');
     r \<leftarrow> as_opt as_str (member v ''retry_policy_id''); w \<leftarrow> as_opt as_str (member v ''worker_id'');
     c \<leftarrow> as_opt as_str (member v ''claimed_at''); l \<leftarrow> as_opt as_str (member v ''lease_expires_at'');
     d \<leftarrow> as_opt as_str (member v ''completed_at''); f \<leftarrow> as_opt as_str (member v ''failed_at'');
     e \<leftarrow> as_opt as_str (member v ''error_message''); x \<leftarrow> as_opt as_str (member v ''cron_expr'');
     b \<leftarrow> as_opt as_str (member v ''batch_id''); t \<leftarrow> as_str (member v ''created_at''); u \<leftarrow> as_str (member v ''updated_at'');
     Some \<lparr>cj_id = i, cj_queue_id = q, cj_status = s, cj_priority = p, cj_payload = y, cj_idempotency_key = k,
       cj_next_run_at = n, cj_attempts = a, cj_max_attempts = m, cj_retry_policy_id = r, cj_worker_id = w,
       cj_claimed_at = c, cj_lease_expires_at = l, cj_completed_at = d, cj_failed_at = f, cj_error_message = e,
       cj_cron_expr = x, cj_batch_id = b, cj_created_at = t, cj_updated_at = u\<rparr> }"

definition as_JobExecution :: "jsval \<Rightarrow> JobExecution option" where
  "as_JobExecution v = do {
     i \<leftarrow> as_str (member v ''id''); j \<leftarrow> as_str (member v ''job_id''); w \<leftarrow> as_str (member v ''worker_id'');
     a \<leftarrow> as_num (member v ''attempt''); s \<leftarrow> as_str (member v ''status''); b \<leftarrow> as_str (member v ''started_at'');
     f \<leftarrow> as_opt as_str (member v ''finished_at''); e \<leftarrow> as_opt as_str (member v ''error'');
     d \<leftarrow> as_opt as_num (member v ''duration_ms'');
     Some \<lparr>ce_id = i, ce_job_id = j, ce_worker_id = w, ce_attempt = a, ce_status = s, ce_started_at = b,
       ce_finished_at = f, ce_error = e, ce_duration_ms = d\<rparr> }"

definition as_JobLog :: "jsval \<Rightarrow> JobLog option" where
  "as_JobLog v = do {
     i \<leftarrow> as_str (member v ''id''); j \<leftarrow> as_str (member v ''job_id''); l \<leftarrow> as_str (member v ''level'');
     m \<leftarrow> as_str (member v ''message''); d \<leftarrow> as_opt as_record (member v ''metadata''); t \<leftarrow> as_str (member v ''created_at'');
     Some \<lparr>cg_id = i, cg_job_id = j, cg_level = l, cg_message = m, cg_metadata = d, cg_created_at = t\<rparr> }"

definition as_WorkerInfo :: "jsval \<Rightarrow> WorkerInfo option" where
  "as_WorkerInfo v = do {
     i \<leftarrow> as_str (member v ''id''); n \<leftarrow> as_str (member v ''name''); s \<leftarrow> as_str (member v ''status'');
     l \<leftarrow> as_opt as_str (member v ''last_seen_at''); f \<leftarrow> as_num (member v ''jobs_in_flight'');
     t \<leftarrow> as_str (member v ''created_at''); u \<leftarrow> as_str (member v ''updated_at'');
     Some \<lparr>cw_id = i, cw_name = n, cw_status = s, cw_last_seen_at = l, cw_jobs_in_flight = f,
       cw_created_at = t, cw_updated_at = u\<rparr> }"

definition as_DLQItem :: "jsval \<Rightarrow> DLQItem option" where
  "as_DLQItem v = do {
     i \<leftarrow> as_str (member v ''id''); j \<leftarrow> as_str (member v ''job_id''); q \<leftarrow> as_str (member v ''original_queue_id'');
     n \<leftarrow> as_str (member v ''queue_name''); p \<leftarrow> as_record (member v ''payload''); f \<leftarrow> as_str (member v ''failed_at'');
     r \<leftarrow> as_opt as_str (member v ''reason''); a \<leftarrow> as_num (member v ''attempts_made''); t \<leftarrow> as_str (member v ''created_at'');
     Some \<lparr>cd_id = i, cd_job_id = j, cd_original_queue_id = q, cd_queue_name = n, cd_payload = p, cd_failed_at = f,
       cd_reason = r, cd_attempts_made = a, cd_created_at = t\<rparr> }"

definition as_Page :: "(jsval \<Rightarrow> 'a option) \<Rightarrow> jsval \<Rightarrow> 'a Page option" where
  "as_Page f v = do {
     xs \<leftarrow> as_array f (member v ''items''); c \<leftarrow> as_opt as_str (member v ''next_cursor'');
     h \<leftarrow> as_bool (member v ''has_more'');
     Some \<lparr>pg_items = xs, pg_next_cursor = c, pg_has_more = h\<rparr> }"

definition as_Project :: "jsval \<Rightarrow> Project option" where
  "as_Project v = do {
     i \<leftarrow> as_str (member v ''id''); g \<leftarrow> as_str (member v ''org_id''); n \<leftarrow> as_str (member v ''name'');
     s \<leftarrow> as_str (member v ''slug''); d \<leftarrow> as_opt as_str (member v ''description'');
     t \<leftarrow> as_str (member v ''created_at''); u \<leftarrow> as_str (member v ''updated_at'');
     Some \<lparr>cp_id = i, cp_org_id = g, cp_name = n, cp_slug = s, cp_description = d, cp_created_at = t, cp_updated_at = u\<rparr> }"

section \<open>The server's views conform\<close>

text \<open>What is read of an object after its transfer is what was put in, transferred.\<close>

lemma map_of_wire:
  "distinct (map fst kvs) \<Longrightarrow> map_of (map (\<lambda>(k, v). (k, wire v)) (filter (\<lambda>(k, v). v \<noteq> JUndef) kvs)) k
     = (case map_of kvs k of None \<Rightarrow> None | Some v \<Rightarrow> if v = JUndef then None else Some (wire v))"
proof (induction kvs)
  case (Cons kv kvs)
  moreover have "map_of kvs k = None" if "k = fst kv"
    using Cons.prems that by (simp add: map_of_eq_None_iff)
  ultimately show ?case by (cases kv) auto
qed simp

lemma object_value: "object fs = Inr v \<Longrightarrow> v = JObj (map (\<lambda>(k, r). (k, projr r)) fs)"
proof (induction fs arbitrary: v rule: object.induct)
  case (2 k r fs)
  show ?case
  proof (cases "object fs")
    case (Inr u)
    then have "u = JObj (map (\<lambda>(k, r). (k, projr r)) fs)" using 2 by (cases r) auto
    with Inr 2(2) show ?thesis by (auto split: sum.splits)
  qed (use 2(2) in \<open>auto split: sum.splits\<close>)
qed simp

text \<open>An optional member as the reader sees it, for the three ways the server writes one.\<close>

definition sent :: "jsval \<Rightarrow> jsval" where
  "sent v = (if v = JUndef then JUndef else wire v)"

lemma read_sent [simp]:
  "as_str (sent (JStr s)) = Some s" "as_num (sent (JNum (Fin q))) = Some (Fin q)" "as_bool (sent (JBool b)) = Some b"
  "as_opt as_str (sent (opt_undef JStr x)) = Some x" "as_opt as_str (sent (opt_json JStr x)) = Some x"
  "as_opt as_num (sent (opt_undef JInt y)) = Some (map_option (\<lambda>n. Fin (of_int n)) y)"
  "as_opt as_num (sent (opt_json JInt y)) = Some (map_option (\<lambda>n. Fin (of_int n)) y)"
  by (auto simp: sent_def as_str_def as_num_def as_bool_def as_opt_def opt_undef_def opt_json_def nullish_def
           split: option.splits)

definition iso :: "timestamp \<Rightarrow> string" where
  "iso t = iso_string (date_ms t)"

lemma read_toIso [simp]:
  "\<not> isl (toIso x) \<Longrightarrow> as_opt as_str (sent (projr (toIso x))) = Some (map_option iso x)"
  "\<not> isl (toIso (Some t)) \<Longrightarrow> as_str (sent (projr (toIso (Some t)))) = Some (iso t)"
  by (auto simp: toIso_def sent_def as_opt_def as_str_def nullish_def iso_def split: option.splits if_splits)

lemma read_date [simp]:
  "valid_date t \<Longrightarrow> as_str (sent (date_json t)) = Some (iso t)"
  "(\<And>t. x = Some t \<Longrightarrow> valid_date t) \<Longrightarrow> as_opt as_str (sent (opt_json date_json x)) = Some (map_option iso x)"
  by (auto simp: date_json_def sent_def as_opt_def as_str_def nullish_def iso_def opt_json_def split: option.splits)

lemma member_sent:
  "distinct (map fst kvs) \<Longrightarrow> member (wire (JObj kvs)) k = (case map_of kvs k of None \<Rightarrow> JUndef | Some v \<Rightarrow> sent v)"
  using map_of_wire [of kvs k] by (auto simp: member_def sent_def split: option.splits)

lemma object_isl: "object fs = Inr v \<Longrightarrow> r \<in> snd ` set fs \<Longrightarrow> \<not> isl r"
  using object_ok [of fs] by force

lemma object_member:
  assumes "object fs = Inr v" and "distinct (map fst fs)"
  shows "member (wire v) k = (case map_of fs k of None \<Rightarrow> JUndef | Some r \<Rightarrow> sent (projr r))"
proof -
  have "distinct (map fst (map (\<lambda>(k, r). (k, projr r)) fs))" using assms(2) by (simp add: comp_def split_beta)
  then show ?thesis
    unfolding object_value [OF assms(1)] by (subst member_sent) (auto simp: map_of_map split: option.splits)
qed

lemma Queue_of_view:
  assumes "mapQueue r = Inr v"
  shows "as_Queue (wire v) = Some \<lparr>cq_id = q_id r, cq_project_id = q_project_id r, cq_name = q_name r, cq_slug = q_slug r,
    cq_retry_policy_id = q_retry_policy_id r, cq_priority_default = Fin (of_int (q_priority_default r)),
    cq_concurrency_limit = map_option (\<lambda>n. Fin (of_int n)) (q_concurrency_limit r), cq_is_paused = q_paused r,
    cq_created_at = iso (q_created_at r), cq_updated_at = iso (q_updated_at r)\<rparr>"
proof -
  have "\<not> isl (toIso (Some (q_created_at r)))" "\<not> isl (toIso (Some (q_updated_at r)))"
    by (rule object_isl [OF assms [unfolded mapQueue_def]], simp)+
  moreover note object_member [OF assms [unfolded mapQueue_def]]
  ultimately show ?thesis
    unfolding as_Queue_def by (simp del: wire.simps)
qed

lemma Job_of_view:
  assumes "mapJob r = Inr v" and "payload_value (j_payload r) = Inr p"
  shows "as_Job (wire v) = map_option (\<lambda>y.
    \<lparr>cj_id = j_id r, cj_queue_id = j_queue_id r, cj_status = status_text (j_status r), cj_priority = Fin (of_int (j_priority r)),
     cj_payload = y, cj_idempotency_key = j_idempotency_key r, cj_next_run_at = map_option iso (j_next_run_at r),
     cj_attempts = Fin (of_int (j_attempts r)), cj_max_attempts = Fin (of_int (j_max_attempts r)),
     cj_retry_policy_id = j_retry_policy_id r, cj_worker_id = j_worker_id r, cj_claimed_at = map_option iso (j_claimed_at r),
     cj_lease_expires_at = map_option iso (j_lease_expires_at r), cj_completed_at = map_option iso (j_completed_at r),
     cj_failed_at = map_option iso (j_failed_at r), cj_error_message = j_error_message r, cj_cron_expr = j_cron_expr r,
     cj_batch_id = j_batch_id r, cj_created_at = iso (j_created_at r), cj_updated_at = iso (j_updated_at r)\<rparr>) (as_record (sent p))"
proof -
  note no_exn = object_isl [OF assms(1) [unfolded mapJob_def]]
  have "\<not> isl (toIso (j_next_run_at r))" "\<not> isl (toIso (j_claimed_at r))" "\<not> isl (toIso (j_lease_expires_at r))"
    "\<not> isl (toIso (j_completed_at r))" "\<not> isl (toIso (j_failed_at r))" "\<not> isl (toIso (Some (j_created_at r)))"
    "\<not> isl (toIso (Some (j_updated_at r)))"
    by (rule no_exn, simp)+
  moreover note mem = object_member [OF assms(1) [unfolded mapJob_def]]
  ultimately show ?thesis
    unfolding as_Job_def mem assms(2)
    by (cases "as_record (sent p)") simp_all
qed

end
