(* ===== verification/Format.thy ===== *)
theory Format
  imports Types
begin

text \<open>
  \<open>lib/format.ts\<close> and \<open>lib/status.ts\<close>: how the console writes times, names, numbers and
  statuses, with the two components that render them directly (\<open>components/ui/CopyId.tsx\<close>,
  \<open>components/ui/StatusChip.tsx\<close>). What \<open>Date.parse\<close> makes of a text is a parameter, since the
  language leaves it to the implementation for all but one format.
\<close>

section \<open>Splitting\<close>

text \<open>\<open>s.split(d)\<close> with a separator of one character.\<close>

fun parts :: "'a \<Rightarrow> 'a list \<Rightarrow> 'a list list" where
  "parts d [] = [[]]"
| "parts d (c # s) = (if c = d then [] # parts d s
     else (case parts d s of p # ps \<Rightarrow> (c # p) # ps | [] \<Rightarrow> [[c]]))"

lemma parts_ne [simp]: "parts d s \<noteq> []"
  by (induction s) (auto split: list.splits)

lemma parts_none: "d \<notin> set s \<Longrightarrow> parts d s = [s]"
  by (induction s) auto

lemma parts_first: "d \<notin> set s \<Longrightarrow> parts d (s @ d # r) = s # parts d r"
  by (induction s) auto

section \<open>Relative times\<close>

definition formatRelativeTime :: "(string \<Rightarrow> jsnum) \<Rightarrow> int \<Rightarrow> string \<Rightarrow> string" where
  "formatRelativeTime parse now ts =
     (let diff = num_sub (Fin (of_int now)) (parse ts);
          secs = num_floor (num_div diff (Fin 1000)) in
      if num_lt secs (Fin 5) then ''just now''
      else if num_lt secs (Fin 60) then num_to_string secs @ ''s ago''
      else let mins = num_floor (num_div secs (Fin 60)) in
      if num_lt mins (Fin 60) then num_to_string mins @ ''m ago''
      else let hrs = num_floor (num_div mins (Fin 60)) in
      if num_lt hrs (Fin 24) then num_to_string hrs @ ''h ago''
      else let days = num_floor (num_div hrs (Fin 24)) in num_to_string days @ ''d ago'')"

text \<open>The label that the component \<open>RelativeTime\<close> sets at every tick.\<close>

definition RelativeTime_tick :: "(string \<Rightarrow> jsnum) \<Rightarrow> int \<Rightarrow> string \<Rightarrow> string" where
  "RelativeTime_tick parse now ts =
     (let diff = num_sub (Fin (of_int now)) (parse ts);
          secs = num_floor (num_div diff (Fin 1000)) in
      if num_lt secs (Fin 5) then ''just now''
      else if num_lt secs (Fin 60) then num_to_string secs @ ''s ago''
      else if num_lt secs (Fin 3600) then num_to_string (num_floor (num_div secs (Fin 60))) @ ''m ago''
      else if num_lt secs (Fin 86400) then num_to_string (num_floor (num_div secs (Fin 3600))) @ ''h ago''
      else num_to_string (num_floor (num_div secs (Fin 86400))) @ ''d ago'')"

section \<open>Names\<close>

definition em_dash :: string where
  "em_dash = utf8 0x2014"

definition ellipsis :: string where
  "ellipsis = utf8 0x2026"

text \<open>\<open>typeof v === "string" ? v : null\<close>, and then its truth value: a string that is not empty.\<close>

definition text_of :: "jsval \<Rightarrow> string" where
  "text_of v = (case v of JStr s \<Rightarrow> s | _ \<Rightarrow> [])"

definition jobDisplayName :: "string option \<Rightarrow> jsval \<Rightarrow> string option \<Rightarrow> string \<Rightarrow> string" where
  "jobDisplayName idempotency_key payload cron_expr fallback =
     (case idempotency_key of Some (c # k) \<Rightarrow> c # k
      | _ \<Rightarrow>
        if (case payload of JObj _ \<Rightarrow> True | JArr _ \<Rightarrow> True | _ \<Rightarrow> False) then
          (let type = text_of (member payload ''type''); message = text_of (member payload ''message'') in
           if type \<noteq> [] \<and> message \<noteq> [] then type @ '' '' @ em_dash @ '' '' @ message
           else if type \<noteq> [] \<and> cron_expr \<notin> {None, Some []} then type @ '' (recurring)''
           else (case member payload ''duration_ms'' of
                   JNum n \<Rightarrow> if type \<noteq> [] then type @ '' ('' @ num_to_string n @ ''ms)'' else fallback
                 | _ \<Rightarrow> if type \<noteq> [] then type else fallback))
        else fallback)"

definition unnamed_job :: string where
  "unnamed_job = ''Unnamed job''"

definition queueName :: "string \<Rightarrow> Queue list \<Rightarrow> string" where
  "queueName queueId queues =
     (case List.find (\<lambda>q. cq_id q = queueId) queues of Some q \<Rightarrow> cq_name q | None \<Rightarrow> ''Unknown queue'')"

definition workerName :: "string \<Rightarrow> WorkerInfo list \<Rightarrow> string" where
  "workerName workerId workers =
     (case List.find (\<lambda>w. cw_id w = workerId) workers of Some w \<Rightarrow> cw_name w | None \<Rightarrow> ''Unknown worker'')"

text \<open>\<open>[a-z0-9]\<close>\<close>

definition slug_char :: "char \<Rightarrow> bool" where
  "slug_char c \<longleftrightarrow> (let n = of_char c :: nat in 97 \<le> n \<and> n \<le> 122 \<or> 48 \<le> n \<and> n \<le> 57)"

text \<open>\<open>replace(/[^a-z0-9]+/g, "-")\<close>: a run of bytes outside the class is a run of characters outside it.\<close>

function dash_runs :: "string \<Rightarrow> string" where
  "dash_runs [] = []"
| "dash_runs (c # s) = (if slug_char c then c # dash_runs s
     else CHR ''-'' # dash_runs (dropWhile (\<lambda>d. \<not> slug_char d) s))"
  by pat_completeness auto
termination
  by (relation "measure length") (auto simp: le_imp_less_Suc length_dropWhile_le)

text \<open>\<open>replace(/^-+|-+$/g, "")\<close>\<close>

definition strip_dashes :: "string \<Rightarrow> string" where
  "strip_dashes s = rev (dropWhile (\<lambda>c. c = CHR ''-'') (rev (dropWhile (\<lambda>c. c = CHR ''-'') s)))"

definition slugifyName :: "string \<Rightarrow> string" where
  "slugifyName name = strip_dashes (dash_runs (to_lower (trim name)))"

text \<open>Length and prefix in UTF-16 units; a prefix may end with half of a surrogate pair.\<close>

definition group_length :: "char \<Rightarrow> nat" where
  "group_length c = (let n = of_char c :: nat in
     if n < 0xC0 then 1 else if n < 0xE0 then 2 else if n < 0xF0 then 3 else 4)"

lemma group_length_pos: "0 < group_length c"
  by (simp add: group_length_def Let_def)

function utf16_length :: "string \<Rightarrow> nat" where
  "utf16_length [] = 0"
| "utf16_length (c # s) = (if group_length c = 4 then 2 else 1) + utf16_length (drop (group_length c) (c # s))"
  by pat_completeness auto
termination
  by (relation "measure length") (auto simp: group_length_pos)

definition high_half :: "string \<Rightarrow> string" where
  "high_half g = (case map (\<lambda>c. of_char c :: nat) g of
       [a, b, c, d] \<Rightarrow> utf8 (0xD800 + ((a mod 8) * 262144 + (b mod 64) * 4096 + (c mod 64) * 64 + d mod 64 - 0x10000) div 1024)
     | _ \<Rightarrow> [])"

function utf16_take :: "nat \<Rightarrow> string \<Rightarrow> string" where
  "utf16_take n [] = []"
| "utf16_take n (c # s) =
     (if n = 0 then []
      else if group_length c \<noteq> 4 then take (group_length c) (c # s) @ utf16_take (n - 1) (drop (group_length c) (c # s))
      else if n = 1 then high_half (take 4 (c # s))
      else take 4 (c # s) @ utf16_take (n - 2) (drop 4 (c # s)))"
  by pat_completeness auto
termination
  by (relation "measure fst") auto

definition truncateId :: "string \<Rightarrow> nat \<Rightarrow> string" where
  "truncateId i len = (if len < utf16_length i then utf16_take len i @ ellipsis else i)"

section \<open>Numbers\<close>

definition formatDuration :: "jsnum option \<Rightarrow> string" where
  "formatDuration ms = (case ms of None \<Rightarrow> em_dash
     | Some n \<Rightarrow> if num_lt n (Fin 1000) then num_to_string n @ ''ms'' else toFixed (num_div n (Fin 1000)) 2 @ ''s'')"

definition formatPercent :: "jsnum \<Rightarrow> string" where
  "formatPercent rate = toFixed (num_mul rate (Fin 100)) 1 @ ''%''"

section \<open>Statuses\<close>

text \<open>A member that is undefined is \<open>None\<close>.\<close>

record StatusStyle =
  sty_color :: "string option"
  sty_dim :: "string option"
  sty_label :: "string option"

definition style :: "string \<Rightarrow> string \<Rightarrow> StatusStyle" where
  "style name label = \<lparr>sty_color = Some (''var(--st-'' @ name @ '')''), sty_dim = Some (''var(--st-'' @ name @ ''-dim)''),
     sty_label = Some label\<rparr>"

definition STYLES :: "(string \<times> StatusStyle) list" where
  "STYLES =
     [(''queued'', style ''queued'' ''Queued''),
      (''scheduled'', style ''scheduled'' ''Scheduled''),
      (''claimed'', style ''claimed'' ''Claimed''),
      (''running'', style ''running'' ''Running''),
      (''completed'', style ''completed'' ''Completed''),
      (''failed'', style ''failed'' ''Failed''),
      (''dead_letter'', style ''dead'' ''Dead letter''),
      (''dead'', style ''dead'' ''Dead''),
      (''retrying'', style ''retrying'' ''Retrying''),
      (''active'', style ''active'' ''Active''),
      (''offline'', style ''offline'' ''Offline''),
      (''paused'', style ''paused'' ''Paused'')]"

lemma trim_start_shorter: "space_prefix ws s = Some n \<Longrightarrow> length (trim_start ws s) < length s"
proof (induction ws s arbitrary: n rule: trim_start.induct)
  case (1 ws s)
  from 1(2) obtain p where "starts_with s p" "p \<noteq> []" "n = length p" by (auto simp: space_prefix_def find_Some_iff)
  then have lt: "length (drop n s) < length s" by (auto simp: starts_with_iff)
  show ?case
  proof (cases "space_prefix ws (drop n s)")
    case None
    then show ?thesis using lt 1(2) by (simp add: trim_start.simps [of ws s] trim_start.simps [of ws "drop n s"])
  next
    case (Some m)
    with 1 lt show ?thesis by (fastforce simp: trim_start.simps [of ws s])
  qed
qed

text \<open>\<open>replace(/\s+/g, "_")\<close>\<close>

function underscore_spaces :: "string \<Rightarrow> string" where
  "underscore_spaces s = (case space_prefix js_space s of
       Some n \<Rightarrow> CHR ''_'' # underscore_spaces (trim_start js_space s)
     | None \<Rightarrow> (case s of [] \<Rightarrow> [] | c # r \<Rightarrow> c # underscore_spaces r))"
  by pat_completeness auto
termination
  by (relation "measure length") (auto simp: trim_start_shorter)

declare underscore_spaces.simps [simp del]

text \<open>
  A name that \<open>STYLES\<close> inherits from the prototype of all objects gives an object without these
  members; of those names only two have no capital letter.
\<close>

definition getStatusStyle :: "string \<Rightarrow> StatusStyle" where
  "getStatusStyle status = (let key = underscore_spaces (to_lower status) in
     case map_of STYLES key of Some st \<Rightarrow> st
     | None \<Rightarrow> if key \<in> {''constructor'', ''__proto__''} then \<lparr>sty_color = None, sty_dim = None, sty_label = None\<rparr>
       else \<lparr>sty_color = Some ''var(--text-tertiary)'', sty_dim = Some ''var(--bg-surface-2)'', sty_label = Some status\<rparr>)"

definition JOB_STATUSES :: "string list" where
  "JOB_STATUSES = [''queued'', ''scheduled'', ''claimed'', ''running'', ''completed'', ''failed'', ''dead_letter'']"

text \<open>The chip: its style and whether its dot pulses.\<close>

definition StatusChip :: "string \<Rightarrow> bool \<Rightarrow> StatusStyle \<times> bool" where
  "StatusChip status pulse = (getStatusStyle status, pulse \<or> status = ''running'' \<or> status = ''active'')"

end
