(* ===== verification/Client.thy ===== *)
theory Client
  imports Format
begin

text \<open>
  \<open>lib/api.ts\<close> and \<open>lib/use-api.ts\<close>: the browser's side of the API. A call is a program over the
  state of the browser and the state of the server: what \<open>fetch\<close> does is the server's own
  \<open>dispatch\<close>, step by step, so other requests may interleave with it. The network and the parsing
  of URLs are parameters.
\<close>

section \<open>The browser\<close>

text \<open>What becomes of a request: it never arrives, its answer is lost, or all goes well.\<close>

datatype delivery = Lost_request | Lost_answer | Delivered

record client =
  c_token :: "string option" \<comment> \<open>\<open>scheduler_token\<close> in the local storage\<close>
  c_pathname :: string
  c_calls :: nat \<comment> \<open>the requests made so far\<close>

datatype api_exn =
    Error string
  | Bad_json \<comment> \<open>the body of an answer is not JSON\<close>
  | Bad_body exn \<comment> \<open>an exception while the body of an answer is read\<close>

text \<open>
  \<open>b_url\<close> gives the path segments and the query parameters of a URL below \<open>/api\<close>, as the server's
  framework hands them to the route; \<open>b_query\<close> is \<open>URLSearchParams.toString\<close>. \<open>b_native\<close> is the
  message of an error that the browser's engine throws itself, \<open>b_lower\<close> is \<open>toLowerCase\<close> on all of
  Unicode.
\<close>

record browser =
  b_net :: "nat \<Rightarrow> delivery"
  b_url :: "string \<Rightarrow> string list \<times> (string \<times> string) list"
  b_query :: "(string \<times> string) list \<Rightarrow> string"
  b_native :: "api_exn \<Rightarrow> string"
  b_lower :: "string \<Rightarrow> string"

type_synonym 'a ui = "(client \<times> world, api_exn, 'a) prog"

text \<open>A server program seen from the browser: it works on the server's state, and an exception is a value.\<close>

primrec liftP :: "('w, 'e, 'a) prog \<Rightarrow> ('c \<times> 'w, 'f, 'e + 'a) prog" where
  "liftP (Ret x) = Ret (Inr x)"
| "liftP (Throw e) = Ret (Inl e)"
| "liftP (Atom f) = Atom (\<lambda>cw. map_prod liftP (Pair (fst cw)) (f (snd cw)))"

definition on_client :: "(client \<Rightarrow> 'a \<times> client) \<Rightarrow> 'a ui" where
  "on_client f = atom (\<lambda>(c, w). case f c of (x, c') \<Rightarrow> (Inr x, (c', w)))"

section \<open>Requests\<close>

definition getToken :: "client \<Rightarrow> string option" where
  "getToken c = c_token c"

definition setToken :: "string \<Rightarrow> client \<Rightarrow> client" where
  "setToken token c = c\<lparr>c_token := Some token\<rparr>"

definition clearToken :: "client \<Rightarrow> client" where
  "clearToken c = c\<lparr>c_token := None\<rparr>"

definition hasToken :: "client \<Rightarrow> bool" where
  "hasToken c \<longleftrightarrow> getToken c \<notin> {None, Some []}"

record call =
  rc_path :: string
  rc_method :: string
  rc_auth :: bool
  rc_body :: "string option"

definition http_request :: "browser \<Rightarrow> string option \<Rightarrow> call \<Rightarrow> Auth.request" where
  "http_request B token k = (case b_url B (rc_path k) of (path, query) \<Rightarrow>
     \<lparr>rq_method = rc_method k, rq_path = path,
      rq_auth = (case token of Some (a # t) \<Rightarrow> Some (''Bearer '' @ a # t) | _ \<Rightarrow> None),
      rq_body = (case rc_body k of None \<Rightarrow> [] | Some s \<Rightarrow> s), rq_query = query\<rparr>)"

text \<open>\<open>fetch\<close>; it rejects when no answer arrives. A route that throws is answered by the framework.\<close>

definition fetch :: "browser \<Rightarrow> env \<Rightarrow> string option \<Rightarrow> call \<Rightarrow> response option ui" where
  "fetch B E token k =
     bindP (on_client (\<lambda>c. (b_net B (c_calls c), c\<lparr>c_calls := Suc (c_calls c)\<rparr>))) (\<lambda>net.
     if net = Lost_request then Ret None
     else bindP (liftP (dispatch E (http_request B token k) (Some (fst (b_url B (rc_path k)))))) (\<lambda>r.
       Ret (if net = Lost_answer then None
            else Some (case r of Inl e \<Rightarrow> \<lparr>rs_status = 500, rs_data = None\<rparr> | Inr res \<Rightarrow> res))))"

text \<open>\<open>res.json()\<close> and \<open>res.ok\<close>\<close>

definition res_json :: "response \<Rightarrow> jsval option" where
  "res_json res = (case rs_data res of None \<Rightarrow> None
     | Some v \<Rightarrow> (case json_parse (stringify v) of Inl e \<Rightarrow> None | Inr u \<Rightarrow> Some u))"

definition res_ok :: "response \<Rightarrow> bool" where
  "res_ok res \<longleftrightarrow> 200 \<le> rs_status res \<and> rs_status res < 300"

definition session_expired :: "client \<Rightarrow> client" where
  "session_expired c = (let c' = clearToken c in if c_pathname c' \<noteq> ''/login'' then c'\<lparr>c_pathname := ''/login''\<rparr> else c')"

text \<open>The message of an answer that is not a success.\<close>

definition answer_error :: "response \<Rightarrow> api_exn" where
  "answer_error res =
     (let body = (case res_json res of None \<Rightarrow> JObj [] | Some v \<Rightarrow> v) in
      case get_prop body ''error'' of Inl e \<Rightarrow> Bad_body e
      | Inr m \<Rightarrow> (case js_String (js_or m (JStr (''HTTP '' @ int_to_string (int (rs_status res))))) of
                    Inl e \<Rightarrow> Bad_body e | Inr s \<Rightarrow> Error s))"

definition unreachable :: string where
  "unreachable = ''Cannot reach the API. Check your connection or redeploy the Vercel app.''"

definition api_request :: "browser \<Rightarrow> env \<Rightarrow> call \<Rightarrow> jsval ui" where
  "api_request B E k =
     bindP (on_client (\<lambda>c. (getToken c, c))) (\<lambda>token.
     bindP (fetch B E token k) (\<lambda>r.
     case r of None \<Rightarrow> Throw (Error unreachable)
     | Some res \<Rightarrow>
        if rs_status res = 401 \<and> rc_auth k then
          bindP (on_client (\<lambda>c. ((), session_expired c))) (\<lambda>_. Throw (Error ''Session expired. Sign in again.''))
        else if \<not> res_ok res then Throw (answer_error res)
        else (case res_json res of None \<Rightarrow> Throw Bad_json | Some v \<Rightarrow> Ret v)))"

section \<open>The endpoints\<close>

definition get_call :: "string \<Rightarrow> call" where
  "get_call path = \<lparr>rc_path = path, rc_method = ''GET'', rc_auth = True, rc_body = None\<rparr>"

definition send_call :: "string \<Rightarrow> string \<Rightarrow> string option \<Rightarrow> call" where
  "send_call method path body = \<lparr>rc_path = path, rc_method = method, rc_auth = True, rc_body = body\<rparr>"

definition api_login :: "browser \<Rightarrow> env \<Rightarrow> string \<Rightarrow> string \<Rightarrow> jsval ui" where
  "api_login B E email password = api_request B E
     \<lparr>rc_path = ''/auth/login'', rc_method = ''POST'', rc_auth = False,
      rc_body = Some (stringify (JObj [(''email'', JStr email), (''password'', JStr password)]))\<rparr>"

definition listProjects :: "browser \<Rightarrow> env \<Rightarrow> jsval ui" where
  "listProjects B E = api_request B E (get_call ''/projects'')"

definition createProject :: "browser \<Rightarrow> env \<Rightarrow> jsval \<Rightarrow> jsval ui" where
  "createProject B E data = api_request B E (send_call ''POST'' ''/projects'' (json_stringify data))"

definition listQueues :: "browser \<Rightarrow> env \<Rightarrow> jsval ui" where
  "listQueues B E = api_request B E (get_call ''/queues'')"

definition createQueue :: "browser \<Rightarrow> env \<Rightarrow> jsval \<Rightarrow> jsval ui" where
  "createQueue B E data = api_request B E (send_call ''POST'' ''/queues'' (json_stringify data))"

definition getQueue :: "browser \<Rightarrow> env \<Rightarrow> string \<Rightarrow> jsval ui" where
  "getQueue B E i = api_request B E (get_call (''/queues/'' @ i))"

definition getQueueStats :: "browser \<Rightarrow> env \<Rightarrow> string \<Rightarrow> jsval ui" where
  "getQueueStats B E i = api_request B E (get_call (''/queues/'' @ i @ ''/stats''))"

definition updateQueue :: "browser \<Rightarrow> env \<Rightarrow> string \<Rightarrow> jsval \<Rightarrow> jsval ui" where
  "updateQueue B E i data = api_request B E (send_call ''PUT'' (''/queues/'' @ i) (json_stringify data))"

definition pauseQueue :: "browser \<Rightarrow> env \<Rightarrow> string \<Rightarrow> jsval ui" where
  "pauseQueue B E i = api_request B E (send_call ''POST'' (''/queues/'' @ i @ ''/pause'') None)"

definition resumeQueue :: "browser \<Rightarrow> env \<Rightarrow> string \<Rightarrow> jsval ui" where
  "resumeQueue B E i = api_request B E (send_call ''POST'' (''/queues/'' @ i @ ''/resume'') None)"

definition with_query :: "browser \<Rightarrow> string \<Rightarrow> (string \<times> string) list \<Rightarrow> string" where
  "with_query B path params = (let qs = b_query B params in path @ (if qs \<noteq> [] then ''?'' @ qs else []))"

definition listJobs :: "browser \<Rightarrow> env \<Rightarrow> (string \<times> string) list \<Rightarrow> jsval ui" where
  "listJobs B E params = api_request B E (get_call (with_query B ''/jobs'' params))"

definition listQueueJobs :: "browser \<Rightarrow> env \<Rightarrow> string \<Rightarrow> (string \<times> string) list \<Rightarrow> jsval ui" where
  "listQueueJobs B E queueId params = api_request B E (get_call (with_query B (''/queues/'' @ queueId @ ''/jobs'') params))"

definition getJob :: "browser \<Rightarrow> env \<Rightarrow> string \<Rightarrow> jsval ui" where
  "getJob B E i = api_request B E (get_call (''/jobs/'' @ i))"

definition getJobExecutions :: "browser \<Rightarrow> env \<Rightarrow> string \<Rightarrow> jsval ui" where
  "getJobExecutions B E i = api_request B E (get_call (''/jobs/'' @ i @ ''/executions''))"

definition getJobLogs :: "browser \<Rightarrow> env \<Rightarrow> string \<Rightarrow> jsval ui" where
  "getJobLogs B E i = api_request B E (get_call (''/jobs/'' @ i @ ''/logs''))"

definition retryJob :: "browser \<Rightarrow> env \<Rightarrow> string \<Rightarrow> jsval ui" where
  "retryJob B E i = api_request B E (send_call ''POST'' (''/jobs/'' @ i @ ''/retry'') None)"

definition enqueueJob :: "browser \<Rightarrow> env \<Rightarrow> string \<Rightarrow> jsval \<Rightarrow> jsval ui" where
  "enqueueJob B E queueId data = api_request B E
     (send_call ''POST'' (''/queues/'' @ queueId @ ''/jobs'') (json_stringify data))"

definition listWorkers :: "browser \<Rightarrow> env \<Rightarrow> jsval ui" where
  "listWorkers B E = api_request B E (get_call ''/workers'')"

definition workerPulse :: "browser \<Rightarrow> env \<Rightarrow> jsval ui" where
  "workerPulse B E = api_request B E (get_call ''/worker/pulse'')"

definition listDLQ :: "browser \<Rightarrow> env \<Rightarrow> jsval ui" where
  "listDLQ B E = api_request B E (get_call ''/dlq'')"

section \<open>Hooks\<close>

text \<open>
  A hook is a key of the cache and the requests that fetch its value (several that run side by
  side for the statistics of all queues); with no key nothing is fetched.
\<close>

datatype hook =
    useQueues
  | useProjects
  | useQueueStats "string option"
  | useAllQueueStats "string list"
  | useJobs "(string \<times> string) list"
  | useJob "string option"
  | useJobExecutions "string option"
  | useJobLogs "string option"
  | useWorkers
  | useWorkerPulse
  | useDLQ

definition POLL :: nat where
  "POLL = 3000"

definition id_key :: "string \<Rightarrow> string option \<Rightarrow> string option" where
  "id_key pre i = (case i of Some (c # s) \<Rightarrow> Some (pre @ c # s) | _ \<Rightarrow> None)"

definition params_json :: "(string \<times> string) list \<Rightarrow> jsval" where
  "params_json params = JObj (map (apsnd JStr) params)"

fun hook_key :: "hook \<Rightarrow> string option" where
  "hook_key useQueues = Some ''queues''"
| "hook_key useProjects = Some ''projects''"
| "hook_key (useQueueStats i) = id_key ''queue-stats-'' i"
| "hook_key (useAllQueueStats is) = (if is \<noteq> [] then Some (''all-queue-stats-'' @ sep_by '','' is) else None)"
| "hook_key (useJobs params) = Some (''jobs-'' @ stringify (params_json params))"
| "hook_key (useJob i) = id_key ''job-'' i"
| "hook_key (useJobExecutions i) = id_key ''job-exec-'' i"
| "hook_key (useJobLogs i) = id_key ''job-logs-'' i"
| "hook_key useWorkers = Some ''workers''"
| "hook_key useWorkerPulse = Some ''worker-pulse''"
| "hook_key useDLQ = Some ''dlq''"

fun hook_requests :: "browser \<Rightarrow> env \<Rightarrow> hook \<Rightarrow> jsval ui list" where
  "hook_requests B E useQueues = [listQueues B E]"
| "hook_requests B E useProjects = [listProjects B E]"
| "hook_requests B E (useQueueStats i) = map (getQueueStats B E) (case i of Some s \<Rightarrow> [s] | None \<Rightarrow> [])"
| "hook_requests B E (useAllQueueStats is) = map (getQueueStats B E) is"
| "hook_requests B E (useJobs params) = [listJobs B E params]"
| "hook_requests B E (useJob i) = map (getJob B E) (case i of Some s \<Rightarrow> [s] | None \<Rightarrow> [])"
| "hook_requests B E (useJobExecutions i) = map (getJobExecutions B E) (case i of Some s \<Rightarrow> [s] | None \<Rightarrow> [])"
| "hook_requests B E (useJobLogs i) = map (getJobLogs B E) (case i of Some s \<Rightarrow> [s] | None \<Rightarrow> [])"
| "hook_requests B E useWorkers = [listWorkers B E]"
| "hook_requests B E useWorkerPulse = [workerPulse B E]"
| "hook_requests B E useDLQ = [listDLQ B E]"

section \<open>Runs\<close>

lemma run_lift [run_simps]:
  "runP (liftP p :: ('c \<times> 'w, 'f, 'e + 'a) prog) (c, w) = (Inr (fst (runP p w)), (c, snd (runP p w)))"
proof (induction p arbitrary: w)
  case (Atom f)
  let ?P = "\<lambda>p. \<forall>w. runP (liftP p :: ('c \<times> 'w, 'f, 'e + 'a) prog) (c, w) = (Inr (fst (runP p w)), (c, snd (runP p w)))"
  have "?P (fst (f w))" by (rule Atom_IH [of f ?P]) (use Atom in blast)
  then show ?case by (simp add: runP_Atom del: runP.simps(3))
qed auto

lemma run_on_client [run_simps]: "runP (on_client f) (c, w) = (case f c of (x, c') \<Rightarrow> (Inr x, (c', w)))"
  by (simp add: on_client_def)

text \<open>A request, run with nothing else in between.\<close>

definition sent_request :: "browser \<Rightarrow> client \<Rightarrow> call \<Rightarrow> Auth.request" where
  "sent_request B c k = http_request B (c_token c) k"

lemma run_fetch:
  "runP (fetch B E token k) (c, w) =
     (let c' = c\<lparr>c_calls := Suc (c_calls c)\<rparr> in
      case b_net B (c_calls c) of Lost_request \<Rightarrow> (Inr None, (c', w))
      | net \<Rightarrow> (case runP (handleApi E (http_request B token k)) w of (r, w') \<Rightarrow>
          (Inr (if net = Lost_answer then None
                else Some (case r of Inl e \<Rightarrow> \<lparr>rs_status = 500, rs_data = None\<rparr> | Inr res \<Rightarrow> res)), (c', w'))))"
proof -
  have path: "http_request B token k\<lparr>rq_path := fst (b_url B (rc_path k))\<rparr> = http_request B token k"
    by (simp add: http_request_def split: prod.splits)
  show ?thesis
    by (cases "b_net B (c_calls c)")
      (simp_all add: fetch_def run_simps dispatch_def path Let_def split_beta)
qed

end
