(* ===== verification/Client_Facts.thy ===== *)
theory Client_Facts
  imports Client Api_Props
begin

text \<open>
  How a call of the browser runs against the server when nothing interleaves: which URL reaches
  which route, and what the browser makes of each answer.
\<close>

section \<open>URLs\<close>

definition path_of :: "string list \<Rightarrow> string" where
  "path_of segs = concat (map (\<lambda>s. ''/'' @ s) segs)"

text \<open>A segment of unreserved characters, which no URL parser changes.\<close>

definition plain_char :: "char \<Rightarrow> bool" where
  "plain_char c \<longleftrightarrow> c \<in> set ''-_'' \<or> is_digit c \<or> slug_char (lower_char c)"

definition plain :: "string \<Rightarrow> bool" where
  "plain s \<longleftrightarrow> s \<noteq> [] \<and> (\<forall>c \<in> set s. plain_char c)"

text \<open>
  What is relied on of URLs: a path of such segments arrives as these segments, with the query
  parameters that were encoded.
\<close>

definition url_law :: "browser \<Rightarrow> bool" where
  "url_law B \<longleftrightarrow> b_query B [] = [] \<and> (\<forall>segs. (\<forall>s \<in> set segs. plain s) \<longrightarrow>
     b_url B (path_of segs) = (segs, []) \<and> (\<forall>ps. ps \<noteq> [] \<longrightarrow> b_query B ps \<noteq> [] \<and> b_url B (path_of segs @ ''?'' @ b_query B ps) = (segs, ps)))"

lemma plain_no_slash:
  assumes "plain s"
  shows "CHR ''/'' \<notin> set s"
proof -
  have "\<not> plain_char CHR ''/''" by code_simp
  with assms show ?thesis unfolding plain_def by blast
qed

lemma plain_words [simp]:
  "plain ''queues''" "plain ''jobs''" "plain ''pause''" "plain ''resume''" "plain ''stats''" "plain ''retry''"
  "plain ''executions''" "plain ''logs''" "plain ''projects''" "plain ''workers''" "plain ''dlq''" "plain ''worker''"
  "plain ''pulse''" "plain ''auth''" "plain ''login''"
  by code_simp+

lemma url_path:
  assumes "url_law B" and "\<forall>s \<in> set segs. plain s" and "rc_path k = path_of segs"
  shows "rq_path (http_request B token k) = segs" and "rq_query (http_request B token k) = []"
    and "rq_method (http_request B token k) = rc_method k"
    and "rq_body (http_request B token k) = (case rc_body k of None \<Rightarrow> [] | Some s \<Rightarrow> s)"
  using assms by (simp_all add: http_request_def url_law_def)

section \<open>Answers\<close>

text \<open>What the rest of \<open>request\<close> does with an answer.\<close>

definition settle :: "call \<Rightarrow> response \<Rightarrow> client \<Rightarrow> (api_exn + jsval) \<times> client" where
  "settle k res c =
     (if rs_status res = 401 \<and> rc_auth k then (Inl (Error ''Session expired. Sign in again.''), session_expired c)
      else if \<not> res_ok res then (Inl (answer_error res), c)
      else (case res_json res of None \<Rightarrow> Inl Bad_json | Some v \<Rightarrow> Inr v, c))"

lemma handle_value: "\<exists>r. fst (runP (handleApi E req) w) = Inr r"
  by (simp add: handleApi_def Let_def run_catch split: prod.splits sum.splits)

definition answer :: "env \<Rightarrow> Auth.request \<Rightarrow> world \<Rightarrow> response" where
  "answer E req w = projr (fst (runP (handleApi E req) w))"

lemma run_api_request:
  "runP (api_request B E k) (c, w) =
     (let c' = c\<lparr>c_calls := Suc (c_calls c)\<rparr>; req = http_request B (c_token c) k; w' = snd (runP (handleApi E req) w) in
      case b_net B (c_calls c) of
        Lost_request \<Rightarrow> (Inl (Error unreachable), (c', w))
      | Lost_answer \<Rightarrow> (Inl (Error unreachable), (c', w'))
      | Delivered \<Rightarrow> (case settle k (answer E req w) c' of (r, c'') \<Rightarrow> (r, (c'', w'))))"
proof -
  let ?req = "http_request B (c_token c) k"
  obtain r where r: "fst (runP (handleApi E ?req) w) = Inr r" using handle_value by blast
  then have a: "answer E ?req w = r" by (simp add: answer_def)
  show ?thesis
    by (cases "b_net B (c_calls c)")
      (simp_all add: api_request_def run_simps getToken_def run_fetch Let_def split_beta r a settle_def split: option.splits)
qed

text \<open>A call never returns a value when no answer of its route carries one.\<close>

definition no_value :: "response \<Rightarrow> bool" where
  "no_value r \<longleftrightarrow> \<not> res_ok r \<or> rs_data r = None"

lemma no_value_rejects:
  assumes "\<And>token. yields no_value (handleApi E (http_request B token k))"
  shows "isl (fst (runP (api_request B E k) (c, w)))"
proof -
  let ?req = "http_request B (c_token c) k"
  obtain r where r: "fst (runP (handleApi E ?req) w) = Inr r" using handle_value by blast
  then have "runP (handleApi E ?req) w = (Inr r, snd (runP (handleApi E ?req) w))" by (metis prod.collapse)
  with assms have "no_value r" by (rule yields_run)
  moreover have "answer E ?req w = r" by (simp add: answer_def r)
  ultimately show ?thesis
    by (simp add: run_api_request Let_def settle_def no_value_def res_json_def split_beta split: delivery.splits)
qed

lemma no_value_simps [simp]:
  "no_value no_content" "no_value unauthorized" "no_value (api_error E e)" "no_value (error_response m 404 c)"
  by (simp_all add: no_value_def res_ok_def no_content_def unauthorized_def api_error_def error_response_def json_def Let_def)

section \<open>Routes\<close>

lemma routes_queue:
  assumes "plain i" and "s \<noteq> []" and "\<not> has_line_end s" and "queue_routes E req g i s = Some r"
  shows "routes E req (''queues/'' @ i @ ''/'' @ s) g = r"
proof -
  have "match_sub ''queues'' (''queues/'' @ i @ ''/'' @ s) = Some (i, s)"
    unfolding match_sub_iff using assms(1-3) plain_no_slash by (auto simp: plain_def)
  with assms(4) show ?thesis by (simp add: routes_def sub_routes_def)
qed

lemma routes_queue_item:
  assumes "plain i" and "queue_routes E req g i [] = Some r"
  shows "routes E req (''queues/'' @ i) g = r"
proof -
  have "match_sub ''queues'' (''queues/'' @ i) = Some (i, [])"
    unfolding match_sub_iff using assms(1) plain_no_slash by (auto simp: plain_def)
  with assms(2) show ?thesis by (simp add: routes_def sub_routes_def)
qed

text \<open>A path below \<open>queues\<close> that no block of the router handles is not found.\<close>

lemma routes_queue_none:
  assumes "match_sub ''queues'' (''queues/'' @ x) = Some (i, s)" and "queue_routes E req g i s = None"
  shows "routes E req (''queues/'' @ x) g = Ret (error_response ''not found'' 404 ''NOT_FOUND'')"
proof -
  have "match_sub ''jobs'' (''queues/'' @ x) = None" by (simp add: match_sub_def)
  with assms show ?thesis by (simp add: routes_def sub_routes_def)
qed

text \<open>Everything but the login: without claims 401, otherwise the routes.\<close>

lemma yields_handle:
  assumes "sep_by ''/'' (rq_path req) \<noteq> ''auth/login''" and "Q unauthorized" and "\<And>e. Q (api_error E e)"
    and "\<And>g. yields Q (routes E req (sep_by ''/'' (rq_path req)) g)"
  shows "yields Q (handleApi E req)"
  unfolding handleApi_def Let_def using assms by (auto intro!: yields_catch yields_bind yields_option yields_Ret)

text \<open>The session of the browser, as the server sees it at a request.\<close>

definition session :: "env \<Rightarrow> client \<Rightarrow> world \<Rightarrow> claims option" where
  "session E c w = (case c_token c of Some (a # t) \<Rightarrow>
       (case e_jwt_verify E (secret E) (w_ops w) (a # t) of None \<Rightarrow> None | Some p \<Rightarrow> payload_claims p)
     | _ \<Rightarrow> None)"

lemma run_session: "runP (requireAuth E (http_request B (c_token c) k)) w = (Inr (session E c w), w)"
proof -
  have "rq_auth (http_request B (c_token c) k) = (case c_token c of Some (a # t) \<Rightarrow> Some (''Bearer '' @ a # t) | _ \<Rightarrow> None)"
    by (simp add: http_request_def split: prod.splits)
  then show ?thesis
    by (auto simp: run_requireAuth run_claimsFromRequest session_def split: option.splits list.splits)
qed

lemma run_handle_session:
  assumes "sep_by ''/'' (rq_path (http_request B (c_token c) k)) \<noteq> ''auth/login''" and "getUrl E = Inr u"
    and "session E c w = Some cl"
  shows "runP (handleApi E (http_request B (c_token c) k)) w =
    (case runP (routes E (http_request B (c_token c) k) (sep_by ''/'' (rq_path (http_request B (c_token c) k))) (cl_org_id cl)) w of
       (Inr r, w') \<Rightarrow> (Inr r, w') | (Inl e, w') \<Rightarrow> (Inr (api_error E e), w'))"
  using assms by (simp add: handleApi_def Let_def run_simps run_session getSql_def split: prod.splits sum.splits)

end
