(* ===== verification/Json_Pretty.thy ===== *)
theory Json_Pretty
  imports Json_Facts
begin

text \<open>
  \<open>JSON.stringify(v, null, 2)\<close>, the indented text the forms show and edit, and that it reads back
  like the text without spaces; and \<open>parseInt(s, 10)\<close>, with which the forms read numbers.
\<close>

section \<open>Indented text\<close>

definition line_end :: "string \<Rightarrow> string" where
  "line_end ind = CHR 0x0A # ind"

text \<open>Elements between brackets, one on each line; nothing between them when there are none.\<close>

definition block :: "string \<Rightarrow> string \<Rightarrow> string \<Rightarrow> string list \<Rightarrow> string" where
  "block ind l r ss = (if ss = [] then l @ r
     else l @ line_end (ind @ ''  '') @ sep_by ('','' @ line_end (ind @ ''  '')) ss @ line_end ind @ r)"

fun pretty :: "string \<Rightarrow> jsval \<Rightarrow> string" where
  "pretty ind (JArr vs) = block ind ''['' '']'' (map (pretty (ind @ ''  '')) vs)"
| "pretty ind (JObj kvs) = block ind ''{'' ''}''
     (map (\<lambda>(k, v). json_quote k @ '': '' @ pretty (ind @ ''  '') v) (filter (\<lambda>(k, v). v \<noteq> JUndef) kvs))"
| "pretty ind v = stringify v"

section \<open>It reads back\<close>

lemma json_space_simps [simp]: "json_space CHR 0x20" "json_space CHR 0x0A"
  by (simp_all add: json_space_def)

lemma lex_spaces: "\<forall>c \<in> set ws. json_space c \<Longrightarrow> lex (ws @ s) = lex s"
proof -
  assume "\<forall>c \<in> set ws. json_space c"
  then have "dropWhile json_space (ws @ s) = dropWhile json_space s" by (induction ws) auto
  then show ?thesis by (subst (1 2) lex.simps) (simp only:)
qed

lemma space_no_digit: "json_space c \<Longrightarrow> \<not> is_digit c \<and> c \<notin> set ''.eE''"
  unfolding json_space_def by (elim insertE) (simp_all add: is_digit_def)

lemma spaces_end: "\<forall>c \<in> set ws. json_space c \<Longrightarrow> number_end r \<Longrightarrow> number_end (ws @ r)"
proof (cases ws)
  case (Cons c ws')
  moreover assume "\<forall>c \<in> set ws. json_space c"
  ultimately show ?thesis using space_no_digit [of c] by (simp add: number_end_def)
qed simp

text \<open>Spaces may stand around every token.\<close>

lemma lexes_spaced:
  assumes "lexes s ts" and "\<forall>c \<in> set ws. json_space c" and "\<forall>c \<in> set ws'. json_space c"
  shows "lexes (ws @ s @ ws') ts"
  using assms lex_spaces [OF assms(2)] lex_spaces [OF assms(3)] spaces_end [OF assms(3)] by simp

lemma sep_by_spaced:
  "ss \<noteq> [] \<Longrightarrow> ws @ sep_by (d @ ws) ss = sep_by d (map (append ws) ss)"
  by (cases ss) (simp_all add: sep_by_def comp_def append_assoc [abs_def])

lemma lexes_block:
  assumes "list_all2 lexes ss tss" and "\<forall>c \<in> set ind. json_space c"
    and "(l, r, t1, t2) = (''['', '']'', TOpenArr, TCloseArr) \<or> (l, r, t1, t2) = (''{'', ''}'', TOpenObj, TCloseObj)"
  shows "lexes (block ind l r ss) (t1 # sep_tokens tss @ [t2])"
proof (cases "ss = []")
  case True
  with assms show ?thesis by (auto simp: block_def sep_tokens_def)
next
  case False
  let ?ws = "line_end (ind @ ''  '')"
  have ws: "\<forall>c \<in> set ?ws. json_space c" "\<forall>c \<in> set (line_end ind). json_space c"
    using assms(2) by (auto simp: line_end_def)
  have "list_all2 lexes (map (append ?ws) ss) tss"
    unfolding list.rel_map
    by (rule list.rel_mono_strong [OF assms(1)]) (use lex_spaces [OF ws(1)] in simp)
  from lexes_sep [OF this] have "lexes (sep_by '','' (map (append ?ws) ss)) (sep_tokens tss)" .
  then have body: "lexes (?ws @ sep_by ('','' @ ?ws) ss @ line_end ind) (sep_tokens tss)"
    using lexes_spaced [of "sep_by '','' (map (append ?ws) ss)" "sep_tokens tss" "[]" "line_end ind"] ws
      sep_by_spaced [OF False, of ?ws "'',''"] by (simp only: append_assoc [symmetric]) simp
  have "lex (block ind l r ss @ q) = Some ((t1 # sep_tokens tss @ [t2]) @ us)" if "lex q = Some us" for q us
  proof -
    have ne: "number_end (r @ q)" using assms(3) by (auto simp: number_end_def is_digit_def)
    have "lex (r @ q) = Some (t2 # us)" using assms(3) that by auto
    with body ne have "lex (?ws @ sep_by ('','' @ ?ws) ss @ line_end ind @ r @ q) = Some (sep_tokens tss @ t2 # us)"
      by (metis append_assoc)
    with False assms(3) show ?thesis by (auto simp: block_def)
  qed
  then show ?thesis by blast
qed

lemma lexes_pretty: "wireable v \<Longrightarrow> \<forall>c \<in> set ind. json_space c \<Longrightarrow> lexes (pretty ind v) (tokens_of v)"
proof (induction ind v rule: pretty.induct)
  case (1 ind vs)
  then have "list_all2 lexes (map (pretty (ind @ ''  '')) vs) (map tokens_of vs)"
    unfolding list.rel_map list_all2_same by auto
  from lexes_block [OF this 1(3), of "''[''" "'']''" TOpenArr TCloseArr] show ?case by simp
next
  case (2 ind kvs)
  have m: "lexes (json_quote k @ '': '' @ pretty (ind @ ''  '') v) (TStr k # TColon # tokens_of v)"
    if "(k, v) \<in> set (filter (\<lambda>(k, v). v \<noteq> JUndef) kvs)" for k v
  proof -
    have "(k, v) \<in> set kvs" using that by auto
    then have "lexes (pretty (ind @ ''  '') v) (tokens_of v)" using 2 that by fastforce
    then show ?thesis using lex_spaces [of "'' ''"] by simp
  qed
  have "list_all2 lexes (map (\<lambda>(k, v). json_quote k @ '': '' @ pretty (ind @ ''  '') v) (filter (\<lambda>(k, v). v \<noteq> JUndef) kvs))
      (map (\<lambda>(k, v). TStr k # TColon # tokens_of v) (filter (\<lambda>(k, v). v \<noteq> JUndef) kvs))"
    unfolding list.rel_map list_all2_same
  proof (rule ballI)
    fix x
    assume "x \<in> set (filter (\<lambda>(k, v). v \<noteq> JUndef) kvs)"
    with m [of "fst x" "snd x"] show "lexes (case x of (k, v) \<Rightarrow> json_quote k @ '': '' @ pretty (ind @ ''  '') v)
      (case x of (k, v) \<Rightarrow> TStr k # TColon # tokens_of v)" by (cases x) simp
  qed
  from lexes_block [OF this 2(3), of "''{''" "''}''" TOpenObj TCloseObj] show ?case by simp
qed (unfold pretty.simps, (rule lexes_stringify, assumption)+)

lemma pretty_roundtrip:
  assumes "wireable v"
  shows "json_parse (pretty [] v) = Inr (wire v)"
proof -
  have "lex [] = Some []" by (subst lex.simps) simp
  then have "lex (pretty [] v) = Some (tokens_of v)"
    using lexes_pretty [OF assms, of "[]"] by (force simp: number_end_def)
  moreover have "lex (stringify v) = Some (tokens_of v)"
    using lexes_stringify [OF assms] \<open>lex [] = Some []\<close> by (force simp: number_end_def)
  ultimately show ?thesis using json_roundtrip [OF assms] by (simp add: json_parse_def)
qed

section \<open>\<open>parseInt(s, 10)\<close>\<close>

text \<open>Spaces, a sign and the digits that follow; what comes after them is ignored.\<close>

definition parseInt :: "string \<Rightarrow> jsnum" where
  "parseInt s = (let t = trim_start js_space s; neg = starts_with t ''-'';
       ds = takeWhile is_digit (if neg \<or> starts_with t ''+'' then drop 1 t else t)
     in if ds = [] then NaN else to_num (if neg then - of_nat (dec_val ds) else of_nat (dec_val ds)))"

end
