(* ===== verification/Screen.thy ===== *)
theory Screen
  imports Client_Facts Json_Pretty
begin

text \<open>
  What the components of the console have in common. A component is a state and the calls it makes
  to the libraries and to its parent (\<open>effect\<close>); its asynchronous handlers are programs over that
  state, the browser and the server, so other handlers and requests may run while they wait. A
  handler works with the values of the state at the time it was called, as its closure does.
\<close>

section \<open>Components\<close>

datatype effect =
    Mutate string \<comment> \<open>\<open>mutate(key)\<close>: the value of this key is fetched again\<close>
  | Mutate_prefix string \<comment> \<open>\<open>mutate\<close> of every key with this prefix\<close>
  | Push string \<comment> \<open>\<open>router.push\<close>\<close>
  | Replace string \<comment> \<open>\<open>router.replace\<close>\<close>
  | Submitted jsval \<comment> \<open>\<open>onSubmitted\<close>\<close>
  | Created \<comment> \<open>\<open>onCreated\<close>\<close>
  | Updated \<comment> \<open>\<open>onUpdated\<close>\<close>
  | Closed \<comment> \<open>\<open>onClose\<close>\<close>

type_synonym ('s, 'a) handler = "(('s \<times> effect list) \<times> (client \<times> world), api_exn, 'a) prog"

definition set_state :: "('s \<Rightarrow> 's) \<Rightarrow> ('s, unit) handler" where
  "set_state f = atom (\<lambda>((s, es), cw). (Inr (), ((f s, es), cw)))"

definition emit :: "effect \<Rightarrow> ('s, unit) handler" where
  "emit e = atom (\<lambda>((s, es), cw). (Inr (), ((s, es @ [e]), cw)))"

definition set_client :: "(client \<Rightarrow> client) \<Rightarrow> ('s, unit) handler" where
  "set_client f = atom (\<lambda>(x, (c, w)). (Inr (), (x, (f c, w))))"

definition await :: "'a ui \<Rightarrow> ('s, 'a) handler" where
  "await p = bindP (liftP p) (\<lambda>r. case r of Inl e \<Rightarrow> Throw e | Inr v \<Rightarrow> Ret v)"

text \<open>\<open>v.k\<close>; the exception of a null is one of the engine's.\<close>

definition read_member :: "jsval \<Rightarrow> string \<Rightarrow> ('s, jsval) handler" where
  "read_member v k = (case get_prop v k of Inl e \<Rightarrow> Throw (Bad_body e) | Inr x \<Rightarrow> Ret x)"

text \<open>\<open>err.message\<close>; whatever a call rejects with is an \<open>Error\<close>.\<close>

definition err_message :: "browser \<Rightarrow> api_exn \<Rightarrow> string" where
  "err_message B e = (case e of Error s \<Rightarrow> s | _ \<Rightarrow> b_native B e)"

text \<open>
  The shape of every form's handler: mark the form busy and clear its error, \<open>try\<close> the body,
  \<open>catch\<close> what it throws and show it, and \<open>finally\<close> mark the form idle.
\<close>

definition attempt :: "browser \<Rightarrow> ('s \<Rightarrow> 's) \<Rightarrow> (string \<Rightarrow> 's \<Rightarrow> 's) \<Rightarrow> ('s \<Rightarrow> 's) \<Rightarrow> ('s, unit) handler \<Rightarrow> ('s, unit) handler" where
  "attempt B start fail finish body =
     bindP (set_state start) (\<lambda>_.
     bindP (catchP body (\<lambda>e. set_state (fail (err_message B e)))) (\<lambda>_.
     set_state finish))"

section \<open>Runs\<close>

lemma run_set_state [run_simps]: "runP (set_state f) ((s, es), cw) = (Inr (), ((f s, es), cw))"
  by (simp add: set_state_def)

lemma run_emit [run_simps]: "runP (emit e) ((s, es), cw) = (Inr (), ((s, es @ [e]), cw))"
  by (simp add: emit_def)

lemma run_set_client [run_simps]: "runP (set_client f) (x, (c, w)) = (Inr (), (x, (f c, w)))"
  by (simp add: set_client_def)

lemma run_await [run_simps]: "runP (await p) (x, cw) = (fst (runP p cw), (x, snd (runP p cw)))"
  by (simp add: await_def run_simps split: sum.splits)

lemma run_read_member [run_simps]:
  "runP (read_member v k) xw = (case get_prop v k of Inl e \<Rightarrow> Inl (Bad_body e) | Inr x \<Rightarrow> Inr x, xw)"
  by (simp add: read_member_def split: sum.splits)

text \<open>A form, by what its handler does to its busy mark and its error.\<close>

locale form =
  fixes busy :: "'s \<Rightarrow> bool" and error :: "'s \<Rightarrow> string"
    and start :: "'s \<Rightarrow> 's" and fail :: "string \<Rightarrow> 's \<Rightarrow> 's" and finish :: "'s \<Rightarrow> 's"
  assumes start_busy: "busy (start s)" and start_error: "error (start s) = []"
    and fail_error: "error (fail m s) = m"
    and finish_idle: "\<not> busy (finish s)" and finish_error: "error (finish s) = error s"
begin

text \<open>Whatever the body does, the handler returns and the form is idle again.\<close>

lemma settles:
  "\<exists>s' es' cw'. runP (attempt B start fail finish body) ((s, es), cw) = (Inr (), ((s', es'), cw')) \<and> \<not> busy s'"
  by (auto simp: attempt_def run_simps finish_idle split: sum.splits prod.splits)

text \<open>The form shows the message of an exception, and no error when the body leaves none.\<close>

lemma shows_error:
  assumes "runP body ((start s, es), cw) = (Inl e, ((s', es'), cw'))"
  shows "\<exists>t. runP (attempt B start fail finish body) ((s, es), cw) = (Inr (), ((t, es'), cw')) \<and> error t = err_message B e \<and> \<not> busy t"
  using assms by (simp add: attempt_def run_simps finish_idle finish_error fail_error)

lemma shows_none:
  assumes "runP body ((start s, es), cw) = (Inr (), ((s', es'), cw'))"
  shows "runP (attempt B start fail finish body) ((s, es), cw) = (Inr (), ((finish s', es'), cw')) \<and> error (finish s') = error s' \<and> \<not> busy (finish s')"
  using assms by (simp add: attempt_def run_simps finish_idle finish_error)

end

end
