(* ===== verification/Forms.thy ===== *)
theory Forms
  imports Screen
begin

text \<open>
  The forms of the console: \<open>SubmitJobForm.tsx\<close>, \<open>CreateQueueForm.tsx\<close> with the inline project form,
  and the configuration drawer of \<open>QueuesView.tsx\<close>. A form is its state, what a change of an input
  does to it (the effects that depend on the input included), and its handlers.
\<close>

section \<open>Submitting a job\<close>

datatype JobTemplate = Sleep | Always_fail | Webhook | Custom

definition JOB_TEMPLATES :: "JobTemplate \<Rightarrow> jsval" where
  "JOB_TEMPLATES t = (case t of
       Sleep \<Rightarrow> JObj [(''type'', JStr ''sleep''), (''duration_ms'', JInt 500)]
     | Always_fail \<Rightarrow> JObj [(''type'', JStr ''always_fail''), (''message'', JStr ''simulated failure'')]
     | Webhook \<Rightarrow> JObj [(''type'', JStr ''webhook''), (''url'', JStr ''https://example.com/hook''), (''method'', JStr ''POST'')]
     | Custom \<Rightarrow> JUndef)"

record submit_form =
  sf_queueId :: string
  sf_jobName :: string
  sf_template :: JobTemplate
  sf_durationMs :: string
  sf_failMessage :: string
  sf_priority :: string
  sf_maxAttempts :: string
  sf_delaySeconds :: string
  sf_cronExpr :: string
  sf_customPayload :: string
  sf_saving :: bool
  sf_error :: string

definition first_id :: "('a \<Rightarrow> string) \<Rightarrow> 'a list \<Rightarrow> string" where
  "first_id f xs = (case xs of [] \<Rightarrow> [] | x # _ \<Rightarrow> f x)"

definition initial_submit :: "string option \<Rightarrow> Queue list \<Rightarrow> submit_form" where
  "initial_submit defaultQueueId queues =
     \<lparr>sf_queueId = (case defaultQueueId of Some i \<Rightarrow> i | None \<Rightarrow> first_id cq_id queues), sf_jobName = [], sf_template = Sleep,
      sf_durationMs = ''500'', sf_failMessage = ''simulated failure'', sf_priority = [], sf_maxAttempts = ''3'',
      sf_delaySeconds = [], sf_cronExpr = [], sf_customPayload = pretty [] (JOB_TEMPLATES Sleep), sf_saving = False, sf_error = []\<rparr>"

text \<open>The effect that picks the first queue once there is one.\<close>

definition queue_effect :: "Queue list \<Rightarrow> submit_form \<Rightarrow> submit_form" where
  "queue_effect queues f = (case queues of q # _ \<Rightarrow> if sf_queueId f = [] then f\<lparr>sf_queueId := cq_id q\<rparr> else f | [] \<Rightarrow> f)"

text \<open>The effect that writes the payload of a template.\<close>

definition template_payload :: "submit_form \<Rightarrow> jsval" where
  "template_payload f = (case sf_template f of
       Sleep \<Rightarrow> JObj [(''type'', JStr ''sleep''), (''duration_ms'', JNum (num_or (parseInt (sf_durationMs f)) 500))]
     | Always_fail \<Rightarrow> JObj [(''type'', JStr ''always_fail''), (''message'', JStr (sf_failMessage f))]
     | t \<Rightarrow> JOB_TEMPLATES t)"

definition payload_effect :: "submit_form \<Rightarrow> submit_form" where
  "payload_effect f = (if sf_template f = Custom then f else f\<lparr>sf_customPayload := pretty [] (template_payload f)\<rparr>)"

datatype submit_input =
    In_queue string | In_name string | In_template JobTemplate | In_duration string | In_message string | In_payload string
  | In_priority string | In_attempts string | In_delay string | In_cron string

fun set_input :: "submit_input \<Rightarrow> submit_form \<Rightarrow> submit_form" where
  "set_input (In_queue v) f = f\<lparr>sf_queueId := v\<rparr>"
| "set_input (In_name v) f = f\<lparr>sf_jobName := v\<rparr>"
| "set_input (In_template t) f = f\<lparr>sf_template := t\<rparr>"
| "set_input (In_duration v) f = f\<lparr>sf_durationMs := v\<rparr>"
| "set_input (In_message v) f = f\<lparr>sf_failMessage := v\<rparr>"
| "set_input (In_payload v) f = f\<lparr>sf_customPayload := v\<rparr>"
| "set_input (In_priority v) f = f\<lparr>sf_priority := v\<rparr>"
| "set_input (In_attempts v) f = f\<lparr>sf_maxAttempts := v\<rparr>"
| "set_input (In_delay v) f = f\<lparr>sf_delaySeconds := v\<rparr>"
| "set_input (In_cron v) f = f\<lparr>sf_cronExpr := v\<rparr>"

text \<open>The inputs that the form shows, by its template.\<close>

fun input_shown :: "submit_input \<Rightarrow> submit_form \<Rightarrow> bool" where
  "input_shown (In_duration v) f = (sf_template f = Sleep)"
| "input_shown (In_message v) f = (sf_template f = Always_fail)"
| "input_shown (In_payload v) f = (sf_template f = Custom \<or> sf_template f = Webhook)"
| "input_shown _ f = True"

text \<open>A change of an input and the effects it triggers.\<close>

definition submit_change :: "Queue list \<Rightarrow> submit_input \<Rightarrow> submit_form \<Rightarrow> submit_form" where
  "submit_change queues i f = (if \<not> input_shown i f then f
     else let g = set_input i f;
              g1 = (if sf_queueId g \<noteq> sf_queueId f then queue_effect queues g else g)
          in if (sf_template g1, sf_durationMs g1, sf_failMessage g1) \<noteq> (sf_template f, sf_durationMs f, sf_failMessage f)
             then payload_effect g1 else g1)"

text \<open>\<open>...(s ? { k: v } : {})\<close>\<close>

definition optional :: "string \<Rightarrow> string \<Rightarrow> jsval \<Rightarrow> (string \<times> jsval) list" where
  "optional s k v = (if s \<noteq> [] then [(k, v)] else [])"

definition job_data :: "submit_form \<Rightarrow> jsval \<Rightarrow> jsval" where
  "job_data f payload = JObj ([(''payload'', payload)]
     @ optional (trim (sf_jobName f)) ''idempotency_key'' (JStr (trim (sf_jobName f)))
     @ optional (sf_priority f) ''priority'' (JNum (parseInt (sf_priority f)))
     @ optional (sf_maxAttempts f) ''max_attempts'' (JNum (parseInt (sf_maxAttempts f)))
     @ optional (sf_delaySeconds f) ''delay_seconds'' (JNum (parseInt (sf_delaySeconds f)))
     @ optional (trim (sf_cronExpr f)) ''cron_expr'' (JStr (trim (sf_cronExpr f))))"

definition submit_start :: "submit_form \<Rightarrow> submit_form" where
  "submit_start f = f\<lparr>sf_saving := True, sf_error := []\<rparr>"

definition submit_finish :: "submit_form \<Rightarrow> submit_form" where
  "submit_finish f = f\<lparr>sf_saving := False\<rparr>"

definition submit_fail :: "string \<Rightarrow> submit_form \<Rightarrow> submit_form" where
  "submit_fail m f = f\<lparr>sf_error := m\<rparr>"

definition submit_handleSubmit :: "browser \<Rightarrow> env \<Rightarrow> submit_form \<Rightarrow> (submit_form, unit) handler" where
  "submit_handleSubmit B E f = attempt B submit_start submit_fail submit_finish
     (case json_parse (sf_customPayload f) of
        Inl e \<Rightarrow> set_state (\<lambda>s. s\<lparr>sf_error := ''Payload must be valid JSON.'', sf_saving := False\<rparr>)
      | Inr payload \<Rightarrow>
          bindP (await (enqueueJob B E (sf_queueId f) (job_data f payload))) (\<lambda>job.
          bindP (emit (Mutate_prefix ''jobs'')) (\<lambda>_.
          bindP (read_member job ''id'') (\<lambda>i. emit (Submitted i)))))"

interpretation submit: form sf_saving sf_error submit_start submit_fail submit_finish
  by unfold_locales (simp_all add: submit_start_def submit_fail_def submit_finish_def)

section \<open>Creating a queue\<close>

record queue_form =
  qf_projectId :: string
  qf_name :: string
  qf_slug :: string
  qf_slugTouched :: bool
  qf_concurrency :: string
  qf_priority :: string
  qf_saving :: bool
  qf_error :: string

definition initial_queue_form :: "Project list \<Rightarrow> queue_form" where
  "initial_queue_form projects = \<lparr>qf_projectId = first_id cp_id projects, qf_name = [], qf_slug = [], qf_slugTouched = False,
     qf_concurrency = ''10'', qf_priority = ''5'', qf_saving = False, qf_error = []\<rparr>"

definition slug_effect :: "queue_form \<Rightarrow> queue_form" where
  "slug_effect f = (if \<not> qf_slugTouched f \<and> qf_name f \<noteq> [] then f\<lparr>qf_slug := slugifyName (qf_name f)\<rparr> else f)"

definition project_effect :: "Project list \<Rightarrow> queue_form \<Rightarrow> queue_form" where
  "project_effect projects f = (case projects of p # _ \<Rightarrow> if qf_projectId f = [] then f\<lparr>qf_projectId := cp_id p\<rparr> else f | [] \<Rightarrow> f)"

datatype queue_input = Q_project string | Q_name string | Q_slug string | Q_concurrency string | Q_priority string

fun set_queue_input :: "queue_input \<Rightarrow> queue_form \<Rightarrow> queue_form" where
  "set_queue_input (Q_project v) f = f\<lparr>qf_projectId := v\<rparr>"
| "set_queue_input (Q_name v) f = f\<lparr>qf_name := v\<rparr>"
| "set_queue_input (Q_slug v) f = f\<lparr>qf_slugTouched := True, qf_slug := v\<rparr>"
| "set_queue_input (Q_concurrency v) f = f\<lparr>qf_concurrency := v\<rparr>"
| "set_queue_input (Q_priority v) f = f\<lparr>qf_priority := v\<rparr>"

definition queue_change :: "Project list \<Rightarrow> queue_input \<Rightarrow> queue_form \<Rightarrow> queue_form" where
  "queue_change projects i f =
     (let g = set_queue_input i f;
          g1 = (if (qf_name g, qf_slugTouched g) \<noteq> (qf_name f, qf_slugTouched f) then slug_effect g else g)
      in if qf_projectId g1 \<noteq> qf_projectId f then project_effect projects g1 else g1)"

text \<open>\<open>s ? parseInt(s, 10) : undefined\<close>\<close>

definition optional_int :: "string \<Rightarrow> jsval" where
  "optional_int s = (if s \<noteq> [] then JNum (parseInt s) else JUndef)"

definition queue_data :: "queue_form \<Rightarrow> jsval" where
  "queue_data f = JObj [(''project_id'', JStr (qf_projectId f)), (''name'', JStr (trim (qf_name f))),
     (''slug'', JStr (trim (qf_slug f))), (''priority_default'', JNum (num_or (parseInt (qf_priority f)) 5)),
     (''concurrency_limit'', optional_int (qf_concurrency f))]"

definition queue_start :: "queue_form \<Rightarrow> queue_form" where
  "queue_start f = f\<lparr>qf_saving := True, qf_error := []\<rparr>"

definition queue_finish :: "queue_form \<Rightarrow> queue_form" where
  "queue_finish f = f\<lparr>qf_saving := False\<rparr>"

definition queue_handleSubmit :: "browser \<Rightarrow> env \<Rightarrow> queue_form \<Rightarrow> (queue_form, unit) handler" where
  "queue_handleSubmit B E f = attempt B queue_start (\<lambda>m s. s\<lparr>qf_error := m\<rparr>) queue_finish
     (bindP (await (createQueue B E (queue_data f))) (\<lambda>_.
      bindP (emit (Mutate ''queues'')) (\<lambda>_. emit Created)))"

interpretation create_queue: form qf_saving qf_error queue_start "\<lambda>m s. s\<lparr>qf_error := m\<rparr>" queue_finish
  by unfold_locales (simp_all add: queue_start_def queue_finish_def)

section \<open>Creating a project\<close>

record project_form =
  pf_name :: string
  pf_slug :: string
  pf_slugTouched :: bool
  pf_saving :: bool
  pf_error :: string

definition initial_project_form :: project_form where
  "initial_project_form = \<lparr>pf_name = [], pf_slug = [], pf_slugTouched = False, pf_saving = False, pf_error = []\<rparr>"

definition project_slug_effect :: "project_form \<Rightarrow> project_form" where
  "project_slug_effect f = (if \<not> pf_slugTouched f \<and> pf_name f \<noteq> [] then f\<lparr>pf_slug := slugifyName (pf_name f)\<rparr> else f)"

definition project_name_change :: "string \<Rightarrow> project_form \<Rightarrow> project_form" where
  "project_name_change v f = (if v \<noteq> pf_name f then project_slug_effect (f\<lparr>pf_name := v\<rparr>) else f)"

definition project_slug_change :: "string \<Rightarrow> project_form \<Rightarrow> project_form" where
  "project_slug_change v f = f\<lparr>pf_slugTouched := True, pf_slug := v\<rparr>"

definition project_data :: "project_form \<Rightarrow> jsval" where
  "project_data f = JObj [(''name'', JStr (trim (pf_name f))), (''slug'', JStr (trim (pf_slug f)))]"

definition project_start :: "project_form \<Rightarrow> project_form" where
  "project_start f = f\<lparr>pf_saving := True, pf_error := []\<rparr>"

definition project_finish :: "project_form \<Rightarrow> project_form" where
  "project_finish f = f\<lparr>pf_saving := False\<rparr>"

definition project_handleSubmit :: "browser \<Rightarrow> env \<Rightarrow> project_form \<Rightarrow> (project_form, unit) handler" where
  "project_handleSubmit B E f = attempt B project_start (\<lambda>m s. s\<lparr>pf_error := m\<rparr>) project_finish
     (bindP (await (createProject B E (project_data f))) (\<lambda>_. emit Created))"

interpretation create_project: form pf_saving pf_error project_start "\<lambda>m s. s\<lparr>pf_error := m\<rparr>" project_finish
  by unfold_locales (simp_all add: project_start_def project_finish_def)

section \<open>Configuring a queue\<close>

record drawer =
  dr_name :: string
  dr_concurrency :: string
  dr_priority :: string
  dr_saving :: bool
  dr_error :: string

definition initial_drawer :: "Queue \<Rightarrow> drawer" where
  "initial_drawer q = \<lparr>dr_name = cq_name q,
     dr_concurrency = (case cq_concurrency_limit q of Some n \<Rightarrow> num_to_string n | None \<Rightarrow> []),
     dr_priority = num_to_string (cq_priority_default q), dr_saving = False, dr_error = []\<rparr>"

definition drawer_data :: "drawer \<Rightarrow> jsval" where
  "drawer_data d = JObj [(''name'', JStr (dr_name d)), (''priority_default'', JNum (num_or (parseInt (dr_priority d)) 0)),
     (''concurrency_limit'', optional_int (dr_concurrency d))]"

definition drawer_start :: "drawer \<Rightarrow> drawer" where
  "drawer_start d = d\<lparr>dr_saving := True, dr_error := []\<rparr>"

definition drawer_finish :: "drawer \<Rightarrow> drawer" where
  "drawer_finish d = d\<lparr>dr_saving := False\<rparr>"

definition drawer_save :: "browser \<Rightarrow> env \<Rightarrow> Queue \<Rightarrow> drawer \<Rightarrow> (drawer, unit) handler" where
  "drawer_save B E q d = attempt B drawer_start (\<lambda>m s. s\<lparr>dr_error := m\<rparr>) drawer_finish
     (bindP (await (updateQueue B E (cq_id q) (drawer_data d))) (\<lambda>_.
      bindP (emit Updated) (\<lambda>_. emit Closed)))"

interpretation drawer_form: form dr_saving dr_error drawer_start "\<lambda>m s. s\<lparr>dr_error := m\<rparr>" drawer_finish
  by unfold_locales (simp_all add: drawer_start_def drawer_finish_def)

definition togglePause :: "browser \<Rightarrow> env \<Rightarrow> Queue \<Rightarrow> (drawer, unit) handler" where
  "togglePause B E q =
     bindP (await (if cq_is_paused q then resumeQueue B E (cq_id q) else pauseQueue B E (cq_id q))) (\<lambda>_.
     bindP (emit Updated) (\<lambda>_. emit Closed))"

end
