(* ===== verification/Console.thy ===== *)
theory Console
  imports Screen
begin

text \<open>
  The shell of the console: \<open>ConsoleProvider.tsx\<close> (the shared state and the pulse of finished jobs),
  \<open>CommandPalette.tsx\<close>, \<open>TopBar.tsx\<close>, \<open>LeftRail.tsx\<close>, \<open>AuthGuard.tsx\<close>, \<open>ShellWrapper.tsx\<close> and the
  login page. What a component draws is the data its markup shows, not the markup.
\<close>

section \<open>The shared state\<close>

datatype PulseEventType = Pulse_completed | Pulse_failed

record PulseEvent =
  pe_type :: PulseEventType
  pe_at :: int

record counts =
  ct_completed :: nat
  ct_failed :: nat
  ct_dead :: nat

record console =
  co_pulseEvents :: "PulseEvent list"
  co_commandOpen :: bool
  co_submitJobRequest :: nat
  co_createQueueRequest :: nat
  co_prev :: counts

definition initial_console :: console where
  "initial_console = \<lparr>co_pulseEvents = [], co_commandOpen = False, co_submitJobRequest = 0, co_createQueueRequest = 0,
     co_prev = \<lparr>ct_completed = 0, ct_failed = 0, ct_dead = 0\<rparr>\<rparr>"

definition count_status :: "string \<Rightarrow> Job list \<Rightarrow> nat" where
  "count_status st jobs = length (filter (\<lambda>j. cj_status j = st) jobs)"

text \<open>The loops that push \<open>n\<close> events, none when \<open>n\<close> is not positive.\<close>

definition push_events :: "PulseEventType \<Rightarrow> nat \<Rightarrow> int \<Rightarrow> PulseEvent list" where
  "push_events ty n now = map (\<lambda>i. \<lparr>pe_type = ty, pe_at = now + int i\<rparr>) [0..<n]"

definition next_events :: "int \<Rightarrow> counts \<Rightarrow> counts \<Rightarrow> PulseEvent list" where
  "next_events now prev new =
     (if ct_completed prev < ct_completed new then push_events Pulse_completed (ct_completed new - ct_completed prev) now else [])
     @ (let failTotal = ct_failed new + ct_dead new; prevFail = ct_failed prev + ct_dead prev in
        if prevFail < failTotal then push_events Pulse_failed (failTotal - prevFail) now else [])"

definition count_jobs :: "Job list \<Rightarrow> counts" where
  "count_jobs jobs = \<lparr>ct_completed = count_status ''completed'' jobs, ct_failed = count_status ''failed'' jobs,
     ct_dead = count_status ''dead_letter'' jobs\<rparr>"

text \<open>\<open>slice(-n)\<close>\<close>

definition slice_last :: "nat \<Rightarrow> 'a list \<Rightarrow> 'a list" where
  "slice_last n xs = drop (length xs - n) xs"

text \<open>The effect that runs when a page of jobs has arrived.\<close>

definition pulse_effect :: "int \<Rightarrow> Job Page option \<Rightarrow> console \<Rightarrow> console" where
  "pulse_effect now jobPage c = (case jobPage of None \<Rightarrow> c
     | Some pg \<Rightarrow>
        (let new = count_jobs (pg_items pg); next = next_events now (co_prev c) new;
             c1 = (if next \<noteq> [] then c\<lparr>co_pulseEvents := slice_last 50 (co_pulseEvents c @ next)\<rparr> else c)
         in c1\<lparr>co_prev := new\<rparr>))"

definition setCommandOpen :: "bool \<Rightarrow> console \<Rightarrow> console" where
  "setCommandOpen b c = c\<lparr>co_commandOpen := b\<rparr>"

definition openCommand :: "console \<Rightarrow> console" where
  "openCommand c = setCommandOpen True c"

definition openSubmitJob :: "console \<Rightarrow> console" where
  "openSubmitJob c = c\<lparr>co_submitJobRequest := co_submitJobRequest c + 1\<rparr>"

definition openCreateQueue :: "console \<Rightarrow> console" where
  "openCreateQueue c = c\<lparr>co_createQueueRequest := co_createQueueRequest c + 1\<rparr>"

definition onKey :: "string \<Rightarrow> bool \<Rightarrow> bool \<Rightarrow> console \<Rightarrow> console" where
  "onKey key metaKey ctrlKey c = (if (metaKey \<or> ctrlKey) \<and> to_lower key = ''k''
     then c\<lparr>co_commandOpen := \<not> co_commandOpen c\<rparr> else c)"

section \<open>The command palette\<close>

text \<open>What a command does, with the values its closure holds.\<close>

datatype command = Go string | Toggle_pause Queue | Retry_dead string

record CommandItem =
  ci_id :: string
  ci_label :: string
  ci_section :: string
  ci_icon :: string
  ci_keywords :: string
  ci_run :: command

text \<open>\<open>split(/\s+/)\<close>, with the characters of the current word in reverse\<close>

function split_spaces :: "string \<Rightarrow> string \<Rightarrow> string list" where
  "split_spaces w s = (case space_prefix js_space s of
       Some n \<Rightarrow> rev w # split_spaces [] (trim_start js_space s)
     | None \<Rightarrow> (case s of [] \<Rightarrow> [rev w] | c # r \<Rightarrow> split_spaces (c # w) r))"
  by pat_completeness auto
termination
  by (relation "measure (\<lambda>(w, s). length s)") (auto simp: trim_start_shorter)

declare split_spaces.simps [simp del]

definition score :: "browser \<Rightarrow> string \<Rightarrow> CommandItem \<Rightarrow> nat" where
  "score B query it =
     (let q = trim (b_lower B query);
          hay = b_lower B (ci_label it @ '' '' @ ci_keywords it @ '' '' @ ci_section it)
      in if q = [] then 1
         else if starts_with hay q then 100
         else if str_includes hay q then 50
         else foldl (\<lambda>s word. if str_includes hay word then s + 10 else s) 0 (split_spaces [] q))"

definition nav_item :: "string \<Rightarrow> string \<Rightarrow> string \<Rightarrow> string \<Rightarrow> string \<Rightarrow> string \<Rightarrow> CommandItem" where
  "nav_item i label sec icon kws path = \<lparr>ci_id = i, ci_label = label, ci_section = sec, ci_icon = icon,
     ci_keywords = kws, ci_run = Go path\<rparr>"

definition nav_items :: "CommandItem list" where
  "nav_items =
     [nav_item ''nav-overview'' ''Go to Overview'' ''Navigate'' ''Activity'' ''home dashboard'' ''/'',
      nav_item ''nav-queues'' ''Go to Queues'' ''Navigate'' ''Layers'' ''queues'' ''/queues'',
      nav_item ''nav-jobs'' ''Go to Jobs'' ''Navigate'' ''ListTodo'' ''jobs explorer'' ''/jobs'',
      nav_item ''nav-workers'' ''Go to Workers'' ''Navigate'' ''Server'' ''workers'' ''/workers'',
      nav_item ''nav-dlq'' ''Go to Dead Letter'' ''Navigate'' ''Skull'' ''dlq dead letter'' ''/dlq'',
      nav_item ''action-submit-job'' ''Submit job'' ''Actions'' ''ListTodo'' ''enqueue create add job'' ''/jobs?submit=1'',
      nav_item ''action-create-queue'' ''Create queue'' ''Actions'' ''Layers'' ''add queue new'' ''/queues?create=1'']"

definition queue_action :: "Queue \<Rightarrow> CommandItem" where
  "queue_action q = \<lparr>ci_id = ''pause-'' @ cq_id q,
     ci_label = (if cq_is_paused q then ''Resume queue '' @ cq_name q else ''Pause queue '' @ cq_name q),
     ci_section = ''Queues'', ci_icon = (if cq_is_paused q then ''Play'' else ''Pause''),
     ci_keywords = cq_name q @ '' '' @ cq_slug q @ '' pause resume'', ci_run = Toggle_pause q\<rparr>"

definition dlq_action :: "DLQItem \<Rightarrow> CommandItem" where
  "dlq_action d = (let name = jobDisplayName None (cd_payload d) None unnamed_job in
     \<lparr>ci_id = ''retry-'' @ cd_job_id d, ci_label = ''Retry '' @ name @ '' ('' @ cd_queue_name d @ '')'',
      ci_section = ''Dead letter'', ci_icon = ''RotateCcw'',
      ci_keywords = name @ '' '' @ cd_queue_name d @ '' retry dlq'', ci_run = Retry_dead (cd_job_id d)\<rparr>)"

definition palette_items :: "Queue list \<Rightarrow> DLQItem list \<Rightarrow> CommandItem list" where
  "palette_items queues dlq = nav_items @ map queue_action queues @ map dlq_action (take 8 dlq)"

text \<open>\<open>sort\<close> is stable, and its comparison puts the higher score first.\<close>

definition palette_filtered :: "browser \<Rightarrow> CommandItem list \<Rightarrow> string \<Rightarrow> CommandItem list" where
  "palette_filtered B items query =
     map fst (sort_key (\<lambda>x. - int (snd x)) (filter (\<lambda>x. snd x > 0) (map (\<lambda>it. (it, score B query it)) items)))"

record palette =
  pl_query :: string
  pl_active :: int

definition initial_palette :: palette where
  "initial_palette = \<lparr>pl_query = [], pl_active = 0\<rparr>"

definition item_at :: "'a list \<Rightarrow> int \<Rightarrow> 'a option" where
  "item_at xs i = (if 0 \<le> i \<and> i < int (length xs) then Some (xs ! nat i) else None)"

text \<open>The key handler of the input: the new selection, and the item to run or that the palette closes.\<close>

datatype palette_act = No_act | Run_item CommandItem | Close_palette

definition palette_key :: "string \<Rightarrow> CommandItem list \<Rightarrow> palette \<Rightarrow> palette \<times> palette_act" where
  "palette_key key filtered p =
     (if key = ''ArrowDown'' then (p\<lparr>pl_active := min (pl_active p + 1) (int (length filtered) - 1)\<rparr>, No_act)
      else if key = ''ArrowUp'' then (p\<lparr>pl_active := max (pl_active p - 1) 0\<rparr>, No_act)
      else case item_at filtered (pl_active p) of
             Some it \<Rightarrow> if key = ''Enter'' then (p, Run_item it) else if key = ''Escape'' then (p, Close_palette) else (p, No_act)
           | None \<Rightarrow> if key = ''Escape'' then (p, Close_palette) else (p, No_act))"

text \<open>The two effects of the palette, after a change of its query or of whether it is open.\<close>

definition palette_effects :: "console \<times> palette \<Rightarrow> console \<times> palette \<Rightarrow> console \<times> palette" where
  "palette_effects old new =
     (let p1 = (if co_commandOpen (fst new) \<noteq> co_commandOpen (fst old) \<and> \<not> co_commandOpen (fst new)
                then (snd new)\<lparr>pl_query := [], pl_active := 0\<rparr> else snd new);
          p2 = (if pl_query p1 \<noteq> pl_query (snd old) then p1\<lparr>pl_active := 0\<rparr> else p1)
      in (fst new, p2))"

text \<open>\<open>run\<close>: close the palette, then wait for the command. A rejection goes to no one.\<close>

definition run_command :: "browser \<Rightarrow> env \<Rightarrow> CommandItem \<Rightarrow> (console, unit) handler" where
  "run_command B E it =
     bindP (set_state (setCommandOpen False)) (\<lambda>_.
     case ci_run it of
       Go path \<Rightarrow> emit (Push path)
     | Toggle_pause q \<Rightarrow>
         bindP (await (if cq_is_paused q then resumeQueue B E (cq_id q) else pauseQueue B E (cq_id q))) (\<lambda>_.
         emit (Mutate ''queues''))
     | Retry_dead jobId \<Rightarrow>
         bindP (await (retryJob B E jobId)) (\<lambda>_.
         bindP (emit (Mutate ''dlq'')) (\<lambda>_. emit (Push ''/dlq''))))"

section \<open>Events\<close>

datatype console_event =
    Jobs_arrive int "Job Page option"
  | Window_key string bool bool
  | Palette_key string
  | Palette_type string
  | Palette_pick nat
  | Palette_dismiss
  | Click_search
  | Click_submit
  | Click_create

text \<open>
  One event, with the queues and dead letters last fetched: the new state and the command that
  starts. The palette takes keys, text and clicks only while it is open.
\<close>

fun console_event_step ::
  "browser \<Rightarrow> Queue list \<Rightarrow> DLQItem list \<Rightarrow> console_event \<Rightarrow> console \<times> palette \<Rightarrow> (console \<times> palette) \<times> CommandItem option" where
  "console_event_step B queues dlq (Jobs_arrive now jobPage) (c, p) = ((pulse_effect now jobPage c, p), None)"
| "console_event_step B queues dlq (Window_key key m k) (c, p) = ((onKey key m k c, p), None)"
| "console_event_step B queues dlq (Palette_key key) (c, p) =
     (if co_commandOpen c then
        (let r = palette_key key (palette_filtered B (palette_items queues dlq) (pl_query p)) p
         in ((if snd r = No_act then c else setCommandOpen False c, fst r), case snd r of Run_item it \<Rightarrow> Some it | _ \<Rightarrow> None))
      else ((c, p), None))"
| "console_event_step B queues dlq (Palette_type query) (c, p) =
     (if co_commandOpen c then ((c, p\<lparr>pl_query := query\<rparr>), None) else ((c, p), None))"
| "console_event_step B queues dlq (Palette_pick i) (c, p) =
     (case item_at (palette_filtered B (palette_items queues dlq) (pl_query p)) (int i) of
        Some it \<Rightarrow> if co_commandOpen c then ((setCommandOpen False c, p), Some it) else ((c, p), None)
      | None \<Rightarrow> ((c, p), None))"
| "console_event_step B queues dlq Palette_dismiss (c, p) =
     (if co_commandOpen c then ((setCommandOpen False c, p), None) else ((c, p), None))"
| "console_event_step B queues dlq Click_search (c, p) = ((openCommand c, p), None)"
| "console_event_step B queues dlq Click_submit (c, p) = ((openSubmitJob c, p), None)"
| "console_event_step B queues dlq Click_create (c, p) = ((openCreateQueue c, p), None)"

definition console_step ::
  "browser \<Rightarrow> Queue list \<Rightarrow> DLQItem list \<Rightarrow> console_event \<Rightarrow> console \<times> palette \<Rightarrow> (console \<times> palette) \<times> CommandItem option" where
  "console_step B queues dlq ev st = (case console_event_step B queues dlq ev st of
     (st', r) \<Rightarrow> (palette_effects st st', r))"

text \<open>The states the console can be in, whatever is fetched in between.\<close>

inductive console_reach :: "browser \<Rightarrow> console \<times> palette \<Rightarrow> bool" for B where
  start: "console_reach B (initial_console, initial_palette)"
| event: "console_reach B st \<Longrightarrow> console_reach B (fst (console_step B queues dlq ev st))"

section \<open>Top bar and rail\<close>

definition BREADCRUMBS :: "(string \<times> string) list" where
  "BREADCRUMBS = [(''/'', ''Overview''), (''/queues'', ''Queues''), (''/jobs'', ''Jobs''), (''/workers'', ''Workers''),
     (''/dlq'', ''Dead Letter'')]"

text \<open>A path starts with a slash, so it is no name that an object inherits.\<close>

definition crumb :: "string \<Rightarrow> string" where
  "crumb path = (if starts_with path ''/jobs/'' then ''Job detail''
     else case map_of BREADCRUMBS path of Some s \<Rightarrow> s | None \<Rightarrow> ''Overview'')"

definition active_workers :: "WorkerInfo list option \<Rightarrow> nat" where
  "active_workers workers = (case workers of None \<Rightarrow> 0 | Some ws \<Rightarrow> length (filter (\<lambda>w. cw_status w = ''active'') ws))"

definition page_items :: "'a Page option \<Rightarrow> 'a list" where
  "page_items pg = (case pg of None \<Rightarrow> [] | Some p \<Rightarrow> pg_items p)"

definition degraded :: "Queue Page option \<Rightarrow> WorkerInfo list option \<Rightarrow> bool" where
  "degraded queuePage workers =
     (let pausedCount = length (filter cq_is_paused (page_items queuePage))
      in pausedCount > 0 \<or> active_workers workers = 0)"

text \<open>The buttons of the top bar: whether it offers to submit a job, or to create a queue.\<close>

definition topbar_buttons :: "string \<Rightarrow> bool \<times> bool" where
  "topbar_buttons path = (path = ''/jobs'' \<or> starts_with path ''/jobs/'', path = ''/queues'')"

definition health_text :: "bool \<Rightarrow> string" where
  "health_text deg = (if deg then ''Degraded'' else ''Operational'')"

definition NAV :: "(string \<times> string) list" where
  "NAV = [(''/'', ''Overview''), (''/queues'', ''Queues''), (''/jobs'', ''Jobs''), (''/workers'', ''Workers''),
     (''/dlq'', ''Dead Letter'')]"

definition nav_active :: "string \<Rightarrow> string \<Rightarrow> bool" where
  "nav_active path href = (if href = ''/'' then path = ''/'' else starts_with path href)"

definition short_label :: "string \<Rightarrow> string" where
  "short_label label = takeWhile (\<lambda>c. c \<noteq> CHR '' '') label"

definition sign_out :: "client \<Rightarrow> client" where
  "sign_out c = (clearToken c)\<lparr>c_pathname := ''/login''\<rparr>"

section \<open>Guard and login\<close>

text \<open>The effect of the guard: whether it becomes ready, and where it leads.\<close>

definition AuthGuard_effect :: "client \<Rightarrow> bool \<Rightarrow> bool \<times> string option" where
  "AuthGuard_effect c rdy =
     (if c_pathname c = ''/login'' then (if hasToken c then (rdy, Some ''/'') else (True, None))
      else if \<not> hasToken c then (rdy, Some ''/login'')
      else (True, None))"

datatype shell = Placeholder | Login_page | Console_page

definition ShellWrapper :: "client \<Rightarrow> bool \<Rightarrow> shell" where
  "ShellWrapper c rdy = (if \<not> rdy then Placeholder
     else if c_pathname c = ''/login'' then Login_page else Console_page)"

record login_form =
  lf_email :: string
  lf_password :: string
  lf_error :: string
  lf_loading :: bool

definition initial_login :: login_form where
  "initial_login = \<lparr>lf_email = [], lf_password = [], lf_error = [], lf_loading = False\<rparr>"

definition login_start :: "login_form \<Rightarrow> login_form" where
  "login_start f = f\<lparr>lf_loading := True, lf_error := []\<rparr>"

definition login_finish :: "login_form \<Rightarrow> login_form" where
  "login_finish f = f\<lparr>lf_loading := False\<rparr>"

text \<open>\<open>setToken\<close> stores the text of the token; going to \<open>/\<close> loads the console anew.\<close>

definition login_handleSubmit :: "browser \<Rightarrow> env \<Rightarrow> login_form \<Rightarrow> (login_form, unit) handler" where
  "login_handleSubmit B E f = attempt B login_start (\<lambda>m s. s\<lparr>lf_error := m\<rparr>) login_finish
     (bindP (await (api_login B E (trim (lf_email f)) (lf_password f))) (\<lambda>v.
      bindP (read_member v ''token'') (\<lambda>token.
      case js_String token of Inl e \<Rightarrow> Throw (Bad_body e)
      | Inr t \<Rightarrow> set_client (\<lambda>c. (setToken t c)\<lparr>c_pathname := ''/''\<rparr>))))"

interpretation login_page: form lf_loading lf_error login_start "\<lambda>m s. s\<lparr>lf_error := m\<rparr>" login_finish
  by unfold_locales (simp_all add: login_start_def login_finish_def)

end
