(* ===== verification/Views.thy ===== *)
theory Views
  imports Forms Console
begin

text \<open>
  The pages of the console: the job explorer, the queue table, the overview with its charts, the
  job detail, the dead letters and the workers. A page is its state with the handlers that change it,
  and the data that its markup shows.
\<close>

section \<open>\<open>JobsExplorer.tsx\<close>\<close>

record explorer =
  ex_statusFilters :: "string list"
  ex_queueId :: string
  ex_selectedJobId :: "string option"
  ex_submitOpen :: bool

definition initial_explorer :: explorer where
  "initial_explorer = \<lparr>ex_statusFilters = [], ex_queueId = [], ex_selectedJobId = None, ex_submitOpen = False\<rparr>"

definition explorer_params :: "explorer \<Rightarrow> (string \<times> string) list" where
  "explorer_params x =
     (case ex_statusFilters x of [s] \<Rightarrow> [(''status'', s)] | _ \<Rightarrow> [])
     @ (if ex_queueId x \<noteq> [] then [(''queue_id'', ex_queueId x)] else [])"

definition explorer_jobs :: "explorer \<Rightarrow> Job Page option \<Rightarrow> Job list" where
  "explorer_jobs x jobPage = (let items = page_items jobPage in
     if length (ex_statusFilters x) \<le> 1 then items else filter (\<lambda>j. cj_status j \<in> set (ex_statusFilters x)) items)"

definition toggleStatus :: "string \<Rightarrow> explorer \<Rightarrow> explorer" where
  "toggleStatus s x = x\<lparr>ex_statusFilters :=
     (if s \<in> set (ex_statusFilters x) then filter (\<lambda>y. y \<noteq> s) (ex_statusFilters x) else ex_statusFilters x @ [s])\<rparr>"

definition setQueueFilter :: "string \<Rightarrow> explorer \<Rightarrow> explorer" where
  "setQueueFilter q x = x\<lparr>ex_queueId := q\<rparr>"

text \<open>The effects on the parameters of the URL and on a request from the top bar.\<close>

definition explorer_url_effect :: "(string \<times> string) list \<Rightarrow> explorer \<Rightarrow> explorer" where
  "explorer_url_effect search x =
     (let x1 = (case map_of search ''job'' of Some (c # i) \<Rightarrow> x\<lparr>ex_selectedJobId := Some (c # i)\<rparr> | _ \<Rightarrow> x)
      in if map_of search ''submit'' = Some ''1'' then x1\<lparr>ex_submitOpen := True\<rparr> else x1)"

definition explorer_request_effect :: "nat \<Rightarrow> explorer \<Rightarrow> explorer" where
  "explorer_request_effect submitJobRequest x = (if submitJobRequest > 0 then x\<lparr>ex_submitOpen := True\<rparr> else x)"

definition explorer_onSubmitted :: "string \<Rightarrow> explorer \<Rightarrow> explorer" where
  "explorer_onSubmitted jobId x = x\<lparr>ex_submitOpen := False, ex_selectedJobId := Some jobId\<rparr>"

text \<open>A text that is shown when it is there and not empty.\<close>

definition shown :: "string option \<Rightarrow> string option" where
  "shown s = (if s = Some [] then None else s)"

definition job_name :: "Job \<Rightarrow> string" where
  "job_name j = jobDisplayName (cj_idempotency_key j) (cj_payload j) (cj_cron_expr j) unnamed_job"

text \<open>A row: its name, id, chip, queue, priority and attempts.\<close>

definition explorer_row :: "Queue list \<Rightarrow> Job \<Rightarrow> string \<times> string \<times> (StatusStyle \<times> bool) \<times> string \<times> string \<times> string" where
  "explorer_row queues j = (job_name j, cj_id j, StatusChip (cj_status j) (cj_status j = ''running''),
     queueName (cj_queue_id j) queues, num_to_string (cj_priority j),
     num_to_string (cj_attempts j) @ ''/'' @ num_to_string (cj_max_attempts j))"

text \<open>The filter buttons: style and whether the status is selected.\<close>

definition filter_buttons :: "explorer \<Rightarrow> (string \<times> StatusStyle \<times> bool) list" where
  "filter_buttons x = map (\<lambda>s. (s, getStatusStyle s, s \<in> set (ex_statusFilters x))) JOB_STATUSES"

definition explorer_title :: "explorer \<Rightarrow> Job list \<Rightarrow> string" where
  "explorer_title x jobs = (case ex_selectedJobId x of
       Some (c # i) \<Rightarrow> (case List.find (\<lambda>j. cj_id j = c # i) jobs of Some j \<Rightarrow> job_name j | None \<Rightarrow> unnamed_job)
     | _ \<Rightarrow> ''Job detail'')"

definition explorer_subtitle :: "explorer \<Rightarrow> Job list \<Rightarrow> Queue list \<Rightarrow> string option" where
  "explorer_subtitle x jobs queues = (case ex_selectedJobId x of
       Some (c # i) \<Rightarrow> (case List.find (\<lambda>j. cj_id j = c # i) jobs of
           Some j \<Rightarrow> map_option cq_name (List.find (\<lambda>q. cq_id q = cj_queue_id j) queues)
         | None \<Rightarrow> None)
     | _ \<Rightarrow> None)"

definition explorer_default_queue :: "explorer \<Rightarrow> string option" where
  "explorer_default_queue x = (if ex_queueId x \<noteq> [] then Some (ex_queueId x) else None)"

text \<open>\<open>/jobs/:id\<close> leads to the explorer with the job selected.\<close>

definition JobDetailRedirect :: "string \<Rightarrow> effect list" where
  "JobDetailRedirect i = (if i \<noteq> [] then [Replace (''/jobs?job='' @ i)] else [])"

section \<open>\<open>QueuesView.tsx\<close>\<close>

record queues_view =
  qv_selected :: "Queue option"
  qv_createOpen :: bool

definition queues_url_effect :: "(string \<times> string) list \<Rightarrow> queues_view \<Rightarrow> queues_view" where
  "queues_url_effect search x = (if map_of search ''create'' = Some ''1'' then x\<lparr>qv_createOpen := True\<rparr> else x)"

definition queues_request_effect :: "nat \<Rightarrow> queues_view \<Rightarrow> queues_view" where
  "queues_request_effect createQueueRequest x = (if createQueueRequest > 0 then x\<lparr>qv_createOpen := True\<rparr> else x)"

definition queues_onCreated :: "queues_view \<Rightarrow> queues_view \<times> effect list" where
  "queues_onCreated x = (x\<lparr>qv_createOpen := False\<rparr>, [Mutate ''queues''])"

text \<open>\<open>n ?? 0\<close>, and how much of its limit a queue uses, in percent.\<close>

definition or_zero :: "jsnum option \<Rightarrow> jsnum" where
  "or_zero n = (case n of Some k \<Rightarrow> k | None \<Rightarrow> Fin 0)"

definition usage_pct :: "jsnum \<Rightarrow> jsnum \<Rightarrow> jsnum" where
  "usage_pct depth limit = (if num_lt (Fin 0) limit then num_min2 (Fin 100) (num_mul (num_div depth limit) (Fin 100)) else Fin 0)"

definition queue_stats :: "QueueStats list option \<Rightarrow> string \<Rightarrow> QueueStats option" where
  "queue_stats stats i = (case stats of None \<Rightarrow> None | Some ss \<Rightarrow> List.find (\<lambda>s. cs_queue_id s = i) ss)"

definition or_dash :: "jsnum option \<Rightarrow> string" where
  "or_dash n = (case n of Some k \<Rightarrow> num_to_string k | None \<Rightarrow> em_dash)"

text \<open>A row: depth, width of the bar, usage, throughput and status.\<close>

definition queues_row :: "QueueStats list option \<Rightarrow> Queue \<Rightarrow> jsnum \<times> string \<times> string \<times> string \<times> (StatusStyle \<times> bool)" where
  "queues_row stats q =
     (let s = queue_stats stats (cq_id q); limit = or_zero (cq_concurrency_limit q); depth = or_zero (map_option cs_depth s);
          pct = usage_pct depth limit; limited = truthy (JNum limit)
      in (depth, if limited then num_to_string pct @ ''%'' else ''0%'',
          if limited then num_to_string depth @ ''/'' @ num_to_string limit else utf8 0x221E,
          or_dash (map_option cs_throughput_1h s),
          StatusChip (if cq_is_paused q then ''paused'' else ''active'') False))"

text \<open>The figures of the drawer: depth, throughput, usage, and the bar when there is a limit.\<close>

definition drawer_figures :: "Queue \<Rightarrow> jsnum option \<Rightarrow> jsnum option \<Rightarrow> string \<times> string \<times> string \<times> jsnum option" where
  "drawer_figures q depth throughput =
     (let inFlight = or_zero depth; limit = or_zero (cq_concurrency_limit q); pct = usage_pct inFlight limit
      in (or_dash depth, or_dash throughput,
          if truthy (JNum limit) then num_to_string inFlight @ '' / '' @ num_to_string limit else ''Unlimited'',
          if num_lt (Fin 0) limit then Some pct else None))"

section \<open>\<open>app/page.tsx\<close>: the overview\<close>

definition total :: "(QueueStats \<Rightarrow> jsnum) \<Rightarrow> QueueStats list option \<Rightarrow> jsnum" where
  "total f stats = (case stats of None \<Rightarrow> Fin 0 | Some ss \<Rightarrow> foldl (\<lambda>a s. num_add a (f s)) (Fin 0) ss)"

definition avgSuccess :: "QueueStats list option \<Rightarrow> jsnum" where
  "avgSuccess stats = (case stats of
       Some (s # ss) \<Rightarrow> num_div (total cs_success_rate stats) (Fin (of_nat (length (s # ss)))) | _ \<Rightarrow> Fin 0)"

record chart_point =
  cp_label :: string
  cp_completed :: jsnum
  cp_failed :: jsnum
  cp_depth :: jsnum

definition chart_of :: "QueueStats \<Rightarrow> chart_point" where
  "chart_of s = \<lparr>cp_label = truncateId (cs_queue_name s) 10,
     cp_completed = num_round (num_mul (cs_throughput_1h s) (cs_success_rate s)),
     cp_failed = num_round (num_mul (cs_throughput_1h s) (num_sub (Fin 1) (cs_success_rate s))),
     cp_depth = cs_depth s\<rparr>"

definition chartData :: "QueueStats list option \<Rightarrow> chart_point list" where
  "chartData stats = (case stats of None \<Rightarrow> [] | Some ss \<Rightarrow> map chart_of ss)"

text \<open>The success panel: its value, whether the delta counts as good, and the delta. 0.9 and the like are doubles.\<close>

definition success_panel :: "bool \<Rightarrow> QueueStats list option \<Rightarrow> string \<times> bool \<times> string" where
  "success_panel loading stats = (let a = avgSuccess stats in
     (if loading then em_dash else formatPercent a, num_le (to_num (9 / 10)) a,
      if num_le (to_num (95 / 100)) a then ''Within SLO''
      else if num_le (to_num (8 / 10)) a then ''Below target'' else ''Investigate failures''))"

definition delta_color :: "bool option \<Rightarrow> string" where
  "delta_color positive = (case positive of None \<Rightarrow> ''var(--text-tertiary)''
     | Some True \<Rightarrow> ''var(--st-completed)'' | Some False \<Rightarrow> ''var(--st-failed)'')"

text \<open>The queues at a glance and the first six workers.\<close>

definition glance_row :: "Queue list \<Rightarrow> QueueStats \<Rightarrow> string \<times> jsnum \<times> jsnum \<times> (StatusStyle \<times> bool)" where
  "glance_row queues s = (cs_queue_name s, cs_depth s, cs_throughput_1h s,
     StatusChip (case List.find (\<lambda>x. cq_id x = cs_queue_id s) queues of
       Some q \<Rightarrow> if cq_is_paused q then ''paused'' else ''active'' | None \<Rightarrow> ''active'') False)"

definition glance_workers :: "WorkerInfo list option \<Rightarrow> (string \<times> string option \<times> string \<times> (StatusStyle \<times> bool)) list" where
  "glance_workers workers = (case workers of None \<Rightarrow> [] | Some ws \<Rightarrow>
     map (\<lambda>w. (cw_name w, shown (cw_last_seen_at w), num_to_string (cw_jobs_in_flight w) @ '' in flight'',
       StatusChip (cw_status w) (cw_status w = ''active''))) (take 6 ws))"

section \<open>Charts: \<open>Sparkline.tsx\<close> and \<open>Pulse.tsx\<close>\<close>

definition sparkline_points :: "jsnum \<Rightarrow> jsnum \<Rightarrow> jsnum list \<Rightarrow> (jsnum \<times> jsnum) list" where
  "sparkline_points width height data =
     (let mx = num_max2 (foldl num_max2 NInf data) (Fin 1); mn = num_min2 (foldl num_min2 PInf data) (Fin 0);
          range = num_or (num_sub mx mn) 1;
          step = num_div width (Fin (of_nat (max (length data - 1) 1)))
      in map (\<lambda>(i, v). (num_mul (Fin (of_nat i)) step,
           num_sub (num_sub height (num_mul (num_div (num_sub v mn) range) (num_sub height (Fin 4)))) (Fin 2)))
         (enumerate 0 data))"

definition sparkline_text :: "jsnum list \<Rightarrow> string" where
  "sparkline_text data = sep_by '' '' (map (\<lambda>(x, y). num_to_string x @ '','' @ num_to_string y) (sparkline_points (Fin 64) (Fin 24) data))"

record pulse_point =
  pp_y :: jsnum
  pp_color :: "string option"

text \<open>
  One frame of the trace: a spike for the last event of the past three seconds unless motion is
  reduced, a step towards the wandering baseline, and the newest points are kept. \<open>msin\<close> is
  \<open>Math.sin\<close>, which the language leaves to the engine.
\<close>

definition pulse_spike :: "bool \<Rightarrow> bool \<Rightarrow> jsnum \<Rightarrow> int \<Rightarrow> PulseEvent list \<Rightarrow> pulse_point list" where
  "pulse_spike small reduced h now events =
     (let mid = num_div h (Fin 2); recent = filter (\<lambda>e. now - pe_at e < 3000) events; amp = to_num (if small then 35 / 100 else 55 / 100)
      in if recent \<noteq> [] \<and> \<not> reduced then
           (case pe_type (last recent) of
              Pulse_completed \<Rightarrow> [\<lparr>pp_y = num_sub mid (num_mul h amp), pp_color = Some ''#43C98A''\<rparr>]
            | Pulse_failed \<Rightarrow> [\<lparr>pp_y = num_add mid (num_mul h amp), pp_color = Some ''#F26759''\<rparr>])
         else [])"

definition pulse_frame ::
  "(jsnum \<Rightarrow> jsnum) \<Rightarrow> bool \<Rightarrow> bool \<Rightarrow> jsnum \<Rightarrow> int \<Rightarrow> PulseEvent list \<Rightarrow> pulse_point list \<Rightarrow> pulse_point list" where
  "pulse_frame msin small reduced h now events points =
     (let mid = num_div h (Fin 2); pts = points @ pulse_spike small reduced h now events;
          lastY = (if pts \<noteq> [] then pp_y (last pts) else mid);
          wander = num_add mid (num_mul (msin (num_div (Fin (of_int now)) (Fin 400))) (if small then to_num (15 / 10) else to_num (25 / 10)));
          nextY = num_add (num_mul lastY (to_num (82 / 100))) (num_mul wander (to_num (18 / 100)));
          all = pts @ [\<lparr>pp_y = nextY, pp_color = None\<rparr>]; maxPts = (if small then 80 else 160)
      in if maxPts < length all then slice_last maxPts all else all)"

section \<open>Detail, dead letters and workers\<close>

definition log_color :: "string \<Rightarrow> string" where
  "log_color level = (if level = ''error'' then ''var(--st-failed)''
     else if level = ''warn'' then ''var(--st-retrying)'' else ''var(--text-tertiary)'')"

text \<open>\<open>JobDetailContent.tsx\<close>\<close>

datatype job_detail =
    Detail_loading
  | Detail_failed string
  | Detail "string \<times> (StatusStyle \<times> bool) \<times> string \<times> string \<times> string \<times> string option \<times> string option \<times> string"

definition JobDetailContent :: "bool \<Rightarrow> string option \<Rightarrow> Job option \<Rightarrow> Queue list \<Rightarrow> job_detail" where
  "JobDetailContent isLoading jobError job queues =
     (if isLoading then Detail_loading
      else case (jobError, job) of
        (None, Some j) \<Rightarrow> Detail (job_name j, StatusChip (cj_status j) (cj_status j = ''running''), queueName (cj_queue_id j) queues,
          num_to_string (cj_priority j), num_to_string (cj_attempts j) @ '' / '' @ num_to_string (cj_max_attempts j),
          shown (cj_cron_expr j), shown (cj_error_message j), pretty [] (cj_payload j))
      | (Some m, _) \<Rightarrow> Detail_failed m
      | (None, None) \<Rightarrow> Detail_failed ''Job not found or access denied. Verify the job ID and try again.'')"

definition execution_view :: "WorkerInfo list option \<Rightarrow> JobExecution \<Rightarrow> string \<times> StatusStyle \<times> string \<times> string \<times> string option" where
  "execution_view workers e = (''Attempt #'' @ num_to_string (ce_attempt e), getStatusStyle (ce_status e), formatDuration (ce_duration_ms e),
     workerName (ce_worker_id e) (case workers of None \<Rightarrow> [] | Some ws \<Rightarrow> ws), shown (ce_error e))"

text \<open>\<open>app/dlq/page.tsx\<close>\<close>

record dlq_page =
  dp_retrying :: "string option"
  dp_actionError :: string

definition dlq_start :: "string \<Rightarrow> dlq_page \<Rightarrow> dlq_page" where
  "dlq_start jobId s = s\<lparr>dp_retrying := Some jobId, dp_actionError := []\<rparr>"

definition dlq_finish :: "dlq_page \<Rightarrow> dlq_page" where
  "dlq_finish s = s\<lparr>dp_retrying := None\<rparr>"

definition dlq_retry :: "browser \<Rightarrow> env \<Rightarrow> string \<Rightarrow> (dlq_page, unit) handler" where
  "dlq_retry B E jobId = attempt B (dlq_start jobId) (\<lambda>m s. s\<lparr>dp_actionError := m\<rparr>) dlq_finish
     (bindP (await (retryJob B E jobId)) (\<lambda>_. emit (Mutate ''dlq'')))"

interpretation dlq: form "\<lambda>s. dp_retrying s \<noteq> None" dp_actionError "dlq_start jobId" "\<lambda>m s. s\<lparr>dp_actionError := m\<rparr>" dlq_finish
  for jobId
  by unfold_locales (simp_all add: dlq_start_def dlq_finish_def)

definition dlq_count :: "DLQItem list \<Rightarrow> string" where
  "dlq_count items = int_to_string (int (length items)) @ '' item'' @ (if length items \<noteq> 1 then ''s'' else [])"

definition dlq_button :: "dlq_page \<Rightarrow> DLQItem \<Rightarrow> bool \<times> string" where
  "dlq_button s d = (dp_retrying s = Some (cd_job_id d),
     if dp_retrying s = Some (cd_job_id d) then ''Retrying'' @ ellipsis else ''Retry job'')"

text \<open>\<open>app/workers/page.tsx\<close>: chip, jobs in flight with their colour, and the last heartbeat.\<close>

definition worker_card :: "WorkerInfo \<Rightarrow> string \<times> (StatusStyle \<times> bool) \<times> string \<times> string \<times> string option" where
  "worker_card w = (cw_name w, StatusChip (cw_status w) (cw_status w = ''active''), num_to_string (cw_jobs_in_flight w),
     if num_lt (Fin 0) (cw_jobs_in_flight w) then ''var(--accent)'' else ''var(--text-tertiary)'', shown (cw_last_seen_at w))"

text \<open>\<open>Drawer.tsx\<close>: the key that closes an open drawer.\<close>

definition drawer_key :: "bool \<Rightarrow> string \<Rightarrow> effect list" where
  "drawer_key isOpen key = (if isOpen \<and> key = ''Escape'' then [Closed] else [])"

end
