(* ===== verification/Format_Props.thy ===== *)
theory Format_Props
  imports Format
begin

text \<open>
  Properties of the formatting functions: the two renderings of a relative time agree, and a slug
  made from a name is empty or has the form that the queue form asks for.
\<close>

section \<open>Relative times\<close>

lemma num_lt_of_int [simp]:
  "num_lt (Fin (of_int a)) (Fin (numeral k)) \<longleftrightarrow> a < numeral k"
  by (metis num_lt.simps(1) of_int_less_iff of_int_numeral)

lemma num_div_floor:
  assumes "\<bar>x\<bar> < 2 ^ 53" and "0 < d" and "d \<le> 2 ^ 53"
  shows "num_floor (num_div (Fin (of_int x)) (Fin (of_int d))) = Fin (of_int (x div d))"
proof -
  let ?q = "of_int x / of_int d :: rat"
  have d: "(0 :: rat) < of_int d" using assms(2) by simp
  have le: "\<bar>fl ?q\<bar> \<le> 2 ^ 53 + 1"
  proof -
    have "\<bar>x div d\<bar> < 2 ^ 53"
    proof (cases "0 \<le> x")
      case True
      then show ?thesis
        using assms zdiv_mono2 [of x 1 d] pos_imp_zdiv_nonneg_iff [of d x] by simp
    next
      case False
      then show ?thesis
        using assms zdiv_mono2_neg [of x 1 d] pos_imp_zdiv_neg_iff [of d x] by simp
    qed
    then have "\<bar>\<lfloor>fl ?q\<rfloor>\<bar> < 2 ^ 53" using floor_fl_div [OF assms] by simp
    then have "\<bar>\<lfloor>fl ?q\<rfloor>\<bar> < 9007199254740992" by simp
    then have "\<bar>fl ?q\<bar> \<le> 9007199254740993" by linarith
    then show ?thesis by simp
  qed
  then have "to_num ?q = Fin (fl ?q)" by (intro to_num_Fin) simp
  with d show ?thesis by (simp add: num_div_def floor_fl_div [OF assms])
qed


text \<open>A time value: not a number, or an integer in the range the language defines.\<close>

definition time_value :: "jsnum \<Rightarrow> bool" where
  "time_value n \<longleftrightarrow> n = NaN \<or> (\<exists>t. n = Fin (of_int t) \<and> \<bar>t\<bar> \<le> 8640000000000000)"

lemma to_num_large:
  assumes "1 / 10000 \<le> \<bar>q\<bar>" and "\<bar>q\<bar> \<le> 100000000000000000000"
  shows "to_num q = Fin (fl q)" and "\<bar>q\<bar> \<le> 2 * \<bar>fl q\<bar>" and "\<bar>fl q\<bar> \<le> 2 * \<bar>q\<bar>"
proof -
  have "pow2 (- 1022) \<le> 1 / 10000"
    using pow2_mono [of "- 1022" "- 14"] by (simp add: pow2_def [of "- 14"])
  with assms(1) have "\<bar>fl q - q\<bar> \<le> \<bar>q\<bar> / 2 ^ 53" by (intro fl_error) linarith
  also have "\<dots> \<le> \<bar>q\<bar> / 2" by (intro divide_left_mono) simp_all
  finally have err: "\<bar>fl q - q\<bar> \<le> \<bar>q\<bar> / 2" .
  then show "\<bar>q\<bar> \<le> 2 * \<bar>fl q\<bar>" and "\<bar>fl q\<bar> \<le> 2 * \<bar>q\<bar>" by linarith+
  then have "\<bar>fl q\<bar> \<le> 200000000000000000000" using assms(2) by linarith
  then show "to_num q = Fin (fl q)" by (intro to_num_Fin) simp
qed

text \<open>The whole seconds between two times are a small integer (or not a number).\<close>

lemma seconds_integer:
  assumes "\<bar>now\<bar> \<le> 8640000000000000" and "time_value n"
  shows "num_floor (num_div (num_sub (Fin (of_int now)) n) (Fin 1000)) = NaN
    \<or> (\<exists>s. num_floor (num_div (num_sub (Fin (of_int now)) n) (Fin 1000)) = Fin (of_int s) \<and> \<bar>s\<bar> < 2 ^ 53)"
proof (cases "n = NaN")
  case False
  then obtain t where t: "n = Fin (of_int t)" "\<bar>t\<bar> \<le> 8640000000000000"
    using assms(2) by (auto simp: time_value_def)
  define x where "x = now - t"
  define X :: rat where "X = of_int x"
  have sub: "num_sub (Fin (of_int now)) n = to_num X" by (simp add: num_sub_def t x_def X_def)
  show ?thesis
  proof (cases "x = 0")
    case True
    then show ?thesis by (simp add: sub X_def to_num_def num_div_def exI [of _ 0])
  next
    case False
    then have "1 \<le> \<bar>x\<bar>" "\<bar>x\<bar> \<le> 17280000000000000" using assms(1) t(2) by (auto simp: x_def)
    then have X: "1 \<le> \<bar>X\<bar>" "\<bar>X\<bar> \<le> 17280000000000000"
      unfolding X_def by (metis of_int_1 of_int_abs of_int_le_iff, metis of_int_abs of_int_le_iff of_int_numeral)
    then have D: "to_num X = Fin (fl X)" "\<bar>X\<bar> \<le> 2 * \<bar>fl X\<bar>" "\<bar>fl X\<bar> \<le> 2 * \<bar>X\<bar>"
      by (intro to_num_large; simp)+
    define Y where "Y = fl X / 1000"
    have Y: "1 / 10000 \<le> \<bar>Y\<bar>" "\<bar>Y\<bar> \<le> 40000000000000" using X D(2,3) by (simp_all add: Y_def)
    then have F: "to_num Y = Fin (fl Y)" "\<bar>fl Y\<bar> \<le> 2 * \<bar>Y\<bar>" by (intro to_num_large; simp)+
    then have "\<bar>\<lfloor>fl Y\<rfloor>\<bar> < 9007199254740992" using Y by linarith
    then have "\<bar>\<lfloor>fl Y\<rfloor>\<bar> < 2 ^ 53" by simp
    then show ?thesis by (simp add: sub D num_div_def Y_def [symmetric] F)
  qed
qed (simp add: num_sub_def num_div_def)

text \<open>C35: The two pieces of code that write a relative time agree: the function of \<open>lib/format.ts\<close>,
  which divides step by step into minutes, hours and days, and the component \<open>RelativeTime\<close>, which
  divides the seconds once, give the same text for every time of the clock and every text of a
  date, even one that does not parse. Both round in double precision.\<close>

theorem relative_time_agree:
  assumes "\<bar>now\<bar> \<le> 8640000000000000" and "time_value (parse ts)"
  shows "RelativeTime_tick parse now ts = formatRelativeTime parse now ts"
proof -
  define secs where "secs = num_floor (num_div (num_sub (Fin (of_int now)) (parse ts)) (Fin 1000))"
  note defs = RelativeTime_tick_def formatRelativeTime_def Let_def secs_def [symmetric]
  have "secs = NaN \<or> (\<exists>s. secs = Fin (of_int s) \<and> \<bar>s\<bar> < 2 ^ 53)"
    unfolding secs_def by (rule seconds_integer [OF assms])
  then show ?thesis
  proof
    assume "secs = NaN"
    then show ?thesis
      unfolding defs by (simp add: num_div_def)
  next
    assume "\<exists>s. secs = Fin (of_int s) \<and> \<bar>s\<bar> < 2 ^ 53"
    then obtain s where s: "secs = Fin (of_int s)" "\<bar>s\<bar> < 2 ^ 53" by blast
    show ?thesis
    proof (cases "s < 60")
      case True
      then show ?thesis
        unfolding defs by (simp add: s del: num_to_string.simps)
    next
      case False
      have small: "\<bar>s div 60\<bar> < 2 ^ 53" "\<bar>s div 3600\<bar> < 2 ^ 53" using False s(2) by auto
      have split: "s div 60 div 60 = s div 3600" "s div 3600 div 24 = s div 86400"
        by (simp_all add: zdiv_zmult2_eq [symmetric])
      have quot: "num_floor (num_div (Fin (of_int s)) (Fin 60)) = Fin (of_int (s div 60))"
        "num_floor (num_div (Fin (of_int s)) (Fin 3600)) = Fin (of_int (s div 3600))"
        "num_floor (num_div (Fin (of_int s)) (Fin 86400)) = Fin (of_int (s div 86400))"
        "num_floor (num_div (Fin (of_int (s div 60))) (Fin 60)) = Fin (of_int (s div 3600))"
        "num_floor (num_div (Fin (of_int (s div 3600))) (Fin 24)) = Fin (of_int (s div 86400))"
        using num_div_floor [OF s(2), of 60] num_div_floor [OF s(2), of 3600] num_div_floor [OF s(2), of 86400]
          num_div_floor [OF small(1), of 60] num_div_floor [OF small(2), of 24] by (simp_all add: split)
      have "s div 60 < 60 \<longleftrightarrow> s < 3600" "s div 3600 < 24 \<longleftrightarrow> s < 86400" by linarith+
      then show ?thesis unfolding defs s(1) quot num_lt_of_int by presburger
    qed
  qed
qed

theorem relative_time_agree_witness:
  "RelativeTime_tick (\<lambda>_. NaN) 0 [] = formatRelativeTime (\<lambda>_. NaN) 0 []
   \<and> RelativeTime_tick (\<lambda>_. Fin 0) 90061000 ''1970-01-01T00:00:00.000Z''
     = formatRelativeTime (\<lambda>_. Fin 0) 90061000 ''1970-01-01T00:00:00.000Z''"
  using relative_time_agree [of 0 "\<lambda>_. NaN" "[]"]
    relative_time_agree [of 90061000 "\<lambda>_. Fin 0" "''1970-01-01T00:00:00.000Z''"]
  by (simp add: time_value_def exI [of _ 0])

section \<open>Slugs\<close>

text \<open>The \<open>pattern\<close> of the form: \<open>[a-z0-9]+(?:-[a-z0-9]+)*\<close>.\<close>

definition slug_pattern :: "string \<Rightarrow> bool" where
  "slug_pattern s \<longleftrightarrow> (\<forall>p \<in> set (parts CHR ''-'' s). p \<noteq> [] \<and> list_all slug_char p)"

lemma slug_char_not_dash: "slug_char c \<Longrightarrow> c \<noteq> CHR ''-''"
  by (auto simp: slug_char_def)

text \<open>A dash or a letter of a slug, and no two dashes together.\<close>

definition dashed :: "string \<Rightarrow> bool" where
  "dashed s \<longleftrightarrow> (\<forall>c \<in> set s. slug_char c \<or> c = CHR ''-'') \<and> successively (\<lambda>a b. slug_char a \<or> slug_char b) s"

lemma dashed_simps [simp]:
  "dashed []"
  "dashed (c # s) \<longleftrightarrow> (slug_char c \<or> c = CHR ''-'') \<and> dashed s \<and> (s = [] \<or> slug_char c \<or> slug_char (hd s))"
  by (auto simp: dashed_def successively_Cons)

lemma dashed_append: "dashed (s @ t) \<Longrightarrow> dashed s \<and> dashed t"
  by (auto simp: dashed_def successively_append_iff)

lemma dashed_rev [simp]: "dashed (rev s) = dashed s"
  by (simp add: dashed_def disj_commute)

lemma dashed_parts:
  assumes "dashed s" and "s \<noteq> []" and "last s \<noteq> CHR ''-''"
  shows "list_all slug_char (hd (parts CHR ''-'' s)) \<and> (hd s \<noteq> CHR ''-'' \<longrightarrow> hd (parts CHR ''-'' s) \<noteq> [])
    \<and> (\<forall>p \<in> set (tl (parts CHR ''-'' s)). p \<noteq> [] \<and> list_all slug_char p)"
  using assms
proof (induction s)
  case (Cons c s)
  obtain p ps where p: "parts CHR ''-'' s = p # ps" using parts_ne [of "CHR ''-''" s] by (cases "parts CHR ''-'' s") auto
  show ?case
  proof (cases "s = []")
    case True
    with Cons.prems show ?thesis by auto
  next
    case False
    with Cons have IH: "list_all slug_char p" "hd s \<noteq> CHR ''-'' \<longrightarrow> p \<noteq> []" "\<forall>q \<in> set ps. q \<noteq> [] \<and> list_all slug_char q"
      by (simp_all add: p)
    show ?thesis
    proof (cases "c = CHR ''-''")
      case True
      with Cons.prems False have "hd s \<noteq> CHR ''-''" by (auto simp: slug_char_def)
      with IH True show ?thesis by (simp add: p)
    next
      case ne: False
      with Cons.prems IH show ?thesis by (simp add: p)
    qed
  qed
qed simp

lemma dashed_slug:
  assumes "dashed s" and "s \<noteq> []" and "hd s \<noteq> CHR ''-''" and "last s \<noteq> CHR ''-''"
  shows "slug_pattern s"
proof -
  obtain p ps where p: "parts CHR ''-'' s = p # ps" using parts_ne [of "CHR ''-''" s] by (cases "parts CHR ''-'' s") auto
  show ?thesis using dashed_parts [OF assms(1,2,4)] assms(3) by (simp add: slug_pattern_def p)
qed

lemma dashed_runs: "dashed (dash_runs s) \<and> (s \<noteq> [] \<longrightarrow> dash_runs s \<noteq> [] \<and> (slug_char (hd s) \<longrightarrow> slug_char (hd (dash_runs s))))"
proof (induction s rule: dash_runs.induct)
  case (2 c s)
  define r where "r = dropWhile (\<lambda>d. \<not> slug_char d) s"
  have hd: "r \<noteq> [] \<Longrightarrow> slug_char (hd r)" unfolding r_def using hd_dropWhile by fast
  show ?case
  proof (cases "slug_char c")
    case False
    with 2 hd show ?thesis by (cases "r = []") (auto simp: r_def [symmetric])
  qed (use 2 in auto)
qed simp

lemma strip_dashes_props:
  assumes "dashed s"
  shows "dashed (strip_dashes s)" and "strip_dashes s \<noteq> [] \<Longrightarrow> hd (strip_dashes s) \<noteq> CHR ''-'' \<and> last (strip_dashes s) \<noteq> CHR ''-''"
proof -
  let ?d = "\<lambda>c. c = CHR ''-''"
  define t where "t = dropWhile ?d s"
  define u where "u = dropWhile ?d (rev t)"
  have su: "strip_dashes s = rev u" by (simp add: strip_dashes_def t_def u_def)
  have "dashed t" using dashed_append [of "takeWhile ?d s" t] assms by (simp add: t_def)
  then show "dashed (strip_dashes s)"
    using dashed_append [of "takeWhile ?d (rev t)" u] by (simp add: su u_def)
  assume "strip_dashes s \<noteq> []"
  then have ne: "u \<noteq> []" by (simp add: su)
  then have "\<not> ?d (hd u)" unfolding u_def by (rule hd_dropWhile)
  then have last: "last (rev u) \<noteq> CHR ''-''" using ne by (simp add: last_rev)
  obtain v where v: "t = rev u @ v"
    using takeWhile_dropWhile_id [of ?d "rev t"] unfolding u_def [symmetric] by (metis rev_append rev_rev_ident)
  then have "t \<noteq> []" using ne by simp
  then have "\<not> ?d (hd t)" unfolding t_def by (rule hd_dropWhile)
  with v ne last show "hd (strip_dashes s) \<noteq> CHR ''-'' \<and> last (strip_dashes s) \<noteq> CHR ''-''" by (simp add: su)
qed

lemma space_not_slug: "list_all (\<lambda>p. p \<noteq> [] \<and> \<not> slug_char (hd p)) (js_space @ map rev js_space)"
  by (simp add: js_space_def upt_rec slug_char_def Let_def)

lemma trim_start_slug:
  assumes "slug_char (hd s)" and "s \<noteq> []" and "set ws \<subseteq> set (js_space @ map rev js_space)"
  shows "trim_start ws s = s"
proof -
  have "\<not> (starts_with s p \<and> p \<noteq> [])" if "p \<in> set ws" for p
  proof
    assume h: "starts_with s p \<and> p \<noteq> []"
    then have "hd p = hd s" by (auto simp: starts_with_iff)
    moreover have "\<not> slug_char (hd p)" using space_not_slug that assms(3) unfolding list_all_iff by blast
    ultimately show False using assms(1) by simp
  qed
  then have "space_prefix ws s = None" by (auto simp: space_prefix_def find_None_iff)
  then show ?thesis by (subst trim_start.simps) simp
qed

lemma trim_Nil [simp]: "trim [] = []"
proof -
  have "\<not> (starts_with [] p \<and> p \<noteq> [])" for p by (cases p) auto
  then have "space_prefix ws [] = None" for ws by (simp add: space_prefix_def find_None_iff)
  then have "trim_start ws [] = []" for ws by (subst trim_start.simps) simp
  then show ?thesis by (simp add: trim_def)
qed

lemma trim_slug:
  assumes "s \<noteq> []" and "slug_char (hd s)" and "slug_char (last s)"
  shows "trim s = s"
proof -
  have "trim_start js_space s = s" using assms by (intro trim_start_slug) auto
  moreover have "trim_start (map rev js_space) (rev s) = rev s"
    using assms by (intro trim_start_slug) (auto simp: hd_rev)
  ultimately show ?thesis by (simp add: trim_def)
qed

lemma to_lower_dashed: "dashed s \<Longrightarrow> to_lower s = s"
proof (induction s)
  case (Cons c s)
  then have "slug_char c \<or> c = CHR ''-''" and IH: "to_lower s = s" by auto
  then have "of_char c < (128 :: nat)" and "lower_char c = c"
    by (auto simp: slug_char_def lower_char_def Let_def)
  then have "c \<noteq> char_of (0xE2 :: nat)" "c \<noteq> char_of (0xC4 :: nat)" by auto
  with IH \<open>lower_char c = c\<close> show ?case by simp
qed simp

lemma dash_runs_dashed: "dashed s \<Longrightarrow> dash_runs s = s"
proof (induction s rule: dash_runs.induct)
  case (2 c s)
  show ?case
  proof (cases "slug_char c")
    case False
    with 2(3) have c: "c = CHR ''-''" and "s = [] \<or> slug_char (hd s)" by auto
    then have "dropWhile (\<lambda>d. \<not> slug_char d) s = s" by (cases s) auto
    with False c 2 show ?thesis by simp
  qed (use 2 in auto)
qed simp

lemma slug_chars_runs: "(\<exists>c \<in> set (dash_runs s). slug_char c) \<longleftrightarrow> (\<exists>c \<in> set s. slug_char c)"
proof (induction s rule: dash_runs.induct)
  case (2 c s)
  have "(\<exists>c \<in> set (dropWhile (\<lambda>d. \<not> slug_char d) s). slug_char c) \<longleftrightarrow> (\<exists>c \<in> set s. slug_char c)"
    by (induction s) auto
  moreover have "\<not> slug_char CHR ''-''" using slug_char_not_dash by blast
  ultimately show ?case using 2 by (cases "slug_char c") auto
qed simp

lemma strip_dashes_slug:
  assumes "s \<noteq> []" and "hd s \<noteq> CHR ''-''" and "last s \<noteq> CHR ''-''"
  shows "strip_dashes s = s"
proof -
  have "dropWhile (\<lambda>c. c = CHR ''-'') t = t" if "hd t \<noteq> CHR ''-''" for t using that by (cases t) auto
  with assms show ?thesis by (simp add: strip_dashes_def hd_rev)
qed

lemma strip_dashes_Nil: "strip_dashes s = [] \<longleftrightarrow> (\<forall>c \<in> set s. c = CHR ''-'')"
proof -
  have "(\<forall>x \<in> set (dropWhile P s). P x) \<longleftrightarrow> (\<forall>x \<in> set s. P x)" for P :: "char \<Rightarrow> bool" by (induction s) auto
  then show ?thesis by (simp add: strip_dashes_def dropWhile_eq_Nil_conv)
qed

lemma slugify_shape:
  "dashed (slugifyName name)" "slugifyName name = [] \<or> slug_pattern (slugifyName name)"
  "slugifyName name \<noteq> [] \<Longrightarrow> hd (slugifyName name) \<noteq> CHR ''-'' \<and> last (slugifyName name) \<noteq> CHR ''-''"
proof -
  define s where "s = to_lower (trim name)"
  have d: "dashed (dash_runs s)" using dashed_runs by blast
  note p = strip_dashes_props [OF d, unfolded s_def, folded slugifyName_def]
  show "dashed (slugifyName name)" by (rule p(1))
  show "slugifyName name = [] \<or> slug_pattern (slugifyName name)" using p dashed_slug by blast
  show "slugifyName name \<noteq> [] \<Longrightarrow> hd (slugifyName name) \<noteq> CHR ''-'' \<and> last (slugifyName name) \<noteq> CHR ''-''" by (rule p(2))
qed

lemma slugify_Nil: "slugifyName name = [] \<longleftrightarrow> (\<forall>c \<in> set (to_lower (trim name)). \<not> slug_char c)"
proof -
  define s where "s = to_lower (trim name)"
  have "dashed (dash_runs s)" using dashed_runs by blast
  then have "(\<forall>c \<in> set (dash_runs s). c = CHR ''-'') \<longleftrightarrow> (\<forall>c \<in> set (dash_runs s). \<not> slug_char c)"
    using slug_char_not_dash unfolding dashed_def by blast
  then show ?thesis unfolding slugifyName_def s_def [symmetric] strip_dashes_Nil using slug_chars_runs [of s] by blast
qed

text \<open>A slug made from a name is empty or has the form that the queue form demands
  (\<open>[a-z0-9]+(?:-[a-z0-9]+)*\<close>), it is empty only when the name has no letter or digit to make it of,
  and making a slug of a slug changes nothing.\<close>

theorem slugify_spec:
  "(slugifyName name = [] \<or> slug_pattern (slugifyName name))
   \<and> (slugifyName name = [] \<longleftrightarrow> (\<forall>c \<in> set (to_lower (trim name)). \<not> slug_char c))
   \<and> slugifyName (slugifyName name) = slugifyName name"
proof -
  define t where "t = slugifyName name"
  note p = slugify_shape [of name, folded t_def]
  have "slugifyName t = t"
  proof (cases "t = []")
    case True
    then show ?thesis by (simp add: slugifyName_def strip_dashes_def)
  next
    case False
    then have "slug_char (hd t)" "slug_char (last t)" using p by (auto simp: dashed_def)
    with False p show ?thesis
      by (simp add: slugifyName_def trim_slug to_lower_dashed dash_runs_dashed strip_dashes_slug)
  qed
  with p(2) slugify_Nil show ?thesis unfolding t_def by blast
qed

theorem slugify_spec_witness:
  "slugifyName ''b, 2t'' = ''b-2t'' \<and> slug_pattern ''b-2t'' \<and> slugifyName ''b-2t'' = ''b-2t''"
proof -
  have "trim ''b, 2t'' = ''b, 2t''" by (rule trim_slug) (simp_all add: slug_char_def)
  moreover have "strip_dashes (dash_runs (to_lower ''b, 2t'')) = ''b-2t''" by code_simp
  ultimately have "slugifyName ''b, 2t'' = ''b-2t''" by (simp only: slugifyName_def)
  with slugify_spec [of "''b, 2t''"] show ?thesis by simp
qed

end
