(* ===== verification/Login_Props.thy ===== *)
theory Login_Props
  imports Api_Props Json_Facts
begin

text \<open>
  Properties of the login and its tokens, and of submitting a job and reading it back.
\<close>

section \<open>Login\<close>

text \<open>What the login does with the email, once a password has been given.\<close>

definition login_as :: "env \<Rightarrow> string \<Rightarrow> response io" where
  "login_as E email =
     bindP (getSql E) (\<lambda>_.
     bindP (if demoAuthEnabled E then resolveDemoUser E email
            else stmt E [''users''] (sql_find_user E (JStr email))) (\<lambda>user.
     case user of None \<Rightarrow> Ret (error_response ''invalid credentials'' 401 ''UNAUTHORIZED'')
     | Some u \<Rightarrow> bindP (signToken E (user_claims u)) (\<lambda>token.
         Ret (json (JObj [(''token'', JStr token), (''user'', user_json u)]) 200))))"

lemma run_post_login:
  assumes "json_parse (rq_body req) = Inr (JObj [(''email'', JStr email), (''password'', JStr password)])"
    and "trim email \<noteq> []" and "password \<noteq> []"
  shows "runP (post_login E req) w = runP (login_as E (trim email)) w"
  using assms by (auto simp: post_login_def login_as_def reader_def nullish_def js_or_def Let_def run_simps)

text \<open>C26: The login never looks at the password: any two passwords that are not empty give the same
  answer and the same effect for an email, in demo mode or not.\<close>

theorem login_ignores_password:
  assumes "json_parse (rq_body r1) = Inr (JObj [(''email'', JStr email), (''password'', JStr p1)])"
    and "json_parse (rq_body r2) = Inr (JObj [(''email'', JStr email), (''password'', JStr p2)])"
    and "p1 \<noteq> []" and "p2 \<noteq> []"
  shows "runP (post_login E r1) w = runP (post_login E r2) w"
proof (cases "trim email = []")
  case True
  with assms show ?thesis by (auto simp: post_login_def reader_def nullish_def js_or_def Let_def run_simps)
next
  case False
  with assms show ?thesis by (simp add: run_post_login)
qed

definition login_body :: "string \<Rightarrow> string" where
  "login_body pw = stringify (JObj [(''email'', JStr ''a@b.c''), (''password'', JStr pw)])"

theorem login_ignores_password_witness:
  "runP (post_login demo_env (demo_request ''POST'' [] (login_body ''right''))) (demo_world [])
     = runP (post_login demo_env (demo_request ''POST'' [] (login_body ''wrong''))) (demo_world [])"
proof -
  have "json_parse (login_body ''right'') = Inr (JObj [(''email'', JStr ''a@b.c''), (''password'', JStr ''right'')])"
    "json_parse (login_body ''wrong'') = Inr (JObj [(''email'', JStr ''a@b.c''), (''password'', JStr ''wrong'')])"
    by code_simp+
  then show ?thesis
    by (intro login_ignores_password [of _ "''a@b.c''" "''right''" _ "''wrong''"]) (simp_all add: demo_request_def)
qed

lemma find_user_mem:
  assumes "runP (stmt E tabs (sql_find_user E m)) w = (Inr (Some u), w')"
  shows "u \<in> set (w_users w)"
proof -
  have mem: "r \<in> set (w_users v)" if "(case filter P (scan E v 0 (w_users v)) of [] \<Rightarrow> None | u # _ \<Rightarrow> Some u) = Some r" for v P r
  proof (cases "filter P (scan E v 0 (w_users v))")
    case (Cons a as)
    then have "a \<in> set (filter P (scan E v 0 (w_users v)))" by simp
    then have "a \<in> set (w_users v)" by simp
    with that Cons show ?thesis by simp
  qed (use that in simp)
  from assms have "sql_find_user E m (advance_clock E 0 w) = (Inr (Some u), w')"
    by (auto simp: stmt_def exec_stmt_def Let_def split: option.splits fault.splits)
  then show ?thesis
    using mem [of _ "advance_clock E 0 w"] by (auto simp: sql_find_user_def with_param_def split: sum.splits)
qed

lemma find_user_world: "runP (stmt E tabs (sql_find_user E m)) w = (Inr r, w') \<Longrightarrow> w_users w' = w_users w"
  by (auto simp: stmt_def exec_stmt_def Let_def sql_find_user_def with_param_def
      split: option.splits fault.splits sum.splits)

lemma resolve_mem: "runP (resolveDemoUser E email) w = (Inr (Some u), w') \<Longrightarrow> u \<in> set (w_users w)"
  using find_user_mem find_user_world
  by (fastforce simp: resolveDemoUser_def run_simps getSql_def split: sum.splits prod.splits option.splits)

lemma login_as_success:
  assumes "runP (login_as E email) w = (Inr r, w')" and "rs_status r = 200"
  obtains u i k where "u \<in> set (w_users w)" and "w_ops w' = Suc k"
    and "r = json (JObj [(''token'', JStr (e_jwt_sign E (secret E) ''HS256''
        (token_payload (user_claims u) (epoch (e_date E i)) (epoch (e_date E k) + 24 * 60 * 60)))),
      (''user'', user_json u)]) 200"
  using assms
  by (auto simp: login_as_def run_simps run_signToken error_response_def json_def getSql_def
      dest: resolve_mem find_user_mem split: sum.splits prod.splits option.splits if_splits)

text \<open>C12: A successful login gives a token that authenticates, for 24 hours, as a user of the
  database, the one the answer names. With a JWT library that verifies what it signed until the
  \<open>exp\<close> of the token (\<open>jwt_law\<close>), a request that carries the token as a bearer token has exactly
  the claims of that user as long as the time is less than 24 hours (in whole seconds) after the
  clock reading \<open>k\<close> with which the login ended, and no claims at all from then on.\<close>

theorem login_token_authenticates:
  assumes "json_parse (rq_body req) = Inr (JObj [(''email'', JStr email), (''password'', JStr password)])"
    and "trim email \<noteq> []" and "password \<noteq> []"
    and "runP (post_login E req) w = (Inr r, w')" and "rs_status r = 200"
    and "\<forall>u \<in> set (w_users w). jwt_law E (user_claims u)"
  shows "\<exists>u \<in> set (w_users w). \<exists>token k. rs_data r = Some (JObj [(''token'', JStr token), (''user'', user_json u)])
    \<and> w_ops w' = Suc k
    \<and> (\<forall>req2 w2. rq_auth req2 = Some (''Bearer '' @ token) \<longrightarrow>
         runP (claimsFromRequest E req2) w2 =
           (Inr (if e_date E (w_ops w2) div 1000 < e_date E k div 1000 + 24 * 60 * 60 then Some (user_claims u) else None), w2))"
proof -
  have "runP (login_as E (trim email)) w = (Inr r, w')" using assms(4) run_post_login [OF assms(1-3)] by simp
  then obtain u i k where u: "u \<in> set (w_users w)" and k: "w_ops w' = Suc k"
    and r: "r = json (JObj [(''token'', JStr (e_jwt_sign E (secret E) ''HS256''
        (token_payload (user_claims u) (epoch (e_date E i)) (epoch (e_date E k) + 24 * 60 * 60)))),
      (''user'', user_json u)]) 200"
    using assms(5) by (rule login_as_success)
  let ?t = "e_jwt_sign E (secret E) ''HS256''
        (token_payload (user_claims u) (epoch (e_date E i)) (epoch (e_date E k) + 24 * 60 * 60))"
  have "jwt_law E (user_claims u)" using assms(6) u by blast
  then show ?thesis
    by (intro bexI [OF _ u] exI [of _ ?t] exI [of _ k])
      (simp add: r k json_def run_claimsFromRequest jwt_law_def Let_def token_claims epoch_def)
qed

definition demo_user :: user_row where
  "demo_user = \<lparr>u_id = ''7'', u_org_id = ''0'', u_email = ''a@b.c'', u_name = ''A'', u_role = ''admin'',
     u_password_hash = ''x'', u_created_at = 0, u_updated_at = 0\<rparr>"

text \<open>The example: a clock that jumps by a day at the tenth operation.\<close>

definition day_clock :: "nat \<Rightarrow> int" where
  "day_clock k = (if k < 10 then 0 else 86400000)"

definition day_env :: env where
  "day_env = demo_env\<lparr>e_date := day_clock, e_jwt_verify := verify_in day_clock\<rparr>"

lemma verify_payload:
  assumes "json_parse (stringify (token_payload c iat expires)) = Inr (token_payload c iat expires)"
  shows "verify_in date s k (stringify (token_payload c iat expires))
    = (if epoch (date k) < expires then Some (token_payload c iat expires) else None)"
proof -
  obtain kvs where p: "token_payload c iat expires = JObj kvs" "map_of kvs ''exp'' = Some (JInt expires)"
    by (simp add: token_payload_def)
  show ?thesis using assms unfolding verify_in_def p(1) by (simp add: p(2) epoch_def)
qed

lemma day_jwt_law: "jwt_law day_env (user_claims demo_user)"
proof -
  let ?p = "\<lambda>i j. token_payload (user_claims demo_user) (epoch i) (epoch j + 24 * 60 * 60)"
  have parse: "json_parse (stringify (?p i j)) = Inr (?p i j)" if "i \<in> {0, 86400000}" "j \<in> {0, 86400000}" for i j
  proof -
    have "wireable (JInt (epoch i))" "wireable (JInt (epoch j + 24 * 60 * 60))" using that by (auto simp: epoch_def)
    then have "wireable (?p i j)" unfolding token_payload_def by (simp del: wireable.simps(1))
    from json_roundtrip [OF this] show ?thesis by (simp add: token_payload_def)
  qed
  have "day_clock k \<in> {0, 86400000}" for k by (simp add: day_clock_def)
  note day = verify_payload [OF parse [OF this this]]
  have "e_jwt_sign day_env = (\<lambda>sec alg p. stringify p)" "e_jwt_verify day_env = verify_in day_clock" "e_date day_env = day_clock"
    by (simp_all add: day_env_def demo_env_def)
  then show ?thesis unfolding jwt_law_def Let_def using day by simp
qed

theorem login_token_authenticates_witness:
  "\<exists>r w' token. runP (post_login day_env (demo_request ''POST'' [] (login_body ''pw''))) (demo_world []\<lparr>w_users := [demo_user]\<rparr>) = (Inr r, w')
     \<and> rs_data r = Some (JObj [(''token'', JStr token), (''user'', user_json demo_user)])
     \<and> runP (claimsFromRequest day_env ((demo_request ''GET'' [] [])\<lparr>rq_auth := Some (''Bearer '' @ token)\<rparr>)) (w'\<lparr>w_ops := 9\<rparr>)
         = (Inr (Some (user_claims demo_user)), w'\<lparr>w_ops := 9\<rparr>)
     \<and> runP (claimsFromRequest day_env ((demo_request ''GET'' [] [])\<lparr>rq_auth := Some (''Bearer '' @ token)\<rparr>)) (w'\<lparr>w_ops := 10\<rparr>)
         = (Inr None, w'\<lparr>w_ops := 10\<rparr>)"
proof -
  let ?w = "demo_world []\<lparr>w_users := [demo_user]\<rparr>" and ?req = "demo_request ''POST'' [] (login_body ''pw'')"
  have p: "json_parse (rq_body ?req) = Inr (JObj [(''email'', JStr ''a@b.c''), (''password'', JStr ''pw'')])" by code_simp
  have t: "trim ''a@b.c'' \<noteq> []" by code_simp
  have "List.find (\<lambda>t. t \<notin> set (w_relations ?w)) [''users''] = None" by code_simp
  moreover have "scan day_env (advance_clock day_env 0 ?w) 0 [demo_user] = [demo_user]" by code_simp
  moreover have "trim ''a@b.c'' = ''a@b.c''" by code_simp
  moreover have "e_text day_env (JStr ''a@b.c'') = Inr (Some ''a@b.c'')" by code_simp
  moreover have "demoAuthEnabled day_env" "getUrl day_env = Inr ''postgres://db''" "e_fault day_env (w_ops ?w) = None" by code_simp+
  ultimately have "case runP (post_login day_env ?req) ?w of (Inr r, w') \<Rightarrow> rs_status r = 200 \<and> w_ops w' < 10 | _ \<Rightarrow> False"
    unfolding run_post_login [OF p t, of day_env, simplified]
    by (simp add: login_as_def resolveDemoUser_def run_simps run_signToken getSql_def stmt_def exec_stmt_def Let_def sql_find_user_def
        with_param_def json_def demo_user_def) (simp add: demo_world_def schema_tables_def)
  then obtain r w' where r: "runP (post_login day_env ?req) ?w = (Inr r, w')" "rs_status r = 200" and ops: "w_ops w' < 10"
    by (auto split: prod.splits sum.splits)
  have law: "\<forall>u \<in> set (w_users ?w). jwt_law day_env (user_claims u)" by (simp add: day_jwt_law)
  obtain token k where tok: "rs_data r = Some (JObj [(''token'', JStr token), (''user'', user_json demo_user)])" "w_ops w' = Suc k"
    "\<forall>req2 w2. rq_auth req2 = Some (''Bearer '' @ token) \<longrightarrow> runP (claimsFromRequest day_env req2) w2 =
       (Inr (if e_date day_env (w_ops w2) div 1000 < e_date day_env k div 1000 + 24 * 60 * 60 then Some (user_claims demo_user) else None), w2)"
    using login_token_authenticates [OF p t _ r law] by auto
  moreover have "e_date day_env 9 = 0" "e_date day_env 10 = 86400000" "e_date day_env k = 0"
    using tok(2) ops by (simp_all add: day_env_def day_clock_def)
  ultimately show ?thesis using r(1) by simp
qed

section \<open>Submitting and reading back\<close>

lemma queue_default_found:
  assumes "ready E w" and "runP (stmt E [''queues'', ''projects''] (sql_queue_default E queueId orgId)) w = (Inr (Some d), w')"
  shows "w' = advance_clock E 0 w \<and> (\<exists>g q. uuid_param E orgId = Inr g \<and> uuid_param E queueId = Inr (Some (q_id q))
    \<and> q \<in> set (w_queues w) \<and> queue_in_org w g q)"
proof -
  have "sql_queue_default E queueId orgId (advance_clock E 0 w) = (Inr (Some d), w')"
    using assms(2) unfolding run_stmt [OF assms(1) api_tables(3)] .
  then obtain i g q where q: "uuid_param E queueId = Inr i" "uuid_param E orgId = Inr g" "w' = advance_clock E 0 w"
    "List.find (\<lambda>r. Some (q_id r) = i \<and> queue_in_org (advance_clock E 0 w) g r) (w_queues w) = Some q"
    by (auto simp: sql_queue_default_def with_param_def split: sum.splits)
  then have "q \<in> set (w_queues w)" "Some (q_id q) = i" "queue_in_org w g q"
    by (auto simp: find_Some_iff)
  with q show ?thesis by auto
qed

lemma submit_ok:
  assumes "sql_submit E queueId d f s w = (Inr row, w')"
  shows "w' = w\<lparr>w_jobs := w_jobs w @ [row]\<rparr> \<and> uuid_param E queueId = Inr (Some (j_queue_id row))
    \<and> j_id row = gen_uuid E w \<and> j_id row \<notin> j_id ` set (w_jobs w)"
  using assms
  by (auto simp: sql_submit_def with_required_def with_param_def insert_job_def new_job_def
      split: sum.splits option.splits if_splits)

lemma post_job_201:
  assumes "ready E w" and "runP (post_job E req orgId queueId) w = (Inr r, w')" and "rs_status r = 201"
  obtains body d f s wb row v wc where "json_parse (rq_body req) = Inr body" and "reader body = Inr f" and
    "runP (stmt E [''queues'', ''projects''] (sql_queue_default E queueId orgId)) w = (Inr (Some d), advance_clock E 0 w)"
    and "ready E wb" and "w_jobs wb = w_jobs w" and "w_queues wb = w_queues w" and "w_projects wb = w_projects w"
    and "runP (stmt E [''jobs''] (sql_submit E queueId d f s)) wb = (Inr row, wc)"
    and "mapJob row = Inr v" and "r = json v 201" and "w' = schedule_step E wc"
proof -
  let ?v = "advance_clock E 0 w"
  have rv: "ready E ?v" by (rule ready_advance [OF assms(1)])
  have not: "rs_status (json x 200) \<noteq> 201" "rs_status (error_response m 404 c) \<noteq> 201" for x m c
    by (simp_all add: json_def error_response_def)
  obtain body d wa where 1: "json_parse (rq_body req) = Inr body"
    "runP (stmt E [''queues'', ''projects''] (sql_queue_default E queueId orgId)) w = (Inr (Some d), wa)"
    using assms(2,3) not by (auto simp: post_job_def run_simps split: sum.splits prod.splits option.splits)
  then have wa: "wa = ?v" using queue_default_found [OF assms(1)] by blast
  obtain f where f: "reader body = Inr f"
    using assms(2) 1 by (auto simp: post_job_def run_simps split: sum.splits)
  let ?idem = "if truthy (f ''idempotency_key'') then stmt E [''jobs''] (sql_find_idem E queueId (f ''idempotency_key'')) else Ret None"
  obtain wb where wb: "runP ?idem ?v = (Inr None, wb)"
    using assms(2,3) 1 f wa not by (auto simp: post_job_def run_simps split: sum.splits prod.splits option.splits if_splits)
  have b: "ready E wb \<and> w_jobs wb = w_jobs w \<and> w_queues wb = w_queues w \<and> w_projects wb = w_projects w"
  proof (cases "truthy (f ''idempotency_key'')")
    case True
    with wb have "sql_find_idem E queueId (f ''idempotency_key'') (advance_clock E 0 ?v) = (Inr None, wb)"
      by (simp add: run_stmt [OF rv api_tables(4)])
    then have "wb = advance_clock E 0 ?v" by (auto simp: sql_find_idem_def with_param_def split: sum.splits)
    then show ?thesis by (simp add: ready_advance rv)
  qed (use wb rv in \<open>auto simp: run_simps\<close>)
  show ?thesis
    using assms(2) 1 f wa wb b that
    by (auto simp: post_job_def run_bind run_pure run_schedule runP.simps(1) split: sum.splits prod.splits)
qed

text \<open>C11: A job that was submitted with status 201 is one new row at the end of the table, and reading
  it back by its id, for the same organization, gives exactly the view that the submission
  answered with.\<close>

theorem submitted_job_reads_back:
  assumes "ready E w" and "runP (post_job E req orgId queueId) w = (Inr r, w')" and "rs_status r = 201"
    and "\<And>n. uuid_param E (e_uuid E (Suc n)) = Inr (Some (e_uuid E (Suc n)))"
  shows "\<exists>row v w''. w_jobs w' = w_jobs w @ [row] \<and> rs_data r = Some v
    \<and> runP (get_job E orgId (j_id row)) w' = (Inr (json v 200), w'')"
proof -
  obtain body d f s wb row v wc where "json_parse (rq_body req) = Inr body" "reader body = Inr f" and p:
    "runP (stmt E [''queues'', ''projects''] (sql_queue_default E queueId orgId)) w = (Inr (Some d), advance_clock E 0 w)"
    "ready E wb" "w_jobs wb = w_jobs w" "w_queues wb = w_queues w" "w_projects wb = w_projects w"
    "runP (stmt E [''jobs''] (sql_submit E queueId d f s)) wb = (Inr row, wc)"
    "mapJob row = Inr v" "r = json v 201" "w' = schedule_step E wc"
    by (rule post_job_201 [OF assms(1-3)])
  obtain g q where q: "uuid_param E orgId = Inr g" "uuid_param E queueId = Inr (Some (q_id q))"
    "q \<in> set (w_queues w)" "queue_in_org w g q"
    using queue_default_found [OF assms(1) p(1)] by blast
  let ?b = "advance_clock E 0 wb"
  have s: "sql_submit E queueId d f s ?b = (Inr row, wc)"
    using p(6) unfolding run_stmt [OF p(2) api_tables(4)] .
  have c: "wc = ?b\<lparr>w_jobs := w_jobs w @ [row]\<rparr>" "j_queue_id row = q_id q" "j_id row = e_uuid E (Suc (w_ops wb))"
    "j_id row \<notin> j_id ` set (w_jobs w)"
    using submit_ok [OF s] q(2) p(3) by (auto simp: gen_uuid_def)
  have "ready E wc"
    by (rule readyI [OF p(2)]) (use c p(3) in \<open>auto simp: all_ids_def\<close>)
  then have r: "ready E w'" unfolding p(9) by (rule ready_schedule)
  let ?u = "advance_clock E 0 w'"
  have js: "w_jobs w' = w_jobs w @ [row]" by (simp add: p(9) c(1))
  have "job_in_org ?u g row"
    using q(3,4) c(2) p(4,5) by (auto simp: job_in_org_def queue_in_org_def p(9) c(1))
  then have "List.find (\<lambda>j. Some (j_id j) = Some (j_id row) \<and> job_in_org ?u g j) (w_jobs w @ [row]) = Some row"
    using c(4) by (intro find_unique) (simp, simp, metis Un_iff empty_iff image_eqI list.set(1) option.inject set_ConsD set_append)
  moreover have "uuid_param E (j_id row) = Inr (Some (j_id row))" unfolding c(3) by (rule assms(4))
  ultimately have "sql_job E (j_id row) orgId ?u = (Inr (Some row), ?u)"
    by (simp add: sql_job_def with_param_def q(1) js)
  then have "runP (get_job E orgId (j_id row)) w' = (Inr (json v 200), ?u)"
    by (simp add: get_job_def run_simps run_stmt [OF r api_tables(1)] p(7))
  with js show ?thesis by (auto simp: p(8) json_def)
qed

theorem submitted_job_reads_back_witness:
  "\<exists>r w' row v w''. runP (post_job demo_env (demo_request ''POST'' [] (stringify keyed_body)) ''0'' ''2'') (demo_world []) = (Inr r, w')
     \<and> w_jobs w' = [row] \<and> rs_data r = Some v \<and> runP (get_job demo_env ''0'' (j_id row)) w' = (Inr (json v 200), w'')"
proof -
  let ?req = "demo_request ''POST'' [] (stringify keyed_body)"
  have "case fst (runP (post_job demo_env ?req ''0'' ''2'') (demo_world [])) of Inr r \<Rightarrow> rs_status r = 201 | Inl e \<Rightarrow> False"
    by code_simp
  then obtain r w' where r: "runP (post_job demo_env ?req ''0'' ''2'') (demo_world []) = (Inr r, w')" "rs_status r = 201"
    by (cases "runP (post_job demo_env ?req ''0'' ''2'') (demo_world [])") (auto split: sum.splits)
  have "uuid_param demo_env (e_uuid demo_env (Suc n)) = Inr (Some (e_uuid demo_env (Suc n)))" for n
    by (simp add: uuid_param_def uuid_in_def uuid_syntax_def)
  from submitted_job_reads_back [OF ready_demo r this] r(1) show ?thesis by auto
qed

end
