(* ===== verification/Client_Props.thy ===== *)
theory Client_Props
  imports Client_Facts Login_Props
begin

text \<open>
  Properties of the browser's side of the API and of its composition with the server: what arrives
  of a request, what the browser reads of an answer, sessions that expire, the calls that never
  succeed, and the keys of the cache.
\<close>

section \<open>A browser\<close>

text \<open>
  A browser for the examples: nothing is lost, a path is cut at its slashes, and the parameters of
  a query travel as JSON.
\<close>

definition demo_query :: "(string \<times> string) list \<Rightarrow> string" where
  "demo_query ps = (if ps = [] then [] else stringify (JArr (concat (map (\<lambda>(k, v). [JStr k, JStr v]) ps))))"

fun pair_up :: "jsval list \<Rightarrow> (string \<times> string) list" where
  "pair_up (JStr k # JStr v # vs) = (k, v) # pair_up vs"
| "pair_up _ = []"

definition demo_url :: "string \<Rightarrow> string list \<times> (string \<times> string) list" where
  "demo_url u = (tl (parts CHR ''/'' (takeWhile (\<lambda>c. c \<noteq> CHR ''?'') u)),
     case json_parse (tl (dropWhile (\<lambda>c. c \<noteq> CHR ''?'') u)) of Inr (JArr vs) \<Rightarrow> pair_up vs | _ \<Rightarrow> [])"

definition demo_browser :: browser where
  "demo_browser = \<lparr>b_net = (\<lambda>_. Delivered), b_url = demo_url, b_query = demo_query,
     b_native = (\<lambda>_. ''error''), b_lower = to_lower\<rparr>"

definition demo_client :: "string option \<Rightarrow> client" where
  "demo_client t = \<lparr>c_token = t, c_pathname = ''/'', c_calls = 0\<rparr>"

lemma parts_path:
  assumes "\<forall>s \<in> set segs. CHR ''/'' \<notin> set s"
  shows "tl (parts CHR ''/'' (path_of segs)) = segs"
proof -
  have "parts CHR ''/'' (s @ path_of segs) = s # segs" if "CHR ''/'' \<notin> set s" for s
    using assms that
  proof (induction segs arbitrary: s)
    case (Cons t segs)
    then show ?case by (simp add: path_of_def parts_first)
  qed (simp add: path_of_def parts_none)
  from this [of "[]"] show ?thesis by simp
qed

lemma demo_url_law: "url_law demo_browser"
proof -
  have plain_q: "CHR ''?'' \<notin> set s" if "plain s" for s
  proof -
    have "\<not> plain_char CHR ''?''" by code_simp
    with that show ?thesis unfolding plain_def by blast
  qed
  have pairs: "pair_up (map wire (concat (map (\<lambda>(k, v). [JStr k, JStr v]) ps))) = ps" for ps
    by (induction ps) auto
  have wires: "wireable (JArr (concat (map (\<lambda>(k, v). [JStr k, JStr v]) ps)))" for ps by auto
  have empty: "json_parse [] = Inl Syntax_error" by code_simp
  have no_q: "CHR ''?'' \<notin> set (path_of segs)" if "\<forall>s \<in> set segs. plain s" for segs
    using that plain_q by (induction segs) (simp_all add: path_of_def)
  have split: "takeWhile (\<lambda>c. c \<noteq> CHR ''?'') (p @ ''?'' @ q) = p" "dropWhile (\<lambda>c. c \<noteq> CHR ''?'') (p @ ''?'' @ q) = CHR ''?'' # q"
    "takeWhile (\<lambda>c. c \<noteq> CHR ''?'') p = p" "dropWhile (\<lambda>c. c \<noteq> CHR ''?'') p = []"
    if "CHR ''?'' \<notin> set p" for p q
    using that by (induction p) auto
  have segs: "tl (parts CHR ''/'' (path_of segs)) = segs" if "\<forall>s \<in> set segs. plain s" for segs
    using that plain_no_slash by (intro parts_path) blast
  have 1: "demo_url (path_of segs) = (segs, [])" if "\<forall>s \<in> set segs. plain s" for segs
    by (simp add: demo_url_def split(3,4) [OF no_q [OF that]] segs [OF that] empty)
  have 2: "demo_url (path_of segs @ ''?'' @ demo_query ps) = (segs, ps)" if "\<forall>s \<in> set segs. plain s" "ps \<noteq> []" for segs ps
    unfolding demo_url_def split(1,2) [OF no_q [OF that(1)]]
    using segs [OF that(1)] that(2) json_roundtrip [OF wires, of ps] pairs [of ps]
    by (simp add: demo_query_def del: stringify.simps)
  have "demo_query ps \<noteq> []" if "ps \<noteq> []" for ps using that by (simp add: demo_query_def)
  with 1 2 show ?thesis by (simp add: url_law_def demo_browser_def demo_query_def [of "[]"])
qed

section \<open>Transfer\<close>

text \<open>A call of a session that reaches the server runs the route of its URL.\<close>

lemma path_words:
  "path_of [''queues'', i, ''pause''] = ''/queues/'' @ i @ ''/pause''" "path_of [''queues'', i, ''resume''] = ''/queues/'' @ i @ ''/resume''"
  "path_of [''queues'', i] = ''/queues/'' @ i" "path_of [''queues'', i, ''jobs''] = ''/queues/'' @ i @ ''/jobs''"
  "path_of [''queues''] = ''/queues''" "path_of [''projects''] = ''/projects''"
  "sep_by ''/'' [''queues'', i, s] = ''queues/'' @ i @ ''/'' @ s" "sep_by ''/'' [''queues'', i] = ''queues/'' @ i"
  "sep_by ''/'' [s] = s"
  by (simp_all add: path_of_def sep_by_def)

lemma call_reaches:
  assumes "url_law B" and "\<forall>s \<in> set segs. plain s" and "rc_path k = path_of segs" and "sep_by ''/'' segs \<noteq> ''auth/login''"
    and "getUrl E = Inr u" and "session E c w = Some cl" and "b_net B (c_calls c) \<noteq> Lost_request"
  shows "snd (snd (runP (api_request B E k) (c, w))) =
    snd (runP (Router.routes E (http_request B (c_token c) k) (sep_by ''/'' segs) (cl_org_id cl)) w)"
proof -
  have path: "rq_path (http_request B (c_token c) k) = segs" using url_path [OF assms(1-3)] by simp
  have "snd (runP (handleApi E (http_request B (c_token c) k)) w) =
      snd (runP (Router.routes E (http_request B (c_token c) k) (sep_by ''/'' segs) (cl_org_id cl)) w)"
    using run_handle_session [of B c k E u w cl] assms(4-6) path by (simp split: prod.split sum.split)
  with assms(7) show ?thesis
    by (cases "b_net B (c_calls c)") (simp_all add: run_api_request Let_def split: prod.split)
qed

lemma sent_body:
  assumes "wireable (JObj kvs)"
  shows "json_parse (rq_body (http_request B token (send_call method path (json_stringify (JObj kvs))))) = Inr (wire (JObj kvs))"
    and "rq_method (http_request B token (send_call method path (json_stringify (JObj kvs)))) = method"
proof -
  have "rq_body (http_request B token (send_call method path (json_stringify (JObj kvs)))) = stringify (JObj kvs)"
    by (simp add: http_request_def send_call_def json_stringify_def split: prod.splits)
  with json_roundtrip [OF assms]
  show "json_parse (rq_body (http_request B token (send_call method path (json_stringify (JObj kvs))))) = Inr (wire (JObj kvs))" by simp
qed (simp add: http_request_def send_call_def split: prod.splits)

lemma write_routes:
  assumes "plain i"
  shows "rq_method req = ''POST'' \<Longrightarrow> Router.routes E req (''queues/'' @ i @ ''/jobs'') g = post_job E req g i"
    and "rq_method req = ''PUT'' \<Longrightarrow> Router.routes E req (''queues/'' @ i) g = put_queue E req g i"
    and "rq_method req = ''POST'' \<Longrightarrow> Router.routes E req ''queues'' g = post_queues E req g"
    and "rq_method req = ''POST'' \<Longrightarrow> Router.routes E req ''projects'' g = post_projects E req g"
proof -
  have "\<not> has_line_end ''jobs''" by code_simp
  then show "rq_method req = ''POST'' \<Longrightarrow> Router.routes E req (''queues/'' @ i @ ''/jobs'') g = post_job E req g i"
    using routes_queue [OF assms, of "''jobs''" E req g] by (simp add: queue_routes_def)
  show "rq_method req = ''PUT'' \<Longrightarrow> Router.routes E req (''queues/'' @ i) g = put_queue E req g i"
    using routes_queue_item [OF assms, of E req g] by (simp add: queue_routes_def)
qed (simp_all add: Router.routes_def)

text \<open>C31: What the browser sends arrives. With a valid session and a request that is not lost, each of the
  calls that carry data, \<open>createProject\<close>, \<open>createQueue\<close>, \<open>updateQueue\<close> and \<open>enqueueJob\<close>, leaves the
  server as its own route does, called for the organization of the session, for the queue of the
  call, and with a body from which \<open>req.json()\<close> reads exactly the data of the call. This holds for all
  data with distinct keys whose numbers are integers of less than 54 bits; members that are
  undefined are missing.\<close>

theorem calls_reach_routes:
  assumes "url_law B" and "plain i" and "getUrl E = Inr u" and "session E c w = Some cl"
    and "b_net B (c_calls c) \<noteq> Lost_request" and "wireable (JObj kvs)"
  shows "(\<exists>req. json_parse (rq_body req) = Inr (wire (JObj kvs)) \<and>
       snd (snd (runP (createProject B E (JObj kvs)) (c, w))) = snd (runP (post_projects E req (cl_org_id cl)) w))
   \<and> (\<exists>req. json_parse (rq_body req) = Inr (wire (JObj kvs)) \<and>
       snd (snd (runP (createQueue B E (JObj kvs)) (c, w))) = snd (runP (post_queues E req (cl_org_id cl)) w))
   \<and> (\<exists>req. json_parse (rq_body req) = Inr (wire (JObj kvs)) \<and>
       snd (snd (runP (updateQueue B E i (JObj kvs)) (c, w))) = snd (runP (put_queue E req (cl_org_id cl) i) w))
   \<and> (\<exists>req. json_parse (rq_body req) = Inr (wire (JObj kvs)) \<and>
       snd (snd (runP (enqueueJob B E i (JObj kvs)) (c, w))) = snd (runP (post_job E req (cl_org_id cl) i) w))"
proof -
  note body = sent_body [OF assms(6), of B "c_token c"]
  note reach = call_reaches [OF assms(1) _ _ _ assms(3-5)]
  have "snd (snd (runP (createProject B E (JObj kvs)) (c, w))) = snd (runP (post_projects E
      (http_request B (c_token c) (send_call ''POST'' ''/projects'' (json_stringify (JObj kvs)))) (cl_org_id cl)) w)"
    unfolding createProject_def
    by (subst reach [where segs = "[''projects'']"]) (simp_all add: send_call_def path_words write_routes [OF assms(2)] body(2) [unfolded send_call_def])
  moreover have "snd (snd (runP (createQueue B E (JObj kvs)) (c, w))) = snd (runP (post_queues E
      (http_request B (c_token c) (send_call ''POST'' ''/queues'' (json_stringify (JObj kvs)))) (cl_org_id cl)) w)"
    unfolding createQueue_def
    by (subst reach [where segs = "[''queues'']"]) (simp_all add: send_call_def path_words write_routes [OF assms(2)] body(2) [unfolded send_call_def])
  moreover have "snd (snd (runP (updateQueue B E i (JObj kvs)) (c, w))) = snd (runP (put_queue E
      (http_request B (c_token c) (send_call ''PUT'' (''/queues/'' @ i) (json_stringify (JObj kvs)))) (cl_org_id cl) i) w)"
    unfolding updateQueue_def
    by (subst reach [where segs = "[''queues'', i]"]) (use assms(2) in \<open>simp_all add: send_call_def path_words write_routes [OF assms(2), simplified] body(2) [unfolded send_call_def, simplified]\<close>)
  moreover have "snd (snd (runP (enqueueJob B E i (JObj kvs)) (c, w))) = snd (runP (post_job E
      (http_request B (c_token c) (send_call ''POST'' (''/queues/'' @ i @ ''/jobs'') (json_stringify (JObj kvs)))) (cl_org_id cl) i) w)"
    unfolding enqueueJob_def
    by (subst reach [where segs = "[''queues'', i, ''jobs'']"]) (use assms(2) in \<open>simp_all add: send_call_def path_words write_routes [OF assms(2), simplified] body(2) [unfolded send_call_def, simplified]\<close>)
  ultimately show ?thesis using body(1) by blast
qed

lemma small_int: "int4_ok n \<Longrightarrow> wireable (JInt n)"
  by (auto simp: int4_ok_def)

lemma wireable_toIso: "\<not> isl (toIso t) \<Longrightarrow> wireable (projr (toIso t))"
  by (auto simp: toIso_def split: option.splits if_splits)

lemma wireable_opt [simp]: "wireable (opt_undef JStr x)"
  by (simp add: opt_undef_def split: option.splits)

lemma wireable_object:
  assumes "object fs = Inr v" and "distinct (map fst fs)" and "\<forall>f \<in> set fs. wireable (projr (snd f))"
  shows "wireable v"
proof -
  have "map fst (map (\<lambda>(k, r). (k, projr r)) fs) = map fst fs" by (simp add: split_beta comp_def)
  then have "distinct (map fst (map (\<lambda>(k, r). (k, projr r)) fs))" using assms(2) by (simp only:)
  with assms(3) show ?thesis unfolding object_value [OF assms(1)] wireable.simps by auto
qed

lemma wireable_job:
  assumes "mapJob r = Inr v" and "payload_value (j_payload r) = Inr p" and "wireable p" and "job_ok r"
  shows "wireable v"
proof -
  have int4: "int4_ok (j_priority r)" "int4_ok (j_attempts r)" "int4_ok (j_max_attempts r)"
    using assms(4) by (simp_all add: job_ok_def)
  note ints = int4 [THEN small_int]
  note no_exn = object_isl [OF assms(1) [unfolded mapJob_def]]
  have "wireable (projr (toIso (j_next_run_at r)))" "wireable (projr (toIso (j_claimed_at r)))"
    "wireable (projr (toIso (j_lease_expires_at r)))" "wireable (projr (toIso (j_completed_at r)))"
    "wireable (projr (toIso (j_failed_at r)))" "wireable (projr (toIso (Some (j_created_at r))))"
    "wireable (projr (toIso (Some (j_updated_at r))))"
    by (rule wireable_toIso, rule no_exn, simp)+
  with ints assms(2,3) show ?thesis
    by (intro wireable_object [OF assms(1) [unfolded mapJob_def]]) (simp_all del: wireable.simps(1))
qed

text \<open>C32: What the browser reads of a job answer has the type it declares. The text of the answer
  parses, and read as the interface \<open>Job\<close> it has every member of the row: the id, the status, the
  numbers, the times as ISO texts, and what is null in the row is missing. Only the payload can
  break the type: the interface says it is an object, the database takes any JSON.\<close>

theorem job_view_type:
  assumes "mapJob r = Inr v" and "payload_value (j_payload r) = Inr p" and "wireable p" and "job_ok r"
  shows "\<exists>u. res_json (json v s) = Some u \<and> as_Job u = map_option (\<lambda>y.
    \<lparr>cj_id = j_id r, cj_queue_id = j_queue_id r, cj_status = status_text (j_status r), cj_priority = Fin (of_int (j_priority r)),
     cj_payload = y, cj_idempotency_key = j_idempotency_key r, cj_next_run_at = map_option iso (j_next_run_at r),
     cj_attempts = Fin (of_int (j_attempts r)), cj_max_attempts = Fin (of_int (j_max_attempts r)),
     cj_retry_policy_id = j_retry_policy_id r, cj_worker_id = j_worker_id r, cj_claimed_at = map_option iso (j_claimed_at r),
     cj_lease_expires_at = map_option iso (j_lease_expires_at r), cj_completed_at = map_option iso (j_completed_at r),
     cj_failed_at = map_option iso (j_failed_at r), cj_error_message = j_error_message r, cj_cron_expr = j_cron_expr r,
     cj_batch_id = j_batch_id r, cj_created_at = iso (j_created_at r), cj_updated_at = iso (j_updated_at r)\<rparr>) (as_record (sent p))"
proof (intro exI conjI)
  show "res_json (json v s) = Some (wire v)"
    using json_roundtrip [OF wireable_job [OF assms]] by (simp add: res_json_def json_def)
qed (rule Job_of_view [OF assms(1,2)])

theorem job_view_type_witness:
  "\<exists>v u J. mapJob (demo_job ''4'' 5 noop_payload) = Inr v \<and> res_json (json v 200) = Some u \<and> as_Job u = Some J
     \<and> cj_id J = ''4'' \<and> cj_status J = ''queued'' \<and> cj_worker_id J = None"
proof -
  let ?r = "demo_job ''4'' 5 noop_payload"
  have p: "payload_value (j_payload ?r) = Inr noop_payload" "wireable noop_payload"
    by (simp_all add: demo_job_def noop_payload_def payload_value_def)
  have "valid_date 0" by (simp add: valid_date_def date_ms_def)
  with p have "\<exists>v. mapJob ?r = Inr v" unfolding mapJob_ok by (simp add: demo_job_def job_dates_def List.map_filter_def)
  then obtain v where v: "mapJob ?r = Inr v" by blast
  have "job_ok ?r" by (simp add: demo_job_def job_ok_def int4_ok_def)
  from job_view_type [OF v p this, of 200] show ?thesis
    using v by (auto simp: as_record_def sent_def noop_payload_def demo_job_def status_text_def)
qed

section \<open>Sessions\<close>

text \<open>C33: A call whose token the server does not accept ends the session: the call rejects, the token
  is removed from the browser, the browser is on the login page, and the server has changed
  nothing.\<close>

theorem expired_session_signs_out:
  assumes "b_net B (c_calls c) = Delivered" and "rc_auth k" and "session E c w = None"
    and "sep_by ''/'' (rq_path (http_request B (c_token c) k)) \<noteq> ''auth/login''"
  shows "\<exists>c'. runP (api_request B E k) (c, w) = (Inl (Error ''Session expired. Sign in again.''), (c', w))
    \<and> \<not> hasToken c' \<and> c_pathname c' = ''/login''"
proof -
  have "runP (handleApi E (http_request B (c_token c) k)) w = (Inr unauthorized, w)"
    using assms(3,4) by (simp add: handleApi_def Let_def run_simps run_session)
  then show ?thesis
    using assms(1,2)
    by (simp add: run_api_request answer_def Let_def settle_def unauthorized_def error_response_def json_def
        session_expired_def hasToken_def getToken_def clearToken_def)
qed

theorem expired_session_signs_out_witness:
  "\<exists>c'. runP (getJob demo_browser demo_env ''4'') (demo_client (Some ''old''), demo_world [])
     = (Inl (Error ''Session expired. Sign in again.''), (c', demo_world [])) \<and> \<not> hasToken c' \<and> c_pathname c' = ''/login''"
proof -
  have "json_parse ''old'' = Inl Syntax_error" by code_simp
  then have "session demo_env (demo_client (Some ''old'')) (demo_world []) = None"
    by (simp add: session_def demo_client_def demo_env_def verify_in_def)
  moreover have "plain ''4''" by code_simp
  then have "rq_path (http_request demo_browser t (get_call (''/jobs/'' @ ''4''))) = [''jobs'', ''4'']" for t
    by (intro url_path [OF demo_url_law]) (simp_all add: get_call_def path_of_def)
  ultimately show ?thesis
    unfolding getJob_def
    by (intro expired_session_signs_out) (simp_all add: demo_browser_def get_call_def sep_by_def)
qed

section \<open>Calls that never succeed\<close>

text \<open>A call below \<open>queues\<close> rejects when no answer of its route has a value.\<close>

lemma queue_call:
  assumes "url_law B" and "\<forall>s \<in> set segs. plain s" and "rc_path k = path_of (''queues'' # segs)" and "segs \<noteq> []"
    and "\<And>req g. rq_method req = rc_method k \<Longrightarrow> yields no_value (routes E req (sep_by ''/'' (''queues'' # segs)) g)"
  shows "isl (fst (runP (api_request B E k) (c, w)))"
proof (rule no_value_rejects, rule yields_handle)
  fix token g
  let ?req = "http_request B token k"
  have path: "rq_path ?req = ''queues'' # segs" and meth: "rq_method ?req = rc_method k"
    using url_path [OF assms(1) _ assms(3), of token] assms(2) by simp_all
  show "sep_by ''/'' (rq_path ?req) \<noteq> ''auth/login''" using assms(4) by (simp add: path sep_by_def)
  show "yields no_value (routes E ?req (sep_by ''/'' (rq_path ?req)) g)"
    unfolding path by (rule assms(5) [OF meth])
qed simp_all

lemma pause_routes:
  assumes "plain i" and "rq_method req = ''POST''"
  shows "routes E req (''queues/'' @ i @ ''/pause'') g = post_pause E g i"
    and "routes E req (''queues/'' @ i @ ''/resume'') g = post_resume E g i"
proof -
  have "\<not> has_line_end ''pause''" "\<not> has_line_end ''resume''" by code_simp+
  with routes_queue [OF assms(1), of _ E req g] assms(2)
  show "routes E req (''queues/'' @ i @ ''/pause'') g = post_pause E g i"
    and "routes E req (''queues/'' @ i @ ''/resume'') g = post_resume E g i"
    by (simp_all add: queue_routes_def)
qed

lemma pause_never_returns:
  assumes "url_law B" and "plain i"
  shows "isl (fst (runP (pauseQueue B E i) (c, w)))" and "isl (fst (runP (resumeQueue B E i) (c, w)))"
proof -
  show "isl (fst (runP (pauseQueue B E i) (c, w)))"
    unfolding pauseQueue_def
    by (rule queue_call [OF assms(1), of "[i, ''pause'']"])
      (use assms(2) in \<open>simp_all add: send_call_def path_words pause_routes [simplified] post_pause_def yields_bind yields_Ret\<close>)
  show "isl (fst (runP (resumeQueue B E i) (c, w)))"
    unfolding resumeQueue_def
    by (rule queue_call [OF assms(1), of "[i, ''resume'']"])
      (use assms(2) in \<open>simp_all add: send_call_def path_words pause_routes [simplified] post_resume_def yields_bind yields_Ret\<close>)
qed

lemma get_queue_never_returns:
  assumes "url_law B" and "plain i"
  shows "isl (fst (runP (getQueue B E i) (c, w)))"
proof -
  have "routes E req (''queues/'' @ i) g = Ret (error_response ''not found'' 404 ''NOT_FOUND'')"
    if "rq_method req = ''GET''" for req g
  proof (rule routes_queue_none)
    show "match_sub ''queues'' (''queues/'' @ i) = Some (i, [])"
      unfolding match_sub_iff using assms(2) plain_no_slash by (auto simp: plain_def)
  qed (use that in \<open>simp add: queue_routes_def\<close>)
  then show ?thesis
    unfolding getQueue_def
    by (intro queue_call [OF assms(1), of "[i]"]) (use assms(2) in \<open>simp_all add: get_call_def path_words yields_Ret\<close>)
qed

lemma pause_effect:
  assumes "url_law B" and "plain i" and "b_net B (c_calls c) = Delivered" and "ready E w" and "getUrl E = Inr u"
    and "session E c w = Some cl" and "uuid_param E i = Inr (Some qid)" and "uuid_param E (cl_org_id cl) = Inr g"
  shows "\<exists>c' w'. runP (pauseQueue B E i) (c, w) = (Inl Bad_json, (c', w')) \<and> c_token c' = c_token c
    \<and> w_queues w' = update_where (\<lambda>q. q_id q = qid \<and> queue_in_org w g q) (pause_set True (w_now w')) (w_queues w)"
proof -
  let ?k = "send_call ''POST'' (''/queues/'' @ i @ ''/pause'') None"
  let ?req = "http_request B (c_token c) ?k"
  let ?v = "advance_clock E 0 w"
  let ?w' = "?v\<lparr>w_queues := update_where (\<lambda>q. q_id q = qid \<and> queue_in_org w g q) (pause_set True (w_now ?v)) (w_queues w)\<rparr>"
  have req: "rq_path ?req = [''queues'', i, ''pause'']" "rq_method ?req = ''POST''"
    using url_path [OF assms(1), of "[''queues'', i, ''pause'']" ?k "c_token c"] assms(2)
    by (simp_all add: send_call_def path_words)
  have "sql_set_paused E True i (cl_org_id cl) ?v = (Inr (), ?w')"
    by (simp add: sql_set_paused_def with_param_def assms(7,8))
  then have "runP (post_pause E (cl_org_id cl) i) w = (Inr no_content, ?w')"
    by (simp add: post_pause_def run_simps run_stmt [OF assms(4) api_tables(3)])
  then have "runP (handleApi E ?req) w = (Inr no_content, ?w')"
    using run_handle_session [of B c ?k E u w cl] assms(2,5,6) req by (simp add: path_words pause_routes [simplified])
  then show ?thesis
    unfolding pauseQueue_def run_api_request Let_def
    using assms(3) by (simp add: answer_def settle_def no_content_def res_ok_def res_json_def)
qed

text \<open>C34: Pausing and resuming a queue from the browser never succeeds, whatever the network and the
  server do: the server answers 204 with no body, which the client tries to read as JSON. Fetching
  one queue never succeeds either: the server has no such route. The server does carry out the
  pause: with a valid session and a working database the queue of the user's organization is paused
  although the call rejects.\<close>

theorem pause_rejects_but_pauses:
  assumes "url_law B" and "plain i"
  shows "isl (fst (runP (pauseQueue B E i) (c, w))) \<and> isl (fst (runP (resumeQueue B E i) (c, w)))
    \<and> isl (fst (runP (getQueue B E i) (c, w)))
    \<and> (\<forall>u cl qid g. b_net B (c_calls c) = Delivered \<and> ready E w \<and> getUrl E = Inr u \<and> session E c w = Some cl
         \<and> uuid_param E i = Inr (Some qid) \<and> uuid_param E (cl_org_id cl) = Inr g \<longrightarrow>
       (\<exists>c' w'. runP (pauseQueue B E i) (c, w) = (Inl Bad_json, (c', w')) \<and> c_token c' = c_token c
         \<and> w_queues w' = update_where (\<lambda>q. q_id q = qid \<and> queue_in_org w g q) (pause_set True (w_now w')) (w_queues w)))"
  using pause_never_returns [OF assms] get_queue_never_returns [OF assms] pause_effect [OF assms] by blast

definition demo_token :: string where
  "demo_token = stringify (token_payload (user_claims demo_user) 0 86400)"

lemma demo_session: "session demo_env (demo_client (Some demo_token)) w = Some (user_claims demo_user)"
proof -
  let ?p = "token_payload (user_claims demo_user) 0 86400"
  have "wireable (JInt 0)" "wireable (JInt 86400)" by auto
  then have "wireable ?p" unfolding token_payload_def by (simp del: wireable.simps(1))
  from json_roundtrip [OF this] have "json_parse (stringify ?p) = Inr ?p" by (simp add: token_payload_def)
  from verify_payload [OF this] have "e_jwt_verify demo_env (secret demo_env) (w_ops w) demo_token = Some ?p"
    by (simp add: demo_env_def demo_token_def epoch_def)
  moreover have "demo_token \<noteq> []" by (simp add: demo_token_def token_payload_def)
  moreover have "session demo_env (demo_client (Some t)) w =
      (case e_jwt_verify demo_env (secret demo_env) (w_ops w) t of None \<Rightarrow> None | Some p \<Rightarrow> payload_claims p)" if "t \<noteq> []" for t
    using that by (cases t) (simp_all add: session_def demo_client_def)
  ultimately show ?thesis by (simp add: token_claims)
qed

theorem calls_reach_routes_witness:
  "\<exists>req. json_parse (rq_body req) = Inr (JObj [(''name'', JStr ''Mail''), (''priority_default'', JInt 5)])
     \<and> snd (snd (runP (updateQueue demo_browser demo_env ''2'' (JObj [(''name'', JStr ''Mail''), (''priority_default'', JInt 5),
           (''concurrency_limit'', JUndef)])) (demo_client (Some demo_token), demo_world [])))
         = snd (runP (put_queue demo_env req ''0'' ''2'') (demo_world []))"
proof -
  let ?kvs = "[(''name'', JStr ''Mail''), (''priority_default'', JInt 5), (''concurrency_limit'', JUndef)]"
  have w: "wireable (JObj ?kvs)" by (simp add: exI [of _ 5])
  have pl: "plain ''2''" and url: "getUrl demo_env = Inr ''postgres://db''" by code_simp+
  have net: "b_net demo_browser (c_calls (demo_client (Some demo_token))) \<noteq> Lost_request" by (simp add: demo_browser_def)
  from calls_reach_routes [OF demo_url_law pl url demo_session net w]
  show ?thesis by (auto simp: user_claims_def demo_user_def)
qed

theorem pause_rejects_but_pauses_witness:
  "\<exists>c' w'. runP (pauseQueue demo_browser demo_env ''2'') (demo_client (Some demo_token), demo_world []) = (Inl Bad_json, (c', w'))
     \<and> map q_paused (w_queues w') = [True]"
proof -
  let ?c = "demo_client (Some demo_token)" and ?w = "demo_world []"
  have "plain ''2''" by code_simp
  moreover have "uuid_param demo_env ''2'' = Inr (Some ''2'')" "uuid_param demo_env ''0'' = Inr (Some ''0'')"
    by (simp_all add: uuid_param_def uuid_in_def uuid_syntax_def)
  moreover have "queue_in_org ?w (Some ''0'') demo_queue"
    by (simp add: queue_in_org_def demo_world_def demo_project_def demo_queue_def)
  moreover have "getUrl demo_env = Inr ''postgres://db''" by code_simp
  ultimately show ?thesis
    using pause_rejects_but_pauses [OF demo_url_law, of "''2''" demo_env ?c ?w] demo_session [of ?w] ready_demo [of "[]"]
    by (auto simp: demo_browser_def user_claims_def demo_user_def demo_world_def demo_queue_def pause_set_def)
qed

section \<open>The cache\<close>

fun hook_ok :: "hook \<Rightarrow> bool" where
  "hook_ok (useQueueStats i) = (\<forall>s \<in> set_option i. uuid_syntax s)"
| "hook_ok (useAllQueueStats is) = (\<forall>s \<in> set is. uuid_syntax s)"
| "hook_ok (useJobs params) = distinct (map fst params)"
| "hook_ok (useJob i) = (\<forall>s \<in> set_option i. uuid_syntax s)"
| "hook_ok (useJobExecutions i) = (\<forall>s \<in> set_option i. uuid_syntax s)"
| "hook_ok (useJobLogs i) = (\<forall>s \<in> set_option i. uuid_syntax s)"
| "hook_ok _ = True"

lemma id_key_Some: "id_key pre i = Some k \<longleftrightarrow> (\<exists>s. i = Some s \<and> s \<noteq> [] \<and> k = pre @ s)"
  by (auto simp: id_key_def split: option.splits list.splits)

lemma uuid_not_word: "uuid_syntax s \<Longrightarrow> s \<noteq> ''exec-'' @ t \<and> s \<noteq> ''logs-'' @ t \<and> CHR '','' \<notin> set s"
proof -
  assume "uuid_syntax s"
  then have h: "c = CHR ''-'' \<or> c \<in> set ''0123456789abcdef''" if "c \<in> set s" for c
    using that unfolding uuid_syntax_def by blast
  have "CHR ''x'' \<notin> set s" "CHR ''l'' \<notin> set s" "CHR '','' \<notin> set s"
    using h [of "CHR ''x''"] h [of "CHR ''l''"] h [of "CHR '',''"] by auto
  then show ?thesis by force
qed

lemma sep_by_inj:
  assumes "sep_by '','' xs = sep_by '','' ys" and "xs \<noteq> []" and "ys \<noteq> []"
    and "\<forall>s \<in> set xs \<union> set ys. CHR '','' \<notin> set s"
  shows "xs = ys"
proof -
  have "parts CHR '','' (x @ concat (map (\<lambda>t. '','' @ t) zs)) = x # zs" if "\<forall>s \<in> set (x # zs). CHR '','' \<notin> set s" for x zs
    using that
  proof (induction zs arbitrary: x)
    case (Cons z zs)
    then show ?case by (simp add: parts_first)
  qed (simp add: parts_none)
  then have "parts CHR '','' (sep_by '','' zs) = zs" if "\<forall>s \<in> set zs. CHR '','' \<notin> set s" "zs \<noteq> []" for zs
    using that by (cases zs) (simp_all add: sep_by_def append_comma)
  with assms show ?thesis by (metis UnCI)
qed

lemma params_json_inj:
  assumes "stringify (params_json ps) = stringify (params_json qs)" and "distinct (map fst ps)" and "distinct (map fst qs)"
  shows "ps = qs"
proof -
  have keys: "map fst (map (apsnd JStr) xs) = map fst xs" for xs :: "(string \<times> string) list" by simp
  have wire: "wire (params_json xs) = params_json xs" for xs
    by (induction xs) (auto simp: params_json_def)
  have parse: "json_parse (stringify (params_json xs)) = Inr (params_json xs)" if "distinct (map fst xs)" for xs
  proof -
    have "distinct (map fst (map (apsnd JStr) xs))" using that by (simp only: keys)
    then have "wireable (params_json xs)" unfolding params_json_def wireable.simps by auto
    from json_roundtrip [OF this] show ?thesis by (simp only: wire)
  qed
  have "params_json ps = params_json qs" using parse [OF assms(2)] parse [OF assms(3)] unfolding assms(1) by simp
  moreover have "inj (apsnd JStr :: string \<times> string \<Rightarrow> _)" unfolding apsnd_def by (intro prod.inj_map) (auto intro: injI)
  ultimately show ?thesis by (simp add: params_json_def inj_map_eq_map)
qed

text \<open>No two different hooks share a key of the cache, as long as ids are UUIDs: what one of them
  fetched is never shown for another, and the statistics or jobs of one set of queues or
  parameters are never taken for those of another.\<close>

theorem cache_keys_distinct:
  assumes "hook_ok h1" and "hook_ok h2" and "hook_key h1 = Some k" and "hook_key h2 = Some k"
  shows "h1 = h2"
proof -
  have sep: "is = js" if "sep_by '','' is = sep_by '','' js" "is \<noteq> []" "js \<noteq> []" "\<forall>s \<in> set is. uuid_syntax s" "\<forall>s \<in> set js. uuid_syntax s" for "is" js
    using sep_by_inj [OF that(1-3)] that(4,5) uuid_not_word by blast
  show ?thesis
    using assms
    by (cases h1; cases h2) (auto simp: id_key_Some sep params_json_inj dest: uuid_not_word [simplified] split: if_splits)
qed

theorem cache_keys_distinct_witness:
  "useJob (Some ''4'') = useJob (Some ''4'') \<and> hook_key (useJob (Some ''4'')) \<noteq> hook_key (useJobLogs (Some ''4''))"
proof -
  have "uuid_syntax ''4''" by (simp add: uuid_syntax_def)
  then show ?thesis
    using cache_keys_distinct [of "useJob (Some ''4'')" "useJob (Some ''4'')" "''job-4''"] by (simp add: id_key_def)
qed

end
