(* ===== verification/Forms_Props.thy ===== *)
theory Forms_Props
  imports Forms Format_Props Client_Props
begin

text \<open>
  Properties of the submit form: whatever is typed, the payload of a template stays in step with its
  inputs, and what a template submits is what the worker executes.
\<close>

section \<open>Templates\<close>

text \<open>While a template without a text area is selected, the payload is the template's.\<close>

definition synced :: "submit_form \<Rightarrow> bool" where
  "synced f \<longleftrightarrow> (sf_template f \<in> {Sleep, Always_fail} \<longrightarrow> sf_customPayload f = pretty [] (template_payload f))"

lemma parseInt_digits:
  assumes "s = dec_digits n" and "n < 2 ^ 53"
  shows "parseInt s = Fin (of_nat n)"
proof -
  have "s \<noteq> []" using assms(1) by simp
  then obtain c cs where s: "s = c # cs" by (cases s) simp_all
  then have "c \<in> set (dec_digits n)" using assms(1) by (metis list.set_intros(1))
  with s have c: "s = c # cs" "is_digit c" using digits_are_digits by blast+
  then have "slug_char c" by (simp add: is_digit_def slug_char_def Let_def)
  with c have "trim_start js_space s = s" by (intro trim_start_slug) auto
  moreover have tw: "takeWhile is_digit (dec_digits n) = dec_digits n"
    using digits_are_digits by (simp add: takeWhile_eq_all_conv)
  moreover have "\<not> starts_with s ''-''" "\<not> starts_with s ''+''" using c by (auto simp: is_digit_def)
  ultimately show ?thesis
    using assms to_num_int [of "int n"] by (simp add: parseInt_def Let_def tw)
qed

lemma initial_synced: "synced (initial_submit d queues)"
proof -
  have "dec_digits 500 = ''500''" by code_simp
  then have "parseInt ''500'' = Fin 500" using parseInt_digits [of "''500''" 500] by simp
  then show ?thesis by (simp add: synced_def initial_submit_def template_payload_def JOB_TEMPLATES_def num_or_def)
qed

lemma template_payload_cong:
  "sf_template g = sf_template f \<Longrightarrow> sf_durationMs g = sf_durationMs f \<Longrightarrow> sf_failMessage g = sf_failMessage f
    \<Longrightarrow> template_payload g = template_payload f"
  by (simp add: template_payload_def split: JobTemplate.splits)

lemma payload_effect_synced: "synced (payload_effect f)"
  by (simp add: synced_def payload_effect_def template_payload_def split: JobTemplate.splits)

lemma queue_effect_fields [simp]:
  "sf_template (queue_effect qs f) = sf_template f" "sf_durationMs (queue_effect qs f) = sf_durationMs f"
  "sf_failMessage (queue_effect qs f) = sf_failMessage f" "sf_customPayload (queue_effect qs f) = sf_customPayload f"
  by (simp_all add: queue_effect_def split: list.splits)

lemma change_synced: "synced f \<Longrightarrow> synced (submit_change queues i f)"
proof (cases "input_shown i f")
  case True
  assume f: "synced f"
  let ?g = "set_input i f"
  let ?g1 = "if sf_queueId ?g \<noteq> sf_queueId f then queue_effect queues ?g else ?g"
  have keep: "sf_customPayload ?g1 = sf_customPayload f \<or> sf_template ?g1 \<in> {Custom, Webhook}"
    using True by (cases i) auto
  show ?thesis
  proof (cases "(sf_template ?g1, sf_durationMs ?g1, sf_failMessage ?g1) = (sf_template f, sf_durationMs f, sf_failMessage f)")
    case True
    then have eq: "sf_template ?g1 = sf_template f" "template_payload ?g1 = template_payload f"
      using template_payload_cong [of ?g1 f] by simp_all
    have "submit_change queues i f = ?g1" using True \<open>input_shown i f\<close> by (simp add: submit_change_def Let_def)
    moreover have "synced ?g1" unfolding synced_def using f keep eq by (auto simp: synced_def)
    ultimately show ?thesis by simp
  next
    case False
    then have "submit_change queues i f = payload_effect ?g1" using \<open>input_shown i f\<close> by (simp add: submit_change_def Let_def)
    then show ?thesis by (simp add: payload_effect_synced)
  qed
qed (simp add: submit_change_def)

lemma changes_synced: "synced (fold (submit_change queues) inputs (initial_submit d queues))"
proof -
  have "synced f \<Longrightarrow> synced (fold (submit_change queues) inputs f)" for f
    by (induction inputs arbitrary: f) (simp_all add: change_synced)
  then show ?thesis using initial_synced by blast
qed

text \<open>C38: What the submit form promises is what the worker does. After any sequence of changes to the
  form, the payload text of the sleep template parses to a job that succeeds after the duration
  typed in, at most five seconds and at least one millisecond, or after half a second when the
  duration is zero or no number; and that of the failure template to a job that fails with the
  message typed in, or with the default message when that is empty.\<close>

theorem form_templates_execute:
  assumes "f = fold (submit_change queues) inputs (initial_submit d queues)"
    and "parseInt (sf_durationMs f) = (if valid then Fin (of_int n) else NaN)" and "\<bar>n\<bar> < 2 ^ 53"
  shows "(sf_template f = Sleep \<longrightarrow> (\<exists>p. json_parse (sf_customPayload f) = Inr p
        \<and> sleep_delay p = Inr (if \<not> valid \<or> n = 0 then 500 else nat (max 1 (min 5000 n)))
        \<and> (\<forall>E w. fst (runP (run_payload E p) w) = Inr (True, []))))
    \<and> (sf_template f = Always_fail \<longrightarrow> (\<exists>p. json_parse (sf_customPayload f) = Inr p
        \<and> (\<forall>E w. runP (run_payload E p) w = (Inr (False, if sf_failMessage f = [] then ''simulated failure'' else sf_failMessage f), w))))"
proof (intro conjI impI)
  have sync: "synced f" unfolding assms(1) by (rule changes_synced)
  let ?n = "if \<not> valid \<or> n = 0 then 500 else n"
  assume t: "sf_template f = Sleep"
  let ?v = "JObj [(''type'', JStr ''sleep''), (''duration_ms'', JInt ?n)]"
  have v: "template_payload f = ?v" using t assms(2) by (simp add: template_payload_def num_or_def)
  have w: "wireable ?v" using assms(3) by auto
  have parse: "json_parse (sf_customPayload f) = Inr ?v"
    using sync t pretty_roundtrip [OF w] v by (simp add: synced_def)
  have delay: "sleep_delay ?v = Inr (if \<not> valid \<or> n = 0 then 500 else nat (max 1 (min 5000 n)))"
    by (auto simp: sleep_delay_def num_or_def timer_ms_def min_def max_def)
  then have "fst (runP (run_payload E ?v) w) = Inr (True, [])" for E w
    by (simp add: run_payload_outcome payload_outcome_def)
  with parse delay show "\<exists>p. json_parse (sf_customPayload f) = Inr p
        \<and> sleep_delay p = Inr (if \<not> valid \<or> n = 0 then 500 else nat (max 1 (min 5000 n)))
        \<and> (\<forall>E w. fst (runP (run_payload E p) w) = Inr (True, []))" by blast
next
  have sync: "synced f" unfolding assms(1) by (rule changes_synced)
  assume t: "sf_template f = Always_fail"
  let ?v = "JObj [(''type'', JStr ''always_fail''), (''message'', JStr (sf_failMessage f))]"
  have "template_payload f = ?v" using t by (simp add: template_payload_def)
  then have parse: "json_parse (sf_customPayload f) = Inr ?v"
    using sync t pretty_roundtrip [of ?v] by (simp add: synced_def)
  have "runP (run_payload E ?v) w = (Inr (False, if sf_failMessage f = [] then ''simulated failure'' else sf_failMessage f), w)" for E w
    by (simp add: run_payload_def run_simps fail_message_def js_or_def)
  with parse show "\<exists>p. json_parse (sf_customPayload f) = Inr p
        \<and> (\<forall>E w. runP (run_payload E p) w = (Inr (False, if sf_failMessage f = [] then ''simulated failure'' else sf_failMessage f), w))"
    by blast
qed

theorem form_templates_execute_witness:
  "\<exists>p. json_parse (sf_customPayload (submit_change [] (In_duration ''900'') (initial_submit None []))) = Inr p \<and> sleep_delay p = Inr 900"
proof -
  let ?f = "submit_change [] (In_duration ''900'') (initial_submit None [])"
  have f: "sf_template ?f = Sleep" "sf_durationMs ?f = ''900''"
    by (simp_all add: submit_change_def initial_submit_def payload_effect_def Let_def)
  have "dec_digits 900 = ''900''" by code_simp
  then have "parseInt ''900'' = Fin 900" using parseInt_digits [of "''900''" 900] by simp
  with f form_templates_execute [of ?f "[]" "[In_duration ''900'']" None True 900] show ?thesis by auto
qed

end
