(* ===== verification/Console_Props.thy ===== *)
theory Console_Props
  imports Console Client_Props Format_Props
begin

text \<open>
  Properties of the shell of the console: what the command palette lists and in which order, the
  invariant of the shared state under every sequence of events, and that the pause commands never
  see their confirmation.
\<close>

section \<open>The list of the palette\<close>

lemma sort_key_map: "sort_key f (map h xs) = map h (sort_key (\<lambda>x. f (h x)) xs)"
proof -
  have "insort_key f (h x) (map h ys) = map h (insort_key (\<lambda>x. f (h x)) x ys)" for x ys
    by (induction ys) auto
  then show ?thesis by (induction xs) simp_all
qed

lemma palette_filtered_eq:
  "palette_filtered B items query = sort_key (\<lambda>it. - int (score B query it)) (filter (\<lambda>it. score B query it > 0) items)"
  by (simp add: palette_filtered_def filter_map sort_key_map comp_def)

lemma sort_key_const: "sort_key (\<lambda>_. k) xs = xs"
proof -
  have "insort_key (\<lambda>_. k) x ys = x # ys" for x :: 'a and ys by (cases ys) simp_all
  then show ?thesis by (induction xs) simp_all
qed

text \<open>C37: The command palette lists exactly the commands that match the query, each as often as it is
  offered, the better matches first, and commands that match equally well in the order in which they
  are offered. With an empty query it lists every command, in order.\<close>

theorem palette_list_spec:
  "mset (palette_filtered B items query) = filter_mset (\<lambda>it. score B query it > 0) (mset items)
   \<and> sorted_wrt (\<lambda>a b. score B query b \<le> score B query a) (palette_filtered B items query)
   \<and> (\<forall>k. filter (\<lambda>it. score B query it = k) (palette_filtered B items query) = filter (\<lambda>it. score B query it = k \<and> 0 < k) items)
   \<and> (trim (b_lower B query) = [] \<longrightarrow> palette_filtered B items query = items)"
proof (intro conjI allI impI)
  let ?f = "\<lambda>it. - int (score B query it)" and ?xs = "filter (\<lambda>it. score B query it > 0) items"
  show "mset (palette_filtered B items query) = filter_mset (\<lambda>it. score B query it > 0) (mset items)"
    by (simp add: palette_filtered_eq)
  have "sorted (map ?f (sort_key ?f ?xs))" by simp
  then show "sorted_wrt (\<lambda>a b. score B query b \<le> score B query a) (palette_filtered B items query)"
    unfolding palette_filtered_eq by (simp only: sorted_map) simp
  fix k
  have "filter (\<lambda>it. score B query it = k) (sort_key ?f ?xs) = filter (\<lambda>it. ?f it = - int k) (sort_key ?f ?xs)" by simp
  also have "\<dots> = filter (\<lambda>it. ?f it = - int k) ?xs" by (rule sort_key_stable)
  finally show "filter (\<lambda>it. score B query it = k) (palette_filtered B items query) = filter (\<lambda>it. score B query it = k \<and> 0 < k) items"
    unfolding palette_filtered_eq by (auto intro: filter_cong)
next
  assume "trim (b_lower B query) = []"
  then have "score B query it = 1" for it by (simp add: score_def)
  then show "palette_filtered B items query = items"
    by (simp add: palette_filtered_eq sort_key_const)
qed

theorem palette_list_spec_witness: "map ci_id (palette_filtered demo_browser (palette_items [] []) []) = map ci_id nav_items"
proof -
  have "trim (b_lower demo_browser []) = []" by (simp add: demo_browser_def trim_Nil)
  then have "palette_filtered demo_browser (palette_items [] []) [] = palette_items [] []"
    using palette_list_spec [of demo_browser "palette_items [] []" "[]"] by blast
  then show ?thesis by (simp add: palette_items_def)
qed

section \<open>The invariant of the console\<close>

definition console_inv :: "console \<times> palette \<Rightarrow> bool" where
  "console_inv st \<longleftrightarrow> length (co_pulseEvents (fst st)) \<le> 50 \<and> - 1 \<le> pl_active (snd st)
     \<and> (\<not> co_commandOpen (fst st) \<longrightarrow> snd st = initial_palette)"

lemma initial_palette_simps [simp]: "pl_query initial_palette = []" "pl_active initial_palette = 0"
  by (simp_all add: initial_palette_def)

lemma length_slice_last: "length (slice_last n xs) \<le> n"
  by (simp add: slice_last_def)

lemma pulse_effect_bound: "length (co_pulseEvents c) \<le> 50 \<Longrightarrow> length (co_pulseEvents (pulse_effect now pg c)) \<le> 50"
  by (auto simp: pulse_effect_def Let_def length_slice_last split: option.splits)

lemma pulse_effect_open: "co_commandOpen (pulse_effect now pg c) = co_commandOpen c"
  by (simp add: pulse_effect_def Let_def split: option.splits)

lemma palette_key_active: "- 1 \<le> pl_active p \<Longrightarrow> - 1 \<le> pl_active (fst (palette_key key fs p))"
  by (auto simp: palette_key_def split: option.splits)

lemma palette_key_runs:
  "snd (palette_key key fs p) = Run_item it \<Longrightarrow> it \<in> set fs"
  by (auto simp: palette_key_def item_at_def split: option.splits if_splits)

lemmas console_ops = onKey_def setCommandOpen_def openCommand_def openSubmitJob_def openCreateQueue_def

lemma event_inv:
  assumes "console_inv (c, p)"
  shows "length (co_pulseEvents (fst (fst (console_event_step B queues dlq ev (c, p))))) \<le> 50"
    and "- 1 \<le> pl_active (snd (fst (console_event_step B queues dlq ev (c, p))))"
    and "\<not> co_commandOpen c \<Longrightarrow> snd (fst (console_event_step B queues dlq ev (c, p))) = p"
proof -
  note inv = assms [unfolded console_inv_def, simplified]
  show "length (co_pulseEvents (fst (fst (console_event_step B queues dlq ev (c, p))))) \<le> 50"
    using inv pulse_effect_bound by (cases ev) (simp_all add: console_ops Let_def split: option.splits)
  show "- 1 \<le> pl_active (snd (fst (console_event_step B queues dlq ev (c, p))))"
    using inv palette_key_active by (cases ev) (simp_all add: Let_def split: option.splits)
  show "\<not> co_commandOpen c \<Longrightarrow> snd (fst (console_event_step B queues dlq ev (c, p))) = p"
    by (cases ev) (simp_all split: option.splits)
qed

lemma effects_inv:
  assumes "length (co_pulseEvents (fst new)) \<le> 50" and "- 1 \<le> pl_active (snd new)"
    and "\<not> co_commandOpen (fst old) \<Longrightarrow> snd new = snd old \<and> snd old = initial_palette"
  shows "console_inv (palette_effects old new)"
  using assms by (auto simp: console_inv_def palette_effects_def Let_def initial_palette_def)

lemma console_reach_inv: "console_reach B st \<Longrightarrow> console_inv st"
proof (induction rule: console_reach.induct)
  case start
  show ?case by (simp add: console_inv_def initial_console_def)
next
  case (event st queues dlq ev)
  obtain c p where st: "st = (c, p)" by (cases st)
  have "console_inv (palette_effects st (fst (console_event_step B queues dlq ev st)))"
    using event_inv [of c p] event.IH unfolding st
    by (intro effects_inv) (auto simp: console_inv_def)
  then show ?case by (simp add: console_step_def split_beta)
qed

lemma step_command:
  assumes "snd (console_step B queues dlq ev (c, p)) = Some it"
  shows "co_commandOpen c \<and> it \<in> set (palette_filtered B (palette_items queues dlq) (pl_query p))
    \<and> \<not> co_commandOpen (fst (fst (console_step B queues dlq ev (c, p))))"
proof -
  have *: "snd (console_event_step B queues dlq ev (c, p)) = Some it" using assms by (simp add: console_step_def split_beta)
  have "co_commandOpen c \<and> it \<in> set (palette_filtered B (palette_items queues dlq) (pl_query p))
    \<and> \<not> co_commandOpen (fst (fst (console_event_step B queues dlq ev (c, p))))"
    using * palette_key_runs by (cases ev) (auto simp: console_ops Let_def item_at_def split: option.splits if_splits palette_act.splits)
  then show ?thesis by (simp add: console_step_def palette_effects_def Let_def split_beta)
qed

text \<open>C36: Whatever keys are pressed, jobs arrive and commands are run, in any order and with any data
  fetched in between: the console remembers at most fifty pulses, the selection of the palette never
  goes below -1 (which selects nothing), and a closed palette has forgotten its query and its
  selection. A command is only ever started from the open palette, it is one of the commands that
  the palette lists at that moment, and the palette closes.\<close>

theorem console_invariant:
  assumes "console_reach B (c, p)"
  shows "length (co_pulseEvents c) \<le> 50 \<and> - 1 \<le> pl_active p \<and> (\<not> co_commandOpen c \<longrightarrow> pl_query p = [] \<and> pl_active p = 0)
    \<and> (\<forall>queues dlq ev it. snd (console_step B queues dlq ev (c, p)) = Some it \<longrightarrow>
         co_commandOpen c \<and> it \<in> set (palette_filtered B (palette_items queues dlq) (pl_query p))
         \<and> \<not> co_commandOpen (fst (fst (console_step B queues dlq ev (c, p)))))"
  using console_reach_inv [OF assms] step_command by (auto simp: console_inv_def initial_palette_def)

theorem console_invariant_witness:
  "\<exists>c p. console_reach demo_browser (c, p) \<and> co_commandOpen c \<and> pl_query p = ''dead'' \<and> - 1 \<le> pl_active p"
proof -
  let ?step = "\<lambda>ev st. fst (console_step demo_browser [] [] ev st)"
  let ?st = "?step (Palette_type ''dead'') (?step (Window_key ''K'' True False) (initial_console, initial_palette))"
  have r: "console_reach demo_browser ?st" by (intro console_reach.intros)
  have "to_lower ''K'' = ''k''" by code_simp
  then have "co_commandOpen (fst ?st) \<and> pl_query (snd ?st) = ''dead''"
    by (simp add: console_step_def palette_effects_def initial_console_def onKey_def Let_def)
  with r console_invariant [of demo_browser "fst ?st" "snd ?st"] show ?thesis by (metis prod.collapse)
qed

section \<open>Pausing from the palette\<close>

text \<open>
  A pause or resume command closes the palette and then rejects: the queues are never fetched again
  because of it.
\<close>

lemma pause_command_unconfirmed:
  assumes "url_law B" and "plain (cq_id q)" and "ci_run it = Toggle_pause q"
  shows "\<exists>e c' w'. runP (run_command B E it) ((s, es), (c, w)) = (Inl e, ((setCommandOpen False s, es), (c', w')))"
proof -
  let ?p = "if cq_is_paused q then resumeQueue B E (cq_id q) else pauseQueue B E (cq_id q)"
  have "isl (fst (runP ?p (c, w)))" using pause_never_returns [OF assms(1,2)] by simp
  then obtain e c' w' where "runP ?p (c, w) = (Inl e, (c', w'))" by (metis isl_def prod.collapse)
  then show ?thesis by (simp add: run_command_def assms(3) run_simps)
qed

end
