(* ===== verification/Journey_Props.thy ===== *)
theory Journey_Props
  imports Forms_Props Console_Props
begin

text \<open>
  The whole way of a submitted job: from the form through the browser's request, the router and the
  database, and back to what the form reports.
\<close>

section \<open>Submitting on the server\<close>

lemma find_SomeD: "List.find P xs = Some x \<Longrightarrow> x \<in> set xs \<and> P x"
  by (auto simp: find_Some_iff)

lemma map_sum_Inr: "map_sum id Some x = Inr (Some y) \<longleftrightarrow> x = Inr y"
  by (cases x) simp_all

lemma submit_payload:
  assumes "sql_submit E queueId d f s w = (Inr row, w')"
  shows "\<exists>t. json_stringify (f ''payload'') = Some t \<and> e_jsonb E t = Inr (j_payload row)"
  using assms
  by (auto simp: sql_submit_def with_required_def with_param_def insert_job_def new_job_def map_sum_Inr
      split: sum.splits option.splits if_splits)

lemma post_job_200:
  assumes "ready E w" and "runP (post_job E req orgId queueId) w = (Inr r, w')" and "rs_status r = 200"
    and "json_parse (rq_body req) = Inr body" and "reader body = Inr field"
  shows "\<exists>row v. mapJob row = Inr v \<and> r = json v 200 \<and> row \<in> set (w_jobs w) \<and> w_jobs w' = w_jobs w
    \<and> uuid_param E queueId = Inr (Some (j_queue_id row)) \<and> truthy (field ''idempotency_key'')
    \<and> e_text E (field ''idempotency_key'') = Inr (j_idempotency_key row)"
proof -
  let ?v = "advance_clock E 0 w"
  have rv: "ready E ?v" by (rule ready_advance [OF assms(1)])
  have not: "rs_status (json x 201) \<noteq> 200" "rs_status (error_response m 404 c) \<noteq> 200" for x m c
    by (simp_all add: json_def error_response_def)
  obtain d wa where d: "runP (stmt E [''queues'', ''projects''] (sql_queue_default E queueId orgId)) w = (Inr (Some d), wa)"
    using assms(2-5) not by (auto simp: post_job_def run_simps split: sum.splits prod.splits option.splits)
  then have wa: "wa = ?v" using queue_default_found [OF assms(1)] by blast
  let ?idem = "if truthy (field ''idempotency_key'') then stmt E [''jobs''] (sql_find_idem E queueId (field ''idempotency_key'')) else Ret None"
  obtain row wb where i: "runP ?idem ?v = (Inr (Some row), wb)" "mapJob row = Inr (projr (mapJob row))" "r = json (projr (mapJob row)) 200" "w' = wb"
    using assms(2-5) d wa not
    by (auto simp: post_job_def run_bind run_pure run_schedule runP.simps(1) split: sum.splits prod.splits option.splits)
  then have k: "truthy (field ''idempotency_key'')" by (auto split: if_splits)
  with i have "sql_find_idem E queueId (field ''idempotency_key'') (advance_clock E 0 ?v) = (Inr (Some row), wb)"
    by (simp add: run_stmt [OF rv api_tables(4)])
  then have "wb = advance_clock E 0 ?v \<and> row \<in> set (w_jobs w) \<and> uuid_param E queueId = Inr (Some (j_queue_id row))
    \<and> e_text E (field ''idempotency_key'') = Inr (j_idempotency_key row)"
    by (auto simp: sql_find_idem_def with_param_def dest!: find_SomeD split: sum.splits)
  with i k show ?thesis by auto
qed

lemma post_job_row:
  assumes "ready E w" and "runP (post_job E req orgId queueId) w = (Inr r, w')" and "res_ok r"
    and "json_parse (rq_body req) = Inr body" and "reader body = Inr field"
  shows "\<exists>row v. mapJob row = Inr v \<and> rs_data r = Some v \<and> row \<in> set (w_jobs w')
    \<and> uuid_param E queueId = Inr (Some (j_queue_id row))
    \<and> (w_jobs w' = w_jobs w @ [row] \<and> (\<exists>t. json_stringify (field ''payload'') = Some t \<and> e_jsonb E t = Inr (j_payload row))
       \<or> w_jobs w' = w_jobs w \<and> truthy (field ''idempotency_key'') \<and> e_text E (field ''idempotency_key'') = Inr (j_idempotency_key row))"
proof (cases "rs_status r = 201")
  case True
  obtain body' d f s wb row v wc where "json_parse (rq_body req) = Inr body'" "reader body' = Inr f" and p: "ready E wb" "w_jobs wb = w_jobs w"
    "runP (stmt E [''jobs''] (sql_submit E queueId d f s)) wb = (Inr row, wc)" "mapJob row = Inr v" "r = json v 201" "w' = schedule_step E wc"
    by (rule post_job_201 [OF assms(1,2) True])
  have "sql_submit E queueId d f s (advance_clock E 0 wb) = (Inr row, wc)"
    using p(3) unfolding run_stmt [OF p(1) api_tables(4)] .
  moreover have "f = field" using \<open>json_parse (rq_body req) = Inr body'\<close> \<open>reader body' = Inr f\<close> assms(4,5) by simp
  ultimately show ?thesis using submit_ok [of E queueId d f s] submit_payload [of E queueId d f s] p by (fastforce simp: json_def)
next
  case False
  have "rs_status r = 200"
    using assms(2,3) False
    by (auto simp: post_job_def run_simps run_schedule json_def error_response_def res_ok_def split: sum.splits prod.splits option.splits)
  from post_job_200 [OF assms(1,2) this assms(4,5)] show ?thesis by (auto simp: json_def)
qed

section \<open>Submitting from the browser\<close>

text \<open>A view of a job, once read by the browser, has the id of the row.\<close>

lemma job_view_id:
  assumes "mapJob row = Inr v" and "payload_value (j_payload row) = Inr y" and "wireable y" and "job_ok row"
  shows "json_parse (stringify v) = Inr (wire v)" and "get_prop (wire v) ''id'' = Inr (JStr (j_id row))"
proof -
  show "json_parse (stringify v) = Inr (wire v)" by (rule json_roundtrip [OF wireable_job [OF assms]])
  have "member (wire v) ''id'' = JStr (j_id row)"
    by (subst object_member [OF assms(1) [unfolded mapJob_def]]) (simp_all add: sent_def)
  moreover obtain kvs where "wire v = JObj kvs" using object_value [OF assms(1) [unfolded mapJob_def]] by simp
  ultimately show "get_prop (wire v) ''id'' = Inr (JStr (j_id row))" by (simp add: member_def)
qed

text \<open>The request of a submission, and the answer to it of a server that knows the session.\<close>

abbreviation job_call :: "string \<Rightarrow> jsval \<Rightarrow> call" where
  "job_call i data \<equiv> send_call ''POST'' (''/queues/'' @ i @ ''/jobs'') (json_stringify data)"

abbreviation job_request :: "browser \<Rightarrow> client \<Rightarrow> string \<Rightarrow> jsval \<Rightarrow> Auth.request" where
  "job_request B c i data \<equiv> http_request B (c_token c) (job_call i data)"

lemma run_job_request:
  assumes "url_law B" and "plain i" and "getUrl E = Inr u" and "session E c w = Some cl"
  shows "runP (handleApi E (job_request B c i (JObj kvs))) w = (case runP (post_job E (job_request B c i (JObj kvs)) (cl_org_id cl) i) w of
      (Inr r, w') \<Rightarrow> (Inr r, w') | (Inl e, w') \<Rightarrow> (Inr (api_error E e), w'))"
proof -
  let ?k = "job_call i (JObj kvs)"
  have "rq_path (job_request B c i (JObj kvs)) = [''queues'', i, ''jobs'']" "rq_method (job_request B c i (JObj kvs)) = ''POST''"
    using url_path [OF assms(1), of "[''queues'', i, ''jobs'']" ?k "c_token c"] assms(2)
    by (simp_all add: send_call_def path_words)
  with run_handle_session [of B c ?k E u w cl] assms(2-4) write_routes(1) [OF assms(2)] show ?thesis
    by (simp add: path_words)
qed

text \<open>An answer that is not a success says what went wrong, and the client reads it so.\<close>

lemma answer_error_message:
  "answer_error (error_response m n code) = Error (if m = [] then ''HTTP '' @ int_to_string (int n) else m)"
proof -
  have "wireable (JObj [(''error'', JStr m), (''code'', JStr code)])" by simp
  from json_roundtrip [OF this] show ?thesis
    by (simp add: answer_error_def error_response_def json_def res_json_def js_or_def del: stringify.simps)
qed

lemma post_job_not_ok:
  assumes "runP (post_job E req g i) w = (Inr r, w')" and "\<not> res_ok r"
  shows "r = error_response ''not found'' 404 ''ERROR''"
proof -
  have "yields (\<lambda>r. res_ok r \<or> r = error_response ''not found'' 404 ''ERROR'') (post_job E req g i)"
    unfolding post_job_def by (intro yields_rules) (simp_all add: res_ok_def json_def)
  from yields_run [OF this assms(1)] assms(2) show ?thesis by simp
qed

lemma api_error_shape: "\<exists>m n code. api_error E e = error_response m n code \<and> n \<noteq> 401"
  unfolding api_error_def Let_def by (rule exI [of _ "exn_message E e"]) (auto intro: exI [of _ 503] exI [of _ 500])

lemma job_answer:
  assumes "url_law B" and "plain i" and "ready E w" and "getUrl E = Inr u" and "session E c w = Some cl" and "wireable (JObj kvs)"
  defines "ans \<equiv> answer E (job_request B c i (JObj kvs)) w" and "w' \<equiv> snd (runP (handleApi E (job_request B c i (JObj kvs))) w)"
  shows "\<not> res_ok ans \<Longrightarrow> \<exists>m n code. ans = error_response m n code \<and> n \<noteq> 401"
    and "res_ok ans \<Longrightarrow> \<exists>row v. mapJob row = Inr v \<and> rs_data ans = Some v \<and> row \<in> set (w_jobs w')
    \<and> uuid_param E i = Inr (Some (j_queue_id row))
    \<and> (w_jobs w' = w_jobs w @ [row] \<and> (\<exists>t. json_stringify (member (wire (JObj kvs)) ''payload'') = Some t \<and> e_jsonb E t = Inr (j_payload row))
       \<or> w_jobs w' = w_jobs w \<and> truthy (member (wire (JObj kvs)) ''idempotency_key'')
         \<and> e_text E (member (wire (JObj kvs)) ''idempotency_key'') = Inr (j_idempotency_key row))"
proof -
  let ?req = "job_request B c i (JObj kvs)" and ?body = "wire (JObj kvs)"
  have read: "reader ?body = Inr (member ?body)" by (simp add: reader_def nullish_def member_def [abs_def])
  note run = run_job_request [OF assms(1,2,4,5), of kvs]
  { assume "\<not> res_ok ans"
    with run post_job_not_ok [of E ?req "cl_org_id cl" i w] api_error_shape show "\<exists>m n code. ans = error_response m n code \<and> n \<noteq> 401"
      unfolding ans_def answer_def by (fastforce split: prod.splits sum.splits) }
  assume ok: "res_ok ans"
  have "\<not> res_ok (api_error E e)" for e
    by (simp add: res_ok_def api_error_def error_response_def json_def Let_def)
  with run ok have "runP (post_job E ?req (cl_org_id cl) i) w = (Inr ans, w')"
    unfolding ans_def w'_def answer_def by (auto split: prod.splits sum.splits)
  from post_job_row [OF assms(3) this ok sent_body(1) [OF assms(6)] read]
  show "\<exists>row v. mapJob row = Inr v \<and> rs_data ans = Some v \<and> row \<in> set (w_jobs w')
    \<and> uuid_param E i = Inr (Some (j_queue_id row))
    \<and> (w_jobs w' = w_jobs w @ [row] \<and> (\<exists>t. json_stringify (member (wire (JObj kvs)) ''payload'') = Some t \<and> e_jsonb E t = Inr (j_payload row))
       \<or> w_jobs w' = w_jobs w \<and> truthy (member (wire (JObj kvs)) ''idempotency_key'')
         \<and> e_text E (member (wire (JObj kvs)) ''idempotency_key'') = Inr (j_idempotency_key row))" .
qed

section \<open>Submitting from the form\<close>

lemma job_data_key:
  "member (wire (job_data f p)) ''idempotency_key'' = (if trim (sf_jobName f) \<noteq> [] then JStr (trim (sf_jobName f)) else JUndef)"
  unfolding job_data_def by (subst member_sent) (auto simp: optional_def sent_def)

lemma job_data_payload: "member (wire (job_data f p)) ''payload'' = sent p"
  unfolding job_data_def by (subst member_sent) (auto simp: optional_def)

lemma run_submit:
  assumes "json_parse (sf_customPayload f) = Inr p"
  shows "runP (submit_handleSubmit B E f) ((s, es), (c, w)) =
    (case runP (enqueueJob B E (sf_queueId f) (job_data f p)) (c, w) of
       (Inl e, cw) \<Rightarrow> (Inr (), ((submit_finish (submit_fail (err_message B e) (submit_start s)), es), cw))
     | (Inr job, cw) \<Rightarrow> (case get_prop job ''id'' of
         Inl e \<Rightarrow> (Inr (), ((submit_finish (submit_fail (err_message B (Bad_body e)) (submit_start s)), es @ [Mutate_prefix ''jobs'']), cw))
       | Inr i \<Rightarrow> (Inr (), ((submit_finish (submit_start s), es @ [Mutate_prefix ''jobs'', Submitted i]), cw))))"
  by (cases "runP (enqueueJob B E (sf_queueId f) (job_data f p)) (c, w)")
    (simp add: submit_handleSubmit_def assms attempt_def run_simps split: sum.splits)

lemma submit_rejected:
  assumes "json_parse (sf_customPayload f) = Inr p" and "runP (enqueueJob B E (sf_queueId f) (job_data f p)) (c, w) = (Inl (Error m), cw)"
    and "runP (submit_handleSubmit B E f) ((s, []), (c, w)) = (Inr (), ((s', es), (c', w')))"
  shows "\<not> sf_saving s' \<and> es = [] \<and> sf_error s' = m \<and> cw = (c', w')"
  using assms(2,3) unfolding run_submit [OF assms(1)] by (auto simp: submit_finish_def submit_fail_def err_message_def)

lemma submit_accepted:
  assumes "url_law B" and "plain (sf_queueId f)" and "ready E w" and "getUrl E = Inr u" and "session E c w = Some cl"
    and "db_wf w" and "\<forall>row \<in> set (w_jobs w). \<exists>y. payload_value (j_payload row) = Inr y \<and> wireable y"
    and "wireable (job_data f p)"
    and "\<forall>z. e_jsonb E (stringify (sent p)) = Inr z \<longrightarrow> (\<exists>y. payload_value z = Inr y \<and> wireable y)"
    and "b_net B (c_calls c) = Delivered" and "res_ok (answer E (job_request B c (sf_queueId f) (job_data f p)) w)"
  obtains row job c' w' where "runP (enqueueJob B E (sf_queueId f) (job_data f p)) (c, w) = (Inr job, (c', w'))"
    and "get_prop job ''id'' = Inr (JStr (j_id row))" and "row \<in> set (w_jobs w')" and "uuid_param E (sf_queueId f) = Inr (Some (j_queue_id row))"
    and "w_jobs w' = w_jobs w @ [row] \<and> e_jsonb E (stringify (sent p)) = Inr (j_payload row)
      \<or> w_jobs w' = w_jobs w \<and> trim (sf_jobName f) \<noteq> [] \<and> e_text E (JStr (trim (sf_jobName f))) = Inr (j_idempotency_key row)"
proof -
  let ?i = "sf_queueId f" and ?d = "job_data f p"
  let ?ans = "answer E (job_request B c ?i ?d) w" and ?w = "snd (runP (handleApi E (job_request B c ?i ?d)) w)"
  obtain kvs where kvs: "?d = JObj kvs" by (simp add: job_data_def)
  obtain row v where row: "mapJob row = Inr v" "rs_data ?ans = Some v" "row \<in> set (w_jobs ?w)"
    "uuid_param E ?i = Inr (Some (j_queue_id row))"
    "w_jobs ?w = w_jobs w @ [row] \<and> e_jsonb E (stringify (sent p)) = Inr (j_payload row)
      \<or> w_jobs ?w = w_jobs w \<and> trim (sf_jobName f) \<noteq> [] \<and> e_text E (JStr (trim (sf_jobName f))) = Inr (j_idempotency_key row)"
    using job_answer(2) [OF assms(1-5) assms(8) [unfolded kvs], folded kvs, OF assms(11)] job_data_payload [of f p] job_data_key [of f p]
    by (auto simp: json_stringify_def split: if_splits)
  have "\<exists>y. payload_value (j_payload row) = Inr y \<and> wireable y" using row(3,5) assms(7,9) by auto
  moreover have "job_ok row" using run_sound [OF guar_handleApi surjective_pairing assms(6)] row(3) by (simp add: wf_defs)
  ultimately have view: "json_parse (stringify v) = Inr (wire v)" "get_prop (wire v) ''id'' = Inr (JStr (j_id row))"
    using job_view_id [OF row(1)] by auto
  have "rs_status ?ans \<noteq> 401" using assms(11) by (auto simp: res_ok_def)
  then have "runP (enqueueJob B E ?i ?d) (c, w) = (Inr (wire v), (c\<lparr>c_calls := Suc (c_calls c)\<rparr>, ?w))"
    using assms(10,11) row(2) view(1) by (simp add: enqueueJob_def run_api_request settle_def res_json_def)
  from that [OF this view(2) row(3-5)] show thesis .
qed

text \<open>C6: What the submit form reports is true. Submitting a payload that is JSON with a valid session ends in
  one of three ways, and in all of them the form can be used again. If no answer comes, the form
  says that the API cannot be reached and reports nothing; nothing has happened on the server if
  the request was lost. If the server answers with an error, the form shows its message, or the
  status when the message is empty, and reports nothing. If the server answers with a success, the form shows no error and
  reports the id of a job that is in the database, in the queue that was chosen: one new job with the
  payload of the form, or, when a name was given that a job of the queue already has, that job and
  nothing new. The payloads are JSON whose numbers are integers of at most 53 bits.\<close>

theorem submit_form_reports_job:
  assumes "url_law B" and "plain (sf_queueId f)" and "ready E w" and "getUrl E = Inr u" and "session E c w = Some cl"
    and "db_wf w" and "\<forall>row \<in> set (w_jobs w). \<exists>y. payload_value (j_payload row) = Inr y \<and> wireable y"
    and "json_parse (sf_customPayload f) = Inr p" and "wireable (job_data f p)"
    and "\<forall>z. e_jsonb E (stringify (sent p)) = Inr z \<longrightarrow> (\<exists>y. payload_value z = Inr y \<and> wireable y)"
    and "runP (submit_handleSubmit B E f) ((s, []), (c, w)) = (Inr (), ((s', es), (c', w')))"
  shows "\<not> sf_saving s' \<and> (let ans = answer E (job_request B c (sf_queueId f) (job_data f p)) w in
    if b_net B (c_calls c) \<noteq> Delivered
    then es = [] \<and> sf_error s' = ''Cannot reach the API. Check your connection or redeploy the Vercel app.''
      \<and> (b_net B (c_calls c) = Lost_request \<longrightarrow> w' = w)
    else if \<not> res_ok ans
    then es = [] \<and> (\<exists>m n code. ans = error_response m n code \<and> sf_error s' = (if m = [] then ''HTTP '' @ int_to_string (int n) else m))
    else sf_error s' = [] \<and> (\<exists>row \<in> set (w_jobs w'). es = [Mutate_prefix ''jobs'', Submitted (JStr (j_id row))]
      \<and> uuid_param E (sf_queueId f) = Inr (Some (j_queue_id row))
      \<and> (w_jobs w' = w_jobs w @ [row] \<and> e_jsonb E (stringify (sent p)) = Inr (j_payload row)
         \<or> w_jobs w' = w_jobs w \<and> trim (sf_jobName f) \<noteq> [] \<and> e_text E (JStr (trim (sf_jobName f))) = Inr (j_idempotency_key row))))"
proof -
  let ?i = "sf_queueId f" and ?d = "job_data f p"
  let ?ans = "answer E (job_request B c ?i ?d) w" and ?w = "snd (runP (handleApi E (job_request B c ?i ?d)) w)"
  obtain kvs where kvs: "?d = JObj kvs" by (simp add: job_data_def)
  note run = run_api_request [of B E "job_call ?i ?d" c w, folded enqueueJob_def, unfolded Let_def settle_def]
  note rej = submit_rejected [OF assms(8) _ assms(11)]
  note ans = job_answer [OF assms(1-5) assms(9) [unfolded kvs], folded kvs]
  consider (lost) "b_net B (c_calls c) \<noteq> Delivered" | (error) "b_net B (c_calls c) = Delivered" "\<not> res_ok ?ans"
    | (success) "b_net B (c_calls c) = Delivered" "res_ok ?ans" by blast
  then show ?thesis
  proof cases
    case lost
    then have "runP (enqueueJob B E ?i ?d) (c, w) = (Inl (Error unreachable),
        (c\<lparr>c_calls := Suc (c_calls c)\<rparr>, if b_net B (c_calls c) = Lost_request then w else ?w))"
      using run by (cases "b_net B (c_calls c)") simp_all
    from rej [OF this] lost show ?thesis by (auto simp: unreachable_def)
  next
    case error
    obtain m n code where a: "?ans = error_response m n code" "n \<noteq> 401" using ans(1) [OF error(2)] by blast
    have "rs_status ?ans \<noteq> 401" unfolding a(1) using a(2) by (simp add: error_response_def json_def)
    then have "runP (enqueueJob B E ?i ?d) (c, w) = (Inl (answer_error ?ans), (c\<lparr>c_calls := Suc (c_calls c)\<rparr>, ?w))"
      using run error by simp
    from rej [OF this [unfolded a(1) answer_error_message]] error a(1) show ?thesis by auto
  next
    case success
    obtain row job c1 w1 where row: "runP (enqueueJob B E ?i ?d) (c, w) = (Inr job, (c1, w1))" "get_prop job ''id'' = Inr (JStr (j_id row))"
      "row \<in> set (w_jobs w1)" "uuid_param E ?i = Inr (Some (j_queue_id row))"
      "w_jobs w1 = w_jobs w @ [row] \<and> e_jsonb E (stringify (sent p)) = Inr (j_payload row)
        \<or> w_jobs w1 = w_jobs w \<and> trim (sf_jobName f) \<noteq> [] \<and> e_text E (JStr (trim (sf_jobName f))) = Inr (j_idempotency_key row)"
      by (rule submit_accepted [OF assms(1-7,9,10) success])
    with assms(11) have "s' = submit_finish (submit_start s)" "es = [Mutate_prefix ''jobs'', Submitted (JStr (j_id row))]" "w' = w1"
      unfolding run_submit [OF assms(8)] by auto
    with row(3-5) success show ?thesis by (auto simp: submit_finish_def submit_start_def Let_def)
  qed
qed

definition demo_form :: submit_form where
  "demo_form = (initial_submit (Some ''2'') [])\<lparr>sf_template := Custom, sf_customPayload := stringify noop_payload, sf_maxAttempts := []\<rparr>"

lemma demo_form_facts:
  "sf_queueId demo_form = ''2''" "json_parse (sf_customPayload demo_form) = Inr noop_payload"
  "job_data demo_form noop_payload = JObj [(''payload'', noop_payload)]" "wireable (JObj [(''payload'', noop_payload)])"
  "json_parse (stringify (sent noop_payload)) = Inr noop_payload"
proof -
  have f: "sf_queueId demo_form = ''2''" "sf_jobName demo_form = []" "sf_priority demo_form = []" "sf_maxAttempts demo_form = []"
    "sf_delaySeconds demo_form = []" "sf_cronExpr demo_form = []" "sf_customPayload demo_form = stringify noop_payload"
    by (simp_all add: demo_form_def initial_submit_def)
  have "wireable noop_payload" by (simp add: noop_payload_def)
  from json_roundtrip [OF this] have p: "json_parse (stringify noop_payload) = Inr noop_payload" by (simp add: noop_payload_def)
  from p show "json_parse (sf_customPayload demo_form) = Inr noop_payload" by (simp add: f)
  from p show "json_parse (stringify (sent noop_payload)) = Inr noop_payload" by (simp add: noop_payload_def sent_def)
  show "job_data demo_form noop_payload = JObj [(''payload'', noop_payload)]" by (simp add: job_data_def optional_def f)
qed (simp_all add: demo_form_def initial_submit_def noop_payload_def)

lemma demo_job_accepted:
  "res_ok (answer demo_env (job_request demo_browser (demo_client (Some demo_token)) ''2'' (job_data demo_form noop_payload)) (demo_world []))"
proof -
  let ?c = "demo_client (Some demo_token)" and ?d = "JObj [(''payload'', noop_payload)]"
  let ?req = "job_request demo_browser ?c ''2'' ?d"
  have body: "post_job E r g i = post_job E r' g i" if "rq_body r = rq_body r'" for E r r' g i
    using that by (simp add: post_job_def)
  have "rq_body ?req = stringify ?d"
    by (simp add: http_request_def send_call_def json_stringify_def split: prod.splits)
  then have "post_job demo_env ?req ''0'' ''2'' = post_job demo_env (demo_request ''POST'' [] (stringify ?d)) ''0'' ''2''"
    by (intro body) (simp add: demo_request_def)
  moreover have "case fst (runP (post_job demo_env (demo_request ''POST'' [] (stringify ?d)) ''0'' ''2'') (demo_world [])) of
      Inr r \<Rightarrow> res_ok r | Inl e \<Rightarrow> False" by code_simp
  moreover have "plain ''2''" "getUrl demo_env = Inr ''postgres://db''" by code_simp+
  ultimately show ?thesis
    using run_job_request [OF demo_url_law _ _ demo_session, of "''2''" "''postgres://db''" "[(''payload'', noop_payload)]" "demo_world []"]
    unfolding demo_form_facts(3) answer_def by (auto simp: user_claims_def demo_user_def split: prod.splits sum.splits)
qed

theorem submit_form_reports_job_witness:
  "\<exists>s' c' w' row. runP (submit_handleSubmit demo_browser demo_env demo_form) ((demo_form, []), (demo_client (Some demo_token), demo_world []))
       = (Inr (), ((s', [Mutate_prefix ''jobs'', Submitted (JStr (j_id row))]), (c', w')))
     \<and> \<not> sf_saving s' \<and> sf_error s' = [] \<and> w_jobs w' = [row]"
proof -
  let ?f = demo_form and ?c = "demo_client (Some demo_token)" and ?w = "demo_world []"
  note f = demo_form_facts
  have jsonb: "\<forall>z. e_jsonb demo_env (stringify (sent noop_payload)) = Inr z \<longrightarrow> (\<exists>y. payload_value z = Inr y \<and> wireable y)"
    using f(5) by (simp add: jsonb_in_def payload_value_def noop_payload_def)
  have wf: "db_wf ?w" by (rule demo_wf) (simp_all add: idem_unique_def)
  have url: "getUrl demo_env = Inr ''postgres://db''" and pl: "plain (sf_queueId ?f)" unfolding f by code_simp+
  have none: "w_jobs ?w = []" by (simp add: demo_world_def)
  have trimmed: "trim (sf_jobName ?f) = []" by (simp add: demo_form_def initial_submit_def)
  have net: "b_net demo_browser (c_calls ?c) = Delivered" by (simp add: demo_browser_def)
  obtain s' es c' w' where run: "runP (submit_handleSubmit demo_browser demo_env ?f) ((?f, []), (?c, ?w)) = (Inr (), ((s', es), (c', w')))"
    using submit.settles [of demo_browser _ ?f "[]" "(?c, ?w)"] unfolding submit_handleSubmit_def by (metis prod.collapse)
  have "wireable (job_data ?f noop_payload)" unfolding f by (rule f(4))
  from submit_form_reports_job [OF demo_url_law pl ready_demo url demo_session wf _ f(2) this jsonb run]
  show ?thesis using run net none trimmed demo_job_accepted unfolding f(1) Let_def by auto
qed

end
