(* ===== verification/Views_Props.thy ===== *)
theory Views_Props
  imports Views Journey_Props
begin

text \<open>
  What the job explorer shows is what the database holds: the request it makes for its filters, the
  answer of the server, and the rows that are left of it.
\<close>

section \<open>Listing jobs\<close>

definition reads_row :: "Job \<Rightarrow> job_row \<Rightarrow> bool" where
  "reads_row j r \<longleftrightarrow> cj_id j = j_id r \<and> cj_status j = status_text (j_status r) \<and> cj_queue_id j = j_queue_id r"

lemma list_all2_mem:
  assumes "list_all2 P xs ys"
  shows "x \<in> set xs \<Longrightarrow> \<exists>y \<in> set ys. P x y" and "y \<in> set ys \<Longrightarrow> \<exists>x \<in> set xs. P x y"
  using assms by (induction rule: list_all2_induct) auto

lemma read_jobs:
  assumes "map_rows mapJob rows = Inr items" and "as_list as_Job (map wire items) = Some js"
    and "\<forall>r \<in> set rows. \<exists>y. payload_value (j_payload r) = Inr y"
  shows "list_all2 reads_row js rows"
  using assms
proof (induction rows arbitrary: items js)
  case (Cons r rows)
  obtain v vs where v: "items = v # vs" "mapJob r = Inr v" "map_rows mapJob rows = Inr vs"
    using Cons.prems(1) by (auto split: sum.splits)
  obtain y where y: "payload_value (j_payload r) = Inr y" using Cons.prems(3) by auto
  obtain j js' where j: "as_Job (wire v) = Some j" "js = j # js'" "as_list as_Job (map wire vs) = Some js'"
    using Cons.prems(2) v(1) by (auto split: bind_splits)
  from j(1) Job_of_view [OF v(2) y] have "reads_row j r" by (auto simp: reads_row_def)
  with Cons.IH [OF v(3) j(3)] Cons.prems(3) j(2) show ?case by simp
qed simp

lemma read_page:
  assumes "map_rows mapJob rows = Inr items" and "as_Page as_Job (wire (page items)) = Some pg"
    and "\<forall>r \<in> set rows. \<exists>y. payload_value (j_payload r) = Inr y"
  shows "list_all2 reads_row (pg_items pg) rows"
proof -
  have "member (wire (page items)) ''items'' = JArr (map wire items)" by (simp add: member_def page_def)
  then have "as_list as_Job (map wire items) = Some (pg_items pg)"
    using assms(2) by (auto simp: as_Page_def as_array_def split: bind_splits)
  then show ?thesis by (rule read_jobs [OF assms(1) _ assms(3)])
qed

lemma wireable_page:
  assumes "map_rows mapJob rows = Inr items" and "\<forall>r \<in> set rows. job_ok r \<and> (\<exists>y. payload_value (j_payload r) = Inr y \<and> wireable y)"
  shows "wireable (page items)"
proof -
  have "\<forall>v \<in> set items. wireable v"
    using assms
  proof (induction rows arbitrary: items)
    case (Cons r rows)
    then obtain v vs where "items = v # vs" "mapJob r = Inr v" "map_rows mapJob rows = Inr vs" by (auto split: sum.splits)
    with Cons wireable_job [of r v] show ?case by auto
  qed simp
  then show ?thesis by (simp add: page_def)
qed

lemma jobs_request:
  assumes "url_law B"
  shows "rq_path (http_request B token (get_call (with_query B ''/jobs'' params))) = [''jobs'']"
    and "rq_query (http_request B token (get_call (with_query B ''/jobs'' params))) = params"
    and "rq_method (http_request B token (get_call (with_query B ''/jobs'' params))) = ''GET''"
proof -
  have p: "path_of [''jobs''] = ''/jobs''" by (simp add: path_of_def)
  have "b_url B (with_query B ''/jobs'' params) = ([''jobs''], params)"
    using assms [unfolded url_law_def, THEN conjunct2, rule_format, of "[''jobs'']"] assms unfolding p
    by (cases "params = []") (auto simp: with_query_def Let_def url_law_def)
  then show "rq_path (http_request B token (get_call (with_query B ''/jobs'' params))) = [''jobs'']"
    and "rq_query (http_request B token (get_call (with_query B ''/jobs'' params))) = params"
    and "rq_method (http_request B token (get_call (with_query B ''/jobs'' params))) = ''GET''"
    by (simp_all add: http_request_def get_call_def)
qed

text \<open>The answer to a call of \<open>listJobs\<close> with a valid session.\<close>

abbreviation listed :: "env \<Rightarrow> string \<Rightarrow> (string \<times> string) list \<Rightarrow> world \<Rightarrow> exn + job_row list" where
  "listed E org params w \<equiv> fst (sql_jobs E org (case map_of params ''status'' of None \<Rightarrow> [] | Some s \<Rightarrow> s)
     (map_of params ''queue_id'') (advance_clock E 0 (schedule_step E w)))"

lemma answer_jobs:
  assumes "url_law B" and "ready E w" and "getUrl E = Inr u" and "session E c w = Some cl"
  shows "answer E (http_request B (c_token c) (get_call (with_query B ''/jobs'' params))) w =
    (case listed E (cl_org_id cl) params w of Inl e \<Rightarrow> api_error E e
     | Inr rows \<Rightarrow> (case map_rows mapJob rows of Inl e \<Rightarrow> api_error E e | Inr items \<Rightarrow> json (page items) 200))"
proof -
  let ?k = "get_call (with_query B ''/jobs'' params)" let ?req = "http_request B (c_token c) ?k"
  have "routes E ?req ''jobs'' g = get_jobs E ?req g" for g
    using jobs_request(3) [OF assms(1)] by (simp add: routes_def sub_routes_def match_sub_def)
  then have "runP (handleApi E ?req) w = (case runP (get_jobs E ?req (cl_org_id cl)) w of
      (Inr r, w') \<Rightarrow> (Inr r, w') | (Inl e, w') \<Rightarrow> (Inr (api_error E e), w'))"
    using run_handle_session [of B c ?k E u w cl] assms(3,4) jobs_request [OF assms(1), of "c_token c" params]
    by (simp add: sep_by_def)
  moreover have "runP (stmt E [''jobs'', ''queues'', ''projects''] f) (schedule_step E w) = f (advance_clock E 0 (schedule_step E w))"
    for f :: "world \<Rightarrow> (exn + job_row list) \<times> world"
    by (rule run_stmt [OF ready_schedule [OF assms(2)] api_tables(1)])
  moreover obtain r w' where "sql_jobs E (cl_org_id cl) (case map_of params ''status'' of None \<Rightarrow> [] | Some s \<Rightarrow> s)
      (map_of params ''queue_id'') (advance_clock E 0 (schedule_step E w)) = (r, w')" by force
  ultimately show ?thesis
    using jobs_request(2) [OF assms(1), of "c_token c" params]
    by (cases r) (simp_all add: answer_def get_jobs_def Let_def run_simps run_schedule query_get_def split: sum.splits)
qed

text \<open>What a call of \<open>listJobs\<close> that returns has read, of which rows, and when it returns.\<close>

lemma listJobs_outcome:
  assumes "url_law B" and "ready E w" and "getUrl E = Inr u" and "session E c w = Some cl" and "db_wf w"
    and "\<forall>r \<in> set (w_jobs w). \<exists>y. payload_value (j_payload r) = Inr y \<and> wireable y"
    and "runP (listJobs B E params) (c, w) = (Inr v, cw)"
  shows "\<exists>rows items. listed E (cl_org_id cl) params w = Inr rows
    \<and> map_rows mapJob rows = Inr items \<and> v = wire (page items) \<and> set rows \<subseteq> set (w_jobs w)"
proof -
  let ?r = "answer E (http_request B (c_token c) (get_call (with_query B ''/jobs'' params))) w"
  have ok: "res_ok ?r" "res_json ?r = Some v"
    using assms(7) unfolding listJobs_def run_api_request Let_def
    by (auto simp: settle_def split: delivery.splits prod.splits if_splits option.splits)
  have "\<not> res_ok (api_error E e)" for e
    by (simp add: res_ok_def api_error_def error_response_def json_def Let_def)
  with ok(1) obtain rows items where rows: "listed E (cl_org_id cl) params w = Inr rows" "map_rows mapJob rows = Inr items"
    "?r = json (page items) 200"
    unfolding answer_jobs [OF assms(1-4)] by (auto split: sum.splits)
  have sub: "set rows \<subseteq> set (w_jobs w)"
    using rows(1) by (auto simp: sql_jobs_def with_param_def split: sum.splits option.splits dest!: in_set_takeD)
  have "wireable (page items)"
    by (rule wireable_page [OF rows(2)]) (use sub assms(5,6) in \<open>auto simp: wf_defs\<close>)
  then have "v = wire (page items)" using ok(2) json_roundtrip [of "page items"] unfolding rows(3) by (simp add: res_json_def json_def)
  with rows sub show ?thesis by blast
qed

lemma listJobs_returns:
  assumes "url_law B" and "ready E w" and "getUrl E = Inr u" and "session E c w = Some cl" and "b_net B (c_calls c) = Delivered"
    and "listed E (cl_org_id cl) params w = Inr rows" and "map_rows mapJob rows = Inr items" and "wireable (page items)"
  shows "\<exists>cw. runP (listJobs B E params) (c, w) = (Inr (wire (page items)), cw)"
proof -
  have "res_json (json (page items) 200) = Some (wire (page items))"
    using json_roundtrip [OF assms(8)] by (simp add: res_json_def json_def)
  moreover have "answer E (http_request B (c_token c) (get_call (with_query B ''/jobs'' params))) w = json (page items) 200"
    by (simp add: answer_jobs [OF assms(1-4)] assms(6,7))
  ultimately show ?thesis
    unfolding listJobs_def run_api_request Let_def by (simp add: assms(5) settle_def res_ok_def json_def)
qed

section \<open>The explorer\<close>

text \<open>The rows that the filters of the explorer ask for.\<close>

definition wanted :: "explorer \<Rightarrow> uuid \<Rightarrow> world \<Rightarrow> uuid option \<Rightarrow> job_row \<Rightarrow> bool" where
  "wanted x q w g r \<longleftrightarrow> job_in_org w g r \<and> (ex_queueId x = [] \<or> j_queue_id r = q)
     \<and> (ex_statusFilters x = [] \<or> status_text (j_status r) \<in> set (ex_statusFilters x))"

lemma explorer_params_read:
  "map_of (explorer_params x) ''status'' = (case ex_statusFilters x of [s] \<Rightarrow> Some s | _ \<Rightarrow> None)"
  "map_of (explorer_params x) ''queue_id'' = (if ex_queueId x \<noteq> [] then Some (ex_queueId x) else None)"
  by (auto simp: explorer_params_def split: list.splits)

lemma status_plain: "s \<in> set JOB_STATUSES \<Longrightarrow> CHR 0x00 \<notin> set s \<and> s \<noteq> []"
proof -
  have "list_all (\<lambda>s. CHR 0x00 \<notin> set s \<and> s \<noteq> []) JOB_STATUSES" by code_simp
  then show "s \<in> set JOB_STATUSES \<Longrightarrow> CHR 0x00 \<notin> set s \<and> s \<noteq> []" by (simp add: list_all_iff)
qed

text \<open>The rows that the server selects for the explorer: before the limit, those of the page.\<close>

definition selected :: "explorer \<Rightarrow> uuid \<Rightarrow> world \<Rightarrow> uuid option \<Rightarrow> job_row \<Rightarrow> bool" where
  "selected x q w g r \<longleftrightarrow> job_in_org w g r \<and> (ex_queueId x = [] \<or> j_queue_id r = q)
     \<and> (case ex_statusFilters x of [s] \<Rightarrow> status_text (j_status r) = s | _ \<Rightarrow> True)"

lemma explorer_rows:
  assumes "ready E w" and "uuid_param E org = Inr g" and "ex_queueId x = [] \<or> uuid_param E (ex_queueId x) = Inr (Some q)"
    and "set (ex_statusFilters x) \<subseteq> set JOB_STATUSES"
    and "listed E org (explorer_params x) w = Inr rows"
  shows "\<exists>ks. rows = take 100 (sort_key (\<lambda>j. - j_created_at j) (filter (selected x q w g) (arrange ks (w_jobs w))))"
proof -
  let ?s = "case ex_statusFilters x of [s] \<Rightarrow> s | _ \<Rightarrow> []"
  let ?v = "advance_clock E 0 (schedule_step E w)"
  have s: "(case map_of (explorer_params x) ''status'' of None \<Rightarrow> [] | Some s \<Rightarrow> s) = ?s"
    unfolding explorer_params_read by (simp split: list.splits)
  have "?s = [] \<or> ?s \<in> set (ex_statusFilters x)" by (cases "ex_statusFilters x" rule: remdups_adj.cases) auto
  then have "CHR 0x00 \<notin> set ?s" using assms(4) status_plain by (metis empty_iff list.set(1) subsetD)
  then have t: "e_text E (JStr ?s) = Inr (Some ?s)" using assms(1) by (simp add: ready_def)
  have ne: "ex_statusFilters x \<noteq> [[]]" using assms(4) status_plain [of "[]"] by auto
  have sel: "selected x q w g = (\<lambda>j. job_in_org ?v g j \<and> (Some ?s = Some [] \<or> Some (status_text (j_status j)) = Some ?s)
      \<and> ((if ex_queueId x \<noteq> [] then Some q else None) = None \<or> Some (j_queue_id j) = (if ex_queueId x \<noteq> [] then Some q else None)))"
    using ne by (intro ext) (auto simp: selected_def split: list.splits)
  have "(case if ex_queueId x \<noteq> [] then Some (ex_queueId x) else None of None \<Rightarrow> Inr None | Some q \<Rightarrow> uuid_param E q)
      = Inr (if ex_queueId x \<noteq> [] then Some q else None)" using assms(3) by auto
  then have "rows = take 100 (sort_key (\<lambda>j. - j_created_at j) (filter (selected x q w g) (scan E ?v 0 (w_jobs w))))"
    using assms(5) [unfolded s explorer_params_read(2)] unfolding sel
    by (simp add: sql_jobs_def with_param_def assms(2) t)
  then show ?thesis unfolding scan_def by blast
qed

text \<open>C7: What the job explorer shows is what its filters ask for. When the page of jobs has arrived,
  every job shown is a job of the user's organization with one of the selected statuses (any status
  when none is selected) and in the selected queue. And as long as at most a hundred jobs of the
  organization pass the filters that the server applies, which are the queue and a single status,
  every job that is asked for is shown.\<close>

theorem explorer_shows_wanted_jobs:
  assumes "url_law B" and "ready E w" and "getUrl E = Inr u" and "session E c w = Some cl" and "db_wf w"
    and "\<forall>r \<in> set (w_jobs w). \<exists>y. payload_value (j_payload r) = Inr y \<and> wireable y"
    and "uuid_param E (cl_org_id cl) = Inr g" and "ex_queueId x = [] \<or> uuid_param E (ex_queueId x) = Inr (Some q)"
    and "set (ex_statusFilters x) \<subseteq> set JOB_STATUSES"
    and "runP (listJobs B E (explorer_params x)) (c, w) = (Inr v, cw)" and "as_Page as_Job v = Some pg"
  shows "(\<forall>j \<in> set (explorer_jobs x (Some pg)). \<exists>r \<in> set (w_jobs w). wanted x q w g r \<and> cj_id j = j_id r \<and> cj_status j = status_text (j_status r))
    \<and> (length (filter (selected x q w g) (w_jobs w)) \<le> 100 \<longrightarrow>
        (\<forall>r \<in> set (w_jobs w). wanted x q w g r \<longrightarrow> j_id r \<in> cj_id ` set (explorer_jobs x (Some pg))))"
proof (intro conjI ballI impI)
  obtain rows items where rows: "listed E (cl_org_id cl) (explorer_params x) w = Inr rows"
    "map_rows mapJob rows = Inr items" "v = wire (page items)" "set rows \<subseteq> set (w_jobs w)"
    using listJobs_outcome [OF assms(1-6,10)] by blast
  have "\<forall>r \<in> set rows. \<exists>y. payload_value (j_payload r) = Inr y" using assms(6) rows(4) by blast
  then have read: "list_all2 reads_row (pg_items pg) rows"
    by (rule read_page [OF rows(2) assms(11) [unfolded rows(3)]])
  obtain ks where eq: "rows = take 100 (sort_key (\<lambda>j. - j_created_at j) (filter (selected x q w g) (arrange ks (w_jobs w))))"
    using explorer_rows [OF assms(2,7,8,9) rows(1)] by blast
  have wanted: "wanted x q w g r \<longleftrightarrow> selected x q w g r \<and> (length (ex_statusFilters x) \<le> 1 \<or> status_text (j_status r) \<in> set (ex_statusFilters x))" for r
    by (cases "ex_statusFilters x" rule: remdups_adj.cases) (auto simp: wanted_def selected_def)
  show "\<exists>r \<in> set (w_jobs w). wanted x q w g r \<and> cj_id j = j_id r \<and> cj_status j = status_text (j_status r)"
    if j: "j \<in> set (explorer_jobs x (Some pg))" for j
  proof -
    have "j \<in> set (pg_items pg)" using j by (auto simp: explorer_jobs_def page_items_def Let_def split: if_splits)
    then obtain r where r: "r \<in> set rows" "reads_row j r" using list_all2_mem(1) [OF read] by blast
    then have "selected x q w g r" unfolding eq by (auto dest!: in_set_takeD)
    moreover have "length (ex_statusFilters x) \<le> 1 \<or> status_text (j_status r) \<in> set (ex_statusFilters x)"
      using j r(2) by (auto simp: explorer_jobs_def Let_def reads_row_def split: if_splits)
    ultimately show ?thesis using r rows(4) wanted by (auto simp: reads_row_def)
  qed
  show "j_id r \<in> cj_id ` set (explorer_jobs x (Some pg))"
    if few: "length (filter (selected x q w g) (w_jobs w)) \<le> 100" and r: "r \<in> set (w_jobs w)" "wanted x q w g r" for r
  proof -
    have "length (filter (selected x q w g) (arrange ks (w_jobs w))) = length (filter (selected x q w g) (w_jobs w))"
      by (metis mset_arrange mset_filter size_mset)
    with few have "set rows = {r \<in> set (w_jobs w). selected x q w g r}" unfolding eq by simp
    with r wanted have "r \<in> set rows" by simp
    then obtain j where "j \<in> set (pg_items pg)" "reads_row j r" using list_all2_mem(2) [OF read] by blast
    with r wanted show ?thesis by (force simp: explorer_jobs_def page_items_def Let_def reads_row_def)
  qed
qed

theorem explorer_shows_wanted_jobs_witness:
  "\<exists>v cw pg. runP (listJobs demo_browser demo_env [(''status'', ''queued'')])
       (demo_client (Some demo_token), demo_world [demo_job ''4'' 5 noop_payload]) = (Inr v, cw)
     \<and> as_Page as_Job v = Some pg \<and> ''4'' \<in> cj_id ` set (explorer_jobs (toggleStatus ''queued'' initial_explorer) (Some pg))"
proof -
  let ?x = "toggleStatus ''queued'' initial_explorer" and ?r = "demo_job ''4'' 5 noop_payload"
  let ?w = "demo_world [?r]" and ?c = "demo_client (Some demo_token)"
  have x: "ex_statusFilters ?x = [''queued'']" "ex_queueId ?x = []" "explorer_params ?x = [(''status'', ''queued'')]"
    by (simp_all add: toggleStatus_def initial_explorer_def explorer_params_def)
  have p: "payload_value (j_payload ?r) = Inr noop_payload" "wireable noop_payload"
    by (simp_all add: demo_job_def noop_payload_def payload_value_def)
  have ok: "job_ok ?r" by (simp add: demo_job_def job_ok_def int4_ok_def)
  have rows: "w_jobs ?w = [?r]" by (simp add: demo_world_def)
  have ready: "ready demo_env ?w" by (rule ready_demo) simp
  have url: "getUrl demo_env = Inr ''postgres://db''" by code_simp
  have org: "uuid_param demo_env ''0'' = Inr (Some ''0'')" by (simp add: uuid_param_def uuid_in_def uuid_syntax_def)
  have mine: "job_in_org ?w (Some ''0'') ?r"
    by (simp add: job_in_org_def queue_in_org_def demo_world_def demo_project_def demo_queue_def demo_job_def)
  have "listed demo_env ''0'' (explorer_params ?x) ?w = Inr [?r]"
    using mine unfolding x(3)
    by (simp add: sql_jobs_def with_param_def org text_in_def rows scan_def demo_job_def status_text_def)
  moreover have "valid_date 0" by (simp add: valid_date_def date_ms_def)
  with p have "\<exists>v. mapJob ?r = Inr v" unfolding mapJob_ok by (simp add: demo_job_def job_dates_def List.map_filter_def)
  then obtain v where v: "mapJob ?r = Inr v" by blast
  then have items: "map_rows mapJob [?r] = Inr [v]" by simp
  moreover have "wireable (page [v])" by (rule wireable_page [OF items]) (use p ok in simp)
  moreover have "cl_org_id (user_claims demo_user) = ''0''" by (simp add: user_claims_def demo_user_def)
  ultimately obtain cw where run: "runP (listJobs demo_browser demo_env (explorer_params ?x)) (?c, ?w) = (Inr (wire (page [v])), cw)"
    using listJobs_returns [OF demo_url_law ready url demo_session, of "explorer_params ?x" "[?r]" "[v]"]
    by (auto simp: demo_browser_def)
  have "member (wire (page [v])) ''items'' = JArr [wire v]" "member (wire (page [v])) ''has_more'' = JBool False"
    "member (wire (page [v])) ''next_cursor'' = JUndef"
    by (simp_all add: member_def page_def)
  moreover have "\<exists>j. as_Job (wire v) = Some j"
    unfolding Job_of_view [OF v p(1)] by (simp add: as_record_def sent_def noop_payload_def)
  ultimately obtain pg where pg: "as_Page as_Job (wire (page [v])) = Some pg"
    by (auto simp: as_Page_def as_array_def as_opt_def as_bool_def nullish_def)
  have want: "wanted ?x ''2'' ?w (Some ''0'') ?r" using mine by (simp add: wanted_def x demo_job_def status_text_def)
  have few: "length (filter (selected ?x ''2'' ?w (Some ''0'')) (w_jobs ?w)) \<le> 100"
    unfolding rows by (rule order_trans [OF length_filter_le]) simp
  have g: "uuid_param demo_env (cl_org_id (user_claims demo_user)) = Inr (Some ''0'')"
    using org by (simp add: user_claims_def demo_user_def)
  have st: "set (ex_statusFilters ?x) \<subseteq> set JOB_STATUSES" by (simp add: x JOB_STATUSES_def)
  have pay: "\<forall>r \<in> set (w_jobs ?w). \<exists>y. payload_value (j_payload r) = Inr y \<and> wireable y" using p unfolding rows by simp
  have mem: "?r \<in> set (w_jobs ?w)" unfolding rows by simp
  have shown: "j_id ?r \<in> cj_id ` set (explorer_jobs ?x (Some pg))"
    using explorer_shows_wanted_jobs [OF demo_url_law ready url demo_session demo_two_wf(2) pay g disjI1 [OF x(2)] st run pg, of "''2''"]
      few want mem by blast
  have "j_id ?r = ''4''" by (simp add: demo_job_def)
  with shown have "''4'' \<in> cj_id ` set (explorer_jobs ?x (Some pg))" by (simp only:)
  with run pg show ?thesis unfolding x(3) by blast
qed

end
