(* ===== verification/Markup.thy ===== *)
theory Markup
  imports Views Format_Props
begin

text \<open>
  The markup of the console as data: what \<open>return (...)\<close> of a component builds. An element has its tag,
  the attributes that say what it is and does, the handlers it carries and its children. Class names
  and the constant styles are left out; a colour or a width that the code computes is an attribute. An
  element of a component that keeps a state of its own (\<open>CopyId\<close>, \<open>RelativeTime\<close>, a form) stands for
  that component with its props; components without state are expanded. From the markup follows what a
  user can do: \<open>possible\<close> collects the actions of the handlers that can fire.
\<close>

section \<open>Elements\<close>

datatype 'a on =
    Click 'a
  | Submit 'a
  | Change "string \<Rightarrow> 'a" \<comment> \<open>with \<open>e.target.value\<close>\<close>
  | Key "string \<Rightarrow> 'a option" \<comment> \<open>with \<open>e.key\<close>; \<open>None\<close> when the handler does nothing\<close>
  | Callback string "string \<Rightarrow> 'a" \<comment> \<open>a function handed to a component that keeps its own state\<close>

datatype 'a node =
    Txt string
  | Elem string "(string \<times> string) list" "'a on list" "'a node list"

definition el :: "string \<Rightarrow> 'a node list \<Rightarrow> 'a node" where
  "el t ns = Elem t [] [] ns"

definition flag :: "string \<Rightarrow> bool \<Rightarrow> (string \<times> string) list" where
  "flag k b = (if b then [(k, [])] else [])"

text \<open>\<open>{s \<and>\<and> ...}\<close> of a text: nothing for the empty text.\<close>

definition when_text :: "string \<Rightarrow> 'a node \<Rightarrow> 'a node list" where
  "when_text s n = (if s \<noteq> [] then [n] else [])"

definition num_text :: "jsnum \<Rightarrow> 'a node" where
  "num_text n = Txt (num_to_string n)"

section \<open>What a user sees and can do\<close>

fun text_of :: "'a node \<Rightarrow> string" where
  "text_of (Txt s) = s"
| "text_of (Elem t ps hs ns) = concat (map text_of ns)"

fun nodes :: "'a node \<Rightarrow> 'a node list" where
  "nodes (Txt s) = [Txt s]"
| "nodes (Elem t ps hs ns) = Elem t ps hs ns # concat (map nodes ns)"

definition all_nodes :: "'a node list \<Rightarrow> 'a node list" where
  "all_nodes ns = concat (map nodes ns)"

text \<open>The submit button of a form is the first one; a button with no type is one too.\<close>

fun is_submit :: "'a node \<Rightarrow> bool" where
  "is_submit (Elem t ps hs ns) \<longleftrightarrow> t = ''button'' \<and> (case map_of ps ''type'' of None \<Rightarrow> True | Some ty \<Rightarrow> ty = ''submit'')"
| "is_submit _ \<longleftrightarrow> False"

fun disabled :: "'a node \<Rightarrow> bool" where
  "disabled (Elem t ps hs ns) \<longleftrightarrow> map_of ps ''disabled'' \<noteq> None"
| "disabled _ \<longleftrightarrow> False"

text \<open>
  What the browser demands of an input before it submits a form: a value where one is required, the
  form of a pattern, of which the console has one, and no number below the minimum. Every but the
  first is demanded of a value that is not empty.
\<close>

definition SLUG_PATTERN :: string where
  "SLUG_PATTERN = ''[a-z0-9]+(?:-[a-z0-9]+)*''"

definition valid_value :: "(string \<times> string) list \<Rightarrow> string \<Rightarrow> bool" where
  "valid_value ps v \<longleftrightarrow> (map_of ps ''required'' \<noteq> None \<longrightarrow> v \<noteq> []) \<and>
     (v \<noteq> [] \<longrightarrow> (case map_of ps ''pattern'' of None \<Rightarrow> True | Some p \<Rightarrow> p = SLUG_PATTERN \<longrightarrow> slug_pattern v) \<and>
        (case map_of ps ''min'' of None \<Rightarrow> True | Some m \<Rightarrow> \<not> num_lt (str_to_num v) (str_to_num m)))"

fun valid_field :: "'a node \<Rightarrow> bool" where
  "valid_field (Elem t ps hs ns) \<longleftrightarrow> (case map_of ps ''value'' of None \<Rightarrow> True
     | Some v \<Rightarrow> t \<in> {''input'', ''select'', ''textarea''} \<longrightarrow> valid_value ps v)"
| "valid_field _ \<longleftrightarrow> True"

definition submittable :: "'a node list \<Rightarrow> bool" where
  "submittable ns \<longleftrightarrow> (case List.find is_submit (all_nodes ns) of None \<Rightarrow> True | Some b \<Rightarrow> \<not> disabled b) \<and>
     (\<forall>n \<in> set (all_nodes ns). valid_field n)"

text \<open>A \<open>select\<close> only takes the values of its options.\<close>

fun option_value :: "'a node \<Rightarrow> string list" where
  "option_value (Elem t ps hs ns) = (if t = ''option'' then (case map_of ps ''value'' of Some v \<Rightarrow> [v] | None \<Rightarrow> []) else [])"
| "option_value _ = []"

definition option_values :: "'a node list \<Rightarrow> string list" where
  "option_values ns = concat (map option_value (all_nodes ns))"

fun fires :: "string \<Rightarrow> 'a node list \<Rightarrow> 'a on \<Rightarrow> 'a set" where
  "fires t ns (Click a) = {a}"
| "fires t ns (Submit a) = (if submittable ns then {a} else {})"
| "fires t ns (Change f) = (if t = ''select'' then f ` set (option_values ns) else range f)"
| "fires t ns (Key f) = {a. \<exists>k. f k = Some a}"
| "fires t ns (Callback p f) = range f"

fun offered :: "'a node \<Rightarrow> 'a set" where
  "offered (Elem t ps hs ns) = (if map_of ps ''disabled'' \<noteq> None then {} else (\<Union>h \<in> set hs. fires t ns h))"
| "offered _ = {}"

definition possible :: "'a node list \<Rightarrow> 'a set" where
  "possible ns = (\<Union>n \<in> set (all_nodes ns). offered n)"

lemma all_nodes_simps [simp]:
  "all_nodes [] = []" "all_nodes (n # ns) = nodes n @ all_nodes ns" "all_nodes (ms @ ns) = all_nodes ms @ all_nodes ns"
  by (simp_all add: all_nodes_def)

lemma concat_nodes [simp]: "concat (map nodes ns) = all_nodes ns"
  by (simp add: all_nodes_def)

lemma possible_simps [simp]:
  "possible [] = {}"
  "possible (Txt s # ns) = possible ns"
  "possible (Elem t ps hs ms # ns) = offered (Elem t ps hs ms) \<union> possible ms \<union> possible ns"
  "possible (ms @ ns) = possible ms \<union> possible ns"
  by (auto simp: possible_def)

lemma possible_map: "possible (map f xs) = (\<Union>x \<in> set xs. possible [f x])"
  by (induction xs) (simp_all add: possible_def)

lemma all_nodes_map: "set (all_nodes (map f xs)) = (\<Union>x \<in> set xs. set (nodes (f x)))"
  by (simp add: all_nodes_def)

section \<open>\<open>components/ui\<close>\<close>

text \<open>\<open>Button.tsx\<close>: variant and size choose classes; the other props are those of the button.\<close>

definition Button :: "(string \<times> string) list \<Rightarrow> 'a on list \<Rightarrow> 'a node list \<Rightarrow> 'a node" where
  "Button props hs children = Elem ''button'' props hs children"

text \<open>An icon of the icon library.\<close>

definition icon :: "string \<Rightarrow> 'a node" where
  "icon name = Elem name [] [] []"

definition EmptyState :: "string option \<Rightarrow> string \<Rightarrow> string \<Rightarrow> 'a node list \<Rightarrow> 'a node" where
  "EmptyState ic title description action = el ''div'' ((case ic of Some i \<Rightarrow> [icon i] | None \<Rightarrow> [])
     @ [el ''p'' [Txt title], el ''p'' [Txt description]] @ action)"

definition Skeleton :: "'a node" where
  "Skeleton = Elem ''div'' [(''aria-hidden'', ''true'')] [] []"

definition StatPanelSkeleton :: "'a node" where
  "StatPanelSkeleton = el ''div'' [Skeleton, Skeleton, Skeleton]"

definition TableSkeleton :: "nat \<Rightarrow> 'a node" where
  "TableSkeleton rows = el ''div'' (Skeleton # map (\<lambda>i. Skeleton) [0..<rows])"

text \<open>\<open>Sparkline.tsx\<close>, with its default width and height\<close>

definition Sparkline :: "jsnum list \<Rightarrow> string \<Rightarrow> 'a node" where
  "Sparkline data color = Elem ''svg'' [(''width'', ''64''), (''height'', ''24''), (''aria-hidden'', ''true'')] []
     (if data = [] then [Elem ''line'' [(''x1'', ''0''), (''y1'', ''12''), (''x2'', ''64''), (''y2'', ''12''), (''stroke'', ''var(--border-hairline)''),
        (''stroke-width'', ''1'')] [] []]
      else [Elem ''polyline'' [(''fill'', ''none''), (''stroke'', color), (''stroke-width'', ''1.5''), (''stroke-linejoin'', ''round''),
        (''stroke-linecap'', ''round''), (''points'', sparkline_text data)] [] []])"

definition StatPanel :: "string \<Rightarrow> string \<Rightarrow> string \<Rightarrow> bool option \<Rightarrow> jsnum list option \<Rightarrow> string \<Rightarrow> bool \<Rightarrow> 'a node" where
  "StatPanel label value_text delta deltaPositive sparkline sparkColor loading =
     (if loading then el ''div'' [el ''div'' [], el ''div'' [], el ''div'' []]
      else el ''div''
       ([el ''span'' [Txt label],
         el ''div'' (el ''span'' [Txt value_text] # (case sparkline of Some data \<Rightarrow> [Sparkline data sparkColor] | None \<Rightarrow> []))]
        @ when_text delta (Elem ''span'' [(''color'', delta_color deltaPositive)] [] [Txt delta])))"

text \<open>A text the code may not have; an attribute that is \<open>undefined\<close> is not there.\<close>

definition opt_text :: "string option \<Rightarrow> 'a node list" where
  "opt_text s = (case s of Some t \<Rightarrow> [Txt t] | None \<Rightarrow> [])"

definition opt_attr :: "string \<Rightarrow> string option \<Rightarrow> (string \<times> string) list" where
  "opt_attr k v = (case v of Some s \<Rightarrow> [(k, s)] | None \<Rightarrow> [])"

definition chip :: "string \<Rightarrow> bool \<Rightarrow> 'a node" where
  "chip status pulse = (case StatusChip status pulse of (st, shouldPulse) \<Rightarrow>
     Elem ''span'' (opt_attr ''background'' (sty_dim st) @ opt_attr ''color'' (sty_color st)) []
       (Elem ''span'' (opt_attr ''background'' (sty_color st) @ flag ''pulse'' shouldPulse) [] [] # opt_text (sty_label st)))"

text \<open>\<open>CopyId.tsx\<close>: the button, and its state when the clipboard has the id and when 1.5 s have passed.\<close>

datatype copy_event = Copied | Copy_timeout

fun copy_step :: "copy_event \<Rightarrow> bool \<Rightarrow> bool" where
  "copy_step Copied copied = True"
| "copy_step Copy_timeout copied = False"

definition CopyId :: "string \<Rightarrow> string option \<Rightarrow> bool \<Rightarrow> string node" where
  "CopyId i display copied = Elem ''button'' [(''type'', ''button''), (''title'', ''Copy full ID'')] [Click i]
     (Txt (case display of Some d \<Rightarrow> d | None \<Rightarrow> i) # (if copied then [icon ''Check''] else []))"

definition CopyId_ref :: "string \<Rightarrow> string \<Rightarrow> 'a node" where
  "CopyId_ref i display = Elem ''CopyId'' [(''id'', i), (''display'', display)] [] []"

definition RelativeTime :: "string \<Rightarrow> string \<Rightarrow> 'a node" where
  "RelativeTime ts label = Elem ''time'' [(''dateTime'', ts)] [] [Txt (if label \<noteq> [] then label else em_dash)]"

definition RelativeTime_ref :: "string \<Rightarrow> 'a node" where
  "RelativeTime_ref ts = Elem ''RelativeTime'' [(''ts'', ts)] [] []"

text \<open>\<open>Drawer.tsx\<close>: closed by its two buttons, and by a key while it is open.\<close>

definition Drawer :: "bool \<Rightarrow> 'a \<Rightarrow> string \<Rightarrow> string option \<Rightarrow> 'a node list \<Rightarrow> 'a node list \<Rightarrow> 'a node list" where
  "Drawer isOpen onClose title subtitle actions children =
     (if \<not> isOpen then []
      else [Elem ''div'' [(''role'', ''dialog''), (''aria-modal'', ''true'')] [Key (\<lambda>k. if drawer_key isOpen k \<noteq> [] then Some onClose else None)]
        [Elem ''button'' [(''type'', ''button''), (''aria-label'', ''Close drawer'')] [Click onClose] [],
         el ''aside''
          [el ''header''
            [el ''div'' (el ''h2'' [Txt title] # (case shown subtitle of Some s \<Rightarrow> [el ''p'' [Txt s]] | None \<Rightarrow> [])),
             el ''div'' (actions @ [Elem ''button'' [(''type'', ''button''), (''aria-label'', ''Close'')] [Click onClose] [icon ''X'']])],
           el ''div'' children]]])"

text \<open>\<open>Pulse.tsx\<close>\<close>

definition Pulse_canvas :: "'a node" where
  "Pulse_canvas = Elem ''canvas'' [(''aria-label'', ''System pulse '' @ em_dash @ '' live job activity'')] [] []"

lemma possible_Drawer [simp]:
  "possible (Drawer isOpen a title sub actions children) = (if isOpen then insert a (possible actions \<union> possible children) else {})"
  by (auto simp: Drawer_def el_def icon_def drawer_key_def split: option.splits)

lemma possible_parts [simp]:
  "possible (chip s p # ns) = possible ns" "possible (CopyId_ref i d # ns) = possible ns" "possible (RelativeTime_ref ts # ns) = possible ns"
  "possible (icon i # ns) = possible ns" "possible (TableSkeleton n # ns) = possible ns" "possible (opt_text t) = {}"
  "possible (StatPanel l v d dp sp c ld # ns) = possible ns" "possible (num_text x # ns) = possible ns" "possible (Pulse_canvas # ns) = possible ns"
  by (auto simp: chip_def CopyId_ref_def RelativeTime_ref_def icon_def TableSkeleton_def Skeleton_def el_def StatPanel_def Sparkline_def
      when_text_def opt_text_def num_text_def Pulse_canvas_def possible_map split: option.splits prod.splits)

lemma possible_EmptyState [simp]: "possible (EmptyState ic t d action # ns) = possible action \<union> possible ns"
  by (auto simp: EmptyState_def el_def split: option.splits)

lemma possible_el [simp]: "possible (el t ms # ns) = possible ms \<union> possible ns"
  by (auto simp: el_def)

lemma possible_when_text [simp]: "possible (when_text s n) = (if s \<noteq> [] then possible [n] else {})"
  by (simp add: when_text_def)

end
