(* ===== verification/Form_Views.thy ===== *)
theory Form_Views
  imports Markup
begin

text \<open>
  The markup of the forms: the login page, the submit form, the two creation forms and the drawer of a
  queue. The actions of a form are the changes of its inputs, its request, and the calls to its parent.
\<close>

definition input :: "(string \<times> string) list \<Rightarrow> string \<Rightarrow> (string \<Rightarrow> 'a) \<Rightarrow> 'a node" where
  "input ps v f = Elem ''input'' (ps @ [(''value'', v)]) [Change f] []"

definition field :: "string \<Rightarrow> 'a node list \<Rightarrow> 'a node" where
  "field label ns = el ''label'' (el ''span'' [Txt label] # ns)"

definition choice :: "string \<Rightarrow> string \<Rightarrow> 'a node" where
  "choice v name = Elem ''option'' [(''value'', v)] [] [Txt name]"

text \<open>The button that submits: disabled, and with another text, while the form waits.\<close>

definition submit_button :: "bool \<Rightarrow> string \<Rightarrow> string \<Rightarrow> 'a node" where
  "submit_button waiting during idle =
     Button ([(''type'', ''submit'')] @ flag ''disabled'' waiting) [] [Txt (if waiting then during @ ellipsis else idle)]"

definition number :: "(string \<times> string) list \<Rightarrow> (string \<times> string) list" where
  "number ps = (''type'', ''number'') # ps"

section \<open>\<open>login/page.tsx\<close>\<close>

datatype login_act = Login_email string | Login_password string | Login_submit

fun login_edit :: "login_act \<Rightarrow> login_form \<Rightarrow> login_form" where
  "login_edit (Login_email v) f = f\<lparr>lf_email := v\<rparr>"
| "login_edit (Login_password v) f = f\<lparr>lf_password := v\<rparr>"
| "login_edit Login_submit f = f"

definition LoginPage :: "login_form \<Rightarrow> login_act node list" where
  "LoginPage f = [el ''div'' [el ''div''
     [el ''div'' [el ''div'' [icon ''Activity''], el ''div'' [el ''p'' [Txt ''Scheduler''], el ''p'' [Txt ''Operator console'']]],
      Elem ''form'' [] [Submit Login_submit]
       ([el ''div'' [el ''h1'' [Txt ''Enter console''],
           el ''p'' [Txt (''Demo mode '' @ em_dash @ '' use any email and password to access the dashboard.'')]]]
        @ when_text (lf_error f) (el ''div'' [Txt (lf_error f)])
        @ [field ''Email'' [input [(''type'', ''text''), (''required'', []), (''autoComplete'', ''username''), (''placeholder'', ''you@company.com'')]
             (lf_email f) Login_email],
           field ''Password'' [input [(''type'', ''password''), (''required'', []), (''autoComplete'', ''current-password''), (''placeholder'', ''Any value works'')]
             (lf_password f) Login_password],
           submit_button (lf_loading f) ''Opening console'' ''Open console''])]]]"

section \<open>\<open>SubmitJobForm.tsx\<close>\<close>

datatype submit_act = Submit_input submit_input | Submit_go | Submit_cancel

definition template_value :: "JobTemplate \<Rightarrow> string" where
  "template_value t = (case t of Sleep \<Rightarrow> ''sleep'' | Webhook \<Rightarrow> ''webhook'' | Always_fail \<Rightarrow> ''always_fail'' | Custom \<Rightarrow> ''custom'')"

text \<open>\<open>e.target.value as JobTemplate\<close>, of one of the options\<close>

definition template_of :: "string \<Rightarrow> JobTemplate" where
  "template_of v = (if v = ''sleep'' then Sleep else if v = ''webhook'' then Webhook else if v = ''always_fail'' then Always_fail else Custom)"

definition template_fields :: "submit_form \<Rightarrow> submit_act node list" where
  "template_fields f =
     (if sf_template f = Sleep then
        [field ''Duration (ms)'' [input (number [(''min'', ''1'')]) (sf_durationMs f) (\<lambda>v. Submit_input (In_duration v))]] else [])
     @ (if sf_template f = Always_fail then
        [field ''Error message'' [input [] (sf_failMessage f) (\<lambda>v. Submit_input (In_message v))]] else [])
     @ (if sf_template f = Custom \<or> sf_template f = Webhook then
        [field ''Payload'' [Elem ''textarea'' [(''spellCheck'', ''false''), (''value'', sf_customPayload f)]
           [Change (\<lambda>v. Submit_input (In_payload v))] []]] else [])"

definition schedule_fields :: "submit_form \<Rightarrow> submit_act node" where
  "schedule_fields f = el ''details'' [el ''summary'' [Txt ''Scheduling & retries''], el ''div''
     [field ''Priority'' [input (number [(''placeholder'', ''Queue default'')]) (sf_priority f) (\<lambda>v. Submit_input (In_priority v))],
      field ''Max attempts'' [input (number [(''min'', ''1'')]) (sf_maxAttempts f) (\<lambda>v. Submit_input (In_attempts v))],
      field ''Delay (seconds)'' [input (number [(''min'', ''0''), (''placeholder'', ''Run immediately'')]) (sf_delaySeconds f) (\<lambda>v. Submit_input (In_delay v))],
      field ''Cron expression'' [input [(''placeholder'', ''*/5 * * * *'')] (sf_cronExpr f) (\<lambda>v. Submit_input (In_cron v))]]]"

definition SubmitJobForm :: "Queue list \<Rightarrow> submit_form \<Rightarrow> submit_act node list" where
  "SubmitJobForm queues f =
     (if queues = [] then
        [el ''div'' [el ''p'' [Txt ''Create a queue first, then submit work to it.''], Button [] [Click Submit_cancel] [Txt ''Close'']]]
      else [Elem ''form'' [] [Submit Submit_go]
        (when_text (sf_error f) (el ''p'' [Txt (sf_error f)])
         @ [field ''Queue'' [Elem ''select'' [(''value'', sf_queueId f), (''required'', [])] [Change (\<lambda>v. Submit_input (In_queue v))]
              (map (\<lambda>q. choice (cq_id q) (cq_name q)) queues)],
            field ''Job name'' [input [(''placeholder'', ''payment-abc-123 (idempotency key)'')] (sf_jobName f) (\<lambda>v. Submit_input (In_name v)),
              el ''span'' [Txt ''Optional. Shown in the explorer and prevents duplicate runs.'']],
            field ''Job type'' [Elem ''select'' [(''value'', template_value (sf_template f))] [Change (\<lambda>v. Submit_input (In_template (template_of v)))]
              [choice ''sleep'' ''Sleep (demo)'', choice ''webhook'' ''Webhook'', choice ''always_fail'' ''Always fail (test DLQ)'',
               choice ''custom'' ''Custom JSON'']]]
         @ template_fields f
         @ [schedule_fields f,
            el ''div'' [submit_button (sf_saving f) ''Submitting'' ''Submit job'',
              Button [(''type'', ''button'')] [Click Submit_cancel] [Txt ''Cancel'']]])])"

section \<open>\<open>CreateQueueForm.tsx\<close>\<close>

datatype project_act = Project_name string | Project_slug string | Project_go

definition CreateProjectInline :: "project_form \<Rightarrow> project_act node list" where
  "CreateProjectInline f = [Elem ''form'' [] [Submit Project_go]
     ([el ''p'' [Txt ''New project'']] @ when_text (pf_error f) (el ''p'' [Txt (pf_error f)])
      @ [input [(''placeholder'', ''Project name''), (''required'', [])] (pf_name f) Project_name,
         input [(''placeholder'', ''project-slug''), (''required'', [])] (pf_slug f) Project_slug,
         submit_button (pf_saving f) ''Creating'' ''Create project''])]"

fun project_edit :: "project_act \<Rightarrow> project_form \<Rightarrow> project_form" where
  "project_edit (Project_name v) f = project_name_change v f"
| "project_edit (Project_slug v) f = project_slug_change v f"
| "project_edit Project_go f = f"

datatype queue_act = Queue_input queue_input | Queue_go | Queue_cancel | Project_created

definition CreateQueueForm :: "Project list \<Rightarrow> queue_form \<Rightarrow> queue_act node list" where
  "CreateQueueForm projects f =
     (if projects = [] then
        [el ''div'' [el ''p'' [Txt ''No projects exist yet. Create a project first, then add queues under it.''],
           Elem ''CreateProjectInline'' [] [Callback ''onCreated'' (\<lambda>v. Project_created)] [], Button [] [Click Queue_cancel] [Txt ''Cancel'']]]
      else [Elem ''form'' [] [Submit Queue_go]
        (when_text (qf_error f) (el ''p'' [Txt (qf_error f)])
         @ [field ''Project'' [Elem ''select'' [(''value'', qf_projectId f), (''required'', [])] [Change (\<lambda>v. Queue_input (Q_project v))]
              (map (\<lambda>p. choice (cp_id p) (cp_name p)) projects)],
            field ''Queue name'' [input [(''required'', []), (''placeholder'', ''Emails'')] (qf_name f) (\<lambda>v. Queue_input (Q_name v))],
            field ''Slug'' [input [(''required'', []), (''pattern'', SLUG_PATTERN), (''placeholder'', ''emails'')] (qf_slug f)
              (\<lambda>v. Queue_input (Q_slug v))],
            el ''div'' [field ''Concurrency limit'' [input (number [(''min'', ''1'')]) (qf_concurrency f) (\<lambda>v. Queue_input (Q_concurrency v))],
              field ''Default priority'' [input (number []) (qf_priority f) (\<lambda>v. Queue_input (Q_priority v))]],
            el ''div'' [submit_button (qf_saving f) ''Creating'' ''Create queue'',
              Button [(''type'', ''button'')] [Click Queue_cancel] [Txt ''Cancel'']]])])"

section \<open>The drawer of a queue\<close>

text \<open>
  The inputs change the state of the drawer; \<open>Drawer_save\<close> and \<open>Drawer_toggle\<close> start the handlers
  \<open>drawer_save\<close> and \<open>togglePause\<close>, which send requests, and \<open>Drawer_close\<close> calls the parent.
\<close>

datatype drawer_input = D_name string | D_concurrency string | D_priority string

datatype drawer_act = Drawer_input drawer_input | Drawer_save | Drawer_toggle | Drawer_close

fun drawer_edit :: "drawer_input \<Rightarrow> drawer \<Rightarrow> drawer" where
  "drawer_edit (D_name v) d = d\<lparr>dr_name := v\<rparr>"
| "drawer_edit (D_concurrency v) d = d\<lparr>dr_concurrency := v\<rparr>"
| "drawer_edit (D_priority v) d = d\<lparr>dr_priority := v\<rparr>"

definition drawer_config :: "drawer \<Rightarrow> drawer_act node" where
  "drawer_config d = el ''div''
     [el ''p'' [Txt ''Configuration''],
      field ''Name'' [input [] (dr_name d) (\<lambda>v. Drawer_input (D_name v))],
      field ''Concurrency limit'' [input [(''placeholder'', ''Unlimited'')] (dr_concurrency d) (\<lambda>v. Drawer_input (D_concurrency v))],
      field ''Default priority'' [input [] (dr_priority d) (\<lambda>v. Drawer_input (D_priority v))],
      Button (flag ''disabled'' (dr_saving d)) [Click Drawer_save] [Txt (if dr_saving d then ''Saving'' @ ellipsis else ''Save configuration'')]]"

definition QueueDrawer :: "Queue \<Rightarrow> jsnum option \<Rightarrow> jsnum option \<Rightarrow> drawer \<Rightarrow> drawer_act node list" where
  "QueueDrawer q depth throughput d = (case drawer_figures q depth throughput of (dp, tp, usage, bar) \<Rightarrow>
     Drawer True Drawer_close (cq_name q) (Some (cq_slug q))
       [Button [] [Click Drawer_toggle] [Txt (if cq_is_paused q then ''Resume queue'' else ''Pause queue'')]]
       [el ''div''
         ([el ''div'' [el ''div'' [el ''p'' [Txt ''Depth''], el ''p'' [Txt dp]], el ''div'' [el ''p'' [Txt ''Throughput / 1h''], el ''p'' [Txt tp]]],
           el ''div'' (el ''div'' [el ''span'' [Txt ''Concurrency''], el ''span'' [Txt usage]]
             # (case bar of Some pct \<Rightarrow> [el ''div'' [Elem ''div'' [(''width'', num_to_string pct @ ''%'')] [] []]] | None \<Rightarrow> [])),
           el ''div'' [el ''p'' [Txt ''Recent activity''],
             el ''p'' [Txt ''Updated '', RelativeTime_ref (cq_updated_at q), Txt ''. Poll interval 3s.'']]]
          @ when_text (dr_error d) (el ''p'' [Txt (dr_error d)])
          @ [drawer_config d])])"

end
