(* ===== verification/Page_Views.thy ===== *)
theory Page_Views
  imports Form_Views
begin

text \<open>
  The markup of the pages and of the shell, over what the hooks of \<open>use-api.ts\<close> return: the data when it
  has arrived, whether it is being loaded, and the message of the error when a request failed.
\<close>

text \<open>The panel that takes the place of a page whose request failed.\<close>

definition failure :: "string \<Rightarrow> string \<Rightarrow> 'a node list" where
  "failure title message = [el ''div'' [el ''p'' [Txt title], el ''p'' [Txt message]]]"

definition head_row :: "string list \<Rightarrow> 'a node" where
  "head_row cols = el ''thead'' [el ''tr'' (map (\<lambda>c. el ''th'' [Txt c]) cols)]"

section \<open>\<open>JobsExplorer.tsx\<close>\<close>

datatype explorer_act =
    Toggle_status string | Filter_queue string | Open_job string | Close_job | Open_submit | Close_submit | Job_submitted string

fun explorer_do :: "explorer_act \<Rightarrow> explorer \<Rightarrow> explorer" where
  "explorer_do (Toggle_status s) x = toggleStatus s x"
| "explorer_do (Filter_queue q) x = setQueueFilter q x"
| "explorer_do (Open_job i) x = x\<lparr>ex_selectedJobId := Some i\<rparr>"
| "explorer_do Close_job x = x\<lparr>ex_selectedJobId := None\<rparr>"
| "explorer_do Open_submit x = x\<lparr>ex_submitOpen := True\<rparr>"
| "explorer_do Close_submit x = x\<lparr>ex_submitOpen := False\<rparr>"
| "explorer_do (Job_submitted i) x = explorer_onSubmitted i x"

definition status_button :: "string \<times> StatusStyle \<times> bool \<Rightarrow> explorer_act node" where
  "status_button b = (case b of (s, st, active) \<Rightarrow>
     Elem ''button'' ([(''type'', ''button'')] @ opt_attr ''background'' (if active then sty_dim st else Some ''transparent'')
         @ opt_attr ''color'' (if active then sty_color st else Some ''var(--text-tertiary)''))
       [Click (Toggle_status s)] (Elem ''span'' (opt_attr ''background'' (sty_color st)) [] [] # opt_text (sty_label st)))"

definition job_tr :: "Queue list \<Rightarrow> Job \<Rightarrow> explorer_act node" where
  "job_tr queues j = (case explorer_row queues j of (name, i, ch, queue, prio, tries) \<Rightarrow>
     Elem ''tr'' [] [Click (Open_job i)]
       [el ''td'' [el ''span'' [Txt name], el ''span'' [CopyId_ref i i]],
        el ''td'' [chip (cj_status j) (cj_status j = ''running'')],
        el ''td'' [Txt queue], el ''td'' [Txt prio], el ''td'' [Txt tries],
        el ''td'' [RelativeTime_ref (cj_created_at j)]])"

definition submit_job_button :: "'a node list \<Rightarrow> 'a \<Rightarrow> 'a node" where
  "submit_job_button ic a = Button [] [Click a] (ic @ [Txt ''Submit job''])"

definition job_table :: "bool \<Rightarrow> Job list \<Rightarrow> Queue list \<Rightarrow> explorer_act node" where
  "job_table isLoading jobs queues =
     (if isLoading then TableSkeleton 8
      else if jobs = [] then EmptyState (Some ''ListTodo'') ''No jobs match''
        ''Adjust filters or submit work to a queue. Jobs appear here as soon as they are enqueued.'' [submit_job_button [] Open_submit]
      else el ''div'' [el ''table'' [head_row [''Job'', ''Status'', ''Queue'', ''Priority'', ''Attempts'', ''Created''],
        el ''tbody'' (map (job_tr queues) jobs)]])"

definition JobsExplorer :: "string option \<Rightarrow> bool \<Rightarrow> Job Page option \<Rightarrow> Queue Page option \<Rightarrow> explorer \<Rightarrow> explorer_act node list" where
  "JobsExplorer error isLoading jobPage queuePage x =
     (let queues = page_items queuePage; jobs = explorer_jobs x jobPage in
      case error of Some m \<Rightarrow> failure ''Failed to load jobs'' m
      | None \<Rightarrow> [el ''div''
          ([el ''div'' [el ''p'' [Txt ''Filter jobs by status and queue. Open a row for execution history and logs.''],
              submit_job_button [icon ''Plus''] Open_submit],
            el ''div'' [el ''div'' (map status_button (filter_buttons x)),
              Elem ''select'' [(''value'', ex_queueId x), (''aria-label'', ''Filter by queue'')] [Change Filter_queue]
                (choice [] ''All queues'' # map (\<lambda>q. choice (cq_id q) (cq_name q)) queues)],
            job_table isLoading jobs queues]
           @ (case jobPage of Some pg \<Rightarrow> if pg_has_more pg
                then [el ''p'' [Txt (''More results available '' @ em_dash @ '' narrow filters to refine.'')]] else [] | None \<Rightarrow> [])
           @ Drawer (shown (ex_selectedJobId x) \<noteq> None) Close_job (explorer_title x jobs) (explorer_subtitle x jobs queues) []
               (case shown (ex_selectedJobId x) of Some i \<Rightarrow> [Elem ''JobDetailContent'' [(''jobId'', i)] [] []] | None \<Rightarrow> [])
           @ Drawer (ex_submitOpen x) Close_submit ''Submit job'' None []
               [Elem ''SubmitJobForm'' (opt_attr ''defaultQueueId'' (explorer_default_queue x))
                 [Callback ''onSubmitted'' Job_submitted, Callback ''onCancel'' (\<lambda>v. Close_submit)] []])])"

section \<open>\<open>QueuesView.tsx\<close>\<close>

datatype queues_act = Select_queue Queue | Deselect_queue | Queue_updated | Open_create | Close_create | Queue_created

text \<open>What an action does to the state, and the calls it makes.\<close>

fun queues_do :: "queues_act \<Rightarrow> queues_view \<Rightarrow> queues_view \<times> effect list" where
  "queues_do (Select_queue q) x = (x\<lparr>qv_selected := Some q\<rparr>, [])"
| "queues_do Deselect_queue x = (x\<lparr>qv_selected := None\<rparr>, [])"
| "queues_do Queue_updated x = (x, [Mutate ''queues''])"
| "queues_do Open_create x = (x\<lparr>qv_createOpen := True\<rparr>, [])"
| "queues_do Close_create x = (x\<lparr>qv_createOpen := False\<rparr>, [])"
| "queues_do Queue_created x = queues_onCreated x"

definition queue_tr :: "QueueStats list option \<Rightarrow> Queue \<Rightarrow> queues_act node" where
  "queue_tr stats q = (case queues_row stats q of (depth, width, usage, throughput, ch) \<Rightarrow>
     Elem ''tr'' [] [Click (Select_queue q)]
       [el ''td'' [el ''span'' [Txt (cq_name q)], el ''span'' [Txt (cq_slug q)]],
        el ''td'' [num_text depth],
        el ''td'' [el ''div'' [el ''div'' [Elem ''div'' [(''width'', width)] [] []], el ''span'' [Txt usage]]],
        el ''td'' [Txt throughput],
        el ''td'' [chip (if cq_is_paused q then ''paused'' else ''active'') False]])"

definition create_queue_button :: "'a node list \<Rightarrow> 'a \<Rightarrow> 'a node" where
  "create_queue_button ic a = Button [] [Click a] (ic @ [Txt ''Create queue''])"

definition queue_table :: "bool \<Rightarrow> Queue list \<Rightarrow> QueueStats list option \<Rightarrow> queues_act node" where
  "queue_table isLoading queues stats =
     (if isLoading then TableSkeleton 4
      else if queues = [] then EmptyState (Some ''Layers'') ''No queues''
        ''Queues isolate workloads and control concurrency. Create one to start submitting jobs.'' [create_queue_button [] Open_create]
      else el ''div'' [el ''table'' [head_row [''Name'', ''Depth'', ''Concurrency'', ''/ 1h'', ''Status''],
        el ''tbody'' (map (queue_tr stats) queues)]])"

definition QueuesView :: "string option \<Rightarrow> bool \<Rightarrow> Queue Page option \<Rightarrow> QueueStats list option \<Rightarrow> queues_view \<Rightarrow> queues_act node list" where
  "QueuesView error isLoading queuePage stats x =
     (let queues = page_items queuePage in
      case error of Some m \<Rightarrow> failure ''Failed to load queues'' (m @ ''. Check API connectivity and sign in again.'')
      | None \<Rightarrow> [el ''div''
          ([el ''div'' [el ''p'' [Txt ''Click a row to inspect configuration and pause or resume processing.''],
              create_queue_button [icon ''Plus''] Open_create],
            queue_table isLoading queues stats]
           @ (case qv_selected x of Some q \<Rightarrow> [Elem ''QueueDrawer'' [(''queue'', cq_id q)]
                [Callback ''onClose'' (\<lambda>v. Deselect_queue), Callback ''onUpdated'' (\<lambda>v. Queue_updated)] []] | None \<Rightarrow> [])
           @ Drawer (qv_createOpen x) Close_create ''Create queue'' None []
               [Elem ''CreateQueueForm'' [] [Callback ''onCreated'' (\<lambda>v. Queue_created), Callback ''onCancel'' (\<lambda>v. Close_create)] []])])"

text \<open>The figures that the page hands to the drawer of the selected queue.\<close>

definition selected_figures :: "QueueStats list option \<Rightarrow> Queue \<Rightarrow> jsnum option \<times> jsnum option" where
  "selected_figures stats q = (map_option cs_depth (queue_stats stats (cq_id q)), map_option cs_throughput_1h (queue_stats stats (cq_id q)))"

section \<open>\<open>dlq/page.tsx\<close>\<close>

datatype dlq_act = Retry string

definition dlq_article :: "dlq_page \<Rightarrow> DLQItem \<Rightarrow> dlq_act node" where
  "dlq_article s d = (case dlq_button s d of (waiting, label) \<Rightarrow> el ''article'' [el ''div''
     [el ''div''
       ([el ''div'' [el ''span'' [Txt (jobDisplayName None (cd_payload d) None unnamed_job)],
           el ''span'' [Txt ''Queue '', el ''span'' [Txt (cd_queue_name d)]]]]
        @ (case shown (cd_reason d) of Some r \<Rightarrow> [el ''pre'' [Txt r]] | None \<Rightarrow> [])
        @ [el ''div'' [el ''span'' [Txt ''Attempts '', el ''span'' [num_text (cd_attempts_made d)]],
             el ''span'' [Txt ''Failed '', RelativeTime_ref (cd_failed_at d)]],
           el ''details'' [el ''summary'' [Txt ''Payload''], el ''pre'' [Txt (pretty [] (cd_payload d))]]]),
      el ''div'' [Button (flag ''disabled'' waiting) [Click (Retry (cd_job_id d))] [Txt label],
        Button [(''disabled'', []), (''title'', ''Discard requires API support'')] [] [Txt ''Discard'']]]])"

definition dlq_list :: "bool \<Rightarrow> DLQItem list \<Rightarrow> dlq_page \<Rightarrow> dlq_act node" where
  "dlq_list isLoading items s =
     (if isLoading then el ''div'' (map (\<lambda>i. el ''div'' [el ''div'' [], el ''div'' []]) [0..<3])
      else if items = [] then EmptyState (Some ''Skull'') ''Dead letter queue is empty''
        ''No dead-lettered jobs. Failures that exhaust retries land here for operator review.'' []
      else el ''div'' (map (dlq_article s) items))"

definition DLQPage :: "string option \<Rightarrow> bool \<Rightarrow> DLQItem Page option \<Rightarrow> dlq_page \<Rightarrow> dlq_act node list" where
  "DLQPage error isLoading dlqPage s =
     (let items = page_items dlqPage in
      case error of Some m \<Rightarrow> failure ''Failed to load dead letter queue'' m
      | None \<Rightarrow> [el ''div''
          ([el ''div'' [el ''p'' [Txt ''Jobs that exhausted all retry attempts. Inspect the error, then retry or discard.''],
              el ''span'' [Txt (dlq_count items)]]]
           @ when_text (dp_actionError s) (el ''p'' [Txt (dp_actionError s)])
           @ [dlq_list isLoading items s])])"

section \<open>\<open>workers/page.tsx\<close>\<close>

definition worker_article :: "WorkerInfo \<Rightarrow> 'a node" where
  "worker_article w = (case worker_card w of (name, ch, n, color, seen) \<Rightarrow> el ''article''
     [el ''div'' [el ''div'' [el ''p'' [Txt name]], chip (cw_status w) (cw_status w = ''active'')],
      el ''div'' [el ''div'' [el ''p'' [Txt ''In flight''], Elem ''p'' [(''color'', color)] [] [Txt n]],
        el ''div'' [el ''p'' [Txt ''Last heartbeat''], el ''p'' [case seen of Some ts \<Rightarrow> RelativeTime_ref ts | None \<Rightarrow> Txt em_dash]]],
      el ''p'' [Txt ''Registered '', RelativeTime_ref (cw_created_at w)]])"

definition WorkersPage :: "string option \<Rightarrow> bool \<Rightarrow> WorkerInfo list option \<Rightarrow> unit node list" where
  "WorkersPage error isLoading workers = (case error of Some m \<Rightarrow> failure ''Failed to load workers'' m
     | None \<Rightarrow> [el ''div''
         [el ''p'' [Txt ''Worker heartbeats refresh every 3s. Stale workers are marked offline by the reaper.''],
          (if isLoading then el ''div'' (map (\<lambda>i. el ''div'' [el ''div'' [], el ''div'' []]) [0..<3])
           else case workers of
             Some (w # ws) \<Rightarrow> el ''div'' (map worker_article (w # ws))
           | _ \<Rightarrow> EmptyState (Some ''Server'') ''No workers registered''
               ''Start a worker process to claim and execute jobs. Workers appear here once they connect.'' [])]])"

section \<open>\<open>JobDetailContent.tsx\<close>\<close>

definition detail_entry :: "string \<Rightarrow> 'a node \<Rightarrow> 'a node" where
  "detail_entry k v = el ''div'' [el ''dt'' [Txt k], el ''dd'' [v]]"

definition execution_li :: "WorkerInfo list option \<Rightarrow> JobExecution \<Rightarrow> 'a node" where
  "execution_li workers e = (case execution_view workers e of (title, st, duration, worker, err) \<Rightarrow> el ''li''
     ([Elem ''span'' (opt_attr ''background'' (sty_color st)) [] [],
       el ''div'' [el ''span'' [Txt title], chip (ce_status e) False, el ''span'' [Txt duration]],
       el ''p'' [Txt (''Worker '' @ worker @ '' '' @ utf8 0xB7 @ '' ''), RelativeTime_ref (ce_started_at e)]]
      @ (case err of Some m \<Rightarrow> [el ''p'' [Txt m]] | None \<Rightarrow> [])))"

text \<open>\<open>localTime\<close> is \<open>toLocaleTimeString\<close>, which depends on the locale of the browser.\<close>

definition log_line :: "(string \<Rightarrow> string) \<Rightarrow> JobLog \<Rightarrow> 'a node" where
  "log_line localTime l = el ''div'' [el ''span'' [Txt (localTime (cg_created_at l))],
     Elem ''span'' [(''color'', log_color (cg_level l))] [] [Txt (''['' @ cg_level l @ '']'')], el ''span'' [Txt (cg_message l)]]"

definition job_panel :: "Queue list \<Rightarrow> Job \<Rightarrow> 'a node" where
  "job_panel queues j = el ''div''
     [el ''div'' [el ''span'' [Txt (job_name j)], chip (cj_status j) (cj_status j = ''running'')],
      el ''dl''
       ([detail_entry ''Job ID'' (CopyId_ref (cj_id j) (cj_id j)),
         detail_entry ''Queue'' (Txt (queueName (cj_queue_id j) queues)),
         detail_entry ''Priority'' (num_text (cj_priority j)),
         detail_entry ''Attempts'' (Txt (num_to_string (cj_attempts j) @ '' / '' @ num_to_string (cj_max_attempts j))),
         detail_entry ''Created'' (RelativeTime_ref (cj_created_at j))]
        @ (case shown (cj_cron_expr j) of Some c \<Rightarrow> [detail_entry ''Cron'' (Txt c)] | None \<Rightarrow> [])
        @ (case shown (cj_error_message j) of Some m \<Rightarrow> [detail_entry ''Last error'' (Txt m)] | None \<Rightarrow> []))]"

definition execution_timeline :: "WorkerInfo list option \<Rightarrow> JobExecution list option \<Rightarrow> 'a node" where
  "execution_timeline workers executions = el ''section'' [el ''h3'' [Txt ''Execution timeline''],
     (case executions of Some (e # es) \<Rightarrow> el ''ol'' (map (execution_li workers) (e # es))
      | _ \<Rightarrow> el ''p'' [Txt ''No executions recorded yet.''])]"

definition log_panel :: "(string \<Rightarrow> string) \<Rightarrow> JobLog list option \<Rightarrow> 'a node" where
  "log_panel localTime logs = el ''section'' [el ''h3'' [Txt ''Logs''],
     el ''div'' (case logs of Some (l # ls) \<Rightarrow> map (log_line localTime) (l # ls) | _ \<Rightarrow> [el ''p'' [Txt ''No log lines yet.'']])]"

definition JobDetail_view ::
  "(string \<Rightarrow> string) \<Rightarrow> bool \<Rightarrow> string option \<Rightarrow> Job option \<Rightarrow> Queue list \<Rightarrow> WorkerInfo list option \<Rightarrow> JobExecution list option
   \<Rightarrow> JobLog list option \<Rightarrow> unit node list" where
  "JobDetail_view localTime isLoading jobError job queues workers executions logs =
     (case JobDetailContent isLoading jobError job queues of
        Detail_loading \<Rightarrow> [el ''div'' [Skeleton, Skeleton, Skeleton]]
      | Detail_failed m \<Rightarrow> failure ''Could not load job'' m
      | Detail d \<Rightarrow> (case job of None \<Rightarrow> [] | Some j \<Rightarrow> [el ''div''
          [job_panel queues j, el ''details'' [el ''summary'' [Txt ''Payload''], el ''pre'' [Txt (pretty [] (cj_payload j))]],
           execution_timeline workers executions, log_panel localTime logs]]))"

end
