(* ===== verification/Shell_Views.thy ===== *)
theory Shell_Views
  imports Page_Views
begin

text \<open>
  The markup of the overview and of the shell around the pages: rail, top bar, command palette, guard
  and layout; and the drawing of the pulse, as the calls it makes to the canvas.
\<close>

definition link :: "string \<Rightarrow> (string \<times> string) list \<Rightarrow> 'a node list \<Rightarrow> 'a node" where
  "link href ps ns = Elem ''a'' ((''href'', href) # ps) [] ns"

section \<open>\<open>app/page.tsx\<close>\<close>

datatype visit = Visit string

definition stat_panels :: "bool \<Rightarrow> bool \<Rightarrow> QueueStats list option \<Rightarrow> WorkerInfo list option \<Rightarrow> 'a node list" where
  "stat_panels loading workersLoading stats workers = (case success_panel loading stats of (rate, good, delta) \<Rightarrow>
     [StatPanel ''Queue depth'' (num_to_string (total cs_depth stats)) ''Jobs waiting to run'' None
        (map_option (map cs_depth) stats) ''var(--accent)'' loading,
      StatPanel ''Throughput / 1h'' (num_to_string (total cs_throughput_1h stats)) [] None
        (map_option (map cs_throughput_1h) stats) ''var(--st-running)'' loading,
      StatPanel ''Throughput / 24h'' (num_to_string (total cs_throughput_24h stats)) [] None
        (map_option (map cs_throughput_24h) stats) ''var(--st-scheduled)'' loading,
      StatPanel ''Success rate'' rate delta (Some good) None ''var(--st-completed)'' loading,
      StatPanel ''Active workers'' (int_to_string (int (active_workers workers))) [] None None ''var(--st-completed)'' workersLoading])"

text \<open>The elements of the chart library, with the names of the series they draw of \<open>chartData\<close>.\<close>

definition area :: "string \<Rightarrow> string \<Rightarrow> string \<Rightarrow> string \<Rightarrow> 'a node" where
  "area key stroke fill name = Elem ''Area'' [(''type'', ''monotone''), (''dataKey'', key), (''stroke'', stroke), (''fill'', fill),
     (''strokeWidth'', ''1.5''), (''name'', name)] [] []"

definition gradient :: "string \<Rightarrow> string \<Rightarrow> 'a node" where
  "gradient i color = Elem ''linearGradient'' [(''id'', i), (''x1'', ''0''), (''y1'', ''0''), (''x2'', ''0''), (''y2'', ''1'')] []
     [Elem ''stop'' [(''offset'', ''0%''), (''stopColor'', color), (''stopOpacity'', ''0.15'')] [] [],
      Elem ''stop'' [(''offset'', ''100%''), (''stopColor'', color), (''stopOpacity'', ''0'')] [] []]"

definition chart_section :: "chart_point list \<Rightarrow> 'a node list" where
  "chart_section data = (if data \<noteq> [] then [el ''section'' [el ''p'' [Txt ''Throughput by queue''],
     el ''div'' [el ''ResponsiveContainer'' [el ''AreaChart''
       [el ''defs'' [gradient ''gCompleted'' ''#43C98A'', gradient ''gFailed'' ''#F26759''],
        Elem ''CartesianGrid'' [(''strokeDasharray'', ''3 3''), (''vertical'', ''false'')] [] [],
        Elem ''XAxis'' [(''dataKey'', ''name''), (''tickLine'', ''false'')] [] [], Elem ''YAxis'' [(''axisLine'', ''false''), (''tickLine'', ''false'')] [] [],
        el ''Tooltip'' [],
        area ''completed'' ''var(--st-completed)'' ''url(#gCompleted)'' ''Completed'',
        area ''failed'' ''var(--st-failed)'' ''url(#gFailed)'' ''Failed'']]]]] else [])"

definition section_head :: "string \<Rightarrow> string \<Rightarrow> 'a node" where
  "section_head title href = el ''div'' [el ''p'' [Txt title], link href [] [Txt ''View all'']]"

definition glance_tr :: "Queue list \<Rightarrow> QueueStats \<Rightarrow> visit node" where
  "glance_tr queues s = (case glance_row queues s of (name, depth, throughput, ch) \<Rightarrow>
     Elem ''tr'' [] [Click (Visit ''/queues'')]
       [el ''td'' [Txt name], el ''td'' [num_text depth], el ''td'' [num_text throughput],
        el ''td'' [chip (case List.find (\<lambda>x. cq_id x = cs_queue_id s) queues of
          Some q \<Rightarrow> if cq_is_paused q then ''paused'' else ''active'' | None \<Rightarrow> ''active'') False]])"

definition glance_queues :: "bool \<Rightarrow> Queue list \<Rightarrow> QueueStats list option \<Rightarrow> visit node" where
  "glance_queues loading queues stats = (let rows = (case stats of Some ss \<Rightarrow> ss | None \<Rightarrow> []) in
     el ''section'' [section_head ''Queues at a glance'' ''/queues'',
       el ''div'' [el ''table'' [head_row [''Queue'', ''Depth'', ''/ 1h'', ''Status''],
         el ''tbody'' (map (glance_tr queues) rows
           @ (if \<not> loading \<and> rows = []
              then [el ''tr'' [Elem ''td'' [(''colSpan'', ''4'')] [] [Txt ''No queues yet. Create one to start scheduling work.'']]] else []))]]])"

definition glance_worker_row :: "WorkerInfo \<Rightarrow> 'a node" where
  "glance_worker_row w = el ''div''
     [el ''div'' [el ''p'' [Txt (cw_name w)],
        el ''p'' [case shown (cw_last_seen_at w) of Some ts \<Rightarrow> RelativeTime_ref ts | None \<Rightarrow> Txt ''No heartbeat'']],
      el ''div'' [el ''span'' [Txt (num_to_string (cw_jobs_in_flight w) @ '' in flight'')],
        chip (cw_status w) (cw_status w = ''active'')]]"

definition glance_workers_section :: "bool \<Rightarrow> WorkerInfo list option \<Rightarrow> 'a node" where
  "glance_workers_section workersLoading workers = (let ws = (case workers of Some ws \<Rightarrow> ws | None \<Rightarrow> []) in
     el ''section'' [section_head ''Workers'' ''/workers'',
       el ''div'' (map glance_worker_row (take 6 ws)
         @ (if \<not> workersLoading \<and> ws = []
            then [el ''p'' [Txt ''No workers registered. Start a worker process to claim jobs.'']] else []))])"

definition OverviewPage ::
  "bool \<Rightarrow> bool \<Rightarrow> bool \<Rightarrow> Queue Page option \<Rightarrow> QueueStats list option \<Rightarrow> WorkerInfo list option \<Rightarrow> visit node list" where
  "OverviewPage queuesLoading statsLoading workersLoading queuePage stats workers =
     (let queues = page_items queuePage; loading = queuesLoading \<or> statsLoading in
      [el ''div''
        ([el ''section'' [el ''div'' [el ''div'' [el ''p'' [Txt ''System pulse''], el ''p'' [Txt ''Live trace of job completions and failures'']]],
            el ''div'' [Pulse_canvas]],
          el ''div'' (stat_panels loading workersLoading stats workers)]
         @ chart_section (chartData stats)
         @ [el ''div'' [glance_queues loading queues stats, glance_workers_section workersLoading workers]])])"

section \<open>\<open>LeftRail.tsx\<close> and \<open>TopBar.tsx\<close>\<close>

datatype rail_act = Sign_out

definition nav_icon :: "string \<Rightarrow> string" where
  "nav_icon href = (if href = ''/'' then ''Activity'' else if href = ''/queues'' then ''Layers'' else if href = ''/jobs'' then ''ListTodo''
     else if href = ''/workers'' then ''Server'' else ''Skull'')"

definition rail_link :: "string \<Rightarrow> string \<times> string \<Rightarrow> 'a node" where
  "rail_link path item = (case item of (href, label) \<Rightarrow>
     link href [(''background'', if nav_active path href then ''var(--accent-dim)'' else ''transparent'')]
       [icon (nav_icon href), el ''span'' [Txt label]])"

definition bottom_link :: "string \<Rightarrow> string \<times> string \<Rightarrow> 'a node" where
  "bottom_link path item = (case item of (href, label) \<Rightarrow>
     link href [(''color'', if nav_active path href then ''var(--accent)'' else ''var(--text-tertiary)''), (''aria-label'', label)]
       [icon (nav_icon href), el ''span'' [Txt (short_label label)]])"

definition LeftRail :: "string \<Rightarrow> rail_act node list" where
  "LeftRail path =
     [el ''aside''
       [el ''div'' [link ''/'' [] [el ''div'' [icon ''Activity''], el ''div'' [el ''span'' [Txt ''Scheduler''], el ''span'' [Txt ''Control plane'']]]],
        el ''nav'' (map (rail_link path) NAV),
        el ''div'' [Elem ''button'' [(''type'', ''button'')] [Click Sign_out] [icon ''LogOut'', el ''span'' [Txt ''Sign out'']]]],
      el ''nav'' (map (bottom_link path) NAV)]"

definition TopBar :: "string \<Rightarrow> Queue Page option \<Rightarrow> WorkerInfo list option \<Rightarrow> console_event node list" where
  "TopBar path queuePage workers = (let deg = degraded queuePage workers; tone = (if deg then ''var(--st-retrying'' else ''var(--st-completed'') in
     [el ''header''
       ([Elem ''nav'' [(''aria-label'', ''Breadcrumb'')] [] [el ''span'' [Txt ''Console''], icon ''ChevronRight'', el ''span'' [Txt (crumb path)]]]
        @ (if fst (topbar_buttons path) then [submit_job_button [icon ''Plus''] Click_submit] else [])
        @ (if snd (topbar_buttons path) then [create_queue_button [icon ''Plus''] Click_create] else [])
        @ [Elem ''button'' [(''type'', ''button'')] [Click Click_search] [icon ''Search'', el ''span'' [Txt ''Search''], el ''kbd'' [Txt (utf8 0x2318 @ ''K'')]],
           Elem ''div'' [(''background'', tone @ ''-dim)''), (''border'', tone @ '')'')] []
             [Elem ''span'' ([(''background'', tone @ '')'')] @ flag ''pulse'' (\<not> deg)) [] [], el ''span'' [Txt (health_text deg)]],
           Pulse_canvas])])"

section \<open>\<open>CommandPalette.tsx\<close>\<close>

definition palette_option :: "palette \<Rightarrow> nat \<times> CommandItem \<Rightarrow> console_event node" where
  "palette_option p ix = (case ix of (i, it) \<Rightarrow> el ''li'' [Elem ''button''
     [(''type'', ''button''), (''role'', ''option''), (''aria-selected'', if int i = pl_active p then ''true'' else ''false'')]
     [Click (Palette_pick i)]
     [el ''span'' [icon (ci_icon it)], el ''span'' [Txt (ci_label it)], el ''span'' [Txt (ci_section it)]]])"

definition CommandPalette :: "browser \<Rightarrow> Queue list \<Rightarrow> DLQItem list \<Rightarrow> console \<times> palette \<Rightarrow> console_event node list" where
  "CommandPalette B queues dlq st = (case st of (c, p) \<Rightarrow>
     let filtered = palette_filtered B (palette_items queues dlq) (pl_query p) in
     if \<not> co_commandOpen c then []
     else [Elem ''div'' [(''role'', ''dialog''), (''aria-modal'', ''true''), (''aria-label'', ''Command palette'')] []
       [Elem ''button'' [(''type'', ''button''), (''aria-label'', ''Close command palette'')] [Click Palette_dismiss] [],
        el ''div''
         [el ''div'' [icon ''Search'',
            Elem ''input'' [(''autoFocus'', []), (''value'', pl_query p), (''placeholder'', ''Search commands'' @ ellipsis)]
              [Change Palette_type, Key (\<lambda>k. Some (Palette_key k))] [],
            el ''kbd'' [Txt ''ESC'']],
          Elem ''ul'' [(''role'', ''listbox'')] []
            (if filtered = [] then [el ''li'' [Txt ''No matching commands'']] else map (palette_option p) (enumerate 0 filtered))]]])"

section \<open>Guard, shell and layout\<close>

text \<open>\<open>AuthGuard.tsx\<close>: nothing of the page before the guard is ready.\<close>

definition AuthGuard :: "bool \<Rightarrow> 'a node list \<Rightarrow> 'a node list" where
  "AuthGuard rdy children = (if \<not> rdy then [el ''div'' [el ''div'' []]] else children)"

text \<open>\<open>AppShell.tsx\<close>, with the state of its provider; \<open>WorkerPulse\<close> draws nothing.\<close>

datatype 'p shell_act = Rail rail_act | Event console_event | On_page 'p

definition WorkerPulse :: "'a node list" where
  "WorkerPulse = []"

definition AppShell ::
  "browser \<Rightarrow> string \<Rightarrow> Queue Page option \<Rightarrow> WorkerInfo list option \<Rightarrow> DLQItem Page option \<Rightarrow> console \<times> palette
   \<Rightarrow> 'p node list \<Rightarrow> 'p shell_act node list" where
  "AppShell B path queuePage workers dlqPage st children =
     WorkerPulse
     @ [el ''div'' (map (map_node Rail) (LeftRail path)
         @ [el ''div'' (map (map_node Event) (TopBar path queuePage workers)
             @ [el ''main'' [el ''div'' (map (map_node On_page) children)]])])]
     @ map (map_node Event) (CommandPalette B (page_items queuePage) (page_items dlqPage) st)"

definition RootLayout :: "'a node list \<Rightarrow> 'a node" where
  "RootLayout children = Elem ''html'' [(''lang'', ''en'')] [] [el ''body'' children]"

definition page_title :: "string \<times> string" where
  "page_title = (''Scheduler '' @ em_dash @ '' Control Plane'', ''Distributed job scheduler operator console'')"

text \<open>\<open>jobs/page.tsx\<close> and \<open>queues/page.tsx\<close>: a skeleton while the page is suspended.\<close>

definition JobsPage :: "explorer_act node list option \<Rightarrow> explorer_act node list" where
  "JobsPage ready_page = (case ready_page of Some ns \<Rightarrow> ns | None \<Rightarrow> [TableSkeleton 8])"

definition QueuesPage :: "queues_act node list option \<Rightarrow> queues_act node list" where
  "QueuesPage ready_page = (case ready_page of Some ns \<Rightarrow> ns | None \<Rightarrow> [TableSkeleton 4])"

section \<open>\<open>Pulse.tsx\<close>: the canvas\<close>

datatype canvas_op =
    Resize jsnum jsnum \<comment> \<open>\<open>canvas.width\<close> and \<open>canvas.height\<close>\<close>
  | Scale jsnum jsnum
  | ClearRect jsnum jsnum jsnum jsnum
  | StrokeStyle string
  | LineWidth jsnum
  | LineJoin string
  | LineCap string
  | GlobalAlpha jsnum
  | BeginPath
  | MoveTo jsnum jsnum
  | LineTo jsnum jsnum
  | Stroke
  | FillGradient jsnum jsnum jsnum jsnum "(jsnum \<times> string) list" \<comment> \<open>\<open>createLinearGradient\<close> with its stops, as \<open>fillStyle\<close>\<close>
  | FillRect jsnum jsnum jsnum jsnum

text \<open>The remainder \<open>a % b\<close>, with the sign of \<open>a\<close>; it is exact.\<close>

fun num_rem :: "jsnum \<Rightarrow> jsnum \<Rightarrow> jsnum" where
  "num_rem (Fin a) (Fin b) = (if b = 0 then NaN else Fin (a - of_int (if 0 \<le> a / b then \<lfloor>a / b\<rfloor> else \<lceil>a / b\<rceil>) * b))"
| "num_rem (Fin a) PInf = Fin a"
| "num_rem (Fin a) NInf = Fin a"
| "num_rem _ _ = NaN"

definition pulse_grid :: "jsnum \<Rightarrow> jsnum \<Rightarrow> canvas_op list" where
  "pulse_grid w h = (let mid = num_div h (Fin 2) in
     [StrokeStyle ''#232B38'', LineWidth (Fin 1), BeginPath, MoveTo (Fin 0) mid, LineTo w mid, Stroke])"

definition pulse_scan :: "bool \<Rightarrow> jsnum \<Rightarrow> jsnum \<Rightarrow> jsnum" where
  "pulse_scan small w pos = num_rem (num_add pos (if small then to_num (12 / 10) else Fin 2)) w"

definition pulse_scan_line :: "jsnum \<Rightarrow> jsnum \<Rightarrow> canvas_op list" where
  "pulse_scan_line h pos =
     [FillGradient (num_sub pos (Fin 40)) (Fin 0) (num_add pos (Fin 40)) (Fin 0)
        [(Fin 0, ''transparent''), (Fin (1 / 2), ''rgba(76, 157, 245, 0.15)''), (Fin 1, ''transparent'')],
      FillRect (num_sub pos (Fin 40)) (Fin 0) (Fin 80) h]"

text \<open>The loop over the pairs of neighbouring points, which starts at the second point.\<close>

definition pulse_segment :: "jsnum \<Rightarrow> nat \<Rightarrow> pulse_point \<Rightarrow> pulse_point \<Rightarrow> canvas_op list" where
  "pulse_segment step i p0 p1 =
     [StrokeStyle (case pp_color p1 of Some c \<Rightarrow> c | None \<Rightarrow> ''#4C9DF5''),
      GlobalAlpha (to_num (case pp_color p1 of Some c \<Rightarrow> (if c \<noteq> [] then 95 / 100 else 55 / 100) | None \<Rightarrow> 55 / 100)),
      BeginPath, MoveTo (num_mul (Fin (of_nat i - 1)) step) (pp_y p0), LineTo (num_mul (Fin (of_nat i)) step) (pp_y p1), Stroke]"

definition pulse_trace :: "bool \<Rightarrow> jsnum \<Rightarrow> pulse_point list \<Rightarrow> canvas_op list" where
  "pulse_trace small w pts = (let step = num_div w (Fin (of_nat (max (length pts - 1) 1))) in
     [LineWidth (if small then Fin (5 / 4) else Fin (7 / 4)), LineJoin ''round'', LineCap ''round'']
     @ concat (map (\<lambda>i. pulse_segment step i (pts ! (i - 1)) (pts ! i)) [1..<length pts])
     @ [GlobalAlpha (Fin 1)])"

text \<open>
  One call of \<open>draw\<close> on a canvas of width \<open>w\<close> and height \<open>h\<close>: the calls it makes, the new points and scan
  position, and whether it asks for another frame. The canvas is resized when its size is not the one
  the device asks for; \<open>dpr\<close> is \<open>devicePixelRatio || 1\<close>.
\<close>

definition pulse_draw ::
  "(jsnum \<Rightarrow> jsnum) \<Rightarrow> bool \<Rightarrow> bool \<Rightarrow> jsnum \<Rightarrow> jsnum \<Rightarrow> jsnum \<Rightarrow> jsnum \<times> jsnum \<Rightarrow> int \<Rightarrow> PulseEvent list
   \<Rightarrow> pulse_point list \<times> jsnum \<Rightarrow> canvas_op list \<times> (pulse_point list \<times> jsnum) \<times> bool" where
  "pulse_draw msin small reduced dpr w h dims now events st = (case st of (points, pos) \<Rightarrow>
     let pts = pulse_frame msin small reduced h now events points; pos' = (if reduced then pos else pulse_scan small w pos) in
     ((if fst dims \<noteq> num_mul w dpr \<or> snd dims \<noteq> num_mul h dpr then [Resize (num_mul w dpr) (num_mul h dpr), Scale dpr dpr] else [])
      @ [ClearRect (Fin 0) (Fin 0) w h] @ pulse_grid w h @ (if reduced then [] else pulse_scan_line h pos') @ pulse_trace small w pts,
      (pts, pos'), \<not> reduced))"

end
