(* ===== verification/Page_Props.thy ===== *)
theory Page_Props
  imports Shell_Views Console_Props Forms_Props
begin

text \<open>
  Properties of the pages as their markup offers them: which states a user can bring the explorer to,
  that no form is submitted again while it waits, that the pause button of the drawer and the
  dead-letter page have no such guard, and what the queue form lets through and creates.
\<close>

section \<open>What the pages offer\<close>

lemmas markup_defs = submit_job_button_def create_queue_button_def Button_def choice_def input_def field_def submit_button_def
  flag_def failure_def head_row_def opt_attr_def

lemma possible_failure [simp]: "possible (failure t m) = {}"
  by (simp add: failure_def)

lemma possible_head_row [simp]: "possible (head_row cs # ns) = possible ns"
  by (simp add: head_row_def possible_map)

lemma possible_job_tr: "possible [job_tr queues j] = {Open_job (cj_id j)}"
  by (simp add: job_tr_def explorer_row_def)

lemma possible_status_button: "possible [status_button (s, st, active)] = {Toggle_status s}"
  by (auto simp: status_button_def opt_attr_def split: option.splits)

lemma option_values_simps [simp]:
  "option_values [] = []" "option_values (choice v n # ns) = v # option_values ns"
  "option_values (map (\<lambda>q. choice (f q) (g q)) xs) = map f xs"
  by (induction xs) (simp_all add: option_values_def choice_def)

lemma possible_buttons [simp]:
  "possible (submit_job_button ic a # ns) = insert a (possible ic \<union> possible ns)"
  "possible (create_queue_button ic b # ms) = insert b (possible ic \<union> possible ms)"
  "possible (choice v n # ks) = possible ks"
  by (auto simp: submit_job_button_def create_queue_button_def Button_def choice_def)

lemma possible_choices [simp]: "possible (map (\<lambda>q. choice (f q) (g q)) xs) = {}"
  by (simp add: possible_map)

lemma possible_select:
  "possible (Elem ''select'' ps [Change h] (choice v n # map (\<lambda>q. choice (f q) (g q)) xs) # ns)
     = (if map_of ps ''disabled'' = None then h ` insert v (f ` set xs) else {}) \<union> possible ns"
  by simp

lemma possible_job_table:
  "possible (job_table isLoading jobs queues # ns) =
     (if isLoading then {} else if jobs = [] then {Open_submit} else Open_job ` cj_id ` set jobs) \<union> possible ns"
proof -
  have "possible (map (job_tr queues) jobs) = Open_job ` cj_id ` set jobs"
    by (auto simp: possible_map possible_job_tr)
  then show ?thesis by (simp add: job_table_def)
qed

lemma possible_explorer:
  "possible (JobsExplorer None isLoading jobPage queuePage x) =
     {Open_submit} \<union> Toggle_status ` set JOB_STATUSES \<union> Filter_queue ` insert [] (cq_id ` set (page_items queuePage))
     \<union> (if isLoading then {} else Open_job ` cj_id ` set (explorer_jobs x jobPage))
     \<union> (if shown (ex_selectedJobId x) \<noteq> None then {Close_job} else {})
     \<union> (if ex_submitOpen x then insert Close_submit (range Job_submitted) else {})"
proof -
  have buttons: "possible (map status_button (filter_buttons x)) = Toggle_status ` set JOB_STATUSES"
    by (auto simp: possible_map possible_status_button filter_buttons_def simp del: set_map)
  have opt: "map_of (opt_attr ''defaultQueueId'' z) ''disabled'' = None" for z by (simp add: opt_attr_def split: option.split)
  have more: "possible (case jobPage of Some pg \<Rightarrow> if pg_has_more pg then [el t [Txt m]] else [] | None \<Rightarrow> []) = {}" for t m
    by (simp split: option.split)
  have detail: "possible (case s of Some i \<Rightarrow> [Elem t (ps i) [] []] | None \<Rightarrow> []) = {}" for s :: "string option" and t ps
    by (simp split: option.split)
  have "possible (JobsExplorer None isLoading jobPage queuePage x) =
     {Open_submit} \<union> (Toggle_status ` set JOB_STATUSES \<union> Filter_queue ` insert [] (cq_id ` set (page_items queuePage))) \<union>
     (if isLoading then {} else if explorer_jobs x jobPage = [] then {Open_submit} else Open_job ` cj_id ` set (explorer_jobs x jobPage))
     \<union> (if shown (ex_selectedJobId x) \<noteq> None then {Close_job} else {})
     \<union> (if ex_submitOpen x then insert Close_submit (range Job_submitted) else {})"
    unfolding JobsExplorer_def Let_def option.case possible_el possible_simps(1,2,4) possible_Drawer more detail possible_job_table
      possible_select buttons possible_buttons possible_parts
    by (auto simp: opt)
  then show ?thesis by auto
qed

section \<open>The explorer\<close>

text \<open>
  The states a user can bring the explorer to, whatever the hooks return in between: the actions the
  page offers at that moment, a new URL, and a request from the top bar.
\<close>

inductive explorer_reach :: "explorer \<Rightarrow> bool" where
  start: "explorer_reach initial_explorer"
| act: "explorer_reach x \<Longrightarrow> a \<in> possible (JobsExplorer error isLoading jobPage queuePage x) \<Longrightarrow> explorer_reach (explorer_do a x)"
| url: "explorer_reach x \<Longrightarrow> explorer_reach (explorer_url_effect search x)"
| request: "explorer_reach x \<Longrightarrow> explorer_reach (explorer_request_effect n x)"

definition filters_ok :: "explorer \<Rightarrow> bool" where
  "filters_ok x \<longleftrightarrow> distinct (ex_statusFilters x) \<and> set (ex_statusFilters x) \<subseteq> set JOB_STATUSES"

lemma explorer_effects_filters [simp]:
  "ex_statusFilters (explorer_url_effect search x) = ex_statusFilters x"
  "ex_statusFilters (explorer_request_effect n x) = ex_statusFilters x"
  "ex_statusFilters (explorer_onSubmitted i x) = ex_statusFilters x"
  "ex_statusFilters (setQueueFilter q x) = ex_statusFilters x"
  by (simp_all add: explorer_url_effect_def explorer_request_effect_def explorer_onSubmitted_def setQueueFilter_def Let_def
      split: option.splits list.splits)

lemma explorer_failed: "JobsExplorer (Some m) isLoading jobPage queuePage x = failure ''Failed to load jobs'' m"
  by (simp add: JobsExplorer_def)

lemma possible_explorer_toggle:
  "Toggle_status s \<in> possible (JobsExplorer error isLoading jobPage queuePage x) \<Longrightarrow> s \<in> set JOB_STATUSES"
  by (cases error) (auto simp: possible_explorer explorer_failed split: if_splits)

lemma explorer_reach_filters: "explorer_reach x \<Longrightarrow> filters_ok x"
proof (induction rule: explorer_reach.induct)
  case (act x a error isLoading jobPage queuePage)
  then show ?case
    by (cases a) (auto simp: filters_ok_def toggleStatus_def dest: possible_explorer_toggle)
qed (simp_all add: filters_ok_def initial_explorer_def)

text \<open>C14: In every state that a user can bring the job explorer to, by what the page offers, by the URL
  and from the top bar, the selected statuses are distinct statuses that jobs can have, so the page
  asks the server for nothing else. A page that has loaded offers every status as a filter and
  nothing but the queues and no queue, and it offers to open exactly the jobs that it lists; a page
  whose request failed shows the message and offers nothing.\<close>

theorem explorer_offers:
  assumes "explorer_reach x"
  shows "distinct (ex_statusFilters x) \<and> set (ex_statusFilters x) \<subseteq> set JOB_STATUSES
    \<and> {s. Toggle_status s \<in> possible (JobsExplorer None False jobPage queuePage x)} = set JOB_STATUSES
    \<and> {q. Filter_queue q \<in> possible (JobsExplorer None False jobPage queuePage x)} = insert [] (cq_id ` set (page_items queuePage))
    \<and> {i. Open_job i \<in> possible (JobsExplorer None False jobPage queuePage x)} = cj_id ` set (explorer_jobs x jobPage)
    \<and> possible (JobsExplorer (Some m) isLoading jobPage queuePage x) = {}
    \<and> concat (map text_of (JobsExplorer (Some m) isLoading jobPage queuePage x)) = ''Failed to load jobs'' @ m"
proof -
  have "{s. Toggle_status s \<in> possible (JobsExplorer None False jobPage queuePage x)} = set JOB_STATUSES"
    "{q. Filter_queue q \<in> possible (JobsExplorer None False jobPage queuePage x)} = insert [] (cq_id ` set (page_items queuePage))"
    "{i. Open_job i \<in> possible (JobsExplorer None False jobPage queuePage x)} = cj_id ` set (explorer_jobs x jobPage)"
    unfolding possible_explorer by (auto split: if_splits)
  moreover have "possible (JobsExplorer (Some m) isLoading jobPage queuePage x) = {}"
    "concat (map text_of (JobsExplorer (Some m) isLoading jobPage queuePage x)) = ''Failed to load jobs'' @ m"
    unfolding explorer_failed by simp (simp add: failure_def el_def)
  ultimately show ?thesis using explorer_reach_filters [OF assms] unfolding filters_ok_def by blast
qed

theorem explorer_offers_witness:
  "\<exists>x. explorer_reach x \<and> ex_statusFilters x = [''failed''] \<and> Toggle_status ''failed'' \<in> possible (JobsExplorer None False None None x)"
proof -
  let ?x = "explorer_do (Toggle_status ''failed'') initial_explorer"
  have f: "''failed'' \<in> set JOB_STATUSES" by (simp add: JOB_STATUSES_def)
  then have "Toggle_status ''failed'' \<in> possible (JobsExplorer None False None None initial_explorer)"
    unfolding possible_explorer by blast
  then have r: "explorer_reach ?x" by (rule explorer_reach.act [OF explorer_reach.start])
  moreover have "Toggle_status ''failed'' \<in> possible (JobsExplorer None False None None ?x)"
    using explorer_offers [OF r, of None None] f by blast
  moreover have "ex_statusFilters ?x = [''failed'']" by (simp add: toggleStatus_def initial_explorer_def)
  ultimately show ?thesis by blast
qed

section \<open>Requests under way\<close>

text \<open>
  The life of a form: the user sends it when the page lets him (\<open>can\<close>), edits it at any time, and the
  requests that were sent come back, with or without an error. The number counts the requests that
  are under way.
\<close>

inductive flights ::
  "('s \<Rightarrow> bool) \<Rightarrow> ('s \<Rightarrow> 's) \<Rightarrow> (string \<Rightarrow> 's \<Rightarrow> 's) \<Rightarrow> ('s \<Rightarrow> 's) \<Rightarrow> ('s \<Rightarrow> 's \<Rightarrow> bool) \<Rightarrow> ('s \<Rightarrow> bool) \<Rightarrow> 's \<times> nat \<Rightarrow> bool"
  for can start fail finish edit initial where
  fresh: "initial s \<Longrightarrow> flights can start fail finish edit initial (s, 0)"
| send: "flights can start fail finish edit initial (s, n) \<Longrightarrow> can s \<Longrightarrow> flights can start fail finish edit initial (start s, Suc n)"
| edit: "flights can start fail finish edit initial (s, n) \<Longrightarrow> edit s t \<Longrightarrow> flights can start fail finish edit initial (t, n)"
| return: "flights can start fail finish edit initial (s, Suc n) \<Longrightarrow> flights can start fail finish edit initial (finish s, n)"
| reject: "flights can start fail finish edit initial (s, Suc n) \<Longrightarrow> flights can start fail finish edit initial (finish (fail m s), n)"

locale guarded_form = form busy error start fail finish
  for busy :: "'s \<Rightarrow> bool" and error :: "'s \<Rightarrow> string" and start :: "'s \<Rightarrow> 's" and fail :: "string \<Rightarrow> 's \<Rightarrow> 's" and finish :: "'s \<Rightarrow> 's" +
  fixes can :: "'s \<Rightarrow> bool" and edit :: "'s \<Rightarrow> 's \<Rightarrow> bool" and initial :: "'s \<Rightarrow> bool"
  assumes can_idle: "can s \<Longrightarrow> \<not> busy s" and edit_busy: "edit s t \<Longrightarrow> busy t = busy s" and initial_idle: "initial s \<Longrightarrow> \<not> busy s"
begin

lemma one_flight: "flights can start fail finish edit initial sn \<Longrightarrow> snd sn = (if busy (fst sn) then 1 else 0)"
  by (induction rule: flights.induct) (auto simp: start_busy finish_idle edit_busy dest: can_idle initial_idle split: if_splits)

lemma single_flight: "flights can start fail finish edit initial (s, n) \<Longrightarrow> n \<le> 1 \<and> (n = 1 \<longrightarrow> \<not> can s)"
  using one_flight [of "(s, n)"] can_idle by auto

end

text \<open>The submit buttons and the fields of a form, part by part.\<close>

fun is_field :: "'a node \<Rightarrow> bool" where
  "is_field (Elem t ps hs ns) \<longleftrightarrow> t \<in> {''input'', ''select'', ''textarea''}"
| "is_field _ \<longleftrightarrow> False"

definition submits :: "'a node list \<Rightarrow> 'a node list" where
  "submits ns = filter is_submit (all_nodes ns)"

definition form_fields :: "'a node list \<Rightarrow> 'a node list" where
  "form_fields ns = filter is_field (all_nodes ns)"

lemma submittable_iff:
  "submittable ns \<longleftrightarrow> (case submits ns of [] \<Rightarrow> True | b # _ \<Rightarrow> \<not> disabled b) \<and> (\<forall>n \<in> set (form_fields ns). valid_field n)"
proof -
  have "List.find P xs = (case filter P xs of [] \<Rightarrow> None | y # _ \<Rightarrow> Some y)" for P and xs :: "'a node list"
    by (induction xs) auto
  moreover have "valid_field n" if "\<not> is_field n" for n :: "'a node" using that by (cases n) (auto split: option.split)
  ultimately show ?thesis unfolding submittable_def submits_def form_fields_def by (auto split: list.splits)
qed

lemma parts_simps [simp]:
  "submits [] = []" "submits (ms @ ns) = submits ms @ submits ns" "submits (Txt s # ns) = submits ns"
  "submits (Elem t ps hs ms # ns) = (if is_submit (Elem t ps hs ms) then [Elem t ps hs ms] else []) @ submits ms @ submits ns"
  "form_fields [] = []" "form_fields (ms @ ns) = form_fields ms @ form_fields ns" "form_fields (Txt s # ns) = form_fields ns"
  "form_fields (Elem t ps hs ms # ns) = (if is_field (Elem t ps hs ms) then [Elem t ps hs ms] else []) @ form_fields ms @ form_fields ns"
  by (simp_all add: submits_def form_fields_def)

lemma parts_el [simp]:
  "submits (el t ms # ns) = (if t = ''button'' then [el t ms] else []) @ submits ms @ submits ns"
  "form_fields (el t ms # ns) = (if t \<in> {''input'', ''select'', ''textarea''} then [el t ms] else []) @ form_fields ms @ form_fields ns"
  "submits (when_text s n) = (if s \<noteq> [] then submits [n] else [])" "form_fields (when_text s n) = (if s \<noteq> [] then form_fields [n] else [])"
  "submits (field l ms # ns) = submits ms @ submits ns" "form_fields (field l ms # ns) = form_fields ms @ form_fields ns"
  "submits (input qs v f # ns) = submits ns" "form_fields (input qs v f # ns) = input qs v f # form_fields ns"
  "submits (icon i # ns) = (if i = ''button'' then [icon i] else []) @ submits ns"
  by (simp_all add: el_def when_text_def field_def input_def icon_def)

lemma parts_choice [simp]: "submits (choice v n # ns) = submits ns" "form_fields (choice v n # ns) = form_fields ns"
  by (simp_all add: choice_def)

lemma parts_choices [simp]:
  "submits (map (\<lambda>q. choice (f q) (g q)) xs) = []" "form_fields (map (\<lambda>q. choice (f q) (g q)) xs) = []"
  by (induction xs) simp_all

lemma parts_buttons [simp]:
  "submits (submit_button w d i # ns) = submit_button w d i # submits ns" "form_fields (submit_button w d i # ns) = form_fields ns"
  "submits (Button [(''type'', ''button'')] hs ms # ns) = submits ms @ submits ns" "form_fields (Button ps hs ms # ns) = form_fields ms @ form_fields ns"
  by (simp_all add: submit_button_def Button_def)

lemma disabled_submit_button [simp]: "disabled (submit_button w d i) = w"
  by (simp add: submit_button_def Button_def flag_def)

definition login_flights :: "login_form \<times> nat \<Rightarrow> bool" where
  "login_flights = flights (\<lambda>s. Login_submit \<in> possible (LoginPage s)) login_start (\<lambda>m s. s\<lparr>lf_error := m\<rparr>) login_finish
     (\<lambda>s t. \<exists>a \<in> possible (LoginPage s). t = login_edit a s) (\<lambda>s. s = initial_login)"

definition submit_flights :: "submit_form \<times> nat \<Rightarrow> bool" where
  "submit_flights = flights (\<lambda>s. \<exists>queues. Submit_go \<in> possible (SubmitJobForm queues s)) submit_start submit_fail submit_finish
     (\<lambda>s t. \<exists>queues i. t = queue_effect queues s \<or> Submit_input i \<in> possible (SubmitJobForm queues s) \<and> t = submit_change queues i s)
     (\<lambda>s. \<exists>d queues. s = initial_submit d queues)"

definition queue_flights :: "queue_form \<times> nat \<Rightarrow> bool" where
  "queue_flights = flights (\<lambda>s. \<exists>projects. Queue_go \<in> possible (CreateQueueForm projects s)) queue_start (\<lambda>m s. s\<lparr>qf_error := m\<rparr>) queue_finish
     (\<lambda>s t. \<exists>projects i. t = project_effect projects s \<or> Queue_input i \<in> possible (CreateQueueForm projects s) \<and> t = queue_change projects i s)
     (\<lambda>s. \<exists>projects. s = initial_queue_form projects)"

definition project_flights :: "project_form \<times> nat \<Rightarrow> bool" where
  "project_flights = flights (\<lambda>s. Project_go \<in> possible (CreateProjectInline s)) project_start (\<lambda>m s. s\<lparr>pf_error := m\<rparr>) project_finish
     (\<lambda>s t. \<exists>a \<in> possible (CreateProjectInline s). t = project_edit a s) (\<lambda>s. s = initial_project_form)"

text \<open>
  The drawer of a queue has two buttons that send requests. The numbers count the requests of
  \<open>drawer_save\<close> and those of \<open>togglePause\<close> that are under way; the second leaves the state of the
  drawer as it is. What the parent passes to the drawer may change at any time.
\<close>

inductive drawer_flights :: "drawer \<times> nat \<times> nat \<Rightarrow> bool" where
  fresh: "drawer_flights (initial_drawer q, 0, 0)"
| input: "drawer_flights (d, n, k) \<Longrightarrow> Drawer_input i \<in> possible (QueueDrawer q depth throughput d) \<Longrightarrow> drawer_flights (drawer_edit i d, n, k)"
| save: "drawer_flights (d, n, k) \<Longrightarrow> Drawer_save \<in> possible (QueueDrawer q depth throughput d) \<Longrightarrow> drawer_flights (drawer_start d, Suc n, k)"
| saved: "drawer_flights (d, Suc n, k) \<Longrightarrow> drawer_flights (drawer_finish d, n, k)"
| save_failed: "drawer_flights (d, Suc n, k) \<Longrightarrow> drawer_flights (drawer_finish (d\<lparr>dr_error := m\<rparr>), n, k)"
| toggle: "drawer_flights (d, n, k) \<Longrightarrow> Drawer_toggle \<in> possible (QueueDrawer q depth throughput d) \<Longrightarrow> drawer_flights (d, n, Suc k)"
| toggled: "drawer_flights (d, n, Suc k) \<Longrightarrow> drawer_flights (d, n, k)"

lemma possible_form_parts [simp]:
  "possible (field l ms # ns) = possible ms \<union> possible ns"
  "possible (submit_button w d i # ns) = possible ns"
  by (simp_all add: field_def submit_button_def Button_def)

lemma possible_input [simp]: "map_of ps ''disabled'' = None \<Longrightarrow> possible (input ps v f # ns) = range f \<union> possible ns"
  by (simp add: input_def)

lemma possible_Button [simp]:
  "possible (Button ps [Click a] ms # ns) = (if map_of ps ''disabled'' = None then {a} else {}) \<union> possible ms \<union> possible ns"
  by (simp add: Button_def)

text \<open>A form can be sent when its one submit button is not disabled and every field is valid.\<close>

lemma possible_form:
  assumes "a \<notin> possible ns" and "submits ns = [submit_button w during idle]"
  shows "a \<in> possible [Elem ''form'' [] [Submit a] ns] \<longleftrightarrow> \<not> w \<and> (\<forall>n \<in> set (form_fields ns). valid_field n)"
  using assms by (auto simp: submittable_iff)

lemma login_go:
  "Login_submit \<in> possible (LoginPage s) \<longleftrightarrow> \<not> lf_loading s \<and> lf_email s \<noteq> [] \<and> lf_password s \<noteq> []"
  unfolding LoginPage_def by (auto simp: submittable_iff valid_value_def input_def)

lemma project_go: "Project_go \<in> possible (CreateProjectInline s) \<longleftrightarrow> \<not> pf_saving s \<and> pf_name s \<noteq> [] \<and> pf_slug s \<noteq> []"
  unfolding CreateProjectInline_def
  by (subst possible_form [where w = "pf_saving s" and during = "''Creating''" and idle = "''Create project''"])
     (auto simp: valid_value_def input_def image_iff)

lemma drawer_go: "Drawer_save \<in> possible (QueueDrawer q depth throughput s) \<longleftrightarrow> \<not> dr_saving s"
  by (auto simp: QueueDrawer_def drawer_config_def flag_def split: if_splits prod.splits option.splits)

lemma drawer_toggle: "Drawer_toggle \<in> possible (QueueDrawer q depth throughput s)"
  by (simp add: QueueDrawer_def split: prod.splits)

definition at_least_one :: "string \<Rightarrow> bool" where
  "at_least_one v \<longleftrightarrow> v = [] \<or> \<not> num_lt (str_to_num v) (Fin 1)"

lemma one_num: "str_to_num ''1'' = Fin 1"
proof -
  have "trim ''1'' = ''1''" by (rule trim_slug) (simp_all add: slug_char_def)
  moreover have "str_decimal ''1'' = Some 1"
    by (simp add: str_decimal_def is_digit_def exponent_def decimal_def dec_val_def pow10_def Let_def)
  moreover have "to_num 1 = Fin 1" using to_num_int [of 1] by simp
  ultimately show ?thesis by (simp add: str_to_num_def Let_def)
qed

lemma queue_go:
  "Queue_go \<in> possible (CreateQueueForm projects s) \<longleftrightarrow> projects \<noteq> [] \<and> \<not> qf_saving s \<and> qf_projectId s \<noteq> [] \<and> qf_name s \<noteq> []
     \<and> qf_slug s \<noteq> [] \<and> slug_pattern (qf_slug s) \<and> at_least_one (qf_concurrency s)"
proof (cases "projects = []")
  case True
  then show ?thesis by (auto simp: CreateQueueForm_def)
next
  case False
  show ?thesis unfolding CreateQueueForm_def if_not_P [OF False]
    by (subst possible_form [where w = "qf_saving s" and during = "''Creating''" and idle = "''Create queue''"])
       (auto simp: valid_value_def input_def image_iff number_def at_least_one_def one_num False)
qed

lemma submit_parts:
  "submits (template_fields f) = []" "submits (schedule_fields f # ns) = submits ns"
  "Submit_go \<notin> possible (template_fields f)" "Submit_go \<in> possible (schedule_fields f # ns) \<longleftrightarrow> Submit_go \<in> possible ns"
  by (auto simp: template_fields_def schedule_fields_def number_def)

lemma submit_idle:
  assumes "Submit_go \<in> possible (SubmitJobForm queues s)"
  shows "\<not> sf_saving s"
proof (cases "queues = []")
  case True
  with assms show ?thesis by (simp add: SubmitJobForm_def)
next
  case False
  show ?thesis using assms unfolding SubmitJobForm_def if_not_P [OF False]
    by (subst (asm) possible_form [where w = "sf_saving s" and during = "''Submitting''" and idle = "''Submit job''"])
       (auto simp: submit_parts image_iff)
qed

lemma change_busy: "sf_saving (submit_change queues i s) = sf_saving s" "sf_saving (queue_effect queues s) = sf_saving s"
proof -
  have q: "sf_saving (queue_effect qs f) = sf_saving f" for qs f by (simp add: queue_effect_def split: list.split)
  have i: "sf_saving (set_input i s) = sf_saving s" by (cases i) simp_all
  show "sf_saving (submit_change queues i s) = sf_saving s"
    unfolding submit_change_def Let_def using q i by (simp add: payload_effect_def)
  show "sf_saving (queue_effect queues s) = sf_saving s" by (rule q)
qed

lemma queue_change_busy: "qf_saving (queue_change projects i s) = qf_saving s" "qf_saving (project_effect projects s) = qf_saving s"
proof -
  have p: "qf_saving (project_effect ps f) = qf_saving f" for ps f by (simp add: project_effect_def split: list.split)
  have i: "qf_saving (set_queue_input i s) = qf_saving s" by (cases i) simp_all
  show "qf_saving (queue_change projects i s) = qf_saving s"
    unfolding queue_change_def Let_def using p i by (simp add: slug_effect_def)
  show "qf_saving (project_effect projects s) = qf_saving s" by (rule p)
qed

interpretation login_guard: guarded_form lf_loading lf_error login_start "\<lambda>m s. s\<lparr>lf_error := m\<rparr>" login_finish
  "\<lambda>s. Login_submit \<in> possible (LoginPage s)" "\<lambda>s t. \<exists>a \<in> possible (LoginPage s). t = login_edit a s" "\<lambda>s. s = initial_login"
proof unfold_locales
  fix s t assume "\<exists>a \<in> possible (LoginPage s). t = login_edit a s"
  then obtain a where "t = login_edit a s" by blast
  then show "lf_loading t = lf_loading s" by (cases a) simp_all
qed (simp_all add: login_go initial_login_def)

interpretation submit_guard: guarded_form sf_saving sf_error submit_start submit_fail submit_finish
  "\<lambda>s. \<exists>queues. Submit_go \<in> possible (SubmitJobForm queues s)"
  "\<lambda>s t. \<exists>queues i. t = queue_effect queues s \<or> Submit_input i \<in> possible (SubmitJobForm queues s) \<and> t = submit_change queues i s"
  "\<lambda>s. \<exists>d queues. s = initial_submit d queues"
  by unfold_locales (auto simp: submit_idle change_busy initial_submit_def)

interpretation queue_guard: guarded_form qf_saving qf_error queue_start "\<lambda>m s. s\<lparr>qf_error := m\<rparr>" queue_finish
  "\<lambda>s. \<exists>projects. Queue_go \<in> possible (CreateQueueForm projects s)"
  "\<lambda>s t. \<exists>projects i. t = project_effect projects s \<or> Queue_input i \<in> possible (CreateQueueForm projects s) \<and> t = queue_change projects i s"
  "\<lambda>s. \<exists>projects. s = initial_queue_form projects"
  by unfold_locales (auto simp: queue_go queue_change_busy initial_queue_form_def)

interpretation project_guard: guarded_form pf_saving pf_error project_start "\<lambda>m s. s\<lparr>pf_error := m\<rparr>" project_finish
  "\<lambda>s. Project_go \<in> possible (CreateProjectInline s)" "\<lambda>s t. \<exists>a \<in> possible (CreateProjectInline s). t = project_edit a s"
  "\<lambda>s. s = initial_project_form"
proof unfold_locales
  fix s t assume "\<exists>a \<in> possible (CreateProjectInline s). t = project_edit a s"
  then obtain a where "t = project_edit a s" by blast
  then show "pf_saving t = pf_saving s"
    by (cases a) (simp_all add: project_name_change_def project_slug_change_def project_slug_effect_def)
qed (simp_all add: project_go initial_project_form_def)

interpretation drawer_guard: guarded_form dr_saving dr_error drawer_start "\<lambda>m s. s\<lparr>dr_error := m\<rparr>" drawer_finish
  "\<lambda>s. \<exists>q depth throughput. Drawer_save \<in> possible (QueueDrawer q depth throughput s)"
  "\<lambda>s t. \<exists>q depth throughput i. Drawer_input i \<in> possible (QueueDrawer q depth throughput s) \<and> t = drawer_edit i s"
  "\<lambda>s. \<exists>q. s = initial_drawer q"
proof unfold_locales
  fix s t assume "\<exists>q depth throughput i. Drawer_input i \<in> possible (QueueDrawer q depth throughput s) \<and> t = drawer_edit i s"
  then obtain i where "t = drawer_edit i s" by blast
  then show "dr_saving t = dr_saving s" by (cases i) simp_all
qed (auto simp: drawer_go initial_drawer_def)

text \<open>Without its pause button, the drawer is a form like the others.\<close>

lemma drawer_saves:
  "drawer_flights dnk \<Longrightarrow> flights (\<lambda>s. \<exists>q depth throughput. Drawer_save \<in> possible (QueueDrawer q depth throughput s)) drawer_start
     (\<lambda>m s. s\<lparr>dr_error := m\<rparr>) drawer_finish
     (\<lambda>s t. \<exists>q depth throughput i. Drawer_input i \<in> possible (QueueDrawer q depth throughput s) \<and> t = drawer_edit i s)
     (\<lambda>s. \<exists>q. s = initial_drawer q) (fst dnk, fst (snd dnk))"
proof (induction rule: drawer_flights.induct)
  case (input d n k i q depth throughput)
  then show ?case unfolding fst_conv snd_conv by (blast intro: flights.edit)
next
  case (save d n k q depth throughput)
  then show ?case unfolding fst_conv snd_conv by (blast intro: flights.send)
next
  case (save_failed d n k m)
  from flights.reject [OF save_failed.IH [unfolded fst_conv snd_conv], of m] show ?case by simp
qed (auto intro: flights.fresh flights.return)

lemma drawer_pauses: "\<exists>d. drawer_flights (d, 1, k)"
proof -
  obtain q :: Queue where True by blast
  have "drawer_flights (drawer_start (initial_drawer q), 1, k)"
  proof (induction k)
    case 0
    show ?case unfolding One_nat_def
      by (rule drawer_flights.save [OF drawer_flights.fresh]) (simp add: drawer_go initial_drawer_def)
  next
    case (Suc k)
    then show ?case by (rule drawer_flights.toggle) (rule drawer_toggle)
  qed
  then show ?thesis by blast
qed

text \<open>C13: No form of the console sends a second request of its kind while the first is under way: however the
  user edits and submits the login page, the submit form, the forms for a queue and a project and
  the configuration in the drawer of a queue, and in whatever order requests return and fail, at most
  one submission of the form is under way, and while there is one the page offers no other. The
  button of the drawer that pauses and resumes the queue has no such guard: the drawer always offers
  it, and with a save under way there can be any number of its requests under way too.\<close>

theorem forms_single_flight:
  "(login_flights (l, n1) \<longrightarrow> n1 \<le> 1 \<and> (n1 = 1 \<longrightarrow> Login_submit \<notin> possible (LoginPage l)))
   \<and> (submit_flights (f, n2) \<longrightarrow> n2 \<le> 1 \<and> (n2 = 1 \<longrightarrow> Submit_go \<notin> possible (SubmitJobForm queues f)))
   \<and> (queue_flights (k, n3) \<longrightarrow> n3 \<le> 1 \<and> (n3 = 1 \<longrightarrow> Queue_go \<notin> possible (CreateQueueForm projects k)))
   \<and> (project_flights (p, n4) \<longrightarrow> n4 \<le> 1 \<and> (n4 = 1 \<longrightarrow> Project_go \<notin> possible (CreateProjectInline p)))
   \<and> (drawer_flights (d, n5, toggles) \<longrightarrow> n5 \<le> 1 \<and> (n5 = 1 \<longrightarrow> Drawer_save \<notin> possible (QueueDrawer q depth throughput d))
        \<and> Drawer_toggle \<in> possible (QueueDrawer q depth throughput d))
   \<and> (\<exists>d. drawer_flights (d, 1, any_number))"
proof (intro conjI)
  show "drawer_flights (d, n5, toggles) \<longrightarrow> n5 \<le> 1 \<and> (n5 = 1 \<longrightarrow> Drawer_save \<notin> possible (QueueDrawer q depth throughput d))
      \<and> Drawer_toggle \<in> possible (QueueDrawer q depth throughput d)"
    using drawer_guard.single_flight [of d n5] drawer_saves [of "(d, n5, toggles)"] drawer_toggle by auto
qed (use login_guard.single_flight [of l n1] submit_guard.single_flight [of f n2] queue_guard.single_flight [of k n3]
    project_guard.single_flight [of p n4] drawer_pauses
    in \<open>auto simp: login_flights_def submit_flights_def queue_flights_def project_flights_def\<close>)

theorem forms_single_flight_witness:
  "\<exists>l. login_flights (l, 1) \<and> lf_email l = ''a'' \<and> Login_submit \<notin> possible (LoginPage l)"
proof -
  let ?a = "login_edit (Login_email ''a'') initial_login" and ?p = "Login_password ''b''"
  let ?s = "login_edit ?p ?a"
  have offers: "Login_email v \<in> possible (LoginPage t)" "Login_password v \<in> possible (LoginPage t)" for v t
    by (simp_all add: LoginPage_def)
  have "login_flights (?s, 0)"
    unfolding login_flights_def using offers by (intro flights.edit [OF flights.edit [OF flights.fresh]]) blast+
  moreover have "Login_submit \<in> possible (LoginPage ?s)" by (simp add: login_go initial_login_def)
  ultimately have sent: "login_flights (login_start ?s, 1)"
    unfolding login_flights_def One_nat_def by (rule flights.send)
  moreover have "lf_email (login_start ?s) = ''a''" by (simp add: login_start_def)
  moreover have "Login_submit \<notin> possible (LoginPage (login_start ?s))"
    using forms_single_flight [of "login_start ?s" 1] sent by blast
  ultimately show ?thesis by blast
qed

section \<open>Retrying dead letters\<close>

text \<open>
  The dead-letter page keeps the one job whose retry was started last. \<open>retries\<close> are the states of the
  page, with the jobs whose retries are under way.
\<close>

inductive retries :: "DLQItem Page option \<Rightarrow> dlq_page \<times> string list \<Rightarrow> bool" for pg where
  fresh: "retries pg (\<lparr>dp_retrying = None, dp_actionError = []\<rparr>, [])"
| send: "retries pg (s, js) \<Longrightarrow> Retry j \<in> possible (DLQPage None False pg s) \<Longrightarrow> retries pg (dlq_start j s, js @ [j])"
| return: "retries pg (s, js) \<Longrightarrow> j \<in> set js \<Longrightarrow> retries pg (dlq_finish s, remove1 j js)"
| reject: "retries pg (s, js) \<Longrightarrow> j \<in> set js \<Longrightarrow> retries pg (dlq_finish (s\<lparr>dp_actionError := m\<rparr>), remove1 j js)"

lemma possible_dlq:
  "Retry j \<in> possible (DLQPage None False (Some pg) s) \<longleftrightarrow> j \<in> cd_job_id ` set (pg_items pg) \<and> dp_retrying s \<noteq> Some j"
proof -
  have "possible [dlq_article s d] = (if dp_retrying s = Some (cd_job_id d) then {} else {Retry (cd_job_id d)})" for d
    by (auto simp: dlq_article_def dlq_button_def Button_def flag_def num_text_def split: option.splits)
  then have items: "possible (map (dlq_article s) ds) = Retry ` {i \<in> cd_job_id ` set ds. dp_retrying s \<noteq> Some i}" for ds
    by (auto simp: possible_map)
  show ?thesis unfolding DLQPage_def Let_def dlq_list_def by (auto simp: page_items_def items)
qed

text \<open>C39: The dead-letter page does not guard its requests this way. Right after a retry is sent, its
  button is disabled; but the page remembers only the retry that was sent last, so with the retries
  of two jobs under way it offers to retry the first of them again, and the same retry can be under
  way twice.\<close>

theorem dlq_retry_overlaps:
  assumes "i \<in> cd_job_id ` set (pg_items pg)" and "j \<in> cd_job_id ` set (pg_items pg)" and "i \<noteq> j"
  shows "Retry i \<notin> possible (DLQPage None False (Some pg) (dlq_start i s))
    \<and> (\<exists>t. retries (Some pg) (t, [i, j]) \<and> Retry i \<in> possible (DLQPage None False (Some pg) t))
    \<and> (\<exists>t. retries (Some pg) (t, [i, j, i]))"
proof -
  let ?s = "\<lparr>dp_retrying = None, dp_actionError = []\<rparr>" and ?pg = "Some pg"
  have i: "retries ?pg (dlq_start i ?s, [] @ [i])" by (rule retries.send [OF retries.fresh]) (use assms in \<open>simp add: possible_dlq\<close>)
  have j: "retries ?pg (dlq_start j (dlq_start i ?s), ([] @ [i]) @ [j])"
    by (rule retries.send [OF i]) (use assms in \<open>simp add: possible_dlq dlq_start_def\<close>)
  have again: "Retry i \<in> possible (DLQPage None False ?pg (dlq_start j (dlq_start i ?s)))"
    using assms by (simp add: possible_dlq dlq_start_def)
  from retries.send [OF j again] j again show ?thesis by (auto simp: possible_dlq dlq_start_def)
qed

definition demo_dead :: "string \<Rightarrow> DLQItem" where
  "demo_dead i = \<lparr>cd_id = i, cd_job_id = i, cd_original_queue_id = ''q'', cd_queue_name = ''Emails'', cd_payload = JObj [],
     cd_failed_at = ''1970-01-01T00:00:00.000Z'', cd_reason = None, cd_attempts_made = Fin 3, cd_created_at = ''1970-01-01T00:00:00.000Z''\<rparr>"

theorem dlq_retry_overlaps_witness:
  "\<exists>t. retries (Some \<lparr>pg_items = [demo_dead ''a'', demo_dead ''b''], pg_next_cursor = None, pg_has_more = False\<rparr>) (t, [''a'', ''b'', ''a''])"
  using dlq_retry_overlaps [of "''a''" "\<lparr>pg_items = [demo_dead ''a'', demo_dead ''b''], pg_next_cursor = None, pg_has_more = False\<rparr>" "''b''"]
  by (simp add: demo_dead_def)

section \<open>What the queue form lets through\<close>

lemma slug_ends:
  assumes "slug_pattern s"
  shows "s \<noteq> []" and "slug_char (hd s)" and "slug_char (last s)"
proof -
  show ne: "s \<noteq> []" using assms by (auto simp: slug_pattern_def)
  show "slug_char (hd s)" using assms ne by (cases s) (auto simp: slug_pattern_def split: if_splits list.splits)
  have "(\<forall>p \<in> set (parts CHR ''-'' t). list_all slug_char p) \<Longrightarrow> last (parts CHR ''-'' t) \<noteq> [] \<Longrightarrow> t \<noteq> [] \<and> slug_char (last t)" for t
  proof (induction t)
    case (Cons c t)
    obtain q qs where q: "parts CHR ''-'' t = q # qs" using parts_ne [of "CHR ''-''" t] by (cases "parts CHR ''-'' t") auto
    show ?case
    proof (cases "t = []")
      case True
      with Cons.prems show ?thesis by (auto split: if_splits)
    next
      case False
      then have "parts CHR ''-'' t \<noteq> [[]]" by (cases t) (auto split: list.splits)
      with False Cons q show ?thesis by (cases "qs = []") (auto split: if_splits)
    qed
  qed simp
  then show "slug_char (last s)" using assms parts_ne [of "CHR ''-''" s] by (simp add: slug_pattern_def)
qed

lemma ten_num: "at_least_one ''10''"
proof -
  have "trim ''10'' = ''10''" by (rule trim_slug) (simp_all add: slug_char_def)
  moreover have "str_decimal ''10'' = Some 10"
    by (simp add: str_decimal_def is_digit_def exponent_def decimal_def dec_val_def pow10_def Let_def)
  moreover have "to_num 10 = Fin 10" using to_num_int [of 10] by simp
  ultimately have "str_to_num ''10'' = Fin 10" by (simp add: str_to_num_def Let_def)
  then show ?thesis by (simp add: at_least_one_def)
qed

lemma queue_data_slug: "slug_pattern (qf_slug f) \<Longrightarrow> member (queue_data f) ''slug'' = JStr (qf_slug f)"
  using slug_ends [of "qf_slug f"] by (simp add: queue_data_def member_def trim_slug)

text \<open>What is typed has no more characters than before when its spaces are cut off, and a slug is ASCII.\<close>

lemma set_trim: "set (trim s) \<subseteq> set s"
proof -
  have "set (trim_start ws s) \<subseteq> set s" for ws s
  proof (induction ws s rule: trim_start.induct)
    case (1 ws s)
    show ?case
    proof (cases "space_prefix ws s")
      case (Some n)
      with 1 [of n] set_drop_subset [of n s] show ?thesis by (simp add: trim_start.simps [of ws s])
    qed (simp add: trim_start.simps [of ws s])
  qed
  from this [of "map rev js_space" "rev (trim_start js_space s)"] this [of js_space s] show ?thesis by (auto simp: trim_def)
qed

lemma slug_no_nul: "CHR 0x00 \<notin> set (slugifyName v)"
proof -
  have "\<not> slug_char CHR 0x00" by (simp add: slug_char_def)
  with slugify_shape(1) [of v] show ?thesis unfolding dashed_def by auto
qed

text \<open>The route that creates a queue, when all its parameters are accepted.\<close>

lemma post_queues_creates:
  assumes "ready E w" and "json_parse (rq_body req) = Inr body" and "reader body = Inr body_at"
    and "e_uuid_in E (body_at ''project_id'') = Inr (Some pid)" and "uuid_param E orgId = Inr (Some g)"
    and "r \<in> set (w_projects w)" and "p_id r = pid" and "p_org_id r = g"
    and "e_text E (body_at ''name'') = Inr (Some name)" and "e_text E (body_at ''slug'') = Inr (Some slug)"
    and "int4_param E (js_coalesce (body_at ''priority_default'') (JInt 5)) = Inr (Some prio)"
    and "int4_param E (js_coalesce (body_at ''concurrency_limit'') JNull) = Inr cap"
    and "(pid, slug) \<notin> (\<lambda>q. (q_project_id q, q_slug q)) ` set (w_queues w)"
  shows "\<exists>q. w_queues (snd (runP (post_queues E req orgId) w)) = w_queues w @ [q] \<and> q_project_id q = pid \<and> q_name q = name
    \<and> q_slug q = slug \<and> q_priority_default q = prio \<and> q_concurrency_limit q = cap \<and> \<not> q_paused q"
proof -
  let ?v = "advance_clock E 0 w"
  let ?u = "advance_clock E 0 ?v"
  have rv: "ready E ?v" by (rule ready_advance [OF assms(1)])
  have new: "gen_uuid E ?u \<notin> q_id ` set (w_queues w)"
    using ready_new [OF rv] by (auto simp: gen_uuid_def all_ids_def)
  have "sql_find_project E (body_at ''project_id'') orgId ?v = (Inr True, ?v)"
    using assms(4-8) by (auto simp: sql_find_project_def with_param_def)
  moreover have "\<exists>q. sql_create_queue E body_at ?u = (Inr q, ?u\<lparr>w_queues := w_queues w @ [q]\<rparr>) \<and> q_project_id q = pid \<and> q_name q = name
    \<and> q_slug q = slug \<and> q_priority_default q = prio \<and> q_concurrency_limit q = cap \<and> \<not> q_paused q"
    using assms(4-13) new by (auto simp: sql_create_queue_def with_required_def with_param_def insert_queue_def)
  then obtain q where "sql_create_queue E body_at ?u = (Inr q, ?u\<lparr>w_queues := w_queues w @ [q]\<rparr>)" "q_project_id q = pid" "q_name q = name"
    "q_slug q = slug" "q_priority_default q = prio" "q_concurrency_limit q = cap" "\<not> q_paused q" by blast
  ultimately show ?thesis
    using assms(2,3) by (auto simp: post_queues_def run_simps run_stmt [OF assms(1)] schema_tables_def run_stmt [OF rv] split: sum.splits)
qed

lemma run_queue_submit:
  "snd (snd (runP (queue_handleSubmit B E f) ((s, es), (c, w)))) = snd (runP (createQueue B E (queue_data f)) (c, w))"
  by (cases "runP (createQueue B E (queue_data f)) (c, w)") (simp add: queue_handleSubmit_def attempt_def run_simps split: sum.splits)

text \<open>A fresh form after its name was typed.\<close>

definition named_form :: "Project list \<Rightarrow> string \<Rightarrow> queue_form" where
  "named_form projects v = queue_change projects (Q_name v) (initial_queue_form projects)"

lemma named_form_facts:
  assumes "\<exists>c \<in> set (to_lower (trim v)). slug_char c" and "projects = p # ps"
  shows "slug_pattern (slugifyName v)" and "v \<noteq> []" and "qf_slug (named_form projects v) = slugifyName v" and "qf_name (named_form projects v) = v"
    and "qf_projectId (named_form projects v) = cp_id p" and "\<not> qf_saving (named_form projects v)" and "qf_concurrency (named_form projects v) = ''10''"
    and "qf_priority (named_form projects v) = ''5''"
proof -
  show v: "v \<noteq> []" using assms(1) by auto
  show "slug_pattern (slugifyName v)" using assms(1) slugify_Nil slugify_shape(2) by blast
qed (use assms in \<open>auto simp: named_form_def queue_change_def initial_queue_form_def slug_effect_def project_effect_def first_id_def Let_def\<close>)

lemma named_form_data:
  assumes "\<exists>c \<in> set (to_lower (trim v)). slug_char c" and "projects = p # ps"
  shows "queue_data (named_form projects v) = JObj [(''project_id'', JStr (cp_id p)), (''name'', JStr (trim v)), (''slug'', JStr (slugifyName v)),
    (''priority_default'', JInt 5), (''concurrency_limit'', JInt 10)]"
proof -
  note f = named_form_facts [OF assms]
  have "dec_digits 5 = ''5''" "dec_digits 10 = ''10''" by code_simp+
  then have "parseInt ''5'' = Fin 5" "parseInt ''10'' = Fin 10"
    using parseInt_digits [of "''5''" 5] parseInt_digits [of "''10''" 10] by simp_all
  moreover have "trim (slugifyName v) = slugifyName v" by (rule trim_slug [OF slug_ends [OF f(1)]])
  ultimately show ?thesis by (simp add: queue_data_def f optional_int_def num_or_def)
qed

lemma named_form_creates:
  assumes "\<exists>c \<in> set (to_lower (trim v)). slug_char c" and "CHR 0x00 \<notin> set v" and "projects = p # ps"
    and "url_law B" and "ready E w" and "getUrl E = Inr u" and "session E c w = Some cl" and "b_net B (c_calls c) \<noteq> Lost_request"
    and "uuid_param E (cp_id p) = Inr (Some pid)" and "uuid_param E (cl_org_id cl) = Inr (Some g)"
    and "r \<in> set (w_projects w)" and "p_id r = pid" and "p_org_id r = g"
    and "(pid, slugifyName v) \<notin> (\<lambda>q. (q_project_id q, q_slug q)) ` set (w_queues w)"
    and "\<forall>n. int4_ok n \<longrightarrow> e_int4 E (JInt n) = Inr (Some n)"
  shows "\<exists>q. w_queues (snd (snd (runP (createQueue B E (queue_data (named_form projects v))) (c, w)))) = w_queues w @ [q]
    \<and> q_project_id q = pid \<and> q_name q = trim v \<and> q_slug q = slugifyName v \<and> q_priority_default q = 5
    \<and> q_concurrency_limit q = Some 10 \<and> \<not> q_paused q"
proof -
  let ?kvs = "[(''project_id'', JStr (cp_id p)), (''name'', JStr (trim v)), (''slug'', JStr (slugifyName v)),
    (''priority_default'', JInt 5), (''concurrency_limit'', JInt 10)]"
  let ?k = "send_call ''POST'' ''/queues'' (json_stringify (JObj ?kvs))"
  let ?req = "http_request B (c_token c) ?k"
  have "\<exists>n. (5 :: rat) = of_int n \<and> \<bar>n\<bar> < 2 ^ 53" "\<exists>n. (10 :: rat) = of_int n \<and> \<bar>n\<bar> < 2 ^ 53"
    by (rule exI [of _ 5], simp) (rule exI [of _ 10], simp)
  then have wireable: "wireable (JObj ?kvs)" by simp
  have body: "json_parse (rq_body ?req) = Inr (JObj ?kvs)" using sent_body(1) [OF wireable] by simp
  have read: "reader (JObj ?kvs) = Inr (member (JObj ?kvs))" by (simp add: reader_def nullish_def member_def [abs_def])
  have "int4_param E (JInt n) = Inr (Some n)" if "int4_ok n" for n
    using assms(15) that by (simp add: int4_param_def int4_def)
  then have "int4_param E (JInt 5) = Inr (Some 5)" "int4_param E (JInt 10) = Inr (Some 10)" by (simp_all add: int4_ok_def del: of_int_numeral)
  moreover have "e_text E (JStr (trim v)) = Inr (Some (trim v))" "e_text E (JStr (slugifyName v)) = Inr (Some (slugifyName v))"
    using assms(2,5) set_trim [of v] slug_no_nul [of v] by (auto simp: ready_def)
  ultimately have "\<exists>q. w_queues (snd (runP (post_queues E ?req (cl_org_id cl)) w)) = w_queues w @ [q]
      \<and> q_project_id q = pid \<and> q_name q = trim v \<and> q_slug q = slugifyName v \<and> q_priority_default q = 5
      \<and> q_concurrency_limit q = Some 10 \<and> \<not> q_paused q"
    using assms(9-14)
    by (intro post_queues_creates [OF assms(5) body read]) (simp_all add: member_def js_coalesce_def nullish_def uuid_param_def)
  moreover have "snd (snd (runP (createQueue B E (JObj ?kvs)) (c, w))) = snd (runP (post_queues E ?req (cl_org_id cl)) w)"
    unfolding createQueue_def
    by (subst call_reaches [OF assms(4) _ _ _ assms(6-8), where segs = "[''queues'']"])
      (simp_all add: send_call_def path_words write_routes(3) [OF plain_words(1)] sent_body(2) [OF wireable, unfolded send_call_def, simplified])
  ultimately show ?thesis unfolding named_form_data [OF assms(1,3)] by simp
qed

text \<open>C40: Typing a name is enough to create a queue. Let the name, lower-cased and without the spaces around it, have
  one of the characters a-z and 0-9, and no NUL. Then the fresh form of a console that has a project can be sent: the slug
  it makes of the name passes the check of the browser. With a valid session, a working database that
  takes integers as they are, a project of the user's organization that has no queue with that slug,
  and a request that is not lost, sending it adds exactly one queue, to the first project, with the
  name without the spaces around it, the slug, priority 5 and a limit of 10, not paused. And whatever
  is typed, the form can only be sent with a project, with some text in the field of the name (which
  may be spaces), and with a slug of the form \<open>[a-z0-9]+(?:-[a-z0-9]+)*\<close>, and what it sends is the slug
  it shows.\<close>

theorem queue_form_slug:
  assumes "\<exists>c \<in> set (to_lower (trim v)). slug_char c" and "CHR 0x00 \<notin> set v" and "projects = p # ps" and "cp_id p \<noteq> []"
    and "url_law B" and "ready E w" and "getUrl E = Inr u" and "session E c w = Some cl" and "b_net B (c_calls c) \<noteq> Lost_request"
    and "uuid_param E (cp_id p) = Inr (Some pid)" and "uuid_param E (cl_org_id cl) = Inr (Some g)"
    and "r \<in> set (w_projects w)" and "p_id r = pid" and "p_org_id r = g"
    and "(pid, slugifyName v) \<notin> (\<lambda>q. (q_project_id q, q_slug q)) ` set (w_queues w)"
    and "\<forall>n. int4_ok n \<longrightarrow> e_int4 E (JInt n) = Inr (Some n)"
  shows "let f = queue_change projects (Q_name v) (initial_queue_form projects) in
      Queue_go \<in> possible (CreateQueueForm projects f)
    \<and> (\<exists>q. w_queues (snd (snd (snd (runP (queue_handleSubmit B E f) ((f, []), (c, w)))))) = w_queues w @ [q]
         \<and> q_project_id q = pid \<and> q_name q = trim v \<and> q_slug q = slugifyName v \<and> q_priority_default q = 5
         \<and> q_concurrency_limit q = Some 10 \<and> \<not> q_paused q)
    \<and> (\<forall>f. Queue_go \<in> possible (CreateQueueForm projects f) \<longrightarrow>
         slug_pattern (qf_slug f) \<and> member (queue_data f) ''slug'' = JStr (qf_slug f) \<and> qf_name f \<noteq> [] \<and> qf_projectId f \<noteq> [])"
proof -
  note f = named_form_facts [OF assms(1,3)]
  have "slugifyName v \<noteq> []" using f(1) slug_ends by blast
  then have "Queue_go \<in> possible (CreateQueueForm projects (named_form projects v))"
    using f assms(3,4) ten_num by (simp add: queue_go)
  with named_form_creates [OF assms(1-3,5-16)] show ?thesis
    unfolding Let_def named_form_def [symmetric] run_queue_submit by (auto simp: queue_go queue_data_slug)
qed

definition demo_project_view :: Project where
  "demo_project_view = \<lparr>cp_id = ''1'', cp_org_id = ''0'', cp_name = ''Main'', cp_slug = ''main'', cp_description = None,
     cp_created_at = ''1970-01-01T00:00:00.000Z'', cp_updated_at = ''1970-01-01T00:00:00.000Z''\<rparr>"

theorem queue_form_slug_witness:
  "\<exists>q. w_queues (snd (snd (snd (runP (queue_handleSubmit demo_browser demo_env
         (queue_change [demo_project_view] (Q_name ''a1'') (initial_queue_form [demo_project_view])))
       ((queue_change [demo_project_view] (Q_name ''a1'') (initial_queue_form [demo_project_view]), []),
        (demo_client (Some demo_token), demo_world [])))))) = [demo_queue, q] \<and> q_name q = ''a1''"
proof -
  have trim: "trim ''a1'' = ''a1''" by (rule trim_slug) (simp_all add: slug_char_def)
  have low: "to_lower ''a1'' = ''a1''" by code_simp
  have c: "\<exists>c \<in> set (to_lower (trim ''a1'')). slug_char c" unfolding trim low by (simp add: slug_char_def)
  have ints: "\<forall>n. int4_ok n \<longrightarrow> e_int4 demo_env (JInt n) = Inr (Some n)" by (simp add: int4_in_def int4_def)
  have ids: "uuid_param demo_env (cp_id demo_project_view) = Inr (Some ''1'')" "uuid_param demo_env (cl_org_id (user_claims demo_user)) = Inr (Some ''0'')"
    by (simp_all add: uuid_param_def uuid_in_def uuid_syntax_def demo_project_view_def user_claims_def demo_user_def)
  have url: "getUrl demo_env = Inr ''postgres://db''" by code_simp
  have slug: "slugifyName ''a1'' = ''a1''" unfolding slugifyName_def trim low by code_simp
  have net: "b_net demo_browser (c_calls (demo_client (Some demo_token))) \<noteq> Lost_request" by (simp add: demo_browser_def)
  have "CHR 0x00 \<notin> set ''a1''" "cp_id demo_project_view \<noteq> []" "demo_project \<in> set (w_projects (demo_world []))" "p_id demo_project = ''1''"
    "p_org_id demo_project = ''0''" "(''1'', slugifyName ''a1'') \<notin> (\<lambda>q. (q_project_id q, q_slug q)) ` set (w_queues (demo_world []))"
    "w_queues (demo_world []) = [demo_queue]"
    by (simp_all add: demo_project_view_def demo_world_def demo_project_def slug demo_queue_def)
  with queue_form_slug [OF c _ refl _ demo_url_law ready_demo [of "[]"] url demo_session net ids _ _ _ _ ints, where r = demo_project and ps = "[]"] trim
  show ?thesis unfolding Let_def by auto
qed

section \<open>The shell\<close>

text \<open>Embedding a component into another renames its actions and changes nothing else.\<close>

lemma nodes_map_node: "nodes (map_node f n) = map (map_node f) (nodes n)"
  by (induction n) (auto simp: map_concat comp_def simp del: concat_nodes intro!: arg_cong [where f = concat])

lemma all_nodes_map_node: "all_nodes (map (map_node f) ns) = map (map_node f) (all_nodes ns)"
  by (induction ns) (simp_all add: nodes_map_node)

lemma node_map_simps [simp]:
  "is_submit (map_node f n) = is_submit n" "disabled (map_node f n) = disabled n" "valid_field (map_node f n) = valid_field n"
  "option_value (map_node f n) = option_value n"
  by (cases n; simp)+

lemma submittable_map_node [simp]: "submittable (map (map_node f) ns) = submittable ns"
proof -
  have "List.find is_submit (map (map_node f) xs) = map_option (map_node f) (List.find is_submit xs)" for xs
    by (induction xs) simp_all
  then show ?thesis by (simp add: submittable_def all_nodes_map_node option.case_eq_if option.map_sel)
qed

lemma option_values_map_node [simp]: "option_values (map (map_node f) ns) = option_values ns"
  by (simp add: option_values_def all_nodes_map_node comp_def)

lemma fires_map_on: "fires t (map (map_node f) ns) (map_on f h) = f ` fires t ns h"
  by (cases h) (auto simp: image_iff)

lemma offered_map_node: "offered (map_node f n) = f ` offered n"
  by (cases n) (auto simp: fires_map_on image_UN)

lemma possible_map_node: "possible (map (map_node f) ns) = f ` possible ns"
  by (simp add: possible_def all_nodes_map_node offered_map_node image_UN)

lemma possible_palette:
  "possible (CommandPalette B queues dlq (c, p)) = (if co_commandOpen c then
     {Palette_dismiss} \<union> range Palette_type \<union> range Palette_key
     \<union> Palette_pick ` {..<length (palette_filtered B (palette_items queues dlq) (pl_query p))} else {})"
proof -
  have "possible [palette_option p x] = {Palette_pick (fst x)}" for x by (cases x) (simp add: palette_option_def)
  moreover have "fst ` set (enumerate 0 its) = {..<length its}" for its :: "CommandItem list"
    by (simp flip: set_map add: atLeast0LessThan)
  ultimately have "possible (map (palette_option p) (enumerate 0 its)) = Palette_pick ` {..<length its}" for its
    unfolding possible_map by (metis (no_types, lifting) SUP_cong UNION_singleton_eq_range image_image)
  then show ?thesis unfolding CommandPalette_def Let_def by (auto simp: icon_def)
qed

definition palette_event :: "console_event \<Rightarrow> bool" where
  "palette_event ev \<longleftrightarrow> (case ev of Palette_key k \<Rightarrow> True | Palette_type v \<Rightarrow> True | Palette_pick i \<Rightarrow> True | Palette_dismiss \<Rightarrow> True | _ \<Rightarrow> False)"

lemma unoffered_ignored:
  assumes "palette_event ev" and "ev \<notin> possible (CommandPalette B queues dlq (c, p))"
  shows "console_event_step B queues dlq ev (c, p) = ((c, p), None)"
  using assms unfolding possible_palette
  by (cases ev) (auto simp: palette_event_def item_at_def split: option.splits if_splits)

lemma possible_TopBar:
  "possible (TopBar path queuePage workers) = {Click_search}
     \<union> (if path = ''/jobs'' \<or> starts_with path ''/jobs/'' then {Click_submit} else {}) \<union> (if path = ''/queues'' then {Click_create} else {})"
  unfolding TopBar_def Let_def by (auto simp: topbar_buttons_def icon_def)

lemma possible_LeftRail: "possible (LeftRail path) = {Sign_out}"
proof -
  have "possible (map (rail_link path) xs) = ({} :: rail_act set)" "possible (map (bottom_link path) xs) = ({} :: rail_act set)" for xs
    unfolding possible_map by (auto simp: rail_link_def bottom_link_def link_def icon_def)
  then show ?thesis by (simp add: LeftRail_def link_def)
qed

text \<open>
  What the console offers around a page: to sign out, to search, to submit a job on the jobs page and to
  create a queue on the queues page, the palette while it is open, and what the page itself offers. The
  events of the palette that it does not offer would change nothing, so the states of the console
  (\<open>console_reach\<close>) are those its markup leads to.
\<close>

theorem shell_offers:
  "possible (AppShell B path queuePage workers dlqPage (c, p) children) =
     {Rail Sign_out} \<union> Event ` possible (TopBar path queuePage workers)
     \<union> Event ` possible (CommandPalette B (page_items queuePage) (page_items dlqPage) (c, p)) \<union> On_page ` possible children"
  unfolding AppShell_def WorkerPulse_def
  by (auto simp: possible_map_node possible_LeftRail)

end
