(* ===== verification/Spec2Isabelle.thy ===== *)
theory Spec2Isabelle
  imports Worker_Props Tick_Cost Server_Props Setup_Props Spacing Views_Props Page_Props
begin

text \<open>
  A verification development of the job scheduler's dashboard, the TypeScript application under
  \<open>src/dashboard/src\<close>: an API server with an embedded worker over a Postgres database, and the operator
  console that runs in the browser.

  \<^bold>\<open>The program.\<close> The server (\<open>server/\<close>, \<open>app/api/\<close>) answers API requests (\<open>router.ts\<close>), keeps its whole state in
  the database (\<open>setup.ts\<close>, \<open>db.ts\<close>) and executes jobs in ticks (\<open>worker.ts\<close>), which a request starts in the
  background (\<open>worker-scheduler.ts\<close>), a cron call runs, or the console asks for. Requests, cron calls and
  ticks run concurrently and meet only in the database. The browser side talks to it over
  \<open>lib/api.ts\<close> and \<open>lib/use-api.ts\<close> and consists of a shell with a command palette and of pages and forms
  (\<open>app/\<close>, \<open>components/\<close>).

  \<^bold>\<open>Programs and their environment.\<close> \<open>Prelude\<close> holds the shared list lemmas and the locale
  \<open>keyed_update\<close> of an SQL update that keeps keys. \<open>Prog\<close> models asynchronous code as programs of atomic
  steps: one step per awaited statement, so that interleavings, failures between two statements and
  processes that are killed are executions of the model; the locale \<open>interleaved\<close> gives the invariants
  of all of them, and \<open>trace\<close> the run that a list of choices determines. \<open>Js\<close>, \<open>Js_Num\<close>, \<open>Json\<close>, \<open>Json_Facts\<close> and \<open>Json_Pretty\<close> model what the code uses of the language:
  UTF-8 strings, doubles as exact rationals with rounding, conversions, \<open>JSON.parse\<close> and \<open>JSON.stringify\<close>.

  \<^bold>\<open>The server.\<close> \<open>Store\<close> has a record per table of \<open>setup.ts\<close>, the state \<open>world\<close> of the database with its clock
  and the module variables of the scheduler, and the constraints of every insert; \<open>Integrity\<close> states the
  invariant \<open>db_wf\<close> (keys, references, status of a job against its worker and lease) and the guarantee
  \<open>sound_step\<close> of a statement. \<open>Worker\<close> models \<open>db.ts\<close> and \<open>worker.ts\<close> statement by statement, \<open>Scheduler\<close> the
  background ticks and the direct one, \<open>Http\<close> and \<open>Auth\<close> the views and the tokens with their times of issue and
  expiry, \<open>Router\<close> every route, \<open>Setup\<close> the schema statement by statement with its columns, keys and
  references, the demo data and the two secret-guarded routes. \<open>Worker_Facts\<close>, \<open>Router_Facts\<close> and \<open>Server\<close> show that every statement
  and every program gives the guarantee (through the interpretations of \<open>job_update\<close> and \<open>queue_update\<close>) and
  which statuses routes answer with; \<open>Worker_Exec\<close>, \<open>Claiming\<close> and \<open>Tick\<close> give the sequential behaviour of one
  execution, of reaper and claim, and of a whole tick. \<open>Fixtures\<close> has the concrete database of the
  witnesses.

  \<^bold>\<open>The browser.\<close> \<open>Types\<close> has the interfaces of \<open>lib/types.ts\<close> with their readers from JSON, \<open>Format\<close> the
  functions of \<open>lib/format.ts\<close> and \<open>lib/status.ts\<close>, \<open>Client\<close> the calls of \<open>lib/api.ts\<close> over a network that may lose
  the request or the answer, run against the model of the server, and the keys of the hooks.
  \<open>Screen\<close> models a component as a state with handlers and effects; its locale \<open>form\<close> is the shape that
  every form shares. \<open>Console\<close> (provider, palette, top bar, rail, guard, login), \<open>Forms\<close> (submit, queue and
  project forms, configuration drawer) and \<open>Views\<close> (explorer, queues, overview, detail, dead letters,
  workers, charts) have the states, handlers and computed data of the components; \<open>Markup\<close>,
  \<open>Form_Views\<close>, \<open>Page_Views\<close> and \<open>Shell_Views\<close> have what they render, as trees of elements with their handlers,
  and what of it a user can do (\<open>possible\<close>).

  \<^bold>\<open>What is shown.\<close> \<open>Server_Props\<close>: integrity under every interleaving, nothing is lost, every request is
  answered, requests without a token change nothing, no route but the worker pulse writes to another
  organization. \<open>Worker_Props\<close>: executing a job refines a one-step specification of jobs, executions, logs
  and dead letters, the order and number of claimed jobs, when a claim keeps the limit of its queue,
  dead-lettering after exactly the allowed attempts, a whole tick, the reaper, paused queues, and the
  two races: ticks that together exceed a concurrency limit, and a job that runs without a lease.
  \<open>Tick_Cost\<close>: how many operations a tick takes at most, whatever fails. \<open>Spacing\<close>: how far apart background
  ticks start, in every run of the server. \<open>Api_Props\<close>, \<open>Login_Props\<close>, \<open>Setup_Props\<close>: idempotent submission,
  reading back, tokens and their expiry, path matching, statistics, what setting up the schema does,
  and cron; and where the code is weaker than it means to be, that it is. \<open>Client_Props\<close>, \<open>Journey_Props\<close>,
  \<open>Views_Props\<close>: browser and server together, from the route and the data with which a call
  arrives to what a form reports, for every answer of the server, and what an explorer shows. \<open>Format_Props\<close>, \<open>Forms_Props\<close>, \<open>Console_Props\<close>, \<open>Page_Props\<close>: formatting, templates,
  the invariants of palette and explorer under every sequence of events, which requests can be
  under way at once, and the queue that the queue form creates.

  \<^bold>\<open>Parameters.\<close> What is not under \<open>src/\<close> is a field of \<open>env\<close> or \<open>browser\<close>: the ids Postgres draws, its clock,
  scan order, row locks, faults and conversions of parameters, the JWT library, \<open>Date.now\<close> and the
  environment variables; the network, URL parsing, \<open>toLowerCase\<close> beyond ASCII, engine messages, and
  \<open>Math.sin\<close> and \<open>toLocaleTimeString\<close> as arguments. Hypotheses about them are named (\<open>ready\<close>, \<open>healthy\<close>, \<open>url_law\<close>,
  \<open>jwt_law\<close>: a signed token verifies to its payload before its \<open>exp\<close> and not from then on) or written out
  (\<open>Date.now\<close> never runs backwards, where throttling is concerned), and every theorem that has one has a
  witness in which it holds. The clock of the database never runs backwards by definition.

  \<^bold>\<open>Bounds.\<close> There is no fuel: every function terminates by structure or by a measure on the text that is
  left; programs are trees without infinite paths, and \<open>Tick_Cost\<close> bounds the one
  program whose length depends on the data. Round trips of JSON are stated for integers below \<open>2 ^ 53\<close>, which
  are exact in a double. Integers that reach the database are checked against the range of \<open>int4\<close>, as
  Postgres does.

  \<^bold>\<open>Not modelled.\<close> Class names, constant styles and the style sheet; the libraries React, Next.js, SWR
  (but for the keys and requests it is given), recharts and the icons, which appear as elements with
  their props; focus, scrolling and the clipboard; the Go services, their migrations and the seed
  script, which are a second implementation that the dashboard does not use; build and deployment
  files.
\<close>

end
